(* ===== verification/Prelude.thy ===== *)
theory Prelude
  imports Complex_Main "HOL-Library.Product_Lexorder"
begin

section \<open>Prelude: effects, exceptions, tables and the outside world\<close>

text \<open>
  What every component of the platform shares. A service method of the source is an async
  Python function that talks to PostgreSQL, to the event bus and to other services; it may raise
  at any of those calls, and what it already wrote to the database stays written, since no
  transaction spans two statements. A method is therefore a function from a state to an exception
  or a result, together with the state it leaves behind (\<open>io\<close>): an exception does not undo.

  \<^item> \<open>exn\<close> holds the Python exceptions; its parameter carries a service's own classes.
  \<^item> \<open>world\<close> is what a service sees of its environment: the clock, the \<open>uuid4\<close> values it
    will draw, the event bus, and a script that says how each call to the outside ends.
  \<^item> Tables are lists of rows with the unique keys of the SQL schema.
  \<^item> \<open>preserves\<close> is the one-sided Hoare logic in which the invariants are proved; its rules
    are collected in \<open>preserve_rules\<close>.
\<close>

named_theorems preserve_rules "rules that push an invariant through an effectful program"
named_theorems io_defs "definitions of the effect combinators"

subsection \<open>Python exceptions\<close>

datatype 'x exn =
    ValueError string
  | LookupError string
  | TypeError
  | AttributeError
  | ValidationError
  | DbError
  | BusError
  | ClientError
  | Generic string
  | Custom 'x

subsection \<open>Effectful programs\<close>

type_synonym ('s, 'e, 'a) io = "'s \<Rightarrow> ('e + 'a) \<times> 's"

definition ret :: "'a \<Rightarrow> ('s, 'e, 'a) io" where
  "ret a = (\<lambda>s. (Inr a, s))"

definition throw :: "'e \<Rightarrow> ('s, 'e, 'a) io" where
  "throw e = (\<lambda>s. (Inl e, s))"

definition bnd :: "('s, 'e, 'a) io \<Rightarrow> ('a \<Rightarrow> ('s, 'e, 'b) io) \<Rightarrow> ('s, 'e, 'b) io" where
  "bnd m f = (\<lambda>s. case m s of (Inl e, s') \<Rightarrow> (Inl e, s') | (Inr a, s') \<Rightarrow> f a s')"

definition catch :: "('s, 'e, 'a) io \<Rightarrow> ('e \<Rightarrow> ('s, 'f, 'a) io) \<Rightarrow> ('s, 'f, 'a) io" where
  "catch m h = (\<lambda>s. case m s of (Inl e, s') \<Rightarrow> h e s' | (Inr a, s') \<Rightarrow> (Inr a, s'))"

definition gets :: "('s \<Rightarrow> 'a) \<Rightarrow> ('s, 'e, 'a) io" where
  "gets f = (\<lambda>s. (Inr (f s), s))"

definition modify :: "('s \<Rightarrow> 's) \<Rightarrow> ('s, 'e, unit) io" where
  "modify f = (\<lambda>s. (Inr (), f s))"

definition lift_sum :: "'e + 'a \<Rightarrow> ('s, 'e, 'a) io" where
  "lift_sum r = (\<lambda>s. (r, s))"

definition result :: "('s, 'e, 'a) io \<Rightarrow> 's \<Rightarrow> 'e + 'a" where
  "result m s = fst (m s)"

definition after :: "('s, 'e, 'a) io \<Rightarrow> 's \<Rightarrow> 's" where
  "after m s = snd (m s)"

lemmas io_run [io_defs] =
  ret_def throw_def bnd_def catch_def gets_def modify_def lift_sum_def

text \<open>A Python \<open>for\<close> loop over a list that threads an accumulator.\<close>

fun for_each :: "'x list \<Rightarrow> ('x \<Rightarrow> 'acc \<Rightarrow> ('s, 'e, 'acc) io) \<Rightarrow> 'acc \<Rightarrow> ('s, 'e, 'acc) io" where
  "for_each [] f acc = ret acc"
| "for_each (x # xs) f acc = bnd (f x acc) (\<lambda>acc'. for_each xs f acc')"

lemma ret_apply [simp]: "ret a s = (Inr a, s)"
  by (simp add: ret_def)

lemma throw_apply [simp]: "throw e s = (Inl e, s)"
  by (simp add: throw_def)

lemma gets_apply [simp]: "gets f s = (Inr (f s), s)"
  by (simp add: gets_def)

lemma modify_apply [simp]: "modify f s = (Inr (), f s)"
  by (simp add: modify_def)

lemma lift_sum_apply [simp]: "lift_sum r s = (r, s)"
  by (simp add: lift_sum_def)

lemma bnd_apply:
  "bnd m f s = (case m s of (Inl e, s') \<Rightarrow> (Inl e, s') | (Inr a, s') \<Rightarrow> f a s')"
  by (simp add: bnd_def)

lemma catch_apply:
  "catch m h s = (case m s of (Inl e, s') \<Rightarrow> h e s' | (Inr a, s') \<Rightarrow> (Inr a, s'))"
  by (simp add: catch_def)

lemma bnd_Inr: "m s = (Inr a, s') \<Longrightarrow> bnd m f s = f a s'"
  by (simp add: bnd_def)

lemma bnd_Inl: "m s = (Inl e, s') \<Longrightarrow> bnd m f s = (Inl e, s')"
  by (simp add: bnd_def)

lemma bnd_simps [simp]:
  "bnd (ret a) f = f a"
  "bnd (throw e) f = throw e"
  "bnd (gets g) f s = f (g s) s"
  "bnd (modify h) f' s = f' () (h s)"
  "bnd (lift_sum (Inl e)) f s = (Inl e, s)"
  "bnd (lift_sum (Inr a)) f s = f a s"
  by (auto simp: bnd_def fun_eq_iff)

lemma bnd_assoc: "bnd (bnd m f) g = bnd m (\<lambda>a. bnd (f a) g)"
  by (auto simp: bnd_def fun_eq_iff split: prod.splits sum.splits)

lemma bnd_ret_right: "bnd m ret = m"
  by (auto simp: bnd_def fun_eq_iff split: prod.splits sum.splits)

lemma bnd_eq_Inr:
  "bnd m f s = (Inr b, s'') \<longleftrightarrow> (\<exists>a s'. m s = (Inr a, s') \<and> f a s' = (Inr b, s''))"
  by (auto simp: bnd_def split: prod.splits sum.splits)

lemma bnd_eq_InrE:
  assumes "bnd m f s = (Inr b, s'')"
  obtains a s' where "m s = (Inr a, s')" and "f a s' = (Inr b, s'')"
  using assms by (auto simp: bnd_eq_Inr)

lemma catch_eq_Inr_id:
  "catch m (\<lambda>e. throw (g e)) s = (Inr a, s') \<longleftrightarrow> m s = (Inr a, s')"
  by (auto simp: catch_def split: prod.splits sum.splits)

subsection \<open>Invariants of effectful programs\<close>

definition preserves :: "('s \<Rightarrow> bool) \<Rightarrow> ('s, 'e, 'a) io \<Rightarrow> bool" where
  "preserves I m \<longleftrightarrow> (\<forall>s. I s \<longrightarrow> I (snd (m s)))"

lemma preservesI: "(\<And>s. I s \<Longrightarrow> I (snd (m s))) \<Longrightarrow> preserves I m"
  by (simp add: preserves_def)

lemma preservesD: "preserves I m \<Longrightarrow> I s \<Longrightarrow> I (snd (m s))"
  by (simp add: preserves_def)

lemma preserves_after: "preserves I m \<Longrightarrow> I s \<Longrightarrow> I (after m s)"
  by (simp add: preserves_def after_def)

lemma preserves_ret [preserve_rules]: "preserves I (ret a)"
  by (simp add: preserves_def)

lemma preserves_throw [preserve_rules]: "preserves I (throw e)"
  by (simp add: preserves_def)

lemma preserves_gets [preserve_rules]: "preserves I (gets f)"
  by (simp add: preserves_def)

lemma preserves_lift_sum [preserve_rules]: "preserves I (lift_sum r)"
  by (simp add: preserves_def)

lemma preserves_bnd [preserve_rules]:
  "preserves I m \<Longrightarrow> (\<And>a. preserves I (f a)) \<Longrightarrow> preserves I (bnd m f)"
  by (fastforce simp: preserves_def bnd_def split: prod.splits sum.splits)

lemma preserves_catch [preserve_rules]:
  "preserves I m \<Longrightarrow> (\<And>e. preserves I (h e)) \<Longrightarrow> preserves I (catch m h)"
  by (fastforce simp: preserves_def catch_def split: prod.splits sum.splits)

lemma preserves_if [preserve_rules]:
  "(b \<Longrightarrow> preserves I m) \<Longrightarrow> (\<not> b \<Longrightarrow> preserves I n) \<Longrightarrow> preserves I (if b then m else n)"
  by simp

lemma preserves_option [preserve_rules]:
  "(x = None \<Longrightarrow> preserves I m) \<Longrightarrow> (\<And>a. x = Some a \<Longrightarrow> preserves I (f a)) \<Longrightarrow>
   preserves I (case x of None \<Rightarrow> m | Some a \<Rightarrow> f a)"
  by (cases x) auto

lemma preserves_sum [preserve_rules]:
  "(\<And>e. x = Inl e \<Longrightarrow> preserves I (f e)) \<Longrightarrow> (\<And>a. x = Inr a \<Longrightarrow> preserves I (g a)) \<Longrightarrow>
   preserves I (case x of Inl e \<Rightarrow> f e | Inr a \<Rightarrow> g a)"
  by (cases x) auto

lemma preserves_prod [preserve_rules]:
  "(\<And>a b. x = (a, b) \<Longrightarrow> preserves I (f a b)) \<Longrightarrow> preserves I (case x of (a, b) \<Rightarrow> f a b)"
  by (cases x) auto

lemma preserves_for_each [preserve_rules]:
  "(\<And>x acc. x \<in> set xs \<Longrightarrow> preserves I (f x acc)) \<Longrightarrow> preserves I (for_each xs f acc)"
  by (induction xs arbitrary: acc) (auto intro!: preserve_rules)

lemma preserves_modify: "(\<And>s. I s \<Longrightarrow> I (h s)) \<Longrightarrow> preserves I (modify h)"
  by (simp add: preserves_def)

lemma preserves_conj: "preserves I m \<Longrightarrow> preserves J m \<Longrightarrow> preserves (\<lambda>s. I s \<and> J s) m"
  by (simp add: preserves_def)

text \<open>What a program leaves alone, whatever it does and however it ends, is an observation \<open>f\<close> of the state.\<close>

definition keeps :: "('s \<Rightarrow> 'x) \<Rightarrow> ('s, 'e, 'a) io \<Rightarrow> bool" where
  "keeps f m \<longleftrightarrow> (\<forall>x. preserves (\<lambda>s. f s = x) m)"

named_theorems keep_rules "rules that push an observation through an effectful program"

lemma keepsI: "(\<And>s. f (snd (m s)) = f s) \<Longrightarrow> keeps f m"
  by (simp add: keeps_def preserves_def)

lemma keepsD: "keeps f m \<Longrightarrow> f (snd (m s)) = f s"
  by (simp add: keeps_def preserves_def)

lemma keeps_result: "keeps f m \<Longrightarrow> m s = (x, s') \<Longrightarrow> f s' = f s"
  using keepsD [of f m s] by simp

lemma keeps_after: "keeps f m \<Longrightarrow> f (after m s) = f s"
  by (simp add: keepsD after_def)

lemma keeps_basic [keep_rules]:
  "keeps f (ret a)" "keeps f (throw e)" "keeps f (gets g)" "keeps f (lift_sum r)"
  by (simp_all add: keeps_def preserve_rules)

lemma keeps_bnd [keep_rules]: "keeps f m \<Longrightarrow> (\<And>a. keeps f (k a)) \<Longrightarrow> keeps f (bnd m k)"
  unfolding keeps_def by (auto intro!: preserve_rules)

lemma keeps_catch [keep_rules]: "keeps f m \<Longrightarrow> (\<And>e. keeps f (h e)) \<Longrightarrow> keeps f (catch m h)"
  unfolding keeps_def by (auto intro!: preserve_rules)

lemma keeps_cases [keep_rules]:
  "(b \<Longrightarrow> keeps f m) \<Longrightarrow> (\<not> b \<Longrightarrow> keeps f n) \<Longrightarrow> keeps f (if b then m else n)"
  "(x = None \<Longrightarrow> keeps f m) \<Longrightarrow> (\<And>a. x = Some a \<Longrightarrow> keeps f (l a)) \<Longrightarrow> keeps f (case x of None \<Rightarrow> m | Some a \<Rightarrow> l a)"
  "(\<And>a b. y = (a, b) \<Longrightarrow> keeps f (p a b)) \<Longrightarrow> keeps f (case y of (a, b) \<Rightarrow> p a b)"
  by (auto split: option.split prod.split)

lemma keeps_for_each [keep_rules]: "(\<And>x acc. x \<in> set xs \<Longrightarrow> keeps f (g x acc)) \<Longrightarrow> keeps f (for_each xs g acc)"
  unfolding keeps_def by (auto intro!: preserve_rules)

text \<open>What holds in each state a program may end in, with its result.\<close>

definition ends :: "('s \<Rightarrow> bool) \<Rightarrow> ('s, 'e, 'a) io \<Rightarrow> ('e + 'a \<Rightarrow> 's \<Rightarrow> bool) \<Rightarrow> bool" where
  "ends I m Q \<longleftrightarrow> (\<forall>s x s'. I s \<longrightarrow> m s = (x, s') \<longrightarrow> Q x s')"

lemma endsI: "(\<And>s x s'. I s \<Longrightarrow> m s = (x, s') \<Longrightarrow> Q x s') \<Longrightarrow> ends I m Q"
  by (simp add: ends_def)

lemma ends_bnd:
  "ends I m (case_sum (\<lambda>e. Q (Inl e)) J) \<Longrightarrow> (\<And>a. ends (J a) (k a) Q) \<Longrightarrow> ends I (bnd m k) Q"
  by (auto simp: ends_def bnd_apply split: prod.splits sum.splits)

lemma ends_catch:
  "ends I m (case_sum J (\<lambda>a. Q (Inr a))) \<Longrightarrow> (\<And>e. ends (J e) (h e) Q) \<Longrightarrow> ends I (catch m h) Q"
  by (auto simp: ends_def catch_apply split: prod.splits sum.splits)

lemma ends_ret: "(\<And>s. I s \<Longrightarrow> Q (Inr a) s) \<Longrightarrow> ends I (ret a) Q"
  by (simp add: ends_def)

lemma ends_option:
  "(x = None \<Longrightarrow> ends I m Q) \<Longrightarrow> (\<And>a. x = Some a \<Longrightarrow> ends I (k a) Q) \<Longrightarrow> ends I (case x of None \<Rightarrow> m | Some a \<Rightarrow> k a) Q"
  by (cases x) auto

lemma ends_if: "(b \<Longrightarrow> ends I m Q) \<Longrightarrow> (\<not> b \<Longrightarrow> ends I n Q) \<Longrightarrow> ends I (if b then m else n) Q"
  by simp

lemma ends_preserved: "preserves I m \<Longrightarrow> ends I m (\<lambda>x s. I s)"
  unfolding ends_def by (metis preservesD snd_conv)

lemma ends_weaken: "ends I m Q' \<Longrightarrow> (\<And>x s. Q' x s \<Longrightarrow> Q x s) \<Longrightarrow> ends I m Q"
  by (auto simp: ends_def)

text \<open>A program that never raises: every exception of its body is caught inside.\<close>

definition never_raises :: "('s, 'e, 'a) io \<Rightarrow> bool" where
  "never_raises m \<longleftrightarrow> (\<forall>s. \<exists>a. fst (m s) = Inr a)"

lemma never_raises_ret: "never_raises (ret a)"
  by (simp add: never_raises_def)

lemma never_raises_catch: "(\<And>e. never_raises (h e)) \<Longrightarrow> never_raises (catch m h)"
  by (auto simp: never_raises_def catch_def split: prod.splits sum.splits)

lemma never_raises_bnd:
  "never_raises m \<Longrightarrow> (\<And>a. never_raises (f a)) \<Longrightarrow> never_raises (bnd m f)"
  by (auto simp: never_raises_def bnd_def split: prod.splits sum.splits)
    (metis fst_conv sum.distinct(1))

subsection \<open>Dates: the parts of \<open>datetime\<close> the services use\<close>

text \<open>
  A UTC \<open>datetime\<close> is its calendar fields; \<open>stamp\<close> is its position on the time line in
  microseconds, the precision of both Python's \<open>datetime\<close> and of \<open>TIMESTAMPTZ\<close>. Columns hold
  stamps. \<open>days_before_year\<close> is \<open>datetime._days_before_year\<close>, and so on.
\<close>

record datetime =
  dt_year :: int
  dt_month :: int
  dt_day :: int
  dt_us :: int

definition is_leap :: "int \<Rightarrow> bool" where
  "is_leap y \<longleftrightarrow> y mod 4 = 0 \<and> (y mod 100 \<noteq> 0 \<or> y mod 400 = 0)"

definition days_in_month :: "int \<Rightarrow> int \<Rightarrow> int" where
  "days_in_month y m =
     (if m = 2 then (if is_leap y then 29 else 28)
      else if m = 4 \<or> m = 6 \<or> m = 9 \<or> m = 11 then 30 else 31)"

definition days_before_year :: "int \<Rightarrow> int" where
  "days_before_year y = (y - 1) * 365 + (y - 1) div 4 - (y - 1) div 100 + (y - 1) div 400"

fun days_before_month :: "int \<Rightarrow> nat \<Rightarrow> int" where
  "days_before_month y 0 = 0"
| "days_before_month y (Suc k) = days_before_month y k + days_in_month y (int (Suc k))"

definition ordinal :: "datetime \<Rightarrow> int" where
  "ordinal d = days_before_year (dt_year d) + days_before_month (dt_year d) (nat (dt_month d - 1))
     + dt_day d"

definition us_per_day :: int where
  "us_per_day = 86400000000"

definition us_per_minute :: int where
  "us_per_minute = 60000000"

definition us_per_second :: int where
  "us_per_second = 1000000"

definition stamp :: "datetime \<Rightarrow> int" where
  "stamp d = ordinal d * us_per_day + dt_us d"

definition valid_datetime :: "datetime \<Rightarrow> bool" where
  "valid_datetime d \<longleftrightarrow> 1 \<le> dt_month d \<and> dt_month d \<le> 12 \<and> 1 \<le> dt_day d
     \<and> dt_day d \<le> days_in_month (dt_year d) (dt_month d) \<and> 0 \<le> dt_us d \<and> dt_us d < us_per_day"

lemma days_in_month_bounds: "28 \<le> days_in_month y m \<and> days_in_month y m \<le> 31"
  by (simp add: days_in_month_def)

subsection \<open>The outside world\<close>

text \<open>
  \<open>w_script\<close> decides how the coming calls to the database client, the event bus and the other
  services end: normally (also when the script is used up), with an exception, or refused (the
  client library gives back \<open>None\<close> or no rows and does nothing). Quantifying over the script
  covers every failure at every call. \<open>w_uuid k\<close> is the \<open>k\<close>-th value of \<open>uuid4().hex\<close>;
  nothing is assumed about it, the unique keys of the tables reject a repeated one.
  \<open>w_bus\<close> says whether an event bus is configured, \<open>w_events\<close> collects what was published.
\<close>

datatype outcome = Fine | Raises | Refuses

record 'ev world =
  w_now :: datetime
  w_uuid :: "nat \<Rightarrow> string"
  w_uuid_next :: nat
  w_script :: "outcome list"
  w_bus :: bool
  w_events :: "'ev list"

definition now_us :: "('ev, 'z) world_scheme \<Rightarrow> int" where
  "now_us s = stamp (w_now s)"

text \<open>\<open>external e\<close> is one call to the outside: it raises \<open>e\<close>, or tells whether it was refused.\<close>

definition external :: "'e \<Rightarrow> (('ev, 'z) world_scheme, 'e, bool) io" where
  "external e = (\<lambda>s. case w_script s of
       [] \<Rightarrow> (Inr True, s)
     | Fine # rest \<Rightarrow> (Inr True, s\<lparr>w_script := rest\<rparr>)
     | Raises # rest \<Rightarrow> (Inl e, s\<lparr>w_script := rest\<rparr>)
     | Refuses # rest \<Rightarrow> (Inr False, s\<lparr>w_script := rest\<rparr>))"

definition fresh_hex :: "nat \<Rightarrow> (('ev, 'z) world_scheme, 'e, string) io" where
  "fresh_hex n = (\<lambda>s. (Inr (take n (w_uuid s (w_uuid_next s))), s\<lparr>w_uuid_next := Suc (w_uuid_next s)\<rparr>))"

text \<open>A world in which no call to the outside fails.\<close>

definition calm :: "('ev, 'z) world_scheme \<Rightarrow> bool" where
  "calm s \<longleftrightarrow> w_script s = []"

lemma external_calm [simp]: "w_script s = [] \<Longrightarrow> external e s = (Inr True, s)"
  by (simp add: external_def)

lemma external_cases:
  "external e s = (Inr True, s) \<or> (\<exists>sc. external e s = (Inr True, s\<lparr>w_script := sc\<rparr>))
   \<or> (\<exists>sc. external e s = (Inl e, s\<lparr>w_script := sc\<rparr>))
   \<or> (\<exists>sc. external e s = (Inr False, s\<lparr>w_script := sc\<rparr>))"
  by (auto simp: external_def split: list.splits outcome.splits)

lemma preserves_external:
  "(\<And>s sc. I s \<Longrightarrow> I (s\<lparr>w_script := sc\<rparr>)) \<Longrightarrow> preserves I (external e)"
  by (auto simp: preserves_def external_def split: list.splits outcome.splits)

lemma preserves_fresh_hex:
  "(\<And>s k. I s \<Longrightarrow> I (s\<lparr>w_uuid_next := k\<rparr>)) \<Longrightarrow> preserves I (fresh_hex n)"
  by (auto simp: preserves_def fresh_hex_def)

text \<open>
  A publisher of the source: nothing happens without a bus; an event model that does not
  validate (\<open>None\<close>) or a bus that raises is logged and turned into \<open>False\<close>.
\<close>

definition publish :: "'ev option \<Rightarrow> (('ev, 'z) world_scheme, 'e, bool) io" where
  "publish ev = (\<lambda>s. if \<not> w_bus s then (Inr False, s) else
     (case ev of None \<Rightarrow> (Inr False, s)
      | Some x \<Rightarrow>
          catch (bnd (external ())
                   (\<lambda>ok. if ok then bnd (modify (\<lambda>s. s\<lparr>w_events := w_events s @ [x]\<rparr>)) (\<lambda>_. ret True)
                         else ret True))
                (\<lambda>_. ret False) s))"

text \<open>What a publisher adds to the bus when the outside works.\<close>

definition published :: "bool \<Rightarrow> 'ev option \<Rightarrow> 'ev list" where
  "published bus ev = (if bus then (case ev of None \<Rightarrow> [] | Some x \<Rightarrow> [x]) else [])"

lemma published_simps [simp]:
  "published False ev = []" "published b None = []" "published True (Some x) = [x]"
  by (simp_all add: published_def)

lemma publish_calm:
  "w_script s = [] \<Longrightarrow> publish ev s =
     (Inr (w_bus s \<and> ev \<noteq> None), s\<lparr>w_events := w_events s @ published (w_bus s) ev\<rparr>)"
  by (auto simp: publish_def published_def catch_def bnd_def split: option.split)

lemma publish_None [simp]: "publish None s = (Inr False, s)"
  by (simp add: publish_def)

lemma never_raises_publish: "never_raises (publish ev)"
  by (auto simp: never_raises_def publish_def catch_def bnd_def external_def
      split: option.splits list.splits outcome.splits prod.splits sum.splits)

lemma preserves_publish:
  assumes "\<And>s sc. I s \<Longrightarrow> I (s\<lparr>w_script := sc\<rparr>)" and "\<And>s es. I s \<Longrightarrow> I (s\<lparr>w_events := es\<rparr>)"
  shows "preserves I (publish ev)"
  using assms
  by (auto simp: preserves_def publish_def catch_def bnd_def external_def
      split: option.splits list.splits outcome.splits)

subsection \<open>Tables\<close>

definition row_by :: "('r \<Rightarrow> 'k) \<Rightarrow> 'k \<Rightarrow> 'r list \<Rightarrow> 'r option" where
  "row_by key k rows = find (\<lambda>r. key r = k) rows"

definition update_where :: "('r \<Rightarrow> bool) \<Rightarrow> ('r \<Rightarrow> 'r) \<Rightarrow> 'r list \<Rightarrow> 'r list" where
  "update_where P f rows = map (\<lambda>r. if P r then f r else r) rows"

definition unique_key :: "('r \<Rightarrow> 'k) \<Rightarrow> 'r list \<Rightarrow> bool" where
  "unique_key key rows \<longleftrightarrow> distinct (map key rows)"

text \<open>\<open>ORDER BY f DESC\<close>; PostgreSQL leaves the order of ties open, here ties keep insertion order.\<close>

definition order_desc :: "('r \<Rightarrow> int) \<Rightarrow> 'r list \<Rightarrow> 'r list" where
  "order_desc f rows = sort_key (\<lambda>r. - f r) rows"

definition first_row :: "'r list \<Rightarrow> 'r option" where
  "first_row rows = (case rows of [] \<Rightarrow> None | r # _ \<Rightarrow> Some r)"

lemma row_by_Some: "row_by key k rows = Some r \<Longrightarrow> r \<in> set rows \<and> key r = k"
  by (auto simp: row_by_def find_Some_iff)

lemma row_by_None: "row_by key k rows = None \<longleftrightarrow> k \<notin> key ` set rows"
  by (auto simp: row_by_def find_None_iff)

lemma row_by_unique:
  "unique_key key rows \<Longrightarrow> r \<in> set rows \<Longrightarrow> row_by key (key r) rows = Some r"
proof -
  assume u: "unique_key key rows" and r: "r \<in> set rows"
  then obtain r' where r': "row_by key (key r) rows = Some r'"
    using row_by_None [of key "key r" rows] by (cases "row_by key (key r) rows") auto
  then have "r' \<in> set rows" and "key r' = key r" using row_by_Some by metis+
  with u r have "r' = r" by (auto simp: unique_key_def distinct_map inj_on_def)
  with r' show ?thesis by simp
qed

lemma row_by_append_new:
  "key r \<notin> key ` set rows \<Longrightarrow> row_by key (key r) (rows @ [r]) = Some r"
  by (induction rows) (auto simp: row_by_def)

lemma row_by_append_old: "key r \<noteq> k \<Longrightarrow> row_by key k (rows @ [r]) = row_by key k rows"
  by (induction rows) (auto simp: row_by_def)

lemma map_key_update_where:
  "(\<And>r. key (f r) = key r) \<Longrightarrow> map key (update_where P f rows) = map key rows"
  by (simp add: update_where_def)

lemma unique_key_update_where:
  "(\<And>r. key (f r) = key r) \<Longrightarrow> unique_key key (update_where P f rows) = unique_key key rows"
  unfolding unique_key_def by (simp add: map_key_update_where)

lemma unique_key_append:
  "unique_key key (rows @ [r]) \<longleftrightarrow> unique_key key rows \<and> key r \<notin> key ` set rows"
  by (auto simp: unique_key_def)

lemma row_by_update_where:
  assumes "\<And>r. key (f r) = key r"
  shows "row_by key k (update_where P f rows) =
    map_option (\<lambda>r. if P r then f r else r) (row_by key k rows)"
  using assms by (induction rows) (auto simp: row_by_def update_where_def)

lemma update_where_id: "(\<And>r. r \<in> set rows \<Longrightarrow> P r \<Longrightarrow> f r = r) \<Longrightarrow> update_where P f rows = rows"
  by (induction rows) (auto simp: update_where_def)

lemma update_where_none: "(\<And>r. r \<in> set rows \<Longrightarrow> \<not> P r) \<Longrightarrow> update_where P f rows = rows"
  by (auto simp: update_where_def map_idI)

lemma set_update_where: "set (update_where P f rows) = (\<lambda>r. if P r then f r else r) ` set rows"
  by (simp add: update_where_def)

lemma length_update_where [simp]: "length (update_where P f rows) = length rows"
  by (simp add: update_where_def)

lemma set_order_desc [simp]: "set (order_desc f rows) = set rows"
  by (simp add: order_desc_def)

lemma first_row_in: "first_row rows = Some r \<Longrightarrow> r \<in> set rows"
  by (auto simp: first_row_def split: list.splits)

lemma first_row_None [simp]: "first_row rows = None \<longleftrightarrow> rows = []"
  by (auto simp: first_row_def split: list.splits)

lemma order_desc_Nil [simp]: "order_desc f rows = [] \<longleftrightarrow> rows = []"
  by (metis set_empty set_order_desc)

lemma length_filter_other_key:
  "distinct (map key rows) \<Longrightarrow> r \<in> set rows \<Longrightarrow> Suc (length (filter (\<lambda>x. key x \<noteq> key r) rows)) = length rows"
proof (induction rows)
  case Nil
  then show ?case by simp
next
  case (Cons x xs)
  show ?case
  proof (cases "x = r")
    case True
    with Cons.prems have "filter (\<lambda>x. key x \<noteq> key r) xs = xs"
      by (auto simp: filter_id_conv image_iff)
    with True show ?thesis by simp
  next
    case False
    with Cons.prems have "key x \<noteq> key r" by (auto simp: image_iff)
    with False Cons show ?thesis by simp
  qed
qed

text \<open>Sums over a table of which one row changes.\<close>

lemma sum_update_where:
  assumes "unique_key key rows" and "r \<in> set rows" and "\<And>x. P x \<longleftrightarrow> key x = key r"
  shows "(\<Sum>x\<leftarrow>update_where P f rows. g x) = (\<Sum>x\<leftarrow>rows. g x) + (g (f r) - g r :: 'n::ab_group_add)"
  using assms
proof (induction rows)
  case Nil
  then show ?case by simp
next
  case (Cons x xs)
  show ?case
  proof (cases "x = r")
    case True
    then have "\<And>y. y \<in> set xs \<Longrightarrow> \<not> P y"
      using Cons.prems by (auto simp: unique_key_def image_iff)
    then have "update_where P f xs = xs" by (rule update_where_none)
    with True Cons.prems(3) show ?thesis by (simp add: update_where_def algebra_simps)
  next
    case False
    with Cons.prems have "r \<in> set xs" and "\<not> P x"
      by (auto simp: unique_key_def)
    with Cons show ?thesis by (simp add: update_where_def unique_key_def algebra_simps)
  qed
qed

lemmas sum_list_update_where = sum_update_where [where 'n = int]

subsection \<open>Python truthiness\<close>

text \<open>\<open>None\<close> and the empty string are falsy; \<open>a or b\<close> is \<open>a\<close> when truthy, else \<open>b\<close>.\<close>

definition truthy_str :: "string option \<Rightarrow> bool" where
  "truthy_str x \<longleftrightarrow> (case x of None \<Rightarrow> False | Some t \<Rightarrow> t \<noteq> [])"

definition or_str :: "string option \<Rightarrow> string option \<Rightarrow> string option" where
  "or_str a b = (if truthy_str a then a else b)"

definition truthy_num :: "rat option \<Rightarrow> bool" where
  "truthy_num x \<longleftrightarrow> (case x of None \<Rightarrow> False | Some q \<Rightarrow> q \<noteq> 0)"

definition or_num :: "rat option \<Rightarrow> rat option \<Rightarrow> rat option" where
  "or_num a b = (if truthy_num a then a else b)"

lemma truthy_str_simps [simp]:
  "\<not> truthy_str None" "truthy_str (Some t) \<longleftrightarrow> t \<noteq> []"
  by (simp_all add: truthy_str_def)

lemma truthy_strE: "truthy_str x \<Longrightarrow> (\<And>t. x = Some t \<Longrightarrow> t \<noteq> [] \<Longrightarrow> P) \<Longrightarrow> P"
  by (cases x) auto

end
