(* ===== verification/CircuitBreaker.thy ===== *)
theory CircuitBreaker
  imports Prelude
begin

section \<open>The circuit breaker of inter-service calls\<close>

text \<open>
  \<open>core/circuit_breaker.py\<close>: the breaker object is the record \<open>breaker\<close>, one definition per
  method. Every \<open>time.monotonic()\<close> of a method is an argument (\<open>t\<close>, or \<open>t1\<close> and \<open>t2\<close>
  where the method reads the clock twice); seconds are rationals, so the rounding of a float
  subtraction is not modelled. The property \<open>state\<close> of the class writes to the object, so
  \<open>cb_state\<close> returns the object too.
\<close>

subsection \<open>The object and its methods\<close>

datatype circuit_state = CLOSED | OPEN | HALF_OPEN

datatype cb_exn = CircuitBreakerOpen string rat

record breaker =
  cb_name :: string
  failure_threshold :: int
  recovery_timeout :: rat
  half_open_max_calls :: int
  cb_failure_count :: int
  cb_success_count :: int
  cb_cur :: circuit_state
  cb_opened_at :: "rat option"
  cb_half_open_calls :: int

definition cb_init :: "string \<Rightarrow> int \<Rightarrow> rat \<Rightarrow> int \<Rightarrow> breaker" where
  "cb_init name threshold timeout max_calls =
     \<lparr>cb_name = name, failure_threshold = threshold, recovery_timeout = timeout,
      half_open_max_calls = max_calls, cb_failure_count = 0, cb_success_count = 0,
      cb_cur = CLOSED, cb_opened_at = None, cb_half_open_calls = 0\<rparr>"

definition cb_state :: "rat \<Rightarrow> breaker \<Rightarrow> circuit_state \<times> breaker" where
  "cb_state t c =
     (case cb_opened_at c of
        Some opened \<Rightarrow>
          if cb_cur c = OPEN \<and> recovery_timeout c \<le> t - opened
          then (HALF_OPEN, c\<lparr>cb_cur := HALF_OPEN, cb_half_open_calls := 0\<rparr>)
          else (cb_cur c, c)
      | None \<Rightarrow> (cb_cur c, c))"

text \<open>
  \<open>check\<close>. In state \<open>OPEN\<close> the source subtracts \<open>_opened_at\<close>, which raises a
  \<open>TypeError\<close> if it is \<open>None\<close>; \<open>Inl (Inl ())\<close> is that branch, \<open>Inl (Inr _)\<close> the breaker's own
  exception.
\<close>

definition cb_check :: "rat \<Rightarrow> rat \<Rightarrow> breaker \<Rightarrow> ((unit + cb_exn) + unit) \<times> breaker" where
  "cb_check t1 t2 c =
     (let (current, c1) = cb_state t1 c in
      if current = CLOSED then (Inr (), c1)
      else if current = OPEN then
        (case cb_opened_at c1 of
           None \<Rightarrow> (Inl (Inl ()), c1)
         | Some opened \<Rightarrow>
             (Inl (Inr (CircuitBreakerOpen (cb_name c1) (max 0 (recovery_timeout c1 - (t2 - opened))))), c1))
      else if half_open_max_calls c1 \<le> cb_half_open_calls c1
        then (Inl (Inr (CircuitBreakerOpen (cb_name c1) 0)), c1)
      else (Inr (), c1\<lparr>cb_half_open_calls := cb_half_open_calls c1 + 1\<rparr>))"

definition record_success :: "rat \<Rightarrow> breaker \<Rightarrow> breaker" where
  "record_success t c =
     (let c1 = (if cb_cur c = HALF_OPEN then c else snd (cb_state t c)) in
      c1\<lparr>cb_failure_count := 0, cb_success_count := cb_success_count c1 + 1, cb_cur := CLOSED,
         cb_opened_at := None, cb_half_open_calls := 0\<rparr>)"

definition record_failure :: "rat \<Rightarrow> rat \<Rightarrow> breaker \<Rightarrow> breaker" where
  "record_failure t1 t2 c =
     (let c0 = c\<lparr>cb_failure_count := cb_failure_count c + 1\<rparr>;
          (half, c1) = (if cb_cur c0 = HALF_OPEN then (True, c0)
                        else let (st, c') = cb_state t1 c0 in (st = HALF_OPEN, c')) in
      if half then c1\<lparr>cb_cur := OPEN, cb_opened_at := Some t2, cb_half_open_calls := 0\<rparr>
      else if failure_threshold c1 \<le> cb_failure_count c1
        then c1\<lparr>cb_cur := OPEN, cb_opened_at := Some t2\<rparr>
      else c1)"

record breaker_metrics =
  met_name :: string
  met_state :: circuit_state
  met_failure_count :: int
  met_success_count :: int
  met_opened_at :: "rat option"

definition cb_metrics :: "rat \<Rightarrow> breaker \<Rightarrow> breaker_metrics \<times> breaker" where
  "cb_metrics t c =
     (let (st, c1) = cb_state t c in
      (\<lparr>met_name = cb_name c1, met_state = st, met_failure_count = cb_failure_count c1,
        met_success_count = cb_success_count c1, met_opened_at = cb_opened_at c1\<rparr>, c1))"

subsection \<open>Runs of the breaker\<close>

text \<open>
  A run is a sequence of method calls at times that never go back. \<open>cb_do\<close> is the effect of
  one call; \<open>Check\<close> also tells whether the caller was let through.
\<close>

datatype cb_call = Check | Success | Failure | Metrics

definition cb_do :: "cb_call \<Rightarrow> rat \<Rightarrow> rat \<Rightarrow> breaker \<Rightarrow> breaker" where
  "cb_do call t1 t2 c =
     (case call of
        Check \<Rightarrow> snd (cb_check t1 t2 c)
      | Success \<Rightarrow> record_success t1 c
      | Failure \<Rightarrow> record_failure t1 t2 c
      | Metrics \<Rightarrow> snd (cb_metrics t1 c))"

definition admits :: "rat \<Rightarrow> rat \<Rightarrow> breaker \<Rightarrow> bool" where
  "admits t1 t2 c \<longleftrightarrow> fst (cb_check t1 t2 c) = Inr ()"

inductive cb_reach :: "breaker \<Rightarrow> rat \<Rightarrow> breaker \<Rightarrow> rat \<Rightarrow> bool" where
  start: "cb_reach c t c t"
| call: "cb_reach c0 t0 c t \<Longrightarrow> t \<le> t1 \<Longrightarrow> t1 \<le> t2 \<Longrightarrow> cb_reach c0 t0 (cb_do k t1 t2 c) t2"

inductive_cases cb_reach_stepE: "cb_reach c0 t0 c t"

lemmas cb_defs = cb_state_def cb_check_def record_success_def record_failure_def
  cb_metrics_def cb_do_def

lemmas cb_splits = option.splits if_splits cb_call.splits

subsection \<open>The object invariant\<close>

text \<open>
  What the fields of a breaker say about each other at time \<open>now\<close>: a closed breaker is below its
  threshold and has no opening time; an open one has one, in the past; a half-open one has used
  at most its probes.
\<close>

definition cb_ok :: "rat \<Rightarrow> breaker \<Rightarrow> bool" where
  "cb_ok now c \<longleftrightarrow> 0 < failure_threshold c \<and> 0 \<le> half_open_max_calls c \<and> 0 \<le> recovery_timeout c
     \<and> 0 \<le> cb_failure_count c
     \<and> (cb_cur c = CLOSED \<longrightarrow> cb_opened_at c = None \<and> cb_failure_count c < failure_threshold c
          \<and> cb_half_open_calls c = 0)
     \<and> (cb_cur c \<noteq> CLOSED \<longrightarrow> (\<exists>opened. cb_opened_at c = Some opened \<and> opened \<le> now))
     \<and> 0 \<le> cb_half_open_calls c \<and> cb_half_open_calls c \<le> half_open_max_calls c"

lemma cb_ok_init:
  "0 < n \<Longrightarrow> 0 \<le> k \<Longrightarrow> 0 \<le> r \<Longrightarrow> cb_ok t (cb_init name n r k)"
  by (simp add: cb_ok_def cb_init_def)

lemma cb_do_ok:
  assumes "cb_ok t c" and "t \<le> t1" and "t1 \<le> t2"
  shows "cb_ok t2 (cb_do k t1 t2 c)"
  using assms
  by (cases k; cases "cb_cur c") (auto simp: cb_ok_def cb_defs Let_def split: cb_splits)

lemma cb_reach_ok: "cb_reach c0 t0 c t \<Longrightarrow> cb_ok t0 c0 \<Longrightarrow> cb_ok t c"
  by (induction rule: cb_reach.induct) (auto intro: cb_do_ok)

lemma cb_reach_config:
  "cb_reach c0 t0 c t \<Longrightarrow> failure_threshold c = failure_threshold c0
     \<and> recovery_timeout c = recovery_timeout c0 \<and> half_open_max_calls c = half_open_max_calls c0
     \<and> cb_name c = cb_name c0"
  by (induction rule: cb_reach.induct) (auto simp: cb_defs Let_def split: cb_splits)


subsection \<open>What the breaker guarantees\<close>

text \<open>
  C35. Every breaker that methods of the class can produce from a freshly constructed one, at
  whatever times they are called, keeps the object invariant: closed means below the failure
  threshold with no opening time, not closed means an opening time in the past, and the number of
  half-open probes in use never passes \<open>half_open_max_calls\<close>.
\<close>
theorem breaker_reachable_ok:
  assumes "cb_reach (cb_init name n r k) t0 c t" and "0 < n" and "0 \<le> k" and "0 \<le> r"
  shows "cb_ok t c"
  using assms by (blast intro: cb_reach_ok cb_ok_init)

theorem breaker_reachable_ok_witness:
  "cb_ok 9 (cb_do Check 9 9 (cb_do Failure 2 2 (cb_init ''acct'' 1 5 1)))"
proof -
  let ?c = "cb_init ''acct'' 1 5 1"
  have "cb_reach ?c 0 (cb_do Failure 2 2 ?c) 2"
    by (rule cb_reach.call [OF cb_reach.start]) simp_all
  then have "cb_reach ?c 0 (cb_do Check 9 9 (cb_do Failure 2 2 ?c)) 9"
    by (rule cb_reach.call) simp_all
  then show ?thesis by (rule breaker_reachable_ok) simp_all
qed

text \<open>How many of a sequence of \<open>check\<close> calls with no recorded outcome in between are let through.\<close>

fun admitted :: "(rat \<times> rat) list \<Rightarrow> breaker \<Rightarrow> int" where
  "admitted [] c = 0"
| "admitted ((t1, t2) # ts) c =
     (if admits t1 t2 c then 1 else 0) + admitted ts (snd (cb_check t1 t2 c))"

lemma admitted_half_open:
  "cb_cur c = HALF_OPEN \<Longrightarrow> 0 \<le> cb_half_open_calls c \<Longrightarrow> cb_half_open_calls c \<le> half_open_max_calls c \<Longrightarrow>
   admitted ts c \<le> half_open_max_calls c - cb_half_open_calls c"
proof (induction ts arbitrary: c)
  case Nil
  then show ?case by simp
next
  case (Cons p ts)
  obtain t1 t2 where p: "p = (t1, t2)" by (cases p)
  have st: "cb_state t1 c = (HALF_OPEN, c)"
    using Cons.prems by (auto simp: cb_state_def split: option.splits)
  show ?case
  proof (cases "half_open_max_calls c \<le> cb_half_open_calls c")
    case True
    then have "admitted (p # ts) c = admitted ts c"
      using st p by (simp add: cb_check_def admits_def)
    with Cons.IH [of c] Cons.prems show ?thesis by simp
  next
    case False
    let ?d = "c\<lparr>cb_half_open_calls := cb_half_open_calls c + 1\<rparr>"
    have "admitted ts ?d \<le> half_open_max_calls ?d - cb_half_open_calls ?d"
      using Cons.prems False by (intro Cons.IH) auto
    with False st p show ?thesis by (simp add: cb_check_def admits_def)
  qed
qed

lemma admitted_open:
  "cb_cur c = OPEN \<Longrightarrow> cb_opened_at c = Some opened \<Longrightarrow> 0 \<le> half_open_max_calls c \<Longrightarrow>
   admitted ts c \<le> half_open_max_calls c"
proof (induction ts arbitrary: c)
  case Nil
  then show ?case by simp
next
  case (Cons p ts)
  obtain t1 t2 where p: "p = (t1, t2)" by (cases p)
  show ?case
  proof (cases "recovery_timeout c \<le> t1 - opened")
    case False
    then show ?thesis using Cons p by (simp add: cb_check_def cb_state_def admits_def)
  next
    case True
    let ?h = "c\<lparr>cb_cur := HALF_OPEN, cb_half_open_calls := 0\<rparr>"
    have "admitted ((t1, t2) # ts) c = admitted ((t1, t2) # ts) ?h"
      using Cons.prems True by (simp add: cb_check_def cb_state_def admits_def)
    also have "\<dots> \<le> half_open_max_calls ?h - cb_half_open_calls ?h"
      using Cons.prems by (intro admitted_half_open) auto
    finally show ?thesis using p by simp
  qed
qed

text \<open>
  While a breaker is not closed, however many callers ask \<open>check\<close> before one of them
  reports an outcome and whenever they ask, at most \<open>half_open_max_calls\<close> of them are let
  through to the failing service.
\<close>
theorem breaker_probe_bound:
  assumes "cb_ok now c" and "cb_cur c \<noteq> CLOSED"
  shows "admitted ts c \<le> half_open_max_calls c"
proof (cases "cb_cur c")
  case CLOSED
  with assms show ?thesis by simp
next
  case OPEN
  with assms show ?thesis by (auto simp: cb_ok_def intro: admitted_open)
next
  case HALF_OPEN
  with assms admitted_half_open [of c ts] show ?thesis by (auto simp: cb_ok_def)
qed

theorem breaker_probe_bound_witness:
  "admitted [(9, 9), (9, 9), (10, 11)] (record_failure 0 0 (cb_init ''acct'' 1 5 1)) \<le> 1
   \<and> admitted [(9, 9), (9, 9), (10, 11)] (record_failure 0 0 (cb_init ''acct'' 1 5 1)) = 1"
proof -
  let ?c = "record_failure 0 0 (cb_init ''acct'' 1 5 1)"
  have "cb_ok 0 ?c" and "cb_cur ?c \<noteq> CLOSED" and "half_open_max_calls ?c = 1"
    by (simp_all add: cb_ok_def cb_init_def record_failure_def cb_state_def)
  then have "admitted [(9, 9), (9, 9), (10, 11)] ?c \<le> 1"
    using breaker_probe_bound [of 0 ?c "[(9, 9), (9, 9), (10, 11)]"] by simp
  then show ?thesis
    by (simp add: cb_init_def record_failure_def cb_state_def admits_def cb_check_def)
qed

text \<open>Failures in a row, each at its own time.\<close>

fun failures :: "rat list \<Rightarrow> breaker \<Rightarrow> breaker" where
  "failures [] c = c"
| "failures (t # ts) c = failures ts (record_failure t t c)"

lemma failures_closed:
  "cb_cur c = CLOSED \<Longrightarrow> cb_opened_at c = None \<Longrightarrow> ts \<noteq> [] \<Longrightarrow>
   cb_failure_count c + int (length ts) = failure_threshold c \<Longrightarrow>
   failures ts c = c\<lparr>cb_failure_count := failure_threshold c, cb_cur := OPEN,
     cb_opened_at := Some (last ts)\<rparr>"
proof (induction ts arbitrary: c)
  case Nil
  then show ?case by simp
next
  case (Cons t ts)
  let ?c1 = "c\<lparr>cb_failure_count := cb_failure_count c + 1\<rparr>"
  show ?case
  proof (cases "ts = []")
    case True
    then show ?thesis using Cons.prems
      by (simp add: record_failure_def cb_state_def)
  next
    case False
    with Cons.prems(4) have "cb_failure_count c + 1 < failure_threshold c"
      by (cases ts) auto
    then have "record_failure t t c = ?c1"
      using Cons.prems by (simp add: record_failure_def cb_state_def)
    moreover have "failures ts ?c1 = ?c1\<lparr>cb_failure_count := failure_threshold ?c1, cb_cur := OPEN,
        cb_opened_at := Some (last ts)\<rparr>"
      using Cons.prems False by (intro Cons.IH) auto
    ultimately show ?thesis using False by simp
  qed
qed

text \<open>
  A closed breaker fails fast exactly from its \<open>failure_threshold\<close>-th failure in a row on:
  every \<open>check\<close> that starts less than \<open>recovery_timeout\<close> after the last of them raises
  \<open>CircuitBreakerOpen\<close> with the seconds left, and the first \<open>check\<close> at or after the timeout is
  let through as a probe.
\<close>
theorem breaker_fails_fast_then_probes:
  assumes "0 < n" and "0 < k" and "length ts = nat n"
    and c: "c = failures ts (cb_init name n r k)"
  shows "(if t1 - last ts < r
          then cb_check t1 t2 c =
            (Inl (Inr (CircuitBreakerOpen name (max 0 (r - (t2 - last ts))))), c)
          else admits t1 t2 c \<and> cb_cur (snd (cb_check t1 t2 c)) = HALF_OPEN)"
proof -
  have "ts \<noteq> []" using assms by auto
  then have "c = (cb_init name n r k)\<lparr>cb_failure_count := n, cb_cur := OPEN,
      cb_opened_at := Some (last ts)\<rparr>"
    unfolding c using assms failures_closed [of "cb_init name n r k" ts]
    by (simp add: cb_init_def)
  then show ?thesis using assms
    by (simp add: cb_check_def cb_state_def cb_init_def admits_def)
qed

theorem breaker_fails_fast_then_probes_witness:
  "cb_check 10 10 (failures [1, 2] (cb_init ''acct'' 2 30 1)) =
     (Inl (Inr (CircuitBreakerOpen ''acct'' 22)), failures [1, 2] (cb_init ''acct'' 2 30 1))
   \<and> admits 32 32 (failures [1, 2] (cb_init ''acct'' 2 30 1))"
  using breaker_fails_fast_then_probes [of 2 1 "[1, 2]" _ "''acct''" 30 10 10, OF _ _ _ refl]
    breaker_fails_fast_then_probes [of 2 1 "[1, 2]" _ "''acct''" 30 32 32, OF _ _ _ refl] by simp

text \<open>
  The state diagram of the code, call by call. A closed breaker leaves \<open>CLOSED\<close> only by a
  failure, and then to \<open>OPEN\<close>; \<open>OPEN\<close> becomes \<open>HALF_OPEN\<close> only after the recovery timeout;
  \<open>CLOSED\<close> never becomes \<open>HALF_OPEN\<close>; and \<open>CLOSED\<close> is reached only by \<open>record_success\<close>, which
  closes the breaker from every state, an open one that has not waited for its timeout included.
\<close>
theorem breaker_transitions:
  assumes "cb_ok now c" and "d = cb_do k t1 t2 c"
  shows "(cb_cur c = CLOSED \<and> cb_cur d \<noteq> CLOSED \<longrightarrow> k = Failure \<and> cb_cur d = OPEN)
    \<and> (cb_cur c = OPEN \<and> cb_cur d = HALF_OPEN \<longrightarrow>
         (\<exists>opened. cb_opened_at c = Some opened \<and> recovery_timeout c \<le> t1 - opened))
    \<and> (cb_cur c \<noteq> CLOSED \<and> cb_cur d = CLOSED \<longrightarrow> k = Success)
    \<and> (k = Success \<longrightarrow> cb_cur d = CLOSED \<and> cb_failure_count d = 0)"
  using assms
  by (auto simp: cb_ok_def cb_defs Let_def split: cb_splits)

theorem breaker_transitions_witness:
  "cb_cur (cb_do Success 1 1 (failures [0] (cb_init ''acct'' 1 30 1))) = CLOSED"
proof -
  have "cb_ok 0 (failures [0] (cb_init ''acct'' 1 30 1))"
    by (simp add: cb_ok_def cb_init_def record_failure_def cb_state_def)
  from breaker_transitions [OF this refl, of Success 1 1] show ?thesis by simp
qed

end
