(* ===== verification/RateLimiter.thy ===== *)
theory RateLimiter
  imports Prelude
begin

section \<open>The sliding-window rate limiter\<close>

text \<open>
  \<open>core/rate_limiter.py\<close>: the in-memory backend, the Redis backend, the counter that asks a
  backend, and the HTTP middleware. Clock readings are rationals (seconds). The backend a counter
  uses is an argument, as in the source; the interface it relies on is the locale
  \<open>window_backend\<close>, which \<open>InMemoryBackend\<close> interprets. Redis itself is not part of the
  repository: its pipeline is the argument \<open>exec\<close> of the Redis backend.
\<close>

subsection \<open>The in-memory backend\<close>

type_synonym windows = "string \<rightharpoonup> rat list"

definition mem_init :: windows where
  "mem_init = Map.empty"

definition mem_increment :: "rat \<Rightarrow> string \<Rightarrow> rat \<Rightarrow> windows \<Rightarrow> int \<times> windows" where
  "mem_increment now key window ws =
     (let cutoff = now - window;
          ws1 = (if ws key = None then ws(key \<mapsto> []) else ws);
          kept = filter (\<lambda>t. cutoff < t) (the (ws1 key));
          entries = kept @ [now]
      in (int (length entries), ws1(key \<mapsto> entries)))"

definition mem_get_ttl :: "rat \<Rightarrow> string \<Rightarrow> windows \<Rightarrow> rat" where
  "mem_get_ttl now key ws =
     (case ws key of None \<Rightarrow> 0 | Some [] \<Rightarrow> 0 | Some (oldest # _) \<Rightarrow> max 0 (now - oldest))"

definition mem_get_count :: "rat \<Rightarrow> string \<Rightarrow> rat \<Rightarrow> windows \<Rightarrow> int" where
  "mem_get_count now key window ws =
     (case ws key of None \<Rightarrow> 0 | Some ts \<Rightarrow> int (length (filter (\<lambda>t. now - window < t) ts)))"

subsection \<open>The Redis backend\<close>

text \<open>
  The commands a pipeline collects; a member is the pair that \<open>f"{now}:{uuid4().hex}"\<close> prints.
  \<open>exec\<close> runs a pipeline on the server state and gives one integer per command, or raises.
  \<open>results[2]\<close> of a short answer is an \<open>IndexError\<close>, here \<open>LookupError\<close>.
\<close>

datatype redis_cmd =
    ZRemRangeByScore string rat rat
  | ZAdd string "rat \<times> string" rat
  | ZCard string
  | Expire string int

definition nth_reply :: "nat \<Rightarrow> unit exn + int list \<Rightarrow> unit exn + int" where
  "nth_reply i r = (case r of Inl e \<Rightarrow> Inl e
     | Inr xs \<Rightarrow> if i < length xs then Inr (xs ! i) else Inl (LookupError ''list index out of range''))"

definition redis_increment ::
  "(redis_cmd list \<Rightarrow> 'r \<Rightarrow> (unit exn + int list) \<times> 'r) \<Rightarrow> string \<Rightarrow> rat \<Rightarrow> string \<Rightarrow> rat \<Rightarrow> 'r
   \<Rightarrow> (unit exn + int) \<times> 'r" where
  "redis_increment exec hex now key window st =
     (let cutoff = now - window;
          (results, st') = exec [ZRemRangeByScore key 0 cutoff, ZAdd key (now, hex) now, ZCard key,
            Expire key (\<lfloor>window\<rfloor> + 1)] st
      in (nth_reply 2 results, st'))"

definition redis_get_count ::
  "(redis_cmd list \<Rightarrow> 'r \<Rightarrow> (unit exn + int list) \<times> 'r) \<Rightarrow> rat \<Rightarrow> string \<Rightarrow> rat \<Rightarrow> 'r
   \<Rightarrow> (unit exn + int) \<times> 'r" where
  "redis_get_count exec now key window st =
     (let cutoff = now - window;
          (results, st') = exec [ZRemRangeByScore key 0 cutoff, ZCard key,
            Expire key (\<lfloor>window\<rfloor> + 1)] st
      in (nth_reply 1 results, st'))"

subsection \<open>The counter\<close>

record rate_config =
  rc_requests :: int
  rc_window_seconds :: int

definition default_config :: rate_config where
  "default_config = \<lparr>rc_requests = 60, rc_window_seconds = 60\<rparr>"

record rate_info =
  ri_limit :: int
  ri_remaining :: int
  ri_retry_after :: int

definition sw_check ::
  "(rat \<Rightarrow> string \<Rightarrow> rat \<Rightarrow> 'b \<Rightarrow> int \<times> 'b) \<Rightarrow> rat \<Rightarrow> string \<Rightarrow> rate_config \<Rightarrow> 'b
   \<Rightarrow> (bool \<times> rate_info) \<times> 'b" where
  "sw_check increment now key config b =
     (let (count, b') = increment now key (of_int (rc_window_seconds config)) b;
          remaining = max 0 (rc_requests config - count);
          allowed = (count \<le> rc_requests config);
          info = \<lparr>ri_limit = rc_requests config, ri_remaining = remaining,
                  ri_retry_after = (if allowed then 0 else rc_window_seconds config)\<rparr>
      in ((allowed, info), b'))"

text \<open>A sequence of requests (key and time) and the decision on each.\<close>

fun sw_run ::
  "(rat \<Rightarrow> string \<Rightarrow> rat \<Rightarrow> 'b \<Rightarrow> int \<times> 'b) \<Rightarrow> (string \<Rightarrow> rate_config) \<Rightarrow> (string \<times> rat) list \<Rightarrow> 'b
   \<Rightarrow> bool list" where
  "sw_run increment cfg [] b = []"
| "sw_run increment cfg ((key, now) # rs) b =
     (let ((allowed, _), b') = sw_check increment now key (cfg key) b
      in allowed # sw_run increment cfg rs b')"

subsection \<open>What a sliding window is: the specification\<close>

text \<open>
  \<open>window_count w h (k, t)\<close> counts the requests of the history \<open>h\<close> with key \<open>k\<close> younger than
  \<open>w\<close> at time \<open>t\<close>. The specified limiter decides on the whole history, without pruning.
\<close>

definition window_count :: "rat \<Rightarrow> (string \<times> rat) list \<Rightarrow> string \<times> rat \<Rightarrow> nat" where
  "window_count w h r = length (filter (\<lambda>(k, t). k = fst r \<and> snd r - w < t) h)"

fun sw_spec :: "(string \<Rightarrow> rate_config) \<Rightarrow> (string \<times> rat) list \<Rightarrow> (string \<times> rat) list \<Rightarrow> bool list" where
  "sw_spec cfg h [] = []"
| "sw_spec cfg h (r # rs) =
     (int (window_count (of_int (rc_window_seconds (cfg (fst r)))) (h @ [r]) r) \<le> rc_requests (cfg (fst r)))
     # sw_spec cfg (h @ [r]) rs"

text \<open>
  The contract of a backend. \<open>rep W h now b\<close>: the backend \<open>b\<close> stands for the history \<open>h\<close> of
  requests up to time \<open>now\<close>, when key \<open>k\<close> is always asked with window \<open>W k\<close>.
\<close>

locale window_backend =
  fixes inc :: "rat \<Rightarrow> string \<Rightarrow> rat \<Rightarrow> 'b \<Rightarrow> int \<times> 'b"
    and rep :: "(string \<Rightarrow> rat) \<Rightarrow> (string \<times> rat) list \<Rightarrow> rat \<Rightarrow> 'b \<Rightarrow> bool"
  assumes inc_counts:
      "rep W h now b \<Longrightarrow> now \<le> t \<Longrightarrow> fst (inc t k (W k) b) = int (window_count (W k) (h @ [(k, t)]) (k, t))"
    and inc_rep: "rep W h now b \<Longrightarrow> now \<le> t \<Longrightarrow> rep W (h @ [(k, t)]) t (snd (inc t k (W k) b))"
begin

lemma run_refines_spec:
  assumes "rep (\<lambda>k. of_int (rc_window_seconds (cfg k))) h now b"
    and "sorted (now # map snd rs)"
  shows "sw_run inc cfg rs b = sw_spec cfg h rs"
  using assms
proof (induction rs arbitrary: h now b)
  case Nil
  then show ?case by simp
next
  case (Cons r rs)
  let ?W = "\<lambda>k. of_int (rc_window_seconds (cfg k))"
  obtain k t where r: "r = (k, t)" by (cases r)
  have le: "now \<le> t" and so: "sorted (t # map snd rs)" using Cons.prems(2) r by auto
  have "sw_run inc cfg rs (snd (inc t k (?W k) b)) = sw_spec cfg (h @ [(k, t)]) rs"
    by (rule Cons.IH [OF inc_rep [OF Cons.prems(1) le] so])
  with inc_counts [OF Cons.prems(1) le, of k] r show ?case
    by (cases "inc t k (?W k) b") (simp add: sw_check_def Let_def)
qed

end

definition mem_rep :: "(string \<Rightarrow> rat) \<Rightarrow> (string \<times> rat) list \<Rightarrow> rat \<Rightarrow> windows \<Rightarrow> bool" where
  "mem_rep W h now ws \<longleftrightarrow> (\<forall>k. 0 < W k) \<and> (\<forall>k t. now \<le> t \<longrightarrow>
     filter (\<lambda>x. t - W k < x) (case ws k of None \<Rightarrow> [] | Some xs \<Rightarrow> xs)
       = filter (\<lambda>x. t - W k < x) (map snd (filter (\<lambda>(k', _). k' = k) h)))"

lemma mem_rep_init: "(\<And>k. 0 < W k) \<Longrightarrow> mem_rep W [] now mem_init"
  by (simp add: mem_rep_def mem_init_def)

lemma mem_entries:
  "snd (mem_increment t k w ws) k =
     Some (filter (\<lambda>x. t - w < x) (case ws k of None \<Rightarrow> [] | Some xs \<Rightarrow> xs) @ [t])"
  "k' \<noteq> k \<Longrightarrow> snd (mem_increment t k w ws) k' = ws k'"
  by (auto simp: mem_increment_def Let_def)

lemma window_count_snoc:
  "window_count w (h @ [(k, t)]) (k, t) =
     length (filter (\<lambda>x. t - w < x) (map snd (filter (\<lambda>(k', _). k' = k) h)) ) + (if t - w < t then 1 else 0)"
proof -
  have "length (filter (\<lambda>(k', x). k' = k \<and> t - w < x) h)
      = length (filter (\<lambda>x. t - w < x) (map snd (filter (\<lambda>(k', _). k' = k) h)))"
    by (induction h) auto
  then show ?thesis by (simp add: window_count_def)
qed


lemma mem_inc_counts:
  assumes rep: "mem_rep W h now ws" and "now \<le> t"
  shows "fst (mem_increment t k (W k) ws) = int (window_count (W k) (h @ [(k, t)]) (k, t))"
proof -
  let ?old = "filter (\<lambda>x. t - W k < x) (case ws k of None \<Rightarrow> [] | Some xs \<Rightarrow> xs)"
  have "fst (mem_increment t k (W k) ws) = int (length (?old @ [t]))"
    by (simp add: mem_increment_def Let_def split: option.split)
  also have "?old = filter (\<lambda>x. t - W k < x) (map snd (filter (\<lambda>(k', _). k' = k) h))"
    using assms by (simp add: mem_rep_def)
  finally show ?thesis using rep by (simp only: window_count_snoc length_append) (simp add: mem_rep_def)
qed

lemma filter_filter_later:
  "(c::rat) \<le> c' \<Longrightarrow> filter (\<lambda>x. c' < x) (filter (\<lambda>x. c < x) xs) = filter (\<lambda>x. c' < x) xs"
  by (induction xs) auto

lemma mem_inc_rep:
  assumes rep: "mem_rep W h now ws" and "now \<le> t"
  shows "mem_rep W (h @ [(k, t)]) t (snd (mem_increment t k (W k) ws))"
proof -
  have "filter (\<lambda>x. u - W k' < x)
      (case snd (mem_increment t k (W k) ws) k' of None \<Rightarrow> [] | Some xs \<Rightarrow> xs)
      = filter (\<lambda>x. u - W k' < x) (map snd (filter (\<lambda>(j, _). j = k') (h @ [(k, t)])))"
    if "t \<le> u" for k' u
  proof (cases "k' = k")
    case True
    have "now \<le> u" using that assms by simp
    with rep have "filter (\<lambda>x. u - W k < x) (case ws k of None \<Rightarrow> [] | Some xs \<Rightarrow> xs)
        = filter (\<lambda>x. u - W k < x) (map snd (filter (\<lambda>(j, _). j = k) h))"
      by (simp add: mem_rep_def)
    moreover have "t - W k \<le> u - W k" using that by simp
    ultimately show ?thesis
      using True by (simp add: mem_entries filter_filter_later del: filter_filter)
  next
    case False
    with rep that assms show ?thesis by (auto simp: mem_rep_def mem_entries)
  qed
  with rep show ?thesis by (simp add: mem_rep_def)
qed

interpretation mem: window_backend mem_increment mem_rep
  by unfold_locales (auto intro: mem_inc_counts mem_inc_rep)

subsection \<open>Facts about the specification\<close>

lemma length_sw_spec [simp]: "length (sw_spec cfg h rs) = length rs"
  by (induction rs arbitrary: h) auto

lemma sw_spec_nth:
  "i < length rs \<Longrightarrow> sw_spec cfg h rs ! i \<longleftrightarrow>
     int (window_count (of_int (rc_window_seconds (cfg (fst (rs ! i))))) (h @ take (Suc i) rs) (rs ! i))
       \<le> rc_requests (cfg (fst (rs ! i)))"
proof (induction rs arbitrary: h i)
  case Nil
  then show ?case by simp
next
  case (Cons r rs)
  then show ?case by (cases i) simp_all
qed

lemma window_count_card:
  assumes "i < length rs"
  shows "window_count w (take (Suc i) rs) (k, t) = card {j. j \<le> i \<and> fst (rs ! j) = k \<and> t - w < snd (rs ! j)}"
proof -
  have "{j. j < length (take (Suc i) rs) \<and> (case take (Suc i) rs ! j of (k', t') \<Rightarrow> k' = k \<and> t - w < t')}
      = {j. j \<le> i \<and> fst (rs ! j) = k \<and> t - w < snd (rs ! j)}"
    using assms by (auto simp: less_Suc_eq_le case_prod_beta)
  then show ?thesis by (simp add: window_count_def length_filter_conv_card)
qed

lemma sw_spec_window_bound:
  assumes "0 \<le> rc_requests (cfg k)"
  shows "card {i. i < length rs \<and> sw_spec cfg [] rs ! i \<and> fst (rs ! i) = k
            \<and> T - of_int (rc_window_seconds (cfg k)) < snd (rs ! i) \<and> snd (rs ! i) \<le> T}
         \<le> nat (rc_requests (cfg k))" (is "card ?A \<le> _")
proof (cases "?A = {}")
  case True
  then show ?thesis by (simp only: card.empty)
next
  case False
  let ?w = "of_int (rc_window_seconds (cfg k)) :: rat"
  have fin: "finite ?A" by simp
  define m where "m = Max ?A"
  have m: "m \<in> ?A" unfolding m_def using fin False by (rule Max_in)
  have "?A \<subseteq> {j. j \<le> m \<and> fst (rs ! j) = k \<and> snd (rs ! m) - ?w < snd (rs ! j)}"
    using m Max_ge [OF fin] by (auto simp: m_def)
  then have "card ?A \<le> window_count ?w (take (Suc m) rs) (k, snd (rs ! m))"
    using m by (simp add: window_count_card card_mono)
  also have "\<dots> = window_count ?w (take (Suc m) rs) (rs ! m)"
    using m by (cases "rs ! m") simp
  also have "int \<dots> \<le> rc_requests (cfg k)"
    using m sw_spec_nth [of m rs cfg "[]"] by simp
  finally show ?thesis using assms by simp
qed


subsection \<open>The middleware\<close>

text \<open>
  \<open>RateLimitMiddleware\<close>. Python's \<open>str.startswith\<close> is \<open>starts_with\<close>; the dictionary
  \<open>path_limits\<close> is the list of its items in insertion order; \<open>call_next\<close> is the rest of the
  application. A header value is a string of the application or a number printed by \<open>str\<close>.
\<close>

definition starts_with :: "string \<Rightarrow> string \<Rightarrow> bool" where
  "starts_with p path \<longleftrightarrow> take (length p) path = p"

definition excluded_prefixes :: "string list" where
  "excluded_prefixes = [''/health'', ''/docs'', ''/redoc'', ''/openapi.json'', ''/info'']"

definition get_config ::
  "rate_config \<Rightarrow> (string \<times> rate_config) list \<Rightarrow> string \<Rightarrow> rate_config option" where
  "get_config dflt path_limits path =
     (if \<exists>p \<in> set excluded_prefixes. starts_with p path then None
      else case find (\<lambda>(pattern, _). starts_with pattern path)
                  (sort_key (\<lambda>x. - int (length (fst x))) path_limits) of
             Some (_, config) \<Rightarrow> Some config
           | None \<Rightarrow> Some dflt)"

record http_request =
  rq_client_host :: "string option"
  rq_path :: string

datatype hval = Printed int | Text string

datatype http_body = RateLimitExceeded int | AppBody string

record http_response =
  rs_status :: int
  rs_body :: http_body
  rs_headers :: "(string \<times> hval) list"

definition set_header :: "string \<Rightarrow> hval \<Rightarrow> (string \<times> hval) list \<Rightarrow> (string \<times> hval) list" where
  "set_header h v hs = filter (\<lambda>(h', _). h' \<noteq> h) hs @ [(h, v)]"

definition default_key :: "http_request \<Rightarrow> string" where
  "default_key rq = (case rq_client_host rq of Some host \<Rightarrow> host | None \<Rightarrow> ''unknown'')"

definition dispatch ::
  "(rat \<Rightarrow> string \<Rightarrow> rat \<Rightarrow> 'b \<Rightarrow> int \<times> 'b) \<Rightarrow> (http_request \<Rightarrow> string) \<Rightarrow> rate_config
   \<Rightarrow> (string \<times> rate_config) list \<Rightarrow> (http_request \<Rightarrow> http_response) \<Rightarrow> rat \<Rightarrow> http_request \<Rightarrow> 'b
   \<Rightarrow> http_response \<times> 'b" where
  "dispatch increment key_func dflt path_limits call_next now rq b =
     (case get_config dflt path_limits (rq_path rq) of
        None \<Rightarrow> (call_next rq, b)
      | Some config \<Rightarrow>
          let client_key = key_func rq;
              rate_key = ''rl:'' @ client_key @ '':'' @ rq_path rq;
              ((allowed, info), b') = sw_check increment now rate_key config b
          in if \<not> allowed then
               (\<lparr>rs_status = 429, rs_body = RateLimitExceeded (ri_retry_after info),
                 rs_headers = [(''Retry-After'', Printed (ri_retry_after info)),
                               (''X-RateLimit-Limit'', Printed (ri_limit info)),
                               (''X-RateLimit-Remaining'', Text ''0'')]\<rparr>, b')
             else
               let response = call_next rq in
               (response\<lparr>rs_headers :=
                  set_header ''X-RateLimit-Remaining'' (Printed (ri_remaining info))
                    (set_header ''X-RateLimit-Limit'' (Printed (ri_limit info)) (rs_headers response))\<rparr>, b'))"

subsection \<open>Properties of the limiter\<close>

lemma mem_run_spec:
  assumes "sorted (map snd rs)" and "\<And>k. 0 < rc_window_seconds (cfg k)"
  shows "sw_run mem_increment cfg rs mem_init = sw_spec cfg [] rs"
proof (cases rs)
  case Nil
  then show ?thesis by simp
next
  case (Cons r rest)
  show ?thesis
    by (rule mem.run_refines_spec [of cfg "[]" "snd r"])
      (use assms Cons in \<open>auto intro: mem_rep_init\<close>)
qed

text \<open>
  C34. Whatever mix of keys is requested, the in-memory limiter, which prunes and forgets, decides
  each request exactly as the specification that keeps the whole history: the request passes if
  and only if the requests of its key younger than the window, itself and the refused ones
  included, are at most the limit.
\<close>
theorem limiter_refines_sliding_window:
  assumes "sorted (map snd rs)" and "\<And>k. 0 < rc_window_seconds (cfg k)"
  shows "sw_run mem_increment cfg rs mem_init = sw_spec cfg [] rs"
  by (rule mem_run_spec [OF assms])

theorem limiter_refines_sliding_window_witness:
  "sw_run mem_increment (\<lambda>_. \<lparr>rc_requests = 2, rc_window_seconds = 10\<rparr>)
     [(''a'', 0), (''a'', 1), (''b'', 2), (''a'', 3), (''a'', 12)] mem_init
   = [True, True, True, False, True]"
  by (subst limiter_refines_sliding_window) (simp_all add: window_count_def)

text \<open>
  C39. In every interval of one window's length, ending at any time \<open>T\<close>, the limiter lets at most
  \<open>requests\<close> requests of a key through, whatever the other keys do and however many requests
  it refuses in between.
\<close>
theorem limiter_window_bound:
  assumes "sorted (map snd rs)" and "\<And>k. 0 < rc_window_seconds (cfg k)" and "0 \<le> rc_requests (cfg k)"
  shows "card {i. i < length rs \<and> sw_run mem_increment cfg rs mem_init ! i \<and> fst (rs ! i) = k
            \<and> T - of_int (rc_window_seconds (cfg k)) < snd (rs ! i) \<and> snd (rs ! i) \<le> T}
         \<le> nat (rc_requests (cfg k))"
  by (simp only: mem_run_spec [OF assms(1,2)] sw_spec_window_bound [of cfg k, OF assms(3)])

theorem limiter_window_bound_witness:
  "card {i. i < length [(''a'', 0), (''a'', 1), (''a'', 2::rat)]
      \<and> sw_run mem_increment (\<lambda>_. \<lparr>rc_requests = 1, rc_window_seconds = 5\<rparr>)
          [(''a'', 0), (''a'', 1), (''a'', 2)] mem_init ! i
      \<and> fst ([(''a'', 0), (''a'', 1), (''a'', 2::rat)] ! i) = ''a''
      \<and> 4 - of_int 5 < snd ([(''a'', 0), (''a'', 1), (''a'', 2::rat)] ! i)
      \<and> snd ([(''a'', 0), (''a'', 1), (''a'', 2::rat)] ! i) \<le> 4} \<le> 1"
  using limiter_window_bound [of "[(''a'', 0), (''a'', 1), (''a'', 2::rat)]"
      "\<lambda>_. \<lparr>rc_requests = 1, rc_window_seconds = 5\<rparr>" "''a''" 4] by simp

lemma find_sorted_longest:
  assumes "find P (sort_key (\<lambda>x. - int (length (fst x))) xs) = Some y"
  shows "y \<in> set xs \<and> P y \<and> (\<forall>x \<in> set xs. P x \<longrightarrow> length (fst x) \<le> length (fst y))"
proof -
  let ?ys = "sort_key (\<lambda>x. - int (length (fst x))) xs"
  obtain i where i: "i < length ?ys" "?ys ! i = y" "P y" "\<forall>j<i. \<not> P (?ys ! j)"
    using assms by (auto simp: find_Some_iff)
  have "length (fst x) \<le> length (fst y)" if x: "x \<in> set xs" "P x" for x
  proof -
    obtain j where j: "j < length ?ys" "?ys ! j = x"
      using x(1) by (metis in_set_conv_nth set_sort)
    with i x have "i \<le> j" by (metis not_le_imp_less)
    then have "- int (length (fst (?ys ! i))) \<le> - int (length (fst (?ys ! j)))"
      using j sorted_nth_mono [OF sorted_sort_key [of "\<lambda>x. - int (length (fst x))" xs], of i j] by simp
    with i j show ?thesis by simp
  qed
  with i show ?thesis by (metis nth_mem set_sort)
qed

text \<open>
  The middleware limits a path by the longest configured pattern that is a prefix of it: an
  excluded path has no limit, a path that no pattern matches has the default, and otherwise the
  configuration found belongs to a matching pattern no shorter than any other matching one.
\<close>
theorem get_config_longest_prefix:
  "(case get_config dflt path_limits path of
      None \<Rightarrow> \<exists>p \<in> set excluded_prefixes. starts_with p path
    | Some config \<Rightarrow> (\<forall>p \<in> set excluded_prefixes. \<not> starts_with p path)
        \<and> ((config = dflt \<and> (\<forall>(p, _) \<in> set path_limits. \<not> starts_with p path))
           \<or> (\<exists>p. (p, config) \<in> set path_limits \<and> starts_with p path
                \<and> (\<forall>(q, _) \<in> set path_limits. starts_with q path \<longrightarrow> length q \<le> length p))))"
proof (cases "find (\<lambda>(pattern, _). starts_with pattern path)
    (sort_key (\<lambda>x. - int (length (fst x))) path_limits)")
  case None
  then have "\<forall>(p, _) \<in> set path_limits. \<not> starts_with p path"
    by (auto simp: find_None_iff)
  with None show ?thesis by (simp add: get_config_def)
next
  case (Some y)
  obtain p config where y: "y = (p, config)" by (cases y)
  with find_sorted_longest [OF Some]
  have "(p, config) \<in> set path_limits" and "starts_with p path"
    and "\<forall>(q, _) \<in> set path_limits. starts_with q path \<longrightarrow> length q \<le> length p"
    by auto
  with Some y show ?thesis by (auto simp: get_config_def)
qed

theorem get_config_longest_prefix_witness:
  "get_config default_config [(''/api'', default_config), (''/api/login'', \<lparr>rc_requests = 20, rc_window_seconds = 60\<rparr>)]
     ''/api/login/x'' = Some \<lparr>rc_requests = 20, rc_window_seconds = 60\<rparr>"
proof -
  let ?limits = "[(''/api'', default_config), (''/api/login'', \<lparr>rc_requests = 20, rc_window_seconds = 60\<rparr>)]"
  have "get_config default_config ?limits ''/api/login/x'' \<noteq> None"
    by (simp add: get_config_def excluded_prefixes_def starts_with_def split: option.split)
  then show ?thesis
    using get_config_longest_prefix [where dflt = default_config and path_limits = ?limits
        and path = "''/api/login/x''"]
    by (auto simp: starts_with_def default_config_def)
qed

text \<open>
  A refused request is answered 429 without calling the application and still counts against
  the window; an accepted one gets the application's answer with the two rate headers added and
  nothing else changed; an excluded path leaves the limiter untouched.
\<close>
theorem dispatch_behaviour:
  "(case get_config dflt path_limits (rq_path rq) of
      None \<Rightarrow> dispatch increment key_func dflt path_limits call_next now rq b = (call_next rq, b)
    | Some config \<Rightarrow>
        (let key = ''rl:'' @ key_func rq @ '':'' @ rq_path rq;
             (count, b') = increment now key (of_int (rc_window_seconds config)) b;
             (rs, b'') = dispatch increment key_func dflt path_limits call_next now rq b
         in b'' = b' \<and>
            (if rc_requests config < count
             then rs_status rs = 429 \<and> rs_body rs = RateLimitExceeded (rc_window_seconds config)
             else rs_status rs = rs_status (call_next rq) \<and> rs_body rs = rs_body (call_next rq)
               \<and> (''X-RateLimit-Remaining'', Printed (rc_requests config - count)) \<in> set (rs_headers rs))))"
  by (auto simp: dispatch_def sw_check_def set_header_def Let_def split: option.splits prod.splits)

text \<open>
  \<open>get_ttl\<close> of the in-memory backend, documented as the seconds until the oldest entry
  expires, gives the age of that entry instead: right after a request it is 0 and it grows as the
  entry gets older.
\<close>
theorem mem_ttl_is_age:
  assumes "ws k = None" and "t0 \<le> t"
  shows "mem_get_ttl t k (snd (mem_increment t0 k w ws)) = t - t0"
  using assms by (simp add: mem_get_ttl_def mem_increment_def Let_def)

theorem mem_ttl_is_age_witness:
  "mem_get_ttl 59 ''a'' (snd (mem_increment 0 ''a'' 60 mem_init)) = 59"
  using mem_ttl_is_age [of mem_init "''a''" 0 59 60] by (simp add: mem_init_def)

end
