(* ===== verification/Systems.thy ===== *)
theory Systems
  imports Prelude
begin

section \<open>Interfaces: systems of operations and event handlers\<close>

text \<open>
  Three contracts that components of the platform share, as locales. The operations of a service
  are one function \<open>step\<close> from an operation and a state to the next state; a client sees any
  sequence of them.
  \<^item> \<open>invariant_system\<close>: every operation keeps an invariant.
  \<^item> \<open>monotone_system\<close>: every operation only moves a state forward in an order, which makes it an
    invariant system for \<open>le s0\<close> from any start \<open>s0\<close>.
  \<^item> \<open>idempotent_handler\<close>: what a consumer of an at-least-once bus needs of an event handler.
  The file also holds the payloads of the events that cross service boundaries.
\<close>

locale invariant_system =
  fixes step :: "'op \<Rightarrow> 's \<Rightarrow> 's" and inv :: "'s \<Rightarrow> bool"
  assumes step_inv: "inv s \<Longrightarrow> inv (step op s)"
begin

lemma run_inv: "inv s \<Longrightarrow> inv (fold step ops s)"
  by (induction ops arbitrary: s) (auto intro: step_inv)

end

locale monotone_system =
  fixes step :: "'op \<Rightarrow> 's \<Rightarrow> 's" and le :: "'s \<Rightarrow> 's \<Rightarrow> bool"
  assumes le_refl: "le s s"
    and step_le: "le s0 s \<Longrightarrow> le s0 (step op s)"

sublocale monotone_system \<subseteq> forward: invariant_system step "le s0" for s0
  by unfold_locales (rule step_le)

context monotone_system
begin

lemma run_le: "le s (fold step ops s)"
  by (rule forward.run_inv [OF le_refl])

end

locale idempotent_handler =
  fixes handle :: "'ev \<Rightarrow> 's \<Rightarrow> 's" and view :: "'s \<Rightarrow> 'v" and ready :: "'ev \<Rightarrow> 's \<Rightarrow> bool"
  assumes handle_again: "ready ev s \<Longrightarrow> view (handle ev (handle ev s)) = view (handle ev s)"
    and handle_ready: "ready ev s \<Longrightarrow> ready ev (handle ev s)"
begin

lemma redelivered: "ready ev s \<Longrightarrow> view ((handle ev ^^ Suc n) s) = view (handle ev s)"
proof (induction n arbitrary: s)
  case 0
  then show ?case by simp
next
  case (Suc n)
  have "view ((handle ev ^^ Suc n) (handle ev s)) = view (handle ev (handle ev s))"
    by (rule Suc.IH [OF handle_ready [OF Suc.prems]])
  then show ?case using handle_again [OF Suc.prems] by (simp add: funpow_swap1)
qed

end

subsection \<open>Payloads of the events that cross services\<close>

text \<open>
  A field that the handler reads with \<open>event_data.get\<close> is an option, \<open>None\<close> for a key that is
  not there. \<open>metadata\<close> of \<open>payment.completed\<close> can be missing, null or a dictionary, which
  matters: \<open>.get\<close> of a null raises.
\<close>

record raw_item =
  it_sku_id :: "string option"
  it_product_id :: "string option"
  it_id :: "string option"
  it_quantity :: "int option"
  it_unit_price :: "rat option"
  it_price :: "rat option"
  it_weight_grams :: "int option"

datatype meta_field = Meta_absent | Meta_null | Meta_dict "string option"

record order_created_data =
  oc_order_id :: "string option"
  oc_user_id :: "string option"
  oc_items :: "raw_item list"

record payment_completed_data =
  pc_order_id :: "string option"
  pc_metadata :: meta_field
  pc_user_id :: "string option"

record order_canceled_data =
  ox_order_id :: "string option"
  ox_user_id :: "string option"
  ox_cancellation_reason :: "string option"

type_synonym address = "(string \<times> string) list"

text \<open>Of the metadata of \<open>tax.calculated\<close> only \<open>items\<close> is read; a null dictionary raises.\<close>

datatype tax_meta = Tax_meta_null | Tax_meta_items "raw_item list"

record tax_calculated_data =
  tc_order_id :: "string option"
  tc_user_id :: "string option"
  tc_shipping_address :: "address option"
  tc_metadata :: tax_meta

text \<open>
  \<open>item.get("sku_id") or item.get("product_id") or item.get("id")\<close>, and the order id of a
  payment event: the field itself or, if falsy, the one in its metadata.
\<close>

definition item_sku :: "raw_item \<Rightarrow> string option" where
  "item_sku i = or_str (or_str (it_sku_id i) (it_product_id i)) (it_id i)"

definition payment_order_id :: "payment_completed_data \<Rightarrow> 'x exn + string option" where
  "payment_order_id d =
     (if truthy_str (pc_order_id d) then Inr (pc_order_id d)
      else case pc_metadata d of
             Meta_absent \<Rightarrow> Inr None
           | Meta_null \<Rightarrow> Inl AttributeError
           | Meta_dict oid \<Rightarrow> Inr oid)"

text \<open>A dictionary of metadata, and the length limit of a nullable column.\<close>

type_synonym meta = "(string \<times> string option) list"

definition opt_fits :: "nat \<Rightarrow> string option \<Rightarrow> bool" where
  "opt_fits n x \<longleftrightarrow> (case x of None \<Rightarrow> True | Some t \<Rightarrow> length t \<le> n)"

text \<open>
  A field of an event is \<open>None\<close> when it is missing; an amount may also be something that \<open>Decimal\<close>
  rejects.
\<close>

datatype amount_field = Amount_missing | Amount_bad | Amount rat

definition truthy_amount :: "amount_field \<Rightarrow> bool" where
  "truthy_amount a \<longleftrightarrow> (case a of Amount_missing \<Rightarrow> False | Amount_bad \<Rightarrow> True | Amount q \<Rightarrow> q \<noteq> 0)"

definition opt_all :: "'a option \<Rightarrow> ('a \<Rightarrow> bool) \<Rightarrow> bool" where
  "opt_all x P \<longleftrightarrow> (case x of None \<Rightarrow> True | Some a \<Rightarrow> P a)"

text \<open>\<open>str.strip\<close>: the characters that Python counts as white space below code point 256.\<close>

definition is_space :: "char \<Rightarrow> bool" where
  "is_space c \<longleftrightarrow> (let n = of_char c :: nat in (9 \<le> n \<and> n \<le> 13) \<or> (28 \<le> n \<and> n \<le> 32) \<or> n = 133 \<or> n = 160)"

definition strip :: "string \<Rightarrow> string" where
  "strip t = rev (dropWhile is_space (rev (dropWhile is_space t)))"

text \<open>\<open>str.upper\<close> on ASCII characters.\<close>

definition upper_char :: "char \<Rightarrow> char" where
  "upper_char c = (if 97 \<le> (of_char c :: nat) \<and> (of_char c :: nat) \<le> 122
     then char_of ((of_char c :: nat) - 32) else c)"

text \<open>\<open>str.lower\<close> on ASCII characters.\<close>

definition lower_char :: "char \<Rightarrow> char" where
  "lower_char c = (if 65 \<le> (of_char c :: nat) \<and> (of_char c :: nat) \<le> 90 then char_of ((of_char c :: nat) + 32) else c)"

subsection \<open>Integer columns\<close>

text \<open>A PostgreSQL \<open>INTEGER\<close>.\<close>

definition int4 :: "int \<Rightarrow> bool" where
  "int4 x \<longleftrightarrow> - (2 ^ 31) \<le> x \<and> x < 2 ^ 31"

text \<open>A PostgreSQL \<open>BIGINT\<close>.\<close>

definition int8 :: "int \<Rightarrow> bool" where
  "int8 x \<longleftrightarrow> - (2 ^ 63) \<le> x \<and> x < 2 ^ 63"

subsection \<open>Answers and messages\<close>

text \<open>A service that answers with \<open>success=False\<close> and a message, or with a result.\<close>

datatype 'a answer = Refused string | Done 'a

text \<open>Publishing without looking at what became of it.\<close>

definition tell :: "'ev \<Rightarrow> (('ev, 'z) world_scheme, 'e, unit) io" where
  "tell ev = bnd (publish (Some ev)) (\<lambda>_. ret ())"

lemma tell_calm: "w_script s = [] \<Longrightarrow> tell ev s = (Inr (), s\<lparr>w_events := w_events s @ published (w_bus s) (Some ev)\<rparr>)"
  by (simp add: tell_def bnd_apply publish_calm)

text \<open>
  The bus (\<open>core/nats_client.py\<close>) calls a handler with an \<open>Event\<close> object, which has no method \<open>get\<close>; some
  handlers read a dictionary.
\<close>

datatype 'd bus_message = Event_object 'd | Dictionary 'd

definition read_message :: "'d bus_message \<Rightarrow> ('s, 'x exn, 'd) io" where
  "read_message msg = (case msg of Event_object _ \<Rightarrow> throw AttributeError | Dictionary d \<Rightarrow> ret d)"

lemma preserves_amount [preserve_rules]:
  "(x = Amount_missing \<Longrightarrow> preserves I m) \<Longrightarrow> (x = Amount_bad \<Longrightarrow> preserves I n) \<Longrightarrow> (\<And>q. x = Amount q \<Longrightarrow> preserves I (k q)) \<Longrightarrow>
   preserves I (case x of Amount_missing \<Rightarrow> m | Amount_bad \<Rightarrow> n | Amount q \<Rightarrow> k q)"
  by (cases x) simp_all

lemma preserves_read_message [preserve_rules]: "preserves I (read_message msg)"
  by (simp add: read_message_def preserves_def split: bus_message.split)

end
