(* ===== verification/RateLimitBackend.thy ===== *)
theory RateLimitBackend
  imports RateLimiter Systems
begin

section \<open>Choosing a rate-limit backend, and degrading from Redis to memory\<close>

text \<open>
  \<open>core/rate_limit_backend.py\<close>: which environment variables name the Redis server of a service,
  which backend is built, and the fallback backend, which leaves a failing primary for good. The
  process environment is a map; the Redis client library is an argument (\<open>connect\<close> says whether
  \<open>from_url\<close> succeeds), and the primary backend is a function that may raise.
\<close>

subsection \<open>Which Redis\<close>

text \<open>\<open>str.endswith\<close>; \<open>str.replace\<close> of one character is a map.\<close>

definition ends_with :: "string \<Rightarrow> string \<Rightarrow> bool" where
  "ends_with suf t \<longleftrightarrow> length suf \<le> length t \<and> drop (length t - length suf) t = suf"

definition service_env_prefix :: "string option \<Rightarrow> string option" where
  "service_env_prefix service_name =
     (case service_name of
        None \<Rightarrow> None
      | Some name \<Rightarrow>
          if name = [] then None else
          let base = map (\<lambda>c. if c = CHR ''-'' then CHR ''_'' else c) (map upper_char name);
              base = (if ends_with ''_SERVICE'' base then take (length base - length ''_SERVICE'') base else base)
          in if base = [] then None else Some base)"

definition candidate_env_vars :: "string option \<Rightarrow> string list" where
  "candidate_env_vars service_name =
     (case service_env_prefix service_name of
        None \<Rightarrow> [] | Some prefix \<Rightarrow> [prefix @ ''_RATE_LIMIT_REDIS_URL''])
     @ [''RATE_LIMIT_REDIS_URL'', ''REDIS_URL'']"

fun first_set :: "(string \<rightharpoonup> string) \<Rightarrow> string list \<Rightarrow> string option" where
  "first_set environ [] = None"
| "first_set environ (var # vars) =
     (if truthy_str (environ var) then environ var else first_set environ vars)"

definition resolve_redis_url :: "(string \<rightharpoonup> string) \<Rightarrow> string option \<Rightarrow> string option" where
  "resolve_redis_url environ service_name = first_set environ (candidate_env_vars service_name)"

datatype backend_choice = InMemory | RedisWithFallback string

definition build_rate_limit_backend ::
  "(string \<rightharpoonup> string) \<Rightarrow> (string \<Rightarrow> bool) \<Rightarrow> string option \<Rightarrow> backend_choice" where
  "build_rate_limit_backend environ connect service_name =
     (case resolve_redis_url environ service_name of
        None \<Rightarrow> InMemory
      | Some url \<Rightarrow> if connect url then RedisWithFallback url else InMemory)"

subsection \<open>The fallback backend\<close>

record ('p, 'f) fallback_backend =
  fb_primary :: 'p
  fb_fallback :: 'f
  fb_primary_available :: bool

definition fb_init :: "'p \<Rightarrow> 'f \<Rightarrow> ('p, 'f) fallback_backend" where
  "fb_init p f = \<lparr>fb_primary = p, fb_fallback = f, fb_primary_available = True\<rparr>"

text \<open>
  \<open>_call\<close>: the named method of the primary if it is still available; its first exception trips
  the latch, and this call and all later ones go to the same method of the fallback.
\<close>

definition fb_call ::
  "('p \<Rightarrow> ('e + 'a) \<times> 'p) \<Rightarrow> ('f \<Rightarrow> 'a \<times> 'f) \<Rightarrow> ('p, 'f) fallback_backend
   \<Rightarrow> 'a \<times> ('p, 'f) fallback_backend" where
  "fb_call on_primary on_fallback fb =
     (let use_fallback = (\<lambda>fb. let (a, f') = on_fallback (fb_fallback fb)
                              in (a, fb\<lparr>fb_fallback := f'\<rparr>))
      in if fb_primary_available fb then
           (case on_primary (fb_primary fb) of
              (Inr a, p') \<Rightarrow> (a, fb\<lparr>fb_primary := p'\<rparr>)
            | (Inl e, p') \<Rightarrow> use_fallback (fb\<lparr>fb_primary := p', fb_primary_available := False\<rparr>))
         else use_fallback fb)"

definition fb_increment ::
  "(rat \<Rightarrow> string \<Rightarrow> rat \<Rightarrow> 'p \<Rightarrow> ('e + int) \<times> 'p) \<Rightarrow> rat \<Rightarrow> string \<Rightarrow> rat
   \<Rightarrow> ('p, windows) fallback_backend \<Rightarrow> int \<times> ('p, windows) fallback_backend" where
  "fb_increment primary now key window fb =
     fb_call (primary now key window) (mem_increment now key window) fb"

definition fb_get_ttl ::
  "(string \<Rightarrow> 'p \<Rightarrow> ('e + rat) \<times> 'p) \<Rightarrow> rat \<Rightarrow> string
   \<Rightarrow> ('p, windows) fallback_backend \<Rightarrow> rat \<times> ('p, windows) fallback_backend" where
  "fb_get_ttl primary now key fb =
     fb_call (primary key) (\<lambda>f. (mem_get_ttl now key f, f)) fb"

definition fb_get_count ::
  "(rat \<Rightarrow> string \<Rightarrow> rat \<Rightarrow> 'p \<Rightarrow> ('e + int) \<times> 'p) \<Rightarrow> rat \<Rightarrow> string \<Rightarrow> rat
   \<Rightarrow> ('p, windows) fallback_backend \<Rightarrow> int \<times> ('p, windows) fallback_backend" where
  "fb_get_count primary now key window fb =
     fb_call (primary now key window) (\<lambda>f. (mem_get_count now key window f, f)) fb"

lemmas fb_defs = fb_call_def fb_increment_def fb_get_ttl_def fb_get_count_def

text \<open>The decisions of a counter over the fallback backend, and the backend it ends in.\<close>

fun fb_after ::
  "(rat \<Rightarrow> string \<Rightarrow> rat \<Rightarrow> 'p \<Rightarrow> ('e + int) \<times> 'p) \<Rightarrow> (string \<Rightarrow> rat) \<Rightarrow> (string \<times> rat) list
   \<Rightarrow> ('p, windows) fallback_backend \<Rightarrow> ('p, windows) fallback_backend" where
  "fb_after primary W [] fb = fb"
| "fb_after primary W ((k, t) # rs) fb = fb_after primary W rs (snd (fb_increment primary t k (W k) fb))"

subsection \<open>Degraded mode is the in-memory backend\<close>

text \<open>
  A tripped fallback backend keeps the contract of a window backend: it stands for the history its
  memory part stands for.
\<close>

definition fb_rep ::
  "(string \<Rightarrow> rat) \<Rightarrow> (string \<times> rat) list \<Rightarrow> rat \<Rightarrow> ('p, windows) fallback_backend \<Rightarrow> bool" where
  "fb_rep W h now fb \<longleftrightarrow> \<not> fb_primary_available fb \<and> mem_rep W h now (fb_fallback fb)"

lemma fb_increment_degraded:
  "\<not> fb_primary_available fb \<Longrightarrow> fb_increment primary t k w fb =
     (fst (mem_increment t k w (fb_fallback fb)), fb\<lparr>fb_fallback := snd (mem_increment t k w (fb_fallback fb))\<rparr>)"
  by (simp add: fb_defs Let_def split: prod.split)

interpretation degraded: window_backend "fb_increment primary" fb_rep for primary
proof
  fix W h now t k and b :: "('a, windows) fallback_backend"
  assume rep: "fb_rep W h now b" and le: "now \<le> t"
  show "fst (fb_increment primary t k (W k) b) = int (window_count (W k) (h @ [(k, t)]) (k, t))"
    using rep le by (simp add: fb_rep_def fb_increment_degraded mem_inc_counts [of W h now])
  show "fb_rep W (h @ [(k, t)]) t (snd (fb_increment primary t k (W k) b))"
    using rep le by (simp add: fb_rep_def fb_increment_degraded mem_inc_rep [of W h now])
qed

lemma fb_latched:
  "\<not> fb_primary_available fb \<Longrightarrow>
   \<not> fb_primary_available (fb_after primary W rs fb) \<and> fb_primary (fb_after primary W rs fb) = fb_primary fb"
proof (induction rs arbitrary: fb)
  case Nil
  then show ?case by simp
next
  case (Cons r rs)
  obtain k t where r: "r = (k, t)" by (cases r)
  let ?fb' = "fb\<lparr>fb_fallback := snd (mem_increment t k (W k) (fb_fallback fb))\<rparr>"
  have "fb_after primary W (r # rs) fb = fb_after primary W rs ?fb'"
    by (simp only: r fb_after.simps fb_increment_degraded [OF Cons.prems] snd_conv)
  moreover have "\<not> fb_primary_available ?fb'" using Cons.prems by simp
  ultimately show ?case using Cons.IH [of ?fb'] by simp
qed

subsection \<open>Properties\<close>

text \<open>
  The Redis URL of a service is the value of the first variable that is set and not empty, in
  the documented order: its own variable, the platform-wide one, the generic one; a backend over
  Redis is built exactly when there is one and the client can be constructed.
\<close>
theorem redis_url_priority:
  "resolve_redis_url environ service =
     (let vars = filter (\<lambda>v. truthy_str (environ v)) (candidate_env_vars service)
      in if vars = [] then None else environ (hd vars))
   \<and> (build_rate_limit_backend environ connect service = InMemory \<longleftrightarrow>
       (case resolve_redis_url environ service of None \<Rightarrow> True | Some url \<Rightarrow> \<not> connect url))"
proof -
  have "first_set environ vs =
      (let vars = filter (\<lambda>v. truthy_str (environ v)) vs in if vars = [] then None else environ (hd vars))" for vs
    by (induction vs) auto
  then show ?thesis
    by (auto simp: resolve_redis_url_def build_rate_limit_backend_def Let_def split: option.splits)
qed

text \<open>
  C40. The fallback latches: from the first exception of the primary on, the primary is never
  called again, and every decision after it is the one a limiter with the in-memory backend makes
  on the requests since the failure, the failing one included.
\<close>
theorem fallback_latches_to_memory:
  assumes ok: "fb_primary_available fb" and fails: "primary t k (W k) (fb_primary fb) = (Inl e, p')"
    and empty: "fb_fallback fb = mem_init"
    and cfg: "\<And>k. W k = of_int (rc_window_seconds (cfg k))" "\<And>k. 0 < W k"
    and times: "sorted (t # map snd rs)"
    and fb': "fb' = snd (fb_increment primary t k (W k) fb)"
  shows "sw_run (fb_increment primary) cfg rs fb' = sw_spec cfg [(k, t)] rs
    \<and> fb_primary (fb_after primary W rs fb') = p'
    \<and> \<not> fb_primary_available (fb_after primary W rs fb')"
proof -
  have fb'_eq: "fb' = fb\<lparr>fb_primary := p', fb_primary_available := False,
      fb_fallback := snd (mem_increment t k (W k) mem_init)\<rparr>"
    using ok fails empty by (simp add: fb' fb_defs Let_def split: prod.split)
  have "mem_rep W ([] @ [(k, t)]) t (snd (mem_increment t k (W k) mem_init))"
    using cfg by (intro mem_inc_rep mem_rep_init) auto
  then have "fb_rep W [(k, t)] t fb'" by (simp add: fb_rep_def fb'_eq)
  moreover have "W = (\<lambda>k. of_int (rc_window_seconds (cfg k)))" using cfg(1) by auto
  ultimately have "fb_rep (\<lambda>k. of_int (rc_window_seconds (cfg k))) [(k, t)] t fb'" by simp
  from degraded.run_refines_spec [OF this times]
  have "sw_run (fb_increment primary) cfg rs fb' = sw_spec cfg [(k, t)] rs" .
  moreover have "\<not> fb_primary_available fb'" and "fb_primary fb' = p'" by (simp_all add: fb'_eq)
  ultimately show ?thesis using fb_latched [of fb' primary W rs] by simp
qed

text \<open>A primary that raises at every call, for the witness.\<close>

definition broken_primary :: "rat \<Rightarrow> string \<Rightarrow> rat \<Rightarrow> nat \<Rightarrow> (unit + int) \<times> nat" where
  "broken_primary now key window calls = (Inl (), Suc calls)"

theorem fallback_latches_to_memory_witness:
  "sw_run (fb_increment broken_primary) (\<lambda>_. \<lparr>rc_requests = 2, rc_window_seconds = 10\<rparr>)
     [(''a'', 1), (''a'', 2), (''a'', 20)]
     (snd (fb_increment broken_primary 0 ''a'' 10 (fb_init 0 mem_init))) = [True, False, True]
   \<and> fb_primary (fb_after broken_primary (\<lambda>_. 10) [(''a'', 1), (''a'', 2), (''a'', 20)]
       (snd (fb_increment broken_primary 0 ''a'' 10 (fb_init 0 mem_init)))) = 1"
proof -
  let ?fb = "fb_init 0 mem_init :: (nat, windows) fallback_backend"
  let ?cfg = "\<lambda>_::string. \<lparr>rc_requests = 2, rc_window_seconds = 10\<rparr>"
  let ?rs = "[(''a'', 1), (''a'', 2), (''a'', 20)] :: (string \<times> rat) list"
  let ?fb' = "snd (fb_increment broken_primary 0 ''a'' 10 ?fb)"
  have "sw_run (fb_increment broken_primary) ?cfg ?rs ?fb' = sw_spec ?cfg [(''a'', 0)] ?rs
    \<and> fb_primary (fb_after broken_primary (\<lambda>_. 10) ?rs ?fb') = 1
    \<and> \<not> fb_primary_available (fb_after broken_primary (\<lambda>_. 10) ?rs ?fb')"
    by (rule fallback_latches_to_memory [where fb = ?fb and e = "()" and t = 0 and k = "''a''"])
      (simp_all add: fb_init_def broken_primary_def)
  then show ?thesis by (simp add: window_count_def)
qed

end
