(* ===== verification/InventoryRepo.thy ===== *)
theory InventoryRepo
  imports Systems
begin

section \<open>Inventory: the reservations table\<close>

text \<open>
  \<open>microservices/inventory_service/inventory_repository.py\<close> over the table
  \<open>inventory.reservations\<close> of \<open>migrations\<close>: one row per reservation, \<open>reservation_id\<close> unique, a
  trigger that sets \<open>updated_at\<close>. Each statement of a method is one call to the outside: it
  may raise \<open>DbError\<close> or be refused by the client library. \<open>commit_reservation\<close> and
  \<open>release_reservation\<close> of the repository carry the prefix \<open>repo_\<close>, since the service has
  methods of the same names.
\<close>

datatype reservation_status = ACTIVE | COMMITTED | RELEASED | EXPIRED

record reserved_item =
  rsv_sku_id :: string
  rsv_quantity :: int
  rsv_unit_price :: "rat option"

datatype inv_event =
    StockReserved string string string "reserved_item list" int "string option"
  | StockCommitted string string string "reserved_item list" "string option"
  | StockReleased string string string "reserved_item list" "string option" "string option"
  | StockFailed string string "raw_item list" string "unit exn"

record reservation =
  rv_id :: string
  rv_order_id :: string
  rv_user_id :: "string option"
  rv_items :: "raw_item list"
  rv_status :: reservation_status
  rv_expires_at :: int
  rv_created_at :: int
  rv_updated_at :: int
  rv_committed_at :: "int option"
  rv_released_at :: "int option"

record inv_state = "inv_event world" +
  reservations :: "reservation list"

type_synonym 'a inv_io = "(inv_state, unit exn, 'a) io"

subsection \<open>The methods\<close>

definition insert_reservation :: "reservation \<Rightarrow> unit inv_io" where
  "insert_reservation row =
     (\<lambda>s. if rv_id row \<in> rv_id ` set (reservations s) then (Inl DbError, s)
          else (Inr (), s\<lparr>reservations := reservations s @ [row]\<rparr>))"

definition repo_get_reservation :: "string \<Rightarrow> reservation option inv_io" where
  "repo_get_reservation rid =
     bnd (external DbError) (\<lambda>ok.
       if ok then gets (\<lambda>s. row_by rv_id rid (reservations s)) else ret None)"

definition create_reservation ::
  "string \<Rightarrow> string option \<Rightarrow> raw_item list \<Rightarrow> int \<Rightarrow> reservation option inv_io" where
  "create_reservation order_id user_id items expires_in_minutes =
     bnd (fresh_hex 12) (\<lambda>hex. bnd (gets now_us) (\<lambda>now.
       let rid = ''res_'' @ hex;
           row = \<lparr>rv_id = rid, rv_order_id = order_id, rv_user_id = user_id, rv_items = items,
                  rv_status = ACTIVE, rv_expires_at = now + expires_in_minutes * us_per_minute,
                  rv_created_at = now, rv_updated_at = now, rv_committed_at = None,
                  rv_released_at = None\<rparr>
       in bnd (external DbError) (\<lambda>ok.
            bnd (if ok then insert_reservation row else ret ()) (\<lambda>_.
              repo_get_reservation rid))))"

definition get_reservation_by_order ::
  "string \<Rightarrow> reservation_status option \<Rightarrow> reservation option inv_io" where
  "get_reservation_by_order order_id status =
     bnd (external DbError) (\<lambda>ok. if ok then
       gets (\<lambda>s. first_row (order_desc rv_created_at
         (filter (\<lambda>r. rv_order_id r = order_id \<and> (case status of None \<Rightarrow> True | Some st \<Rightarrow> rv_status r = st))
           (reservations s))))
       else ret None)"

definition get_active_reservation_for_order :: "string \<Rightarrow> reservation option inv_io" where
  "get_active_reservation_for_order order_id = get_reservation_by_order order_id (Some ACTIVE)"

definition set_committed :: "string \<Rightarrow> int \<Rightarrow> reservation list \<Rightarrow> reservation list" where
  "set_committed rid now = update_where (\<lambda>r. rv_id r = rid \<and> rv_status r = ACTIVE)
     (\<lambda>r. r\<lparr>rv_status := COMMITTED, rv_committed_at := Some now, rv_updated_at := now\<rparr>)"

definition set_released :: "string \<Rightarrow> int \<Rightarrow> reservation list \<Rightarrow> reservation list" where
  "set_released rid now = update_where (\<lambda>r. rv_id r = rid \<and> rv_status r = ACTIVE)
     (\<lambda>r. r\<lparr>rv_status := RELEASED, rv_released_at := Some now, rv_updated_at := now\<rparr>)"

definition repo_commit_reservation :: "string \<Rightarrow> reservation option inv_io" where
  "repo_commit_reservation rid =
     bnd (gets now_us) (\<lambda>now. bnd (external DbError) (\<lambda>ok.
       bnd (if ok then modify (\<lambda>s. s\<lparr>reservations := set_committed rid now (reservations s)\<rparr>) else ret ())
         (\<lambda>_. repo_get_reservation rid)))"

definition repo_release_reservation :: "string \<Rightarrow> reservation option inv_io" where
  "repo_release_reservation rid =
     bnd (gets now_us) (\<lambda>now. bnd (external DbError) (\<lambda>ok.
       bnd (if ok then modify (\<lambda>s. s\<lparr>reservations := set_released rid now (reservations s)\<rparr>) else ret ())
         (\<lambda>_. repo_get_reservation rid)))"

text \<open>PostgreSQL rejects a negative \<open>LIMIT\<close> or \<open>OFFSET\<close>; a falsy filter is left out.\<close>

definition list_reservations ::
  "int \<Rightarrow> int \<Rightarrow> string option \<Rightarrow> string option \<Rightarrow> reservation_status option \<Rightarrow> reservation list inv_io" where
  "list_reservations limit offset order_id user_id status =
     bnd (external DbError) (\<lambda>ok.
       if \<not> ok then ret []
       else if limit < 0 \<or> offset < 0 then throw DbError
       else gets (\<lambda>s. take (nat limit) (drop (nat offset) (order_desc rv_created_at
         (filter (\<lambda>r. (truthy_str order_id \<longrightarrow> Some (rv_order_id r) = order_id)
                    \<and> (truthy_str user_id \<longrightarrow> rv_user_id r = user_id)
                    \<and> (case status of None \<Rightarrow> True | Some st \<Rightarrow> rv_status r = st)) (reservations s))))))"

lemmas inv_repo_defs = insert_reservation_def repo_get_reservation_def create_reservation_def
  get_reservation_by_order_def get_active_reservation_for_order_def repo_commit_reservation_def
  repo_release_reservation_def list_reservations_def

subsection \<open>The table only moves forward\<close>

text \<open>
  \<open>inv_le s0 s\<close>: every reservation of \<open>s0\<close> is still in \<open>s\<close>, for the same order, user and items,
  and if it had left \<open>ACTIVE\<close>, it is the very same row.
\<close>

definition row_le :: "reservation \<Rightarrow> reservation \<Rightarrow> bool" where
  "row_le r r' \<longleftrightarrow> rv_id r' = rv_id r \<and> rv_order_id r' = rv_order_id r \<and> rv_user_id r' = rv_user_id r
     \<and> rv_items r' = rv_items r \<and> rv_created_at r' = rv_created_at r \<and> rv_expires_at r' = rv_expires_at r
     \<and> (rv_status r \<noteq> ACTIVE \<longrightarrow> r' = r)"

definition inv_le :: "inv_state \<Rightarrow> inv_state \<Rightarrow> bool" where
  "inv_le s0 s \<longleftrightarrow> (\<forall>r \<in> set (reservations s0). \<exists>r' \<in> set (reservations s). row_le r r')"

definition inv_unique :: "inv_state \<Rightarrow> bool" where
  "inv_unique s \<longleftrightarrow> unique_key rv_id (reservations s)"

lemma row_le_refl [simp]: "row_le r r"
  by (simp add: row_le_def)

lemma row_le_trans: "row_le a b \<Longrightarrow> row_le b c \<Longrightarrow> row_le a c"
  by (auto simp: row_le_def)

lemma inv_le_refl [simp]: "inv_le s s"
  unfolding inv_le_def using row_le_refl by blast

lemma inv_le_world [simp]:
  "inv_le s0 (s\<lparr>w_script := sc\<rparr>) = inv_le s0 s" "inv_le s0 (s\<lparr>w_events := es\<rparr>) = inv_le s0 s"
  "inv_le s0 (s\<lparr>w_uuid_next := k\<rparr>) = inv_le s0 s"
  by (simp_all add: inv_le_def)

lemma inv_unique_world [simp]:
  "inv_unique (s\<lparr>w_script := sc\<rparr>) = inv_unique s" "inv_unique (s\<lparr>w_events := es\<rparr>) = inv_unique s"
  "inv_unique (s\<lparr>w_uuid_next := k\<rparr>) = inv_unique s"
  by (simp_all add: inv_unique_def)

lemma inv_le_update_where:
  assumes "inv_le s0 s" and "\<And>r. P r \<Longrightarrow> rv_status r = ACTIVE" and "\<And>r. rv_status r = ACTIVE \<Longrightarrow> row_le r (f r)"
  shows "inv_le s0 (s\<lparr>reservations := update_where P f (reservations s)\<rparr>)"
  unfolding inv_le_def
proof
  fix r assume "r \<in> set (reservations s0)"
  then obtain r' where r': "r' \<in> set (reservations s)" "row_le r r'"
    using assms(1) by (auto simp: inv_le_def)
  let ?r'' = "if P r' then f r' else r'"
  have "row_le r' ?r''" using assms(2,3) by auto
  then have "row_le r ?r''" by (rule row_le_trans [OF r'(2)])
  moreover have "?r'' \<in> set (update_where P f (reservations s))"
    using r' by (auto simp: set_update_where)
  ultimately show "\<exists>r' \<in> set (reservations (s\<lparr>reservations := update_where P f (reservations s)\<rparr>)). row_le r r'"
    by auto
qed

lemma inv_le_set_status [simp]:
  "inv_le s0 s \<Longrightarrow> inv_le s0 (s\<lparr>reservations := set_committed rid now (reservations s)\<rparr>)"
  "inv_le s0 s \<Longrightarrow> inv_le s0 (s\<lparr>reservations := set_released rid now (reservations s)\<rparr>)"
  by (auto simp: set_committed_def set_released_def row_le_def intro!: inv_le_update_where)

lemma inv_unique_set_status [simp]:
  "inv_unique (s\<lparr>reservations := set_committed rid now (reservations s)\<rparr>) = inv_unique s"
  "inv_unique (s\<lparr>reservations := set_released rid now (reservations s)\<rparr>) = inv_unique s"
  by (simp_all add: inv_unique_def set_committed_def set_released_def unique_key_update_where)

lemma insert_le [preserve_rules]: "preserves (inv_le s0) (insert_reservation row)"
  by (force simp: preserves_def insert_reservation_def inv_le_def)

lemma insert_unique [preserve_rules]: "preserves inv_unique (insert_reservation row)"
  by (auto simp: preserves_def insert_reservation_def inv_unique_def unique_key_append)

lemma inv_world_preserve [preserve_rules]:
  "preserves (inv_le s0) (external e)" "preserves (inv_le s0) (fresh_hex n)" "preserves (inv_le s0) (publish ev)"
  "preserves inv_unique (external e)" "preserves inv_unique (fresh_hex n)" "preserves inv_unique (publish ev)"
  by (auto intro!: preserves_external preserves_fresh_hex preserves_publish)

lemma set_status_preserve [preserve_rules]:
  "preserves (inv_le s0) (modify (\<lambda>s. s\<lparr>reservations := set_committed rid now (reservations s)\<rparr>))"
  "preserves (inv_le s0) (modify (\<lambda>s. s\<lparr>reservations := set_released rid now (reservations s)\<rparr>))"
  "preserves inv_unique (modify (\<lambda>s. s\<lparr>reservations := set_committed rid now (reservations s)\<rparr>))"
  "preserves inv_unique (modify (\<lambda>s. s\<lparr>reservations := set_released rid now (reservations s)\<rparr>))"
  by (auto intro!: preserves_modify)

lemma inv_repo_le [preserve_rules]:
  "preserves (inv_le s0) (create_reservation oid uid items m)"
  "preserves (inv_le s0) (repo_get_reservation rid)"
  "preserves (inv_le s0) (get_reservation_by_order oid st)"
  "preserves (inv_le s0) (get_active_reservation_for_order oid)"
  "preserves (inv_le s0) (repo_commit_reservation rid)"
  "preserves (inv_le s0) (repo_release_reservation rid)"
  unfolding inv_repo_defs(2-7) Let_def by (intro preserve_rules)+

lemma inv_repo_unique [preserve_rules]:
  "preserves inv_unique (create_reservation oid uid items m)"
  "preserves inv_unique (repo_get_reservation rid)"
  "preserves inv_unique (get_reservation_by_order oid st)"
  "preserves inv_unique (get_active_reservation_for_order oid)"
  "preserves inv_unique (repo_commit_reservation rid)"
  "preserves inv_unique (repo_release_reservation rid)"
  unfolding inv_repo_defs(2-7) Let_def by (intro preserve_rules)+

end
