(* ===== verification/InventoryService.thy ===== *)
theory InventoryService
  imports InventoryRepo
begin

section \<open>Inventory: the reservation lifecycle and its event handlers\<close>

text \<open>
  \<open>microservices/inventory_service/inventory_service.py\<close> (the HTTP API) and
  \<open>events/handlers.py\<close> (the bus). A publisher whose event model lacks a required field
  (\<open>user_id\<close>) publishes nothing, so an optional user id becomes an optional event. The
  \<open>timestamp\<close> that event models default to is left out.
\<close>

subsection \<open>Item models\<close>

text \<open>\<open>ReservedItem(**item)\<close>: \<open>sku_id\<close> and \<open>quantity\<close> are required, other keys are ignored.\<close>

definition reserved_item_of :: "raw_item \<Rightarrow> unit exn + reserved_item" where
  "reserved_item_of i =
     (case (it_sku_id i, it_quantity i) of
        (Some sku, Some q) \<Rightarrow> Inr \<lparr>rsv_sku_id = sku, rsv_quantity = q, rsv_unit_price = it_unit_price i\<rparr>
      | _ \<Rightarrow> Inl ValidationError)"

fun reserved_items_of :: "raw_item list \<Rightarrow> unit exn + reserved_item list" where
  "reserved_items_of [] = Inr []"
| "reserved_items_of (i # is) =
     (case reserved_item_of i of
        Inl e \<Rightarrow> Inl e
      | Inr x \<Rightarrow> (case reserved_items_of is of Inl e \<Rightarrow> Inl e | Inr xs \<Rightarrow> Inr (x # xs)))"

definition build_reserved_item :: "raw_item \<Rightarrow> reserved_item option" where
  "build_reserved_item i =
     (case item_sku i of
        Some sku \<Rightarrow>
          if sku = [] then None
          else Some \<lparr>rsv_sku_id = sku,
                     rsv_quantity = (case it_quantity i of None \<Rightarrow> 1 | Some q \<Rightarrow> q),
                     rsv_unit_price = or_num (it_unit_price i) (it_price i)\<rparr>
      | None \<Rightarrow> None)"

definition build_reserved_items :: "raw_item list \<Rightarrow> reserved_item list" where
  "build_reserved_items items = List.map_filter build_reserved_item items"

text \<open>The dictionary that \<open>handle_order_created\<close> stores for an item it could reserve.\<close>

definition db_item :: "reserved_item \<Rightarrow> raw_item" where
  "db_item x = \<lparr>it_sku_id = Some (rsv_sku_id x), it_product_id = None, it_id = None,
     it_quantity = Some (rsv_quantity x), it_unit_price = rsv_unit_price x, it_price = None,
     it_weight_grams = None\<rparr>"

subsection \<open>The service\<close>

record reserve_response =
  rr_reservation_id :: string
  rr_status :: reservation_status
  rr_expires_at :: int

record settle_response =
  sr_order_id :: string
  sr_reservation_id :: "string option"
  sr_status :: reservation_status
  sr_message :: "string option"

definition reserve_inventory ::
  "string \<Rightarrow> raw_item list \<Rightarrow> string \<Rightarrow> reserve_response inv_io" where
  "reserve_inventory order_id items user_id =
     (if order_id = [] \<or> items = [] then throw (ValueError ''order_id and items are required'')
      else bnd (create_reservation order_id (Some user_id) items 30) (\<lambda>res.
        case res of
          None \<Rightarrow> throw TypeError
        | Some r \<Rightarrow>
            let reserved = build_reserved_items items in
            bnd (if reserved = [] then ret False
                 else publish (Some (StockReserved order_id (rv_id r) user_id reserved (rv_expires_at r) None)))
              (\<lambda>_. ret \<lparr>rr_reservation_id = rv_id r, rr_status = ACTIVE, rr_expires_at = rv_expires_at r\<rparr>)))"

definition find_reservation :: "string \<Rightarrow> string option \<Rightarrow> reservation option inv_io" where
  "find_reservation order_id reservation_id =
     bnd (if truthy_str reservation_id then repo_get_reservation (the reservation_id) else ret None)
       (\<lambda>res. case res of
          None \<Rightarrow> get_active_reservation_for_order order_id
        | Some r \<Rightarrow> ret (Some r))"

definition commit_reservation :: "string \<Rightarrow> string option \<Rightarrow> settle_response inv_io" where
  "commit_reservation order_id reservation_id =
     (if order_id = [] then throw (ValueError ''order_id is required'')
      else bnd (find_reservation order_id reservation_id) (\<lambda>res.
        case res of
          None \<Rightarrow> throw (LookupError ''No active reservation found'')
        | Some r \<Rightarrow>
            bnd (repo_commit_reservation (rv_id r)) (\<lambda>_.
            bnd (lift_sum (reserved_items_of (rv_items r))) (\<lambda>reserved.
            bnd (publish (map_option (\<lambda>u. StockCommitted order_id (rv_id r) u reserved None) (rv_user_id r)))
              (\<lambda>_. ret \<lparr>sr_order_id = order_id, sr_reservation_id = Some (rv_id r),
                        sr_status = COMMITTED, sr_message = None\<rparr>)))))"

definition release_reservation :: "string \<Rightarrow> string option \<Rightarrow> string \<Rightarrow> settle_response inv_io" where
  "release_reservation order_id reservation_id reason =
     (if order_id = [] then throw (ValueError ''order_id is required'')
      else bnd (find_reservation order_id reservation_id) (\<lambda>res.
        case res of
          None \<Rightarrow> ret \<lparr>sr_order_id = order_id, sr_reservation_id = None, sr_status = RELEASED,
                       sr_message = Some ''No active reservation found''\<rparr>
        | Some r \<Rightarrow>
            bnd (repo_release_reservation (rv_id r)) (\<lambda>_.
            bnd (lift_sum (reserved_items_of (rv_items r))) (\<lambda>reserved.
            bnd (publish (map_option (\<lambda>u. StockReleased order_id (rv_id r) u reserved (Some reason) None)
                    (rv_user_id r)))
              (\<lambda>_. ret \<lparr>sr_order_id = order_id, sr_reservation_id = Some (rv_id r),
                        sr_status = RELEASED, sr_message = None\<rparr>)))))"

definition get_reservation :: "string \<Rightarrow> reservation option inv_io" where
  "get_reservation order_id = get_reservation_by_order order_id None"

subsection \<open>The event handlers\<close>

definition inv_handle_order_created :: "order_created_data \<Rightarrow> unit inv_io" where
  "inv_handle_order_created d =
     catch
       (case (oc_order_id d, oc_items d) of
          (Some order_id, items) \<Rightarrow>
            if order_id = [] \<or> items = [] then ret ()
            else
              let reserved = build_reserved_items items;
                  items_for_db = map db_item reserved
              in if reserved = [] then
                   bnd (publish (map_option (\<lambda>u. StockFailed order_id u items ''NO_VALID_ITEMS''
                          (Generic ''No valid items to reserve'')) (oc_user_id d))) (\<lambda>_. ret ())
                 else
                   bnd (create_reservation order_id (oc_user_id d) items_for_db 30) (\<lambda>res.
                     case res of
                       None \<Rightarrow> throw TypeError
                     | Some r \<Rightarrow>
                         bnd (publish (map_option (\<lambda>u. StockReserved order_id (rv_id r) u reserved
                                (rv_expires_at r) (Some ''order.created'')) (oc_user_id d))) (\<lambda>_. ret ()))
        | (None, _) \<Rightarrow> ret ())
       (\<lambda>e. bnd (publish (Some (StockFailed
                (case oc_order_id d of None \<Rightarrow> ''unknown'' | Some oid \<Rightarrow> oid)
                (case oc_user_id d of None \<Rightarrow> ''unknown'' | Some u \<Rightarrow> u)
                (oc_items d) ''RESERVATION_ERROR'' e))) (\<lambda>_. ret ()))"

definition inv_handle_payment_completed :: "payment_completed_data \<Rightarrow> unit inv_io" where
  "inv_handle_payment_completed d =
     catch
       (bnd (lift_sum (payment_order_id d)) (\<lambda>oid.
          if \<not> truthy_str oid then ret ()
          else let order_id = the oid in
            bnd (get_active_reservation_for_order order_id) (\<lambda>res.
              case res of
                None \<Rightarrow> ret ()
              | Some r \<Rightarrow>
                  bnd (repo_commit_reservation (rv_id r)) (\<lambda>_.
                  bnd (lift_sum (reserved_items_of (rv_items r))) (\<lambda>reserved.
                  bnd (publish (map_option (\<lambda>u. StockCommitted order_id (rv_id r) u reserved
                         (Some ''payment.completed'')) (or_str (pc_user_id d) (rv_user_id r))))
                    (\<lambda>_. ret ()))))))
       (\<lambda>_. ret ())"

definition inv_handle_order_canceled :: "order_canceled_data \<Rightarrow> unit inv_io" where
  "inv_handle_order_canceled d =
     catch
       (if \<not> truthy_str (ox_order_id d) then ret ()
        else let order_id = the (ox_order_id d) in
          bnd (get_active_reservation_for_order order_id) (\<lambda>res.
            case res of
              None \<Rightarrow> ret ()
            | Some r \<Rightarrow>
                bnd (repo_release_reservation (rv_id r)) (\<lambda>_.
                bnd (lift_sum (reserved_items_of (rv_items r))) (\<lambda>reserved.
                bnd (publish (map_option (\<lambda>u. StockReleased order_id (rv_id r) u reserved
                       (or_str (ox_cancellation_reason d) (Some ''order_canceled''))
                       (Some ''order.canceled'')) (or_str (ox_user_id d) (rv_user_id r))))
                  (\<lambda>_. ret ())))))
       (\<lambda>_. ret ())"

lemmas inv_service_defs = reserve_inventory_def find_reservation_def commit_reservation_def
  release_reservation_def get_reservation_def inv_handle_order_created_def
  inv_handle_payment_completed_def inv_handle_order_canceled_def

text \<open>Everything the outside can ask of the service, and its effect on the state.\<close>

datatype inv_op =
    Reserve string "raw_item list" string
  | Commit string "string option"
  | Release string "string option" string
  | Query string
  | On_order_created order_created_data
  | On_payment_completed payment_completed_data
  | On_order_canceled order_canceled_data
  | Inv_clock datetime

definition inv_step :: "inv_op \<Rightarrow> inv_state \<Rightarrow> inv_state" where
  "inv_step op =
     (case op of
        Reserve oid items uid \<Rightarrow> after (reserve_inventory oid items uid)
      | Commit oid rid \<Rightarrow> after (commit_reservation oid rid)
      | Release oid rid reason \<Rightarrow> after (release_reservation oid rid reason)
      | Query oid \<Rightarrow> after (get_reservation oid)
      | On_order_created d \<Rightarrow> after (inv_handle_order_created d)
      | On_payment_completed d \<Rightarrow> after (inv_handle_payment_completed d)
      | On_order_canceled d \<Rightarrow> after (inv_handle_order_canceled d)
      | Inv_clock d \<Rightarrow> (\<lambda>s. s\<lparr>w_now := d\<rparr>))"

subsection \<open>Every operation moves the table forward and keeps the ids unique\<close>

lemma inv_service_le [preserve_rules]:
  "preserves (inv_le s0) (reserve_inventory oid items uid)"
  "preserves (inv_le s0) (find_reservation oid rid)"
  "preserves (inv_le s0) (commit_reservation oid rid)"
  "preserves (inv_le s0) (release_reservation oid rid reason)"
  "preserves (inv_le s0) (get_reservation oid)"
  "preserves (inv_le s0) (inv_handle_order_created d1)"
  "preserves (inv_le s0) (inv_handle_payment_completed d2)"
  "preserves (inv_le s0) (inv_handle_order_canceled d3)"
  unfolding inv_service_defs Let_def by (intro preserve_rules)+

lemma inv_service_unique [preserve_rules]:
  "preserves inv_unique (reserve_inventory oid items uid)"
  "preserves inv_unique (find_reservation oid rid)"
  "preserves inv_unique (commit_reservation oid rid)"
  "preserves inv_unique (release_reservation oid rid reason)"
  "preserves inv_unique (get_reservation oid)"
  "preserves inv_unique (inv_handle_order_created d1)"
  "preserves inv_unique (inv_handle_payment_completed d2)"
  "preserves inv_unique (inv_handle_order_canceled d3)"
  unfolding inv_service_defs Let_def by (intro preserve_rules)+

lemma inv_clock [simp]:
  "inv_le s0 (s\<lparr>w_now := d\<rparr>) = inv_le s0 s" "inv_unique (s\<lparr>w_now := d\<rparr>) = inv_unique s"
  by (simp_all add: inv_le_def inv_unique_def)

interpretation inventory: monotone_system inv_step inv_le
  by unfold_locales
    (auto simp: inv_step_def split: inv_op.split intro: preserves_after preserve_rules)

interpretation inventory_ids: invariant_system inv_step inv_unique
  by unfold_locales
    (auto simp: inv_step_def split: inv_op.split intro: preserves_after preserve_rules)

end
