(* ===== verification/InventoryTheorems.thy ===== *)
theory InventoryTheorems
  imports InventoryService
begin

section \<open>Inventory: properties\<close>

text \<open>
  What the reservation lifecycle promises, for all failure scripts where the property is a safety
  property, and on a calm environment where it says what a call achieves.
\<close>

subsection \<open>What the handlers do to the table when nothing fails\<close>

definition active_for :: "string \<Rightarrow> reservation list \<Rightarrow> reservation list" where
  "active_for oid rows = filter (\<lambda>r. rv_order_id r = oid \<and> rv_status r = ACTIVE) rows"

definition newest_active :: "string \<Rightarrow> reservation list \<Rightarrow> reservation option" where
  "newest_active oid rows = first_row (order_desc rv_created_at (active_for oid rows))"

definition settle_table ::
  "(string \<Rightarrow> int \<Rightarrow> reservation list \<Rightarrow> reservation list) \<Rightarrow> string option \<Rightarrow> int \<Rightarrow> reservation list
   \<Rightarrow> reservation list" where
  "settle_table set_status oid now rows =
     (if truthy_str oid then
        case newest_active (the oid) rows of None \<Rightarrow> rows | Some r \<Rightarrow> set_status (rv_id r) now rows
      else rows)"

lemmas inv_eval = inv_repo_defs inv_service_defs bnd_apply catch_apply after_def

lemma get_active_calm:
  "w_script s = [] \<Longrightarrow> get_active_reservation_for_order oid s = (Inr (newest_active oid (reservations s)), s)"
  by (simp add: inv_repo_defs bnd_apply newest_active_def active_for_def)

lemma repo_settle_calm:
  assumes "w_script s = []"
  shows "repo_commit_reservation rid s =
      (Inr (row_by rv_id rid (set_committed rid (now_us s) (reservations s))),
       s\<lparr>reservations := set_committed rid (now_us s) (reservations s)\<rparr>)"
    and "repo_release_reservation rid s =
      (Inr (row_by rv_id rid (set_released rid (now_us s) (reservations s))),
       s\<lparr>reservations := set_released rid (now_us s) (reservations s)\<rparr>)"
  using assms by (simp_all add: inv_repo_defs bnd_apply)

lemma inv_handle_order_canceled_calm:
  assumes "w_script s = []"
  shows "reservations (after (inv_handle_order_canceled d) s)
           = settle_table set_released (ox_order_id d) (now_us s) (reservations s)
       \<and> w_script (after (inv_handle_order_canceled d) s) = []
       \<and> w_now (after (inv_handle_order_canceled d) s) = w_now s"
  using assms
  by (simp add: inv_handle_order_canceled_def settle_table_def after_def catch_apply bnd_apply get_active_calm
      repo_settle_calm publish_calm Let_def split: option.split sum.split)

definition payment_target :: "payment_completed_data \<Rightarrow> string option" where
  "payment_target d = (case payment_order_id d :: unit exn + string option of Inl _ \<Rightarrow> None | Inr oid \<Rightarrow> oid)"

lemma inv_handle_payment_completed_calm:
  assumes "w_script s = []"
  shows "reservations (after (inv_handle_payment_completed d) s)
           = settle_table set_committed (payment_target d) (now_us s) (reservations s)
       \<and> w_script (after (inv_handle_payment_completed d) s) = []
       \<and> w_now (after (inv_handle_payment_completed d) s) = w_now s"
  using assms
  by (simp add: inv_handle_payment_completed_def payment_target_def settle_table_def after_def catch_apply
      bnd_apply get_active_calm repo_settle_calm publish_calm Let_def split: option.split sum.split)

definition new_row :: "inv_state \<Rightarrow> string \<Rightarrow> string option \<Rightarrow> raw_item list \<Rightarrow> reservation" where
  "new_row s oid uid items =
     \<lparr>rv_id = ''res_'' @ take 12 (w_uuid s (w_uuid_next s)), rv_order_id = oid, rv_user_id = uid,
      rv_items = items, rv_status = ACTIVE, rv_expires_at = now_us s + 30 * us_per_minute,
      rv_created_at = now_us s, rv_updated_at = now_us s, rv_committed_at = None, rv_released_at = None\<rparr>"

lemma create_reservation_calm:
  assumes "w_script s = []" and "rv_id (new_row s oid uid items) \<notin> rv_id ` set (reservations s)"
  shows "create_reservation oid uid items 30 s =
    (Inr (Some (new_row s oid uid items)),
     s\<lparr>reservations := reservations s @ [new_row s oid uid items], w_uuid_next := Suc (w_uuid_next s)\<rparr>)"
proof -
  have "row_by rv_id (rv_id (new_row s oid uid items)) (reservations s @ [new_row s oid uid items])
      = Some (new_row s oid uid items)"
    by (rule row_by_append_new [OF assms(2)])
  with assms show ?thesis
    by (simp add: create_reservation_def repo_get_reservation_def insert_reservation_def bnd_apply
        fresh_hex_def new_row_def now_us_def Let_def)
qed

lemma inv_handle_order_created_calm:
  assumes "w_script s = []" and "oc_order_id d = Some oid" and "oid \<noteq> []"
    and reserved: "reserved = build_reserved_items (oc_items d)" and "reserved \<noteq> []"
    and row: "row = new_row s oid (oc_user_id d) (map db_item reserved)"
    and "rv_id row \<notin> rv_id ` set (reservations s)"
  shows "after (inv_handle_order_created d) s =
    s\<lparr>reservations := reservations s @ [row], w_uuid_next := Suc (w_uuid_next s),
      w_events := w_events s @ published (w_bus s) (map_option (\<lambda>u. StockReserved oid (rv_id row) u
        reserved (rv_expires_at row) (Some ''order.created'')) (oc_user_id d))\<rparr>"
proof -
  have ne: "oc_items d \<noteq> []" using assms(4,5) by (auto simp: build_reserved_items_def map_filter_simps)
  have create: "create_reservation oid (oc_user_id d) (map db_item reserved) 30 s =
      (Inr (Some row), s\<lparr>reservations := reservations s @ [row], w_uuid_next := Suc (w_uuid_next s)\<rparr>)"
    unfolding row by (rule create_reservation_calm) (use assms(1,7) row in simp_all)
  show ?thesis
    by (simp add: inv_handle_order_created_def Let_def reserved [symmetric] after_def catch_apply bnd_apply
        create publish_calm assms(1-3) \<open>reserved \<noteq> []\<close> ne)
qed

subsection \<open>Counting the active reservations of an order\<close>

lemma newest_active_in: "newest_active oid rows = Some r \<Longrightarrow> r \<in> set (active_for oid rows)"
  unfolding newest_active_def using first_row_in by fastforce

lemma newest_active_None: "newest_active oid rows = None \<longleftrightarrow> active_for oid rows = []"
  by (simp add: newest_active_def)

lemma active_for_set_status:
  "active_for oid (set_committed rid now rows) = filter (\<lambda>r. rv_id r \<noteq> rid) (active_for oid rows)"
  "active_for oid (set_released rid now rows) = filter (\<lambda>r. rv_id r \<noteq> rid) (active_for oid rows)"
  by (induction rows) (auto simp: active_for_def set_committed_def set_released_def update_where_def)

lemma active_after_settle:
  assumes "unique_key rv_id rows" and "newest_active oid rows = Some r"
  shows "length (filter (\<lambda>x. rv_id x \<noteq> rv_id r) (active_for oid rows)) + 1 = length (active_for oid rows)"
proof -
  have r: "r \<in> set (active_for oid rows)" using assms(2) by (rule newest_active_in)
  have u: "distinct (map rv_id (active_for oid rows))"
    using assms(1) by (simp add: unique_key_def active_for_def distinct_map_filter)
  from length_filter_other_key [OF u r] show ?thesis by simp
qed


lemma settle_none_active:
  assumes "truthy_str oid" and "length (active_for (the oid) rows) \<le> 1"
    and "set_status = set_committed \<or> set_status = set_released"
  shows "active_for (the oid) (settle_table set_status oid now rows) = []"
proof (cases "newest_active (the oid) rows")
  case None
  then have "active_for (the oid) rows = []" by (simp add: newest_active_None)
  with None assms(1) show ?thesis by (simp add: settle_table_def)
next
  case (Some r)
  then have "r \<in> set (active_for (the oid) rows)" by (rule newest_active_in)
  with assms(2) have "active_for (the oid) rows = [r]"
    by (cases "active_for (the oid) rows") auto
  with assms Some show ?thesis by (auto simp: settle_table_def active_for_set_status)
qed

lemma settle_again:
  "active_for (the oid) rows = [] \<Longrightarrow> settle_table set_status oid now rows = rows"
  by (simp add: settle_table_def newest_active_None [THEN iffD2])

lemma settle_twice:
  assumes "length (active_for (the oid) rows) \<le> 1"
    and "set_status = set_committed \<or> set_status = set_released"
  shows "settle_table set_status oid now' (settle_table set_status oid now rows)
    = settle_table set_status oid now rows"
proof (cases "truthy_str oid")
  case True
  then show ?thesis using settle_none_active [OF True assms] by (simp add: settle_again)
next
  case False
  then show ?thesis by (simp add: settle_table_def)
qed

lemma settle_active_le:
  assumes "set_status = set_committed \<or> set_status = set_released"
  shows "length (active_for oid (settle_table set_status oid' now rows)) \<le> length (active_for oid rows)"
  using assms
  by (auto simp: settle_table_def active_for_set_status length_filter_le split: option.split)

text \<open>Both settling handlers keep the contract of a consumer on an at-least-once bus.\<close>

definition calm_single :: "string option \<Rightarrow> inv_state \<Rightarrow> bool" where
  "calm_single oid s \<longleftrightarrow> w_script s = [] \<and> length (active_for (the oid) (reservations s)) \<le> 1"

interpretation cancel_consumer: idempotent_handler
  "\<lambda>d. after (inv_handle_order_canceled d)" reservations "\<lambda>d. calm_single (ox_order_id d)"
proof
  fix d :: order_canceled_data and s assume "calm_single (ox_order_id d) s"
  then have sc: "w_script s = []" and one: "length (active_for (the (ox_order_id d)) (reservations s)) \<le> 1"
    by (simp_all add: calm_single_def)
  let ?s' = "after (inv_handle_order_canceled d) s"
  from inv_handle_order_canceled_calm [OF sc, of d] show "reservations (after (inv_handle_order_canceled d) ?s') = reservations ?s'"
    by (simp add: inv_handle_order_canceled_calm settle_twice [OF one])
  have "length (active_for (the (ox_order_id d)) (reservations ?s')) \<le> length (active_for (the (ox_order_id d)) (reservations s))"
    using inv_handle_order_canceled_calm [OF sc, of d] by (simp add: settle_active_le)
  with one inv_handle_order_canceled_calm [OF sc, of d] show "calm_single (ox_order_id d) ?s'"
    by (simp add: calm_single_def)
qed

interpretation payment_consumer: idempotent_handler
  "\<lambda>d. after (inv_handle_payment_completed d)" reservations "\<lambda>d. calm_single (payment_target d)"
proof
  fix d :: payment_completed_data and s assume "calm_single (payment_target d) s"
  then have sc: "w_script s = []" and one: "length (active_for (the (payment_target d)) (reservations s)) \<le> 1"
    by (simp_all add: calm_single_def)
  let ?s' = "after (inv_handle_payment_completed d) s"
  from inv_handle_payment_completed_calm [OF sc, of d] show "reservations (after (inv_handle_payment_completed d) ?s') = reservations ?s'"
    by (simp add: inv_handle_payment_completed_calm settle_twice [OF one])
  have "length (active_for (the (payment_target d)) (reservations ?s')) \<le> length (active_for (the (payment_target d)) (reservations s))"
    using inv_handle_payment_completed_calm [OF sc, of d] by (simp add: settle_active_le)
  with one inv_handle_payment_completed_calm [OF sc, of d] show "calm_single (payment_target d) ?s'"
    by (simp add: calm_single_def)
qed

subsection \<open>A concrete world, for the witnesses\<close>

definition some_day :: datetime where
  "some_day = \<lparr>dt_year = 2026, dt_month = 2, dt_day = 4, dt_us = 3600000000\<rparr>"

definition hex_of :: "nat \<Rightarrow> string" where
  "hex_of k = replicate k (CHR ''a'') @ ''0123456789abcdef''"

definition inv_empty :: inv_state where
  "inv_empty = \<lparr>w_now = some_day, w_uuid = hex_of, w_uuid_next = 0, w_script = [], w_bus = True,
     w_events = [], reservations = []\<rparr>"

definition widget :: raw_item where
  "widget = \<lparr>it_sku_id = None, it_product_id = Some ''widget'', it_id = None, it_quantity = Some 2,
     it_unit_price = Some 5, it_price = None, it_weight_grams = None\<rparr>"

definition order_1 :: order_created_data where
  "order_1 = \<lparr>oc_order_id = Some ''order_1'', oc_user_id = Some ''u1'', oc_items = [widget]\<rparr>"

definition cancel_1 :: order_canceled_data where
  "cancel_1 = \<lparr>ox_order_id = Some ''order_1'', ox_user_id = Some ''u1'', ox_cancellation_reason = None\<rparr>"

definition payment_1 :: payment_completed_data where
  "payment_1 = \<lparr>pc_order_id = None, pc_metadata = Meta_dict (Some ''order_1''), pc_user_id = Some ''u1''\<rparr>"

lemmas inv_examples = some_day_def hex_of_def inv_empty_def widget_def order_1_def cancel_1_def payment_1_def

subsection \<open>Properties\<close>

text \<open>
  C2. A reservation is never lost and never rewritten: whatever requests and events arrive and
  however calls to the database and the bus fail in between, a reservation keeps its order, user,
  items and expiry under its unique id, and once it is committed, released or expired the row does
  not change any more.
\<close>
theorem reservation_is_final:
  assumes "inv_unique s" and "r \<in> set (reservations s)"
  shows "\<exists>r'. row_by rv_id (rv_id r) (reservations (fold inv_step ops s)) = Some r' \<and> row_le r r'"
proof -
  obtain r' where r': "r' \<in> set (reservations (fold inv_step ops s))" "row_le r r'"
    using inventory.run_le [of s ops] assms(2) by (auto simp: inv_le_def)
  have "inv_unique (fold inv_step ops s)" by (rule inventory_ids.run_inv [OF assms(1)])
  with r' have "row_by rv_id (rv_id r) (reservations (fold inv_step ops s)) = Some r'"
    by (metis inv_unique_def row_by_unique row_le_def)
  with r'(2) show ?thesis by blast
qed

theorem reservation_is_final_witness:
  "\<exists>r'. row_by rv_id ''res_1'' (reservations (fold inv_step [Commit ''o'' (Some ''res_1''), On_order_canceled cancel_1]
      (inv_empty\<lparr>reservations := [\<lparr>rv_id = ''res_1'', rv_order_id = ''o'', rv_user_id = None, rv_items = [],
        rv_status = RELEASED, rv_expires_at = 9, rv_created_at = 1, rv_updated_at = 1, rv_committed_at = None,
        rv_released_at = Some 1\<rparr>]\<rparr>))) = Some r' \<and> rv_status r' = RELEASED"
proof -
  let ?r = "\<lparr>rv_id = ''res_1'', rv_order_id = ''o'', rv_user_id = None, rv_items = [],
        rv_status = RELEASED, rv_expires_at = 9, rv_created_at = 1, rv_updated_at = 1, rv_committed_at = None,
        rv_released_at = Some 1\<rparr>"
  let ?s = "inv_empty\<lparr>reservations := [?r]\<rparr>"
  have "inv_unique ?s" and "?r \<in> set (reservations ?s)" by (simp_all add: inv_unique_def unique_key_def)
  from reservation_is_final [OF this, of "[Commit ''o'' (Some ''res_1''), On_order_canceled cancel_1]"]
  show ?thesis by (auto simp: row_le_def)
qed

text \<open>
  The three event handlers never raise into the event loop: whatever the payload, the state
  and the failures of the database and of the bus, they return.
\<close>
theorem inv_handlers_never_raise:
  "never_raises (inv_handle_order_created d1) \<and> never_raises (inv_handle_payment_completed d2)
   \<and> never_raises (inv_handle_order_canceled d3)"
  unfolding inv_handle_order_created_def inv_handle_payment_completed_def inv_handle_order_canceled_def
  by (intro conjI never_raises_catch never_raises_bnd never_raises_publish never_raises_ret)

text \<open>
  Delivering \<open>order.canceled\<close> any number of times has the effect of delivering it once, when the
  order has at most one active reservation; afterwards the order has none.
\<close>
theorem cancel_redelivery_idempotent:
  assumes "w_script s = []" and "ox_order_id d = Some oid" and "oid \<noteq> []"
    and "length (active_for oid (reservations s)) \<le> 1"
  shows "reservations ((after (inv_handle_order_canceled d) ^^ Suc n) s)
           = reservations (after (inv_handle_order_canceled d) s)
    \<and> active_for oid (reservations (after (inv_handle_order_canceled d) s)) = []"
proof -
  have "calm_single (ox_order_id d) s" using assms by (simp add: calm_single_def)
  moreover have "active_for oid (reservations (after (inv_handle_order_canceled d) s)) = []"
    using inv_handle_order_canceled_calm [of s d] settle_none_active [of "Some oid" "reservations s" set_released]
      assms by simp
  ultimately show ?thesis using cancel_consumer.redelivered by blast
qed

theorem cancel_redelivery_idempotent_witness:
  "reservations ((after (inv_handle_order_canceled cancel_1) ^^ Suc 4) (after (inv_handle_order_created order_1) inv_empty))
     = reservations (after (inv_handle_order_canceled cancel_1) (after (inv_handle_order_created order_1) inv_empty))
   \<and> active_for ''order_1'' (reservations (after (inv_handle_order_canceled cancel_1)
       (after (inv_handle_order_created order_1) inv_empty))) = []"
proof -
  let ?s = "after (inv_handle_order_created order_1) inv_empty"
  have "w_script ?s = []" and "length (active_for ''order_1'' (reservations ?s)) \<le> 1"
    by code_simp+
  then show ?thesis
    by (intro cancel_redelivery_idempotent) (simp_all add: cancel_1_def)
qed


lemma reserved_items_roundtrip: "reserved_items_of (map db_item xs) = Inr xs"
  by (induction xs) (simp_all add: reserved_item_of_def db_item_def)

lemma newest_active_snoc_only:
  "active_for oid rows = [] \<Longrightarrow> rv_order_id r = oid \<Longrightarrow> rv_status r = ACTIVE \<Longrightarrow>
   newest_active oid (rows @ [r]) = Some r"
  by (simp add: newest_active_def active_for_def order_desc_def first_row_def)

lemma inv_handle_payment_completed_found:
  assumes "w_script s = []" and "payment_target d = Some oid" and "oid \<noteq> []"
    and "newest_active oid (reservations s) = Some r" and "reserved_items_of (rv_items r) = Inr reserved"
  shows "after (inv_handle_payment_completed d) s =
    s\<lparr>reservations := set_committed (rv_id r) (now_us s) (reservations s),
      w_events := w_events s @ published (w_bus s) (map_option (\<lambda>u. StockCommitted oid (rv_id r) u reserved
        (Some ''payment.completed'')) (or_str (pc_user_id d) (rv_user_id r)))\<rparr>"
proof -
  have "payment_order_id d = (Inr (Some oid) :: unit exn + string option)"
    using assms(2) by (auto simp: payment_target_def split: sum.splits)
  with assms show ?thesis
    by (simp add: inv_handle_payment_completed_def after_def catch_apply bnd_apply get_active_calm
        repo_settle_calm publish_calm Let_def)
qed

text \<open>
  The path of an order through the bus: \<open>order.created\<close> and then \<open>payment.completed\<close> leave one
  more row, committed at the time of the payment, that holds exactly the items that could be
  reserved, and publish \<open>inventory.reserved\<close> and \<open>inventory.committed\<close> with those same items.
\<close>
theorem created_then_paid:
  assumes calm: "w_script s = []" "w_bus s"
    and order: "oc_order_id d = Some oid" "oid \<noteq> []" "oc_user_id d = Some u" "u \<noteq> []"
    and reserved: "reserved = build_reserved_items (oc_items d)" "reserved \<noteq> []"
    and fresh: "active_for oid (reservations s) = []" "rv_id row \<notin> rv_id ` set (reservations s)"
    and row: "row = new_row s oid (Some u) (map db_item reserved)"
    and pay: "payment_target p = Some oid" "pc_user_id p = Some u"
    and s': "s' = after (inv_handle_payment_completed p) (after (inv_handle_order_created d) s)"
  shows "reservations s' = reservations s @
      [row\<lparr>rv_status := COMMITTED, rv_committed_at := Some (now_us s), rv_updated_at := now_us s\<rparr>]
    \<and> w_events s' = w_events s @
        [StockReserved oid (rv_id row) u reserved (rv_expires_at row) (Some ''order.created''),
         StockCommitted oid (rv_id row) u reserved (Some ''payment.completed'')]"
proof -
  have s1: "after (inv_handle_order_created d) s =
    s\<lparr>reservations := reservations s @ [row], w_uuid_next := Suc (w_uuid_next s),
      w_events := w_events s @ [StockReserved oid (rv_id row) u reserved (rv_expires_at row) (Some ''order.created'')]\<rparr>"
    (is "_ = ?s1")
    using inv_handle_order_created_calm [OF calm(1) order(1,2) reserved, of row] order row fresh(2) calm(2) by simp
  have "newest_active oid (reservations ?s1) = Some row"
    using fresh(1) row by (simp add: newest_active_snoc_only new_row_def)
  moreover have "reserved_items_of (rv_items row) = Inr reserved"
    using row by (simp add: new_row_def reserved_items_roundtrip)
  ultimately have "s' = ?s1\<lparr>reservations := set_committed (rv_id row) (now_us s) (reservations s @ [row]),
      w_events := w_events ?s1 @ [StockCommitted oid (rv_id row) u reserved (Some ''payment.completed'')]\<rparr>"
    using inv_handle_payment_completed_found [of ?s1 p oid row reserved] calm pay order
    by (simp add: s' s1 or_str_def now_us_def)
  moreover have "set_committed (rv_id row) (now_us s) (reservations s @ [row]) = reservations s @
      [row\<lparr>rv_status := COMMITTED, rv_committed_at := Some (now_us s), rv_updated_at := now_us s\<rparr>]"
    using fresh(2) row by (auto simp: set_committed_def update_where_def new_row_def image_iff intro!: map_idI)
  ultimately show ?thesis by simp
qed

theorem created_then_paid_witness:
  "map rv_status (reservations (after (inv_handle_payment_completed payment_1)
     (after (inv_handle_order_created order_1) inv_empty))) = [COMMITTED]"
proof -
  let ?s' = "after (inv_handle_payment_completed payment_1) (after (inv_handle_order_created order_1) inv_empty)"
  let ?reserved = "build_reserved_items [widget]"
  have "reservations ?s' = reservations inv_empty @
      [new_row inv_empty ''order_1'' (Some ''u1'') (map db_item ?reserved)
         \<lparr>rv_status := COMMITTED, rv_committed_at := Some (now_us inv_empty), rv_updated_at := now_us inv_empty\<rparr>]"
    by (rule conjunct1 [OF created_then_paid [where d = order_1 and u = "''u1''" and p = payment_1
          and reserved = ?reserved]])
      (simp_all add: inv_examples active_for_def payment_target_def payment_order_id_def build_reserved_items_def
        build_reserved_item_def item_sku_def or_str_def map_filter_simps)
  then show ?thesis by (simp add: inv_empty_def)
qed

text \<open>
  A commit by reservation id does not look at the status it finds: for a reservation that was
  already released it changes nothing in the table, and yet answers \<open>committed\<close> and publishes
  \<open>inventory.committed\<close>.
\<close>
theorem commit_of_released_reports_committed:
  assumes "w_script s = []" and "w_bus s" and "oid \<noteq> []" and "rid \<noteq> []"
    and "row_by rv_id rid (reservations s) = Some r" and "rv_status r = RELEASED"
    and "rv_user_id r = Some u" and "reserved_items_of (rv_items r) = Inr reserved"
    and "inv_unique s"
  shows "commit_reservation oid (Some rid) s =
    (Inr \<lparr>sr_order_id = oid, sr_reservation_id = Some rid, sr_status = COMMITTED, sr_message = None\<rparr>,
     s\<lparr>w_events := w_events s @ [StockCommitted oid rid u reserved None]\<rparr>)"
proof -
  have rid: "rv_id r = rid" and r: "r \<in> set (reservations s)"
    using assms(5) row_by_Some by metis+
  have "x = r" if "x \<in> set (reservations s)" "rv_id x = rid" for x
    using row_by_unique [of rv_id "reservations s" x] assms(5,9) that by (simp add: inv_unique_def)
  then have "set_committed rid (now_us s) (reservations s) = reservations s"
    using assms(6) by (auto simp: set_committed_def intro!: update_where_none)
  then show ?thesis using assms rid
    by (simp add: commit_reservation_def find_reservation_def repo_get_reservation_def bnd_apply
        repo_settle_calm publish_calm)
qed

definition released_row :: reservation where
  "released_row = \<lparr>rv_id = ''res_1'', rv_order_id = ''o'', rv_user_id = Some ''u1'',
     rv_items = [db_item \<lparr>rsv_sku_id = ''w'', rsv_quantity = 1, rsv_unit_price = None\<rparr>],
     rv_status = RELEASED, rv_expires_at = 9, rv_created_at = 1, rv_updated_at = 1, rv_committed_at = None,
     rv_released_at = Some 1\<rparr>"

theorem commit_of_released_reports_committed_witness:
  "fst (commit_reservation ''o'' (Some ''res_1'') (inv_empty\<lparr>reservations := [released_row]\<rparr>)) =
    Inr \<lparr>sr_order_id = ''o'', sr_reservation_id = Some ''res_1'', sr_status = COMMITTED, sr_message = None\<rparr>"
  by (subst commit_of_released_reports_committed [where r = released_row and u = "''u1''"
        and reserved = "[\<lparr>rsv_sku_id = ''w'', rsv_quantity = 1, rsv_unit_price = None\<rparr>]"])
    (simp_all add: inv_empty_def row_by_def released_row_def reserved_item_of_def db_item_def inv_unique_def unique_key_def)

text \<open>
  The API stores the items as they were sent and validates them only when the reservation is
  settled: for an item with a \<open>product_id\<close> but no \<open>sku_id\<close>, reserving succeeds, and committing the
  reservation afterwards writes \<open>committed\<close> to the table and then raises, so the caller sees an
  error and nothing is published.
\<close>
theorem commit_raises_after_write:
  assumes "w_script s = []" and "oid \<noteq> []"
    and "newest_active oid (reservations s) = Some r" and "reserved_items_of (rv_items r) = Inl e"
  shows "commit_reservation oid None s =
    (Inl e, s\<lparr>reservations := set_committed (rv_id r) (now_us s) (reservations s)\<rparr>)"
  using assms
  by (simp add: commit_reservation_def find_reservation_def bnd_apply get_active_calm repo_settle_calm)

theorem commit_raises_after_write_witness:
  "let s = after (reserve_inventory ''o'' [widget] ''u1'') inv_empty
   in fst (commit_reservation ''o'' None s) = Inl ValidationError
    \<and> map rv_status (reservations (snd (commit_reservation ''o'' None s))) = [COMMITTED]"
proof -
  let ?s = "after (reserve_inventory ''o'' [widget] ''u1'') inv_empty"
  have "reservations ?s = [new_row inv_empty ''o'' (Some ''u1'') [widget]]" and sc: "w_script ?s = []"
    by (simp_all add: reserve_inventory_def after_def bnd_apply create_reservation_calm inv_empty_def publish_calm Let_def)
  moreover from this have "newest_active ''o'' (reservations ?s) = Some (new_row inv_empty ''o'' (Some ''u1'') [widget])"
    by (simp add: newest_active_def active_for_def new_row_def order_desc_def first_row_def)
  ultimately show ?thesis
    using commit_raises_after_write [OF sc, of "''o''" "new_row inv_empty ''o'' (Some ''u1'') [widget]" ValidationError]
    by (simp add: Let_def new_row_def reserved_item_of_def widget_def set_committed_def update_where_def)
qed

text \<open>
  \<open>order.created\<close> is not idempotent: delivered twice it makes two active reservations, and the
  one \<open>order.canceled\<close> of the order releases only one of them, so one more reservation stays
  active than before the order existed.
\<close>
theorem created_twice_leaks:
  assumes calm: "w_script s = []" and "inv_unique s"
    and order: "oc_order_id d = Some oid" "oid \<noteq> []" "build_reserved_items (oc_items d) \<noteq> []"
    and cancel: "ox_order_id c = Some oid"
    and fresh: "hex1 = take 12 (w_uuid s (w_uuid_next s))" "hex2 = take 12 (w_uuid s (Suc (w_uuid_next s)))"
      "hex1 \<noteq> hex2" "''res_'' @ hex1 \<notin> rv_id ` set (reservations s)" "''res_'' @ hex2 \<notin> rv_id ` set (reservations s)"
    and s': "s' = after (inv_handle_order_canceled c)
        (after (inv_handle_order_created d) (after (inv_handle_order_created d) s))"
  shows "length (active_for oid (reservations s')) = Suc (length (active_for oid (reservations s)))"
proof -
  let ?row = "\<lambda>s. new_row s oid (oc_user_id d) (map db_item (build_reserved_items (oc_items d)))"
  let ?s1 = "after (inv_handle_order_created d) s"
  let ?s2 = "after (inv_handle_order_created d) ?s1"
  note created = inv_handle_order_created_calm [OF _ order(1,2) refl order(3) refl]
  have s1: "reservations ?s1 = reservations s @ [?row s]" "w_script ?s1 = []" "w_uuid ?s1 = w_uuid s"
    "w_uuid_next ?s1 = Suc (w_uuid_next s)"
    using created [of s] calm fresh by (simp_all add: new_row_def)
  have s2: "reservations ?s2 = reservations s @ [?row s, ?row ?s1]" "w_script ?s2 = []"
    using created [of ?s1] s1 fresh by (simp_all add: new_row_def)
  have u: "unique_key rv_id (reservations ?s2)"
    using s2 fresh assms(2) s1 by (auto simp: inv_unique_def unique_key_def new_row_def)
  have act: "length (active_for oid (reservations ?s2)) = length (active_for oid (reservations s)) + 2"
    by (simp add: s2 active_for_def new_row_def)
  then obtain r where r: "newest_active oid (reservations ?s2) = Some r"
    using newest_active_None [of oid "reservations ?s2"] by (cases "newest_active oid (reservations ?s2)") auto
  have "reservations s' = set_released (rv_id r) (now_us ?s2) (reservations ?s2)"
    using inv_handle_order_canceled_calm [OF s2(2), of c] r cancel order by (simp add: s' settle_table_def)
  then show ?thesis
    using active_after_settle [OF u r] act by (simp add: active_for_set_status)
qed

theorem created_twice_leaks_witness:
  "length (active_for ''order_1'' (reservations (after (inv_handle_order_canceled cancel_1)
     (after (inv_handle_order_created order_1) (after (inv_handle_order_created order_1) inv_empty)))))
   = Suc (length (active_for ''order_1'' (reservations inv_empty)))"
  by (rule created_twice_leaks [OF _ _ _ _ _ _ refl refl _ _ _ refl])
    (simp_all add: inv_examples inv_unique_def unique_key_def build_reserved_items_def
        build_reserved_item_def item_sku_def or_str_def map_filter_simps)

end
