(* ===== verification/FulfillmentRepo.thy ===== *)
theory FulfillmentRepo
  imports Systems
begin

section \<open>Fulfillment: the shipments table\<close>

text \<open>
  \<open>microservices/fulfillment_service/fulfillment_repository.py\<close> over the table
  \<open>fulfillment.shipments\<close>: \<open>shipment_id\<close> unique, a trigger that sets \<open>updated_at\<close>. The
  repository's \<open>create_shipment\<close>, \<open>create_label\<close>, \<open>cancel_shipment\<close> and lookups carry the prefix
  \<open>repo_\<close>. The metadata written with a shipment is either the estimate of the tax handler or
  nothing.
\<close>

datatype shipment_status = CREATED | LABEL_PURCHASED | IN_TRANSIT | DELIVERED | FAILED

record shipment_item =
  si_sku_id :: string
  si_quantity :: int
  si_weight_grams :: "int option"

datatype shipment_meta = No_meta | Prepared_meta int string

datatype ful_event =
    ShipmentPrepared string string string "shipment_item list" address "int option" "string option"
  | LabelCreated string string string string string "string option" int "string option"
  | ShipmentCanceled string string string "string option" bool "string option"
  | ShipmentFailed string string "unit exn" string

record shipment =
  sh_id :: string
  sh_order_id :: string
  sh_user_id :: "string option"
  sh_items :: "raw_item list"
  sh_shipping_address :: address
  sh_carrier :: "string option"
  sh_tracking_number :: "string option"
  sh_status :: shipment_status
  sh_label_url :: "string option"
  sh_estimated_delivery :: "int option"
  sh_created_at :: int
  sh_updated_at :: int
  sh_label_created_at :: "int option"
  sh_shipped_at :: "int option"
  sh_delivered_at :: "int option"
  sh_canceled_at :: "int option"
  sh_cancellation_reason :: "string option"
  sh_metadata :: shipment_meta

record ful_state = "ful_event world" +
  shipments :: "shipment list"

type_synonym 'a ful_io = "(ful_state, unit exn, 'a) io"

subsection \<open>The methods\<close>

definition insert_shipment :: "shipment \<Rightarrow> unit ful_io" where
  "insert_shipment row =
     (\<lambda>s. if sh_id row \<in> sh_id ` set (shipments s) then (Inl DbError, s)
          else (Inr (), s\<lparr>shipments := shipments s @ [row]\<rparr>))"

definition repo_get_shipment :: "string \<Rightarrow> shipment option ful_io" where
  "repo_get_shipment sid =
     bnd (external DbError) (\<lambda>ok. if ok then gets (\<lambda>s. row_by sh_id sid (shipments s)) else ret None)"

definition repo_create_shipment ::
  "string \<Rightarrow> string option \<Rightarrow> raw_item list \<Rightarrow> address \<Rightarrow> string option \<Rightarrow> string option
   \<Rightarrow> shipment_status \<Rightarrow> shipment_meta \<Rightarrow> shipment option ful_io" where
  "repo_create_shipment order_id user_id items addr carrier tracking status meta =
     bnd (fresh_hex 12) (\<lambda>hex. bnd (gets now_us) (\<lambda>now.
       let sid = ''shp_'' @ hex;
           row = \<lparr>sh_id = sid, sh_order_id = order_id, sh_user_id = user_id, sh_items = items,
                  sh_shipping_address = addr, sh_carrier = carrier, sh_tracking_number = tracking,
                  sh_status = status, sh_label_url = None, sh_estimated_delivery = None,
                  sh_created_at = now, sh_updated_at = now, sh_label_created_at = None,
                  sh_shipped_at = None, sh_delivered_at = None, sh_canceled_at = None,
                  sh_cancellation_reason = None, sh_metadata = meta\<rparr>
       in bnd (external DbError) (\<lambda>ok.
            bnd (if ok then insert_shipment row else ret ()) (\<lambda>_. repo_get_shipment sid))))"

definition repo_get_shipment_by_order :: "string \<Rightarrow> shipment option ful_io" where
  "repo_get_shipment_by_order order_id =
     bnd (external DbError) (\<lambda>ok. if ok then
       gets (\<lambda>s. first_row (order_desc sh_created_at (filter (\<lambda>r. sh_order_id r = order_id) (shipments s))))
       else ret None)"

definition repo_get_shipment_by_tracking :: "string \<Rightarrow> shipment option ful_io" where
  "repo_get_shipment_by_tracking tracking =
     bnd (external DbError) (\<lambda>ok. if ok then
       gets (\<lambda>s. find (\<lambda>r. sh_tracking_number r = Some tracking) (shipments s)) else ret None)"

text \<open>
  The \<open>SET\<close> clause that \<open>update_shipment\<close> assembles: falsy arguments are left out, and some
  statuses also set their lifecycle timestamp.
\<close>

definition set_status :: "int \<Rightarrow> shipment_status option \<Rightarrow> shipment \<Rightarrow> shipment" where
  "set_status now status r =
     (case status of
        None \<Rightarrow> r
      | Some st \<Rightarrow>
          (let r1 = r\<lparr>sh_status := st\<rparr> in
           if st = LABEL_PURCHASED then r1\<lparr>sh_label_created_at := Some now\<rparr>
           else if st = IN_TRANSIT then r1\<lparr>sh_shipped_at := Some now\<rparr>
           else if st = DELIVERED then r1\<lparr>sh_delivered_at := Some now\<rparr>
           else r1))"

definition set_fields ::
  "string option \<Rightarrow> string option \<Rightarrow> string option \<Rightarrow> int option \<Rightarrow> shipment_meta \<Rightarrow> shipment \<Rightarrow> shipment" where
  "set_fields carrier tracking label_url estimated meta r =
     (let r1 = (if truthy_str carrier then r\<lparr>sh_carrier := carrier\<rparr> else r);
          r2 = (if truthy_str tracking then r1\<lparr>sh_tracking_number := tracking\<rparr> else r1);
          r3 = (if truthy_str label_url then r2\<lparr>sh_label_url := label_url\<rparr> else r2);
          r4 = (if estimated \<noteq> None then r3\<lparr>sh_estimated_delivery := estimated\<rparr> else r3)
      in if meta \<noteq> No_meta then r4\<lparr>sh_metadata := meta\<rparr> else r4)"

definition update_shipment ::
  "string \<Rightarrow> shipment_status option \<Rightarrow> string option \<Rightarrow> string option \<Rightarrow> string option \<Rightarrow> int option
   \<Rightarrow> shipment_meta \<Rightarrow> shipment option ful_io" where
  "update_shipment sid status carrier tracking label_url estimated meta =
     bnd (gets now_us) (\<lambda>now.
       if status = None \<and> \<not> truthy_str carrier \<and> \<not> truthy_str tracking \<and> \<not> truthy_str label_url
          \<and> estimated = None \<and> meta = No_meta
       then repo_get_shipment sid
       else bnd (external DbError) (\<lambda>ok.
         bnd (if ok then modify (\<lambda>s. s\<lparr>shipments := update_where (\<lambda>r. sh_id r = sid)
                (\<lambda>r. (set_fields carrier tracking label_url estimated meta (set_status now status r))
                       \<lparr>sh_updated_at := now\<rparr>) (shipments s)\<rparr>) else ret ())
           (\<lambda>_. repo_get_shipment sid)))"

definition repo_create_label :: "string \<Rightarrow> string \<Rightarrow> string \<Rightarrow> string option \<Rightarrow> shipment option ful_io" where
  "repo_create_label sid carrier tracking label_url =
     update_shipment sid (Some LABEL_PURCHASED) (Some carrier) (Some tracking) label_url None No_meta"

definition set_canceled :: "string \<Rightarrow> string option \<Rightarrow> int \<Rightarrow> shipment list \<Rightarrow> shipment list" where
  "set_canceled sid reason now = update_where (\<lambda>r. sh_id r = sid)
     (\<lambda>r. r\<lparr>sh_status := FAILED, sh_canceled_at := Some now,
            sh_cancellation_reason := or_str reason (Some ''manual_cancellation''), sh_updated_at := now\<rparr>)"

definition repo_cancel_shipment :: "string \<Rightarrow> string option \<Rightarrow> shipment option ful_io" where
  "repo_cancel_shipment sid reason =
     bnd (gets now_us) (\<lambda>now. bnd (external DbError) (\<lambda>ok.
       bnd (if ok then modify (\<lambda>s. s\<lparr>shipments := set_canceled sid reason now (shipments s)\<rparr>) else ret ())
         (\<lambda>_. repo_get_shipment sid)))"

definition list_shipments ::
  "int \<Rightarrow> int \<Rightarrow> string option \<Rightarrow> string option \<Rightarrow> shipment_status option \<Rightarrow> shipment list ful_io" where
  "list_shipments limit offset order_id user_id status =
     bnd (external DbError) (\<lambda>ok.
       if \<not> ok then ret []
       else if limit < 0 \<or> offset < 0 then throw DbError
       else gets (\<lambda>s. take (nat limit) (drop (nat offset) (order_desc sh_created_at
         (filter (\<lambda>r. (truthy_str order_id \<longrightarrow> Some (sh_order_id r) = order_id)
                    \<and> (truthy_str user_id \<longrightarrow> sh_user_id r = user_id)
                    \<and> (case status of None \<Rightarrow> True | Some st \<Rightarrow> sh_status r = st)) (shipments s))))))"

lemmas ful_repo_defs = repo_get_shipment_def repo_create_shipment_def repo_get_shipment_by_order_def
  repo_get_shipment_by_tracking_def update_shipment_def repo_create_label_def repo_cancel_shipment_def

subsection \<open>The table invariant\<close>

text \<open>
  What every row says about itself: only the three statuses the service sets, a label time with
  every bought label, a cancellation time and reason with every canceled shipment.
\<close>

definition shipment_ok :: "shipment \<Rightarrow> bool" where
  "shipment_ok r \<longleftrightarrow> sh_status r \<in> {CREATED, LABEL_PURCHASED, FAILED}
     \<and> (sh_status r = LABEL_PURCHASED \<longrightarrow> sh_label_created_at r \<noteq> None)
     \<and> (sh_status r = FAILED \<longrightarrow> sh_canceled_at r \<noteq> None \<and> truthy_str (sh_cancellation_reason r))"

definition ful_ok :: "ful_state \<Rightarrow> bool" where
  "ful_ok s \<longleftrightarrow> unique_key sh_id (shipments s) \<and> (\<forall>r \<in> set (shipments s). shipment_ok r)"

lemma ful_ok_world [simp]:
  "ful_ok (s\<lparr>w_script := sc\<rparr>) = ful_ok s" "ful_ok (s\<lparr>w_events := es\<rparr>) = ful_ok s"
  "ful_ok (s\<lparr>w_uuid_next := k\<rparr>) = ful_ok s"
  by (simp_all add: ful_ok_def)

lemma set_fields_frame [simp]:
  "sh_id (set_fields c t l e m r) = sh_id r" "sh_status (set_fields c t l e m r) = sh_status r"
  "sh_label_created_at (set_fields c t l e m r) = sh_label_created_at r"
  "sh_canceled_at (set_fields c t l e m r) = sh_canceled_at r"
  "sh_cancellation_reason (set_fields c t l e m r) = sh_cancellation_reason r"
  "sh_order_id (set_fields c t l e m r) = sh_order_id r"
  by (simp_all add: set_fields_def Let_def)

lemma set_status_frame [simp]:
  "sh_id (set_status now st r) = sh_id r" "sh_order_id (set_status now st r) = sh_order_id r"
  "sh_status (set_status now (Some x) r) = x"
  by (auto simp: set_status_def Let_def split: option.split)

lemma ful_ok_update:
  assumes "ful_ok s" and "\<And>r. sh_id (f r) = sh_id r" and "\<And>r. shipment_ok r \<Longrightarrow> shipment_ok (f r)"
  shows "ful_ok (s\<lparr>shipments := update_where P f (shipments s)\<rparr>)"
  using assms by (auto simp: ful_ok_def unique_key_update_where set_update_where)

lemma ful_world_preserve [preserve_rules]:
  "preserves ful_ok (external e)" "preserves ful_ok (fresh_hex n)" "preserves ful_ok (publish ev)"
  by (auto intro!: preserves_external preserves_fresh_hex preserves_publish)

lemma insert_shipment_ok: "shipment_ok row \<Longrightarrow> preserves ful_ok (insert_shipment row)"
  by (auto simp: preserves_def insert_shipment_def ful_ok_def unique_key_append)

lemma set_canceled_ok [preserve_rules]:
  "preserves ful_ok (modify (\<lambda>s. s\<lparr>shipments := set_canceled sid reason now (shipments s)\<rparr>))"
  unfolding set_canceled_def
  by (intro preserves_modify ful_ok_update) (auto simp: shipment_ok_def or_str_def)

lemma set_label_ok [preserve_rules]:
  "preserves ful_ok (modify (\<lambda>s. s\<lparr>shipments := update_where (\<lambda>r. sh_id r = sid)
     (\<lambda>r. (set_fields c t l e m (set_status now (Some LABEL_PURCHASED) r))\<lparr>sh_updated_at := now\<rparr>)
     (shipments s)\<rparr>))"
  by (intro preserves_modify ful_ok_update) (auto simp: shipment_ok_def set_status_def)

lemma ful_repo_ok [preserve_rules]:
  "preserves ful_ok (repo_get_shipment sid)"
  "preserves ful_ok (repo_get_shipment_by_order oid)"
  "preserves ful_ok (repo_get_shipment_by_tracking tr)"
  "preserves ful_ok (repo_create_label sid c t l)"
  "preserves ful_ok (repo_cancel_shipment sid reason)"
  unfolding ful_repo_defs by (intro preserve_rules)+

lemma repo_create_shipment_ok [preserve_rules]:
  "preserves ful_ok (repo_create_shipment oid uid items addr c t CREATED m)"
  unfolding repo_create_shipment_def Let_def
  by (intro preserve_rules insert_shipment_ok) (simp add: shipment_ok_def)

end
