(* ===== verification/FulfillmentService.thy ===== *)
theory FulfillmentService
  imports FulfillmentRepo
begin

section \<open>Fulfillment: shipments from preparation to label or cancellation\<close>

text \<open>
  \<open>microservices/fulfillment_service/fulfillment_service.py\<close> (the HTTP API),
  \<open>events/handlers.py\<close> (the bus) and \<open>providers/mock.py\<close>, the one shipping provider of the
  repository. The provider is an argument of the operations that call it, as it is injected in
  the source; \<open>shipping_provider\<close> states what the service needs of one. A key that an item or an
  answer of the provider lacks is \<open>None\<close>.
\<close>

subsection \<open>The provider\<close>

record provider_result =
  pr_tracking_number :: "string option"
  pr_carrier :: "string option"
  pr_label_url :: "string option"

type_synonym provider = "string \<Rightarrow> raw_item list \<Rightarrow> address \<Rightarrow> provider_result ful_io"

definition mock_provider :: provider where
  "mock_provider order_id items addr =
     bnd (fresh_hex 12) (\<lambda>_. bnd (fresh_hex 10) (\<lambda>hex.
       ret \<lparr>pr_tracking_number = Some (''trk_'' @ hex), pr_carrier = None, pr_label_url = None\<rparr>))"

text \<open>A provider may fail and may use the world, but it does not touch the shipments.\<close>

locale shipping_provider =
  fixes prov :: provider
  assumes prov_shipments: "shipments (snd (prov oid items addr s)) = shipments s"
begin

lemma prov_ok: "preserves ful_ok (prov oid items addr)"
  by (simp add: preserves_def ful_ok_def prov_shipments)

end

interpretation mock: shipping_provider mock_provider
  by unfold_locales (simp add: mock_provider_def fresh_hex_def bnd_apply)

subsection \<open>Items\<close>

definition shipment_item_of :: "raw_item \<Rightarrow> shipment_item" where
  "shipment_item_of i =
     \<lparr>si_sku_id = the (or_str (or_str (it_sku_id i) (it_product_id i)) (Some ''unknown'')),
      si_quantity = (case it_quantity i of None \<Rightarrow> 1 | Some q \<Rightarrow> q),
      si_weight_grams = Some (case it_weight_grams i of None \<Rightarrow> 500 | Some w \<Rightarrow> w)\<rparr>"

definition build_shipment_items :: "raw_item list \<Rightarrow> shipment_item list" where
  "build_shipment_items items = map shipment_item_of items"

definition shipment_db_item :: "shipment_item \<Rightarrow> raw_item" where
  "shipment_db_item x = \<lparr>it_sku_id = Some (si_sku_id x), it_product_id = None, it_id = None,
     it_quantity = Some (si_quantity x), it_unit_price = None, it_price = None,
     it_weight_grams = si_weight_grams x\<rparr>"

definition placeholder_item :: raw_item where
  "placeholder_item = \<lparr>it_sku_id = Some ''placeholder'', it_product_id = None, it_id = None,
     it_quantity = Some 1, it_unit_price = None, it_price = None, it_weight_grams = None\<rparr>"

definition total_weight :: "shipment_item list \<Rightarrow> int" where
  "total_weight xs = fold (\<lambda>x t. t + the (si_weight_grams x) * si_quantity x) xs 0"

subsection \<open>The service\<close>

record shipment_response =
  shr_shipment_id :: string
  shr_order_id :: string
  shr_tracking_number :: "string option"

record label_response =
  lr_shipment_id :: string
  lr_tracking_number :: "string option"
  lr_carrier :: "string option"
  lr_label_url :: "string option"

datatype cancel_response = Already_canceled string | Canceled string bool

definition create_shipment ::
  "provider \<Rightarrow> string \<Rightarrow> raw_item list \<Rightarrow> address \<Rightarrow> string \<Rightarrow> shipment_response ful_io" where
  "create_shipment prov order_id items addr user_id =
     (if order_id = [] \<or> items = [] \<or> addr = []
      then throw (ValueError ''order_id, items, and address are required'')
      else bnd (prov order_id items addr) (\<lambda>res.
        bnd (repo_create_shipment order_id (Some user_id) items addr None (pr_tracking_number res)
               CREATED No_meta) (\<lambda>row.
          case row of
            None \<Rightarrow> throw TypeError
          | Some r \<Rightarrow>
              bnd (publish (Some (ShipmentPrepared order_id (sh_id r) user_id (build_shipment_items items)
                     addr None None))) (\<lambda>_.
              ret \<lparr>shr_shipment_id = sh_id r, shr_order_id = order_id,
                   shr_tracking_number = pr_tracking_number res\<rparr>))))"

definition create_label :: "string \<Rightarrow> label_response ful_io" where
  "create_label sid =
     bnd (repo_get_shipment sid) (\<lambda>row.
       case row of
         None \<Rightarrow> throw (LookupError ''Shipment not found'')
       | Some r \<Rightarrow>
           if sh_status r = LABEL_PURCHASED
           then ret \<lparr>lr_shipment_id = sid, lr_tracking_number = sh_tracking_number r,
                     lr_carrier = sh_carrier r, lr_label_url = sh_label_url r\<rparr>
           else bnd (fresh_hex 10) (\<lambda>hex.
             let tracking = ''trk_'' @ hex; carrier = ''USPS'' in
             bnd (repo_create_label sid carrier tracking None) (\<lambda>_.
             bnd (gets now_us) (\<lambda>now.
             bnd (publish (map_option (\<lambda>u. LabelCreated (sh_order_id r) sid u carrier tracking None
                    (now + 5 * us_per_day) None) (sh_user_id r))) (\<lambda>_.
             ret \<lparr>lr_shipment_id = sid, lr_tracking_number = Some tracking,
                  lr_carrier = Some carrier, lr_label_url = None\<rparr>)))))"

definition cancel_shipment :: "string \<Rightarrow> string \<Rightarrow> cancel_response ful_io" where
  "cancel_shipment sid reason =
     bnd (repo_get_shipment sid) (\<lambda>row.
       case row of
         None \<Rightarrow> throw (LookupError ''Shipment not found'')
       | Some r \<Rightarrow>
           if sh_status r = FAILED then ret (Already_canceled sid)
           else let refund = (sh_status r = LABEL_PURCHASED) in
             bnd (repo_cancel_shipment sid (Some reason)) (\<lambda>_.
             bnd (publish (map_option (\<lambda>u. ShipmentCanceled (sh_order_id r) sid u (Some reason) refund None)
                    (sh_user_id r))) (\<lambda>_.
             ret (Canceled sid refund))))"

definition get_shipment_by_order :: "string \<Rightarrow> shipment option ful_io" where
  "get_shipment_by_order order_id = repo_get_shipment_by_order order_id"

definition get_shipment_by_tracking :: "string \<Rightarrow> shipment option ful_io" where
  "get_shipment_by_tracking tracking = repo_get_shipment_by_tracking tracking"

subsection \<open>The event handlers\<close>

definition ful_handle_tax_calculated :: "tax_calculated_data \<Rightarrow> unit ful_io" where
  "ful_handle_tax_calculated d =
     catch
       (if \<not> truthy_str (tc_order_id d) then ret ()
        else let order_id = the (tc_order_id d);
                 addr = (case tc_shipping_address d of None \<Rightarrow> [] | Some a \<Rightarrow> a) in
          bnd (repo_get_shipment_by_order order_id) (\<lambda>existing.
            if existing \<noteq> None then ret ()
            else case tc_metadata d of
              Tax_meta_null \<Rightarrow> throw AttributeError
            | Tax_meta_items raw \<Rightarrow>
                let items_data = (if raw = [] then [placeholder_item] else raw);
                    items = map shipment_item_of items_data;
                    items_for_db = map shipment_db_item items;
                    weight = total_weight items in
                bnd (repo_create_shipment order_id (tc_user_id d) items_for_db addr None None CREATED
                       (Prepared_meta weight ''tax.calculated'')) (\<lambda>row.
                  case row of
                    None \<Rightarrow> throw TypeError
                  | Some r \<Rightarrow>
                      bnd (publish (map_option (\<lambda>u. ShipmentPrepared order_id (sh_id r) u items addr
                             (Some weight) (Some ''tax.calculated'')) (tc_user_id d))) (\<lambda>_. ret ()))))
       (\<lambda>e. bnd (publish (Some (ShipmentFailed
                (case tc_order_id d of None \<Rightarrow> ''unknown'' | Some oid \<Rightarrow> oid)
                (case tc_user_id d of None \<Rightarrow> ''unknown'' | Some u \<Rightarrow> u)
                e ''PREPARATION_ERROR''))) (\<lambda>_. ret ()))"

text \<open>The inner \<open>try\<close> of \<open>handle_payment_completed\<close>: buy the label of the shipment found.\<close>

definition buy_label ::
  "provider \<Rightarrow> string \<Rightarrow> string option \<Rightarrow> shipment \<Rightarrow> unit ful_io" where
  "buy_label prov order_id user_id r =
     catch
       (bnd (prov order_id (sh_items r) (sh_shipping_address r)) (\<lambda>res.
        bnd (fresh_hex 10) (\<lambda>hex.
          let tracking = (case pr_tracking_number res of None \<Rightarrow> ''trk_'' @ hex | Some t \<Rightarrow> t);
              carrier = (case pr_carrier res of None \<Rightarrow> ''USPS'' | Some c \<Rightarrow> c) in
          bnd (repo_create_label (sh_id r) carrier tracking (pr_label_url res)) (\<lambda>_.
          bnd (gets now_us) (\<lambda>now.
          bnd (publish (map_option (\<lambda>u. LabelCreated order_id (sh_id r) u carrier tracking (pr_label_url res)
                 (now + 5 * us_per_day) (Some ''payment.completed'')) (or_str user_id (sh_user_id r))))
            (\<lambda>_. ret ()))))))
       (\<lambda>e. bnd (publish (map_option (\<lambda>u. ShipmentFailed order_id u e ''LABEL_CREATION_ERROR'')
               (or_str user_id (sh_user_id r)))) (\<lambda>_. ret ()))"

definition ful_handle_payment_completed :: "provider \<Rightarrow> payment_completed_data \<Rightarrow> unit ful_io" where
  "ful_handle_payment_completed prov d =
     catch
       (bnd (lift_sum (payment_order_id d)) (\<lambda>oid.
          if \<not> truthy_str oid then ret ()
          else let order_id = the oid in
            bnd (repo_get_shipment_by_order order_id) (\<lambda>row.
              case row of
                None \<Rightarrow> ret ()
              | Some r \<Rightarrow>
                  if sh_status r = LABEL_PURCHASED then ret ()
                  else buy_label prov order_id (pc_user_id d) r)))
       (\<lambda>_. ret ())"

definition ful_handle_order_canceled :: "order_canceled_data \<Rightarrow> unit ful_io" where
  "ful_handle_order_canceled d =
     catch
       (if \<not> truthy_str (ox_order_id d) then ret ()
        else let order_id = the (ox_order_id d) in
          bnd (repo_get_shipment_by_order order_id) (\<lambda>row.
            case row of
              None \<Rightarrow> ret ()
            | Some r \<Rightarrow>
                if sh_status r = FAILED then ret ()
                else let refund = (sh_status r = LABEL_PURCHASED) in
                  bnd (repo_cancel_shipment (sh_id r) (ox_cancellation_reason d)) (\<lambda>_.
                  bnd (publish (map_option (\<lambda>u. ShipmentCanceled order_id (sh_id r) u
                         (or_str (ox_cancellation_reason d) (Some ''order_canceled'')) refund
                         (Some ''order.canceled'')) (or_str (ox_user_id d) (sh_user_id r))))
                    (\<lambda>_. ret ()))))
       (\<lambda>_. ret ())"

lemmas ful_service_defs = create_shipment_def create_label_def cancel_shipment_def
  get_shipment_by_order_def get_shipment_by_tracking_def ful_handle_tax_calculated_def buy_label_def
  ful_handle_payment_completed_def ful_handle_order_canceled_def

datatype ful_op =
    Create_shipment string "raw_item list" address string
  | Create_label string
  | Cancel_shipment string string
  | Query_order string
  | Query_tracking string
  | On_tax_calculated tax_calculated_data
  | Ful_on_payment_completed payment_completed_data
  | Ful_on_order_canceled order_canceled_data
  | Ful_clock datetime

definition ful_step :: "provider \<Rightarrow> ful_op \<Rightarrow> ful_state \<Rightarrow> ful_state" where
  "ful_step prov op =
     (case op of
        Create_shipment oid items addr uid \<Rightarrow> after (create_shipment prov oid items addr uid)
      | Create_label sid \<Rightarrow> after (create_label sid)
      | Cancel_shipment sid reason \<Rightarrow> after (cancel_shipment sid reason)
      | Query_order oid \<Rightarrow> after (get_shipment_by_order oid)
      | Query_tracking t \<Rightarrow> after (get_shipment_by_tracking t)
      | On_tax_calculated d \<Rightarrow> after (ful_handle_tax_calculated d)
      | Ful_on_payment_completed d \<Rightarrow> after (ful_handle_payment_completed prov d)
      | Ful_on_order_canceled d \<Rightarrow> after (ful_handle_order_canceled d)
      | Ful_clock d \<Rightarrow> (\<lambda>s. s\<lparr>w_now := d\<rparr>))"

subsection \<open>With any provider, every operation keeps the table well formed\<close>

lemma preserves_tax_meta [preserve_rules]:
  "preserves I m \<Longrightarrow> (\<And>raw. preserves I (f raw)) \<Longrightarrow>
   preserves I (case x of Tax_meta_null \<Rightarrow> m | Tax_meta_items raw \<Rightarrow> f raw)"
  by (cases x) auto

lemma ful_service_ok [preserve_rules]:
  "preserves ful_ok (create_label sid)"
  "preserves ful_ok (cancel_shipment sid reason)"
  "preserves ful_ok (get_shipment_by_order oid)"
  "preserves ful_ok (get_shipment_by_tracking t)"
  "preserves ful_ok (ful_handle_tax_calculated d1)"
  "preserves ful_ok (ful_handle_order_canceled d3)"
  unfolding ful_service_defs Let_def
  by (intro preserve_rules)+

lemma ful_clock [simp]: "ful_ok (s\<lparr>w_now := d\<rparr>) = ful_ok s"
  by (simp add: ful_ok_def)

context shipping_provider
begin

lemma provider_ops_ok:
  "preserves ful_ok (create_shipment prov oid items addr uid)"
  "preserves ful_ok (ful_handle_payment_completed prov d)"
  unfolding ful_service_defs Let_def by (intro preserve_rules prov_ok)+

lemma step_ok: "ful_ok s \<Longrightarrow> ful_ok (ful_step prov op s)"
  by (cases op) (auto simp: ful_step_def intro: preserves_after preserve_rules provider_ops_ok)

end

sublocale shipping_provider \<subseteq> table: invariant_system "ful_step prov" ful_ok
  by unfold_locales (rule step_ok)

end
