(* ===== verification/FulfillmentTheorems.thy ===== *)
theory FulfillmentTheorems
  imports FulfillmentService
begin

section \<open>Fulfillment: properties\<close>

text \<open>
  Safety over all failure scripts and all providers first, then what the calls achieve when nothing
  fails: idempotence of labels, cancellations and \<open>tax.calculated\<close>, and what happens to a
  shipment that is paid after it was canceled.
\<close>

subsection \<open>What the calls do when nothing fails\<close>

definition newest_shipment :: "string \<Rightarrow> shipment list \<Rightarrow> shipment option" where
  "newest_shipment oid rows = first_row (order_desc sh_created_at (filter (\<lambda>r. sh_order_id r = oid) rows))"

definition label_row :: "string \<Rightarrow> string \<Rightarrow> string option \<Rightarrow> int \<Rightarrow> shipment \<Rightarrow> shipment" where
  "label_row carrier tracking url now r =
     (set_fields (Some carrier) (Some tracking) url None No_meta (set_status now (Some LABEL_PURCHASED) r))
       \<lparr>sh_updated_at := now\<rparr>"

definition set_label :: "string \<Rightarrow> string \<Rightarrow> string \<Rightarrow> string option \<Rightarrow> int \<Rightarrow> shipment list \<Rightarrow> shipment list" where
  "set_label sid carrier tracking url now =
     update_where (\<lambda>r. sh_id r = sid) (label_row carrier tracking url now)"

definition new_shipment ::
  "ful_state \<Rightarrow> string \<Rightarrow> string option \<Rightarrow> raw_item list \<Rightarrow> address \<Rightarrow> string option \<Rightarrow> shipment_meta \<Rightarrow> shipment" where
  "new_shipment s oid uid items addr tracking meta =
     \<lparr>sh_id = ''shp_'' @ take 12 (w_uuid s (w_uuid_next s)), sh_order_id = oid, sh_user_id = uid,
      sh_items = items, sh_shipping_address = addr, sh_carrier = None, sh_tracking_number = tracking,
      sh_status = CREATED, sh_label_url = None, sh_estimated_delivery = None, sh_created_at = now_us s,
      sh_updated_at = now_us s, sh_label_created_at = None, sh_shipped_at = None, sh_delivered_at = None,
      sh_canceled_at = None, sh_cancellation_reason = None, sh_metadata = meta\<rparr>"

lemma new_shipment_simps [simp]:
  "sh_id (new_shipment s oid uid items addr t m) = ''shp_'' @ take 12 (w_uuid s (w_uuid_next s))"
  "sh_order_id (new_shipment s oid uid items addr t m) = oid"
  "sh_status (new_shipment s oid uid items addr t m) = CREATED"
  "sh_created_at (new_shipment s oid uid items addr t m) = now_us s"
  "sh_user_id (new_shipment s oid uid items addr t m) = uid"
  by (simp_all add: new_shipment_def)

lemma label_row_simps [simp]:
  "sh_id (label_row c t l now r) = sh_id r" "sh_order_id (label_row c t l now r) = sh_order_id r"
  "sh_status (label_row c t l now r) = LABEL_PURCHASED"
  "sh_canceled_at (label_row c t l now r) = sh_canceled_at r"
  "sh_created_at (label_row c t l now r) = sh_created_at r"
  "sh_carrier (label_row c t l now r) = (if c \<noteq> [] then Some c else sh_carrier r)"
  "sh_tracking_number (label_row c t l now r) = (if t \<noteq> [] then Some t else sh_tracking_number r)"
  "sh_label_url (label_row c t l now r) = or_str l (sh_label_url r)"
  by (auto simp: label_row_def set_fields_def set_status_def or_str_def Let_def)

lemma repo_get_shipment_calm:
  "w_script s = [] \<Longrightarrow> repo_get_shipment sid s = (Inr (row_by sh_id sid (shipments s)), s)"
  by (simp add: repo_get_shipment_def bnd_apply)

lemma get_by_order_calm:
  "w_script s = [] \<Longrightarrow> repo_get_shipment_by_order oid s = (Inr (newest_shipment oid (shipments s)), s)"
  by (simp add: repo_get_shipment_by_order_def bnd_apply newest_shipment_def)

lemma repo_create_label_calm:
  "w_script s = [] \<Longrightarrow> repo_create_label sid carrier tracking url s =
     (Inr (row_by sh_id sid (set_label sid carrier tracking url (now_us s) (shipments s))),
      s\<lparr>shipments := set_label sid carrier tracking url (now_us s) (shipments s)\<rparr>)"
  by (simp add: repo_create_label_def update_shipment_def bnd_apply repo_get_shipment_calm set_label_def
      label_row_def [abs_def])

lemma repo_cancel_calm:
  "w_script s = [] \<Longrightarrow> repo_cancel_shipment sid reason s =
     (Inr (row_by sh_id sid (set_canceled sid reason (now_us s) (shipments s))),
      s\<lparr>shipments := set_canceled sid reason (now_us s) (shipments s)\<rparr>)"
  by (simp add: repo_cancel_shipment_def bnd_apply repo_get_shipment_calm)

lemma repo_create_shipment_calm:
  assumes "w_script s = []" and row: "row = new_shipment s oid uid items addr tracking meta"
    and "sh_id row \<notin> sh_id ` set (shipments s)"
  shows "repo_create_shipment oid uid items addr None tracking CREATED meta s =
    (Inr (Some row), s\<lparr>shipments := shipments s @ [row], w_uuid_next := Suc (w_uuid_next s)\<rparr>)"
proof -
  have "row_by sh_id (sh_id row) (shipments s @ [row]) = Some row"
    by (rule row_by_append_new [OF assms(3)])
  with assms show ?thesis
    by (simp add: repo_create_shipment_def insert_shipment_def bnd_apply fresh_hex_def new_shipment_def
        now_us_def Let_def repo_get_shipment_calm)
qed

lemma set_canceled_row:
  assumes "unique_key sh_id rows" and "r \<in> set rows"
  shows "row_by sh_id (sh_id r) (set_canceled (sh_id r) reason now rows) =
    Some (r\<lparr>sh_status := FAILED, sh_canceled_at := Some now,
            sh_cancellation_reason := or_str reason (Some ''manual_cancellation''), sh_updated_at := now\<rparr>)"
  using row_by_unique [OF assms] by (simp add: set_canceled_def row_by_update_where)

lemma set_label_row:
  assumes "unique_key sh_id rows" and "r \<in> set rows"
  shows "row_by sh_id (sh_id r) (set_label (sh_id r) c t l now rows) = Some (label_row c t l now r)"
  using row_by_unique [OF assms] by (simp add: set_label_def row_by_update_where)

lemma newest_shipment_in: "newest_shipment oid rows = Some r \<Longrightarrow> r \<in> set rows \<and> sh_order_id r = oid"
  unfolding newest_shipment_def using first_row_in by fastforce

lemma newest_shipment_None: "newest_shipment oid rows = None \<longleftrightarrow> (\<forall>r \<in> set rows. sh_order_id r \<noteq> oid)"
  by (auto simp: newest_shipment_def filter_empty_conv)

text \<open>An update that keeps order ids and creation times keeps which shipment is the newest.\<close>

lemma newest_shipment_update:
  assumes "\<And>r. sh_order_id (f r) = sh_order_id r" and "\<And>r. sh_created_at (f r) = sh_created_at r"
  shows "newest_shipment oid (map f rows) = map_option f (newest_shipment oid rows)"
proof -
  have sort: "sort_key (\<lambda>r. - sh_created_at r) (map f xs) = map f (sort_key (\<lambda>r. - sh_created_at r) xs)" for xs
  proof (induction xs)
    case Nil
    then show ?case by simp
  next
    case (Cons x xs)
    have "insort_key (\<lambda>r. - sh_created_at r) (f y) (map f ys)
        = map f (insort_key (\<lambda>r. - sh_created_at r) y ys)" for y ys
      by (induction ys) (simp_all add: assms(2))
    with Cons show ?case by simp
  qed
  have "filter (\<lambda>r. sh_order_id r = oid) (map f rows) = map f (filter (\<lambda>r. sh_order_id r = oid) rows)"
    by (induction rows) (simp_all add: assms(1))
  then show ?thesis
    by (simp add: newest_shipment_def order_desc_def sort first_row_def split: list.split)
qed

subsection \<open>A concrete world, for the witnesses\<close>

definition ful_empty :: ful_state where
  "ful_empty = \<lparr>w_now = \<lparr>dt_year = 2026, dt_month = 2, dt_day = 4, dt_us = 0\<rparr>,
     w_uuid = (\<lambda>k. replicate k (CHR ''b'') @ ''0123456789abcdef''), w_uuid_next = 0, w_script = [],
     w_bus = True, w_events = [], shipments = []\<rparr>"

definition tax_1 :: tax_calculated_data where
  "tax_1 = \<lparr>tc_order_id = Some ''o1'', tc_user_id = Some ''u1'', tc_shipping_address = None,
     tc_metadata = Tax_meta_items []\<rparr>"

definition ful_payment_1 :: payment_completed_data where
  "ful_payment_1 = \<lparr>pc_order_id = Some ''o1'', pc_metadata = Meta_absent, pc_user_id = None\<rparr>"

definition ful_cancel_1 :: order_canceled_data where
  "ful_cancel_1 = \<lparr>ox_order_id = Some ''o1'', ox_user_id = None, ox_cancellation_reason = Some ''late''\<rparr>"

definition prepared_1 :: ful_state where
  "prepared_1 = ful_empty\<lparr>shipments := [new_shipment ful_empty ''o1'' (Some ''u1'') [placeholder_item] [] None No_meta],
     w_uuid_next := 1\<rparr>"

lemmas ful_examples = ful_empty_def tax_1_def ful_payment_1_def ful_cancel_1_def prepared_1_def


subsection \<open>The handlers on a calm environment\<close>

lemma ful_cancel_calm:
  assumes "w_script s = []" and "ox_order_id d = Some oid" and "oid \<noteq> []"
    and "newest_shipment oid (shipments s) = Some r" and "sh_status r \<noteq> FAILED"
  shows "after (ful_handle_order_canceled d) s =
    s\<lparr>shipments := set_canceled (sh_id r) (ox_cancellation_reason d) (now_us s) (shipments s),
      w_events := w_events s @ published (w_bus s) (map_option (\<lambda>u. ShipmentCanceled oid (sh_id r) u
        (or_str (ox_cancellation_reason d) (Some ''order_canceled'')) (sh_status r = LABEL_PURCHASED)
        (Some ''order.canceled'')) (or_str (ox_user_id d) (sh_user_id r)))\<rparr>"
  using assms
  by (simp add: ful_handle_order_canceled_def after_def catch_apply bnd_apply get_by_order_calm
      repo_cancel_calm publish_calm Let_def)

definition mock_tracking :: "ful_state \<Rightarrow> string" where
  "mock_tracking s = ''trk_'' @ take 10 (w_uuid s (Suc (w_uuid_next s)))"

lemma ful_payment_calm:
  assumes "w_script s = []" and "payment_order_id d = (Inr (Some oid) :: unit exn + string option)"
    and "oid \<noteq> []"
    and "newest_shipment oid (shipments s) = Some r" and "sh_status r \<noteq> LABEL_PURCHASED"
  shows "after (ful_handle_payment_completed mock_provider d) s =
    s\<lparr>shipments := set_label (sh_id r) ''USPS'' (mock_tracking s) None (now_us s) (shipments s),
      w_uuid_next := w_uuid_next s + 3,
      w_events := w_events s @ published (w_bus s) (map_option (\<lambda>u. LabelCreated oid (sh_id r) u ''USPS''
        (mock_tracking s) None (now_us s + 5 * us_per_day) (Some ''payment.completed''))
        (or_str (pc_user_id d) (sh_user_id r)))\<rparr>"
  using assms
  by (simp add: ful_handle_payment_completed_def buy_label_def mock_provider_def after_def catch_apply bnd_apply
      get_by_order_calm repo_create_label_calm publish_calm Let_def fresh_hex_def mock_tracking_def now_us_def)

definition prepared_items :: "tax_calculated_data \<Rightarrow> raw_item list \<Rightarrow> shipment_item list" where
  "prepared_items d raw = map shipment_item_of (if raw = [] then [placeholder_item] else raw)"

definition prepared_row :: "tax_calculated_data \<Rightarrow> string \<Rightarrow> raw_item list \<Rightarrow> ful_state \<Rightarrow> shipment" where
  "prepared_row d oid raw s =
     new_shipment s oid (tc_user_id d) (map shipment_db_item (prepared_items d raw))
       (case tc_shipping_address d of None \<Rightarrow> [] | Some a \<Rightarrow> a) None
       (Prepared_meta (total_weight (prepared_items d raw)) ''tax.calculated'')"

lemma ful_tax_calm:
  assumes "w_script s = []" and "tc_order_id d = Some oid" and "oid \<noteq> []"
    and "newest_shipment oid (shipments s) = None" and "tc_metadata d = Tax_meta_items raw"
    and row: "row = prepared_row d oid raw s" and "sh_id row \<notin> sh_id ` set (shipments s)"
  shows "after (ful_handle_tax_calculated d) s =
    s\<lparr>shipments := shipments s @ [row], w_uuid_next := Suc (w_uuid_next s),
      w_events := w_events s @ published (w_bus s) (map_option (\<lambda>u. ShipmentPrepared oid (sh_id row) u
        (prepared_items d raw) (case tc_shipping_address d of None \<Rightarrow> [] | Some a \<Rightarrow> a)
        (Some (total_weight (prepared_items d raw))) (Some ''tax.calculated'')) (tc_user_id d))\<rparr>"
proof -
  note create = repo_create_shipment_calm [OF assms(1) row [unfolded prepared_row_def] assms(7)]
  show ?thesis using assms(1-5) create
    by (cases "raw = []") (simp_all add: ful_handle_tax_calculated_def after_def catch_apply bnd_apply
        get_by_order_calm publish_calm Let_def prepared_items_def)
qed

lemma ful_tax_skip:
  assumes "w_script s = []" and "tc_order_id d = Some oid"
    and "oid = [] \<or> newest_shipment oid (shipments s) \<noteq> None"
  shows "after (ful_handle_tax_calculated d) s = s"
  using assms by (auto simp: ful_handle_tax_calculated_def after_def catch_apply bnd_apply get_by_order_calm Let_def)

lemma ful_tax_no_order:
  assumes "tc_order_id d = None"
  shows "after (ful_handle_tax_calculated d) s = s"
  using assms by (simp add: ful_handle_tax_calculated_def after_def catch_apply)

lemma ful_tax_null_meta:
  assumes "w_script s = []" and "tc_metadata d = Tax_meta_null"
  shows "shipments (after (ful_handle_tax_calculated d) s) = shipments s
    \<and> w_script (after (ful_handle_tax_calculated d) s) = []
    \<and> w_uuid_next (after (ful_handle_tax_calculated d) s) = w_uuid_next s
    \<and> w_uuid (after (ful_handle_tax_calculated d) s) = w_uuid s"
  using assms
  by (cases "tc_order_id d")
    (simp_all add: ful_handle_tax_calculated_def after_def catch_apply bnd_apply get_by_order_calm publish_calm Let_def)

text \<open>
  When a consumer can rely on the shipment being made: nothing fails, and the order has a shipment
  already or the id that will be drawn for it is not taken.
\<close>

definition prepare_ready :: "tax_calculated_data \<Rightarrow> ful_state \<Rightarrow> bool" where
  "prepare_ready d s \<longleftrightarrow> w_script s = []
     \<and> ((\<exists>r \<in> set (shipments s). tc_order_id d = Some (sh_order_id r))
        \<or> ''shp_'' @ take 12 (w_uuid s (w_uuid_next s)) \<notin> sh_id ` set (shipments s))"

lemma newest_shipment_snoc: "sh_order_id row = oid \<Longrightarrow> newest_shipment oid (rows @ [row]) \<noteq> None"
  by (simp add: newest_shipment_def)

lemma ful_tax_step:
  assumes "prepare_ready d s"
  shows "(shipments (after (ful_handle_tax_calculated d) (after (ful_handle_tax_calculated d) s))
      = shipments (after (ful_handle_tax_calculated d) s))
    \<and> prepare_ready d (after (ful_handle_tax_calculated d) s)"
proof -
  have sc: "w_script s = []" using assms by (simp add: prepare_ready_def)
  consider "tc_order_id d = None" | "tc_metadata d = Tax_meta_null"
    | oid where "tc_order_id d = Some oid" "oid = [] \<or> newest_shipment oid (shipments s) \<noteq> None"
    | oid raw where "tc_order_id d = Some oid" "oid \<noteq> []" "newest_shipment oid (shipments s) = None"
        "tc_metadata d = Tax_meta_items raw"
    by (cases "tc_order_id d"; cases "tc_metadata d") auto
  then show ?thesis
  proof cases
    case 1
    then show ?thesis using assms by (simp add: ful_tax_no_order)
  next
    case 2
    with ful_tax_null_meta [OF sc 2] ful_tax_null_meta [of "after (ful_handle_tax_calculated d) s" d] assms
    show ?thesis by (simp add: prepare_ready_def)
  next
    case 3
    then show ?thesis using assms sc by (simp add: ful_tax_skip)
  next
    case (4 oid raw)
    let ?row = "prepared_row d oid raw s"
    have fresh: "sh_id ?row \<notin> sh_id ` set (shipments s)"
      using assms 4(1,3) by (auto simp: prepare_ready_def prepared_row_def newest_shipment_None)
    note s1 = ful_tax_calm [OF sc 4 refl fresh]
    have "newest_shipment oid (shipments s @ [?row]) \<noteq> None"
      by (rule newest_shipment_snoc) (simp add: prepared_row_def)
    then have "after (ful_handle_tax_calculated d) (after (ful_handle_tax_calculated d) s)
        = after (ful_handle_tax_calculated d) s"
      by (intro ful_tax_skip [OF _ 4(1)]) (simp_all add: s1 sc)
    moreover have "prepare_ready d (after (ful_handle_tax_calculated d) s)"
      using assms 4(1) by (simp add: prepare_ready_def s1 prepared_row_def)
    ultimately show ?thesis by simp
  qed
qed

interpretation tax_consumer: idempotent_handler
  "\<lambda>d. after (ful_handle_tax_calculated d)" shipments prepare_ready
  by unfold_locales (use ful_tax_step in blast)+

subsection \<open>The properties\<close>

text \<open>
  C36. With any shipping provider that leaves the shipments table alone, and whatever the API calls,
  the events and the failures of the database and the bus: shipment ids stay unique, a shipment is
  created, labelled or canceled (the statuses for transit and delivery are never reached), a
  labelled one has its label time and a canceled one its cancellation time and reason.
\<close>
theorem shipments_stay_well_formed:
  assumes "\<And>oid items addr s. shipments (snd (prov oid items addr s)) = shipments s" and "ful_ok s"
  shows "ful_ok (fold (ful_step prov) ops s)"
proof -
  have "shipping_provider prov" using assms(1) by (rule shipping_provider.intro)
  then show ?thesis using assms(2)
    by (intro invariant_system.run_inv [of "ful_step prov" ful_ok] invariant_system.intro)
      (auto intro: shipping_provider.step_ok)
qed

theorem shipments_stay_well_formed_witness:
  "ful_ok (fold (ful_step mock_provider)
     [On_tax_calculated tax_1, Ful_on_order_canceled ful_cancel_1, Create_label ''shp_0''] ful_empty)"
  by (rule shipments_stay_well_formed [OF mock.prov_shipments]) (simp add: ful_ok_def ful_empty_def unique_key_def)

text \<open>
  The three handlers never raise into the event loop, with any provider.
\<close>
theorem ful_handlers_never_raise:
  "never_raises (ful_handle_tax_calculated d1) \<and> never_raises (ful_handle_payment_completed prov d2)
   \<and> never_raises (ful_handle_order_canceled d3)"
  unfolding ful_handle_tax_calculated_def ful_handle_payment_completed_def ful_handle_order_canceled_def
  by (intro conjI never_raises_catch never_raises_bnd never_raises_publish never_raises_ret)

text \<open>
  \<open>tax.calculated\<close> is handled idempotently: delivering it any number of times leaves the
  shipments as delivering it once, whatever the payload.
\<close>
theorem tax_redelivery_idempotent:
  assumes "prepare_ready d s"
  shows "shipments ((after (ful_handle_tax_calculated d) ^^ Suc n) s)
    = shipments (after (ful_handle_tax_calculated d) s)"
  using assms by (rule tax_consumer.redelivered)

theorem tax_redelivery_idempotent_witness:
  "length (shipments ((after (ful_handle_tax_calculated tax_1) ^^ Suc 5) ful_empty)) = 1"
proof -
  have "length (shipments (after (ful_handle_tax_calculated tax_1) ful_empty)) = 1" by code_simp
  then show ?thesis
    using tax_redelivery_idempotent [of tax_1 ful_empty 5] by (simp add: prepare_ready_def ful_empty_def)
qed

text \<open>
  Buying a label is idempotent: for a shipment that has none yet, the first call stores carrier
  and a fresh tracking number; a second call returns those same values and leaves the whole state,
  events included, as it is.
\<close>
theorem label_is_idempotent:
  assumes "w_script s = []" and "unique_key sh_id (shipments s)" and "r \<in> set (shipments s)"
    and "sh_status r \<noteq> LABEL_PURCHASED" and "t = ''trk_'' @ take 10 (w_uuid s (w_uuid_next s))"
    and "s1 = snd (create_label (sh_id r) s)"
  shows "fst (create_label (sh_id r) s) =
      Inr \<lparr>lr_shipment_id = sh_id r, lr_tracking_number = Some t, lr_carrier = Some ''USPS'', lr_label_url = None\<rparr>
    \<and> row_by sh_id (sh_id r) (shipments s1) = Some (label_row ''USPS'' t None (now_us s) r)
    \<and> create_label (sh_id r) s1 =
      (Inr \<lparr>lr_shipment_id = sh_id r, lr_tracking_number = Some t, lr_carrier = Some ''USPS'',
            lr_label_url = sh_label_url r\<rparr>, s1)"
proof -
  let ?s1 = "s\<lparr>w_uuid_next := Suc (w_uuid_next s),
      shipments := set_label (sh_id r) ''USPS'' t None (now_us s) (shipments s),
      w_events := w_events s @ published (w_bus s) (map_option (\<lambda>u. LabelCreated (sh_order_id r) (sh_id r) u
        ''USPS'' t None (now_us s + 5 * us_per_day) None) (sh_user_id r))\<rparr>"
  have r: "row_by sh_id (sh_id r) (shipments s) = Some r" using assms(2,3) by (rule row_by_unique)
  have first: "create_label (sh_id r) s = (Inr \<lparr>lr_shipment_id = sh_id r, lr_tracking_number = Some t,
      lr_carrier = Some ''USPS'', lr_label_url = None\<rparr>, ?s1)"
    using assms(1,4,5) r by (simp add: create_label_def bnd_apply repo_get_shipment_calm fresh_hex_def
        repo_create_label_calm publish_calm Let_def now_us_def)
  have row: "row_by sh_id (sh_id r) (shipments ?s1) = Some (label_row ''USPS'' t None (now_us s) r)"
    using set_label_row [OF assms(2,3)] by simp
  have "create_label (sh_id r) ?s1 = (Inr \<lparr>lr_shipment_id = sh_id r, lr_tracking_number = Some t,
      lr_carrier = Some ''USPS'', lr_label_url = sh_label_url r\<rparr>, ?s1)"
    using row assms(1,5) by (simp add: create_label_def bnd_apply repo_get_shipment_calm or_str_def)
  with first row assms(6) show ?thesis by simp
qed

theorem label_is_idempotent_witness:
  "fst (create_label ''shp_0123456789ab'' (snd (create_label ''shp_0123456789ab'' prepared_1))) =
     Inr \<lparr>lr_shipment_id = ''shp_0123456789ab'', lr_tracking_number = Some ''trk_b012345678'',
          lr_carrier = Some ''USPS'', lr_label_url = None\<rparr>"
proof -
  let ?r = "new_shipment ful_empty ''o1'' (Some ''u1'') [placeholder_item] [] None No_meta"
  have "sh_id ?r = ''shp_0123456789ab''" by (simp add: ful_empty_def)
  moreover have "sh_label_url ?r = None" by (simp add: new_shipment_def)
  ultimately show ?thesis
    using label_is_idempotent [of prepared_1 ?r "''trk_b012345678''", OF _ _ _ _ _ refl]
    by (simp add: ful_examples unique_key_def)
qed

text \<open>
  Canceling a shipment that is not canceled yet marks it failed with time and reason, and asks
  for a shipping refund exactly if a label had been bought; canceling again answers
  \<open>Already canceled\<close> and changes nothing, so no second refund event is published.
\<close>
theorem cancel_refunds_once:
  assumes "w_script s = []" and "w_bus s" and "unique_key sh_id (shipments s)" and "r \<in> set (shipments s)"
    and "sh_status r \<noteq> FAILED" and "sh_user_id r = Some u"
    and "s1 = snd (cancel_shipment (sh_id r) reason s)" and "refund = (sh_status r = LABEL_PURCHASED)"
  shows "fst (cancel_shipment (sh_id r) reason s) = Inr (Canceled (sh_id r) refund)
    \<and> w_events s1 = w_events s @ [ShipmentCanceled (sh_order_id r) (sh_id r) u (Some reason) refund None]
    \<and> row_by sh_id (sh_id r) (shipments s1) = Some (r\<lparr>sh_status := FAILED, sh_canceled_at := Some (now_us s),
        sh_cancellation_reason := or_str (Some reason) (Some ''manual_cancellation''), sh_updated_at := now_us s\<rparr>)
    \<and> cancel_shipment (sh_id r) reason2 s1 = (Inr (Already_canceled (sh_id r)), s1)"
proof -
  let ?s1 = "s\<lparr>shipments := set_canceled (sh_id r) (Some reason) (now_us s) (shipments s),
      w_events := w_events s @ [ShipmentCanceled (sh_order_id r) (sh_id r) u (Some reason) refund None]\<rparr>"
  have r: "row_by sh_id (sh_id r) (shipments s) = Some r" using assms(3,4) by (rule row_by_unique)
  have first: "cancel_shipment (sh_id r) reason s = (Inr (Canceled (sh_id r) refund), ?s1)"
    using assms(1,2,5,6,8) r by (simp add: cancel_shipment_def bnd_apply repo_get_shipment_calm
        repo_cancel_calm publish_calm Let_def)
  note row = set_canceled_row [OF assms(3,4), of "Some reason" "now_us s"]
  have "cancel_shipment (sh_id r) reason2 ?s1 = (Inr (Already_canceled (sh_id r)), ?s1)"
    using row assms(1) by (simp add: cancel_shipment_def bnd_apply repo_get_shipment_calm)
  with first row assms(7) show ?thesis by simp
qed

theorem cancel_refunds_once_witness:
  "fst (cancel_shipment ''shp_0123456789ab'' ''late'' prepared_1) = Inr (Canceled ''shp_0123456789ab'' False)"
proof -
  let ?r = "new_shipment ful_empty ''o1'' (Some ''u1'') [placeholder_item] [] None No_meta"
  have "sh_id ?r = ''shp_0123456789ab''" by (simp add: ful_empty_def)
  then show ?thesis
    using cancel_refunds_once [of prepared_1 ?r "''u1''", OF _ _ _ _ _ _ refl refl]
    by (simp add: ful_examples unique_key_def)
qed

text \<open>
  A canceled shipment comes back to life: \<open>order.canceled\<close> and then \<open>payment.completed\<close> for the
  same order leave the shipment with a bought label and a carrier tracking number, although it is
  still marked as canceled at the earlier time. The handler only checks for \<open>label_purchased\<close>.
\<close>
lemma ful_paid_after_cancel:
  assumes "w_script s = []" and "ox_order_id c = Some oid" and "oid \<noteq> []"
    and "payment_order_id p = (Inr (Some oid) :: unit exn + string option)"
    and "newest_shipment oid (shipments s) = Some r" and "sh_status r \<noteq> FAILED"
    and "s1 = after (ful_handle_order_canceled c) s"
    and "s2 = after (ful_handle_payment_completed mock_provider p) s1"
  shows "\<exists>r2. newest_shipment oid (shipments s2) = Some r2 \<and> sh_id r2 = sh_id r
    \<and> sh_status r2 = LABEL_PURCHASED \<and> sh_tracking_number r2 = Some (mock_tracking s1)
    \<and> sh_canceled_at r2 = Some (now_us s)"
proof -
  let ?f = "\<lambda>x. if sh_id x = sh_id r then x\<lparr>sh_status := FAILED, sh_canceled_at := Some (now_us s),
      sh_cancellation_reason := or_str (ox_cancellation_reason c) (Some ''manual_cancellation''),
      sh_updated_at := now_us s\<rparr> else x"
  let ?g = "\<lambda>x. if sh_id x = sh_id r then label_row ''USPS'' (mock_tracking s1) None (now_us s1) x else x"
  have s1: "shipments s1 = map ?f (shipments s)" "w_script s1 = []"
    using ful_cancel_calm [OF assms(1-3,5,6)] assms(1,7) by (simp_all add: set_canceled_def update_where_def)
  have new1: "newest_shipment oid (shipments s1) = Some (?f r)"
    unfolding s1 by (subst newest_shipment_update) (simp_all add: assms(5))
  have "shipments s2 = map ?g (shipments s1)"
    using ful_payment_calm [OF s1(2) assms(4,3) new1] assms(8) by (simp add: set_label_def update_where_def)
  then have "newest_shipment oid (shipments s2) = Some (?g (?f r))"
    by (simp only: newest_shipment_update [of ?g] if_distrib new1) (simp add: newest_shipment_update new1)
  then show ?thesis by (simp add: mock_tracking_def)
qed

text \<open>
  The path of an order through fulfillment: \<open>tax.calculated\<close> and then \<open>payment.completed\<close> leave
  one more shipment, labelled, for the items of the order (a placeholder when the event names none),
  and publish its preparation, with the estimated weight as the sum of quantity times weight (500 g
  and one piece when not given), and its label, with delivery estimated in five days.
\<close>
theorem prepared_then_paid:
  assumes "w_script s = []" and "w_bus s" and "tc_order_id d = Some oid" and "oid \<noteq> []"
    and "newest_shipment oid (shipments s) = None" and "tc_metadata d = Tax_meta_items raw"
    and "tc_user_id d = Some u" and "tc_shipping_address d = Some addr"
    and "row = prepared_row d oid raw s" and "sh_id row \<notin> sh_id ` set (shipments s)"
    and "payment_order_id p = (Inr (Some oid) :: unit exn + string option)" and "pc_user_id p = None"
    and "s1 = after (ful_handle_tax_calculated d) s"
    and "s2 = after (ful_handle_payment_completed mock_provider p) s1"
  shows "shipments s2 = shipments s @ [label_row ''USPS'' (mock_tracking s1) None (now_us s) row]
    \<and> w_events s2 = w_events s @
        [ShipmentPrepared oid (sh_id row) u (prepared_items d raw) addr
           (Some (\<Sum>x\<leftarrow>prepared_items d raw. the (si_weight_grams x) * si_quantity x)) (Some ''tax.calculated''),
         LabelCreated oid (sh_id row) u ''USPS'' (mock_tracking s1) None (now_us s + 5 * us_per_day)
           (Some ''payment.completed'')]"
proof -
  have weight: "fold (\<lambda>x t. t + f x) xs a = a + (\<Sum>x\<leftarrow>xs. f x)" for f :: "shipment_item \<Rightarrow> int" and xs a
    by (induction xs arbitrary: a) simp_all
  have row: "sh_order_id row = oid" "sh_status row = CREATED" "sh_user_id row = Some u"
    using assms(7,9) by (simp_all add: prepared_row_def)
  note tax = ful_tax_calm [OF assms(1,3-6,9,10)]
  have s1: "shipments s1 = shipments s @ [row]" "w_script s1 = []" "w_bus s1" "w_now s1 = w_now s"
    "w_events s1 = w_events s @ [ShipmentPrepared oid (sh_id row) u (prepared_items d raw) addr
        (Some (total_weight (prepared_items d raw))) (Some ''tax.calculated'')]"
    using assms(1,2,7,8,13) tax by simp_all
  have "filter (\<lambda>r. sh_order_id r = oid) (shipments s) = []"
    using assms(5) by (auto simp: newest_shipment_None filter_empty_conv)
  then have new: "newest_shipment oid (shipments s1) = Some row"
    using row by (simp add: s1 newest_shipment_def order_desc_def first_row_def)
  have labelled: "set_label (sh_id row) c t l now (shipments s @ [row]) = shipments s @ [label_row c t l now row]"
    for c t l now
    using assms(10) by (auto simp: set_label_def update_where_def image_iff intro!: map_idI)
  from ful_payment_calm [OF s1(2) assms(11,4) new] row
  have "shipments s2 = shipments s @ [label_row ''USPS'' (mock_tracking s1) None (now_us s) row]"
    and "w_events s2 = w_events s1 @ [LabelCreated oid (sh_id row) u ''USPS'' (mock_tracking s1) None
      (now_us s + 5 * us_per_day) (Some ''payment.completed'')]"
    using s1 assms(12,14) by (simp_all add: labelled now_us_def or_str_def)
  then show ?thesis by (simp add: s1 total_weight_def weight)
qed

definition tax_2 :: tax_calculated_data where
  "tax_2 = \<lparr>tc_order_id = Some ''o1'', tc_user_id = Some ''u1'', tc_shipping_address = Some [(''zip'', ''8000'')],
     tc_metadata = Tax_meta_items [placeholder_item, placeholder_item\<lparr>it_quantity := Some 3, it_weight_grams := Some 20\<rparr>]\<rparr>"

theorem prepared_then_paid_witness:
  "map sh_status (shipments (after (ful_handle_payment_completed mock_provider ful_payment_1)
     (after (ful_handle_tax_calculated tax_2) ful_empty))) = [LABEL_PURCHASED]"
  using prepared_then_paid [of ful_empty tax_2 "''o1''" _ _ _ _ ful_payment_1, OF _ _ _ _ _ _ _ _ refl _ _ _ refl refl]
  by (simp add: ful_examples tax_2_def newest_shipment_None payment_order_id_def)

end
