(* ===== verification/TaxService.thy ===== *)
theory TaxService
  imports Systems
begin

section \<open>Tax: calculations over stored orders\<close>

text \<open>
  \<open>microservices/tax_service\<close>: the repository over \<open>tax.calculations\<close>, the service behind the HTTP
  API, the handler of \<open>inventory.reserved\<close> and the mock provider. The provider of tax rates is an
  argument, as it is injected in the source; \<open>tax_authority\<close> states what the service needs of one.
  A key that a dictionary lacks is \<open>None\<close>.
\<close>

subsection \<open>Data\<close>

record raw_tax_line =
  rl_line_item_id :: "string option"
  rl_sku_id :: "string option"
  rl_tax_amount :: "rat option"
  rl_rate :: "rat option"
  rl_jurisdiction :: "string option"
  rl_tax_type :: "string option"

record tax_line =
  tl_line_item_id :: string
  tl_sku_id :: "string option"
  tl_tax_amount :: rat
  tl_tax_rate :: rat
  tl_jurisdiction :: "string option"
  tl_tax_type :: "string option"

record tax_item =
  ti_sku_id :: "string option"
  ti_quantity :: "int option"
  ti_unit_price :: "rat option"
  ti_amount :: "rat option"

record tax_result =
  tx_total_tax :: "rat option"
  tx_lines :: "raw_tax_line list"

datatype tax_event =
    TaxCalculated string string string rat rat string "tax_line list" address "string option"
  | TaxFailed string string string "unit exn" "tax_item list option"

record tax_calculation =
  tk_id :: string
  tk_order_id :: string
  tk_user_id :: "string option"
  tk_subtotal :: rat
  tk_total_tax :: rat
  tk_currency :: string
  tk_lines :: "raw_tax_line list"
  tk_address :: address
  tk_source :: "string option"
  tk_created_at :: int

text \<open>\<open>tax_repository\<close>: the service may run without a repository, then it only previews.\<close>

record tax_state = "tax_event world" +
  calculations :: "tax_calculation list"
  tax_repository :: bool

type_synonym 'a tax_io = "(tax_state, unit exn, 'a) io"

type_synonym tax_provider = "tax_item list \<Rightarrow> address \<Rightarrow> string \<Rightarrow> tax_result tax_io"

definition mock_tax_provider :: tax_provider where
  "mock_tax_provider items addr currency = ret \<lparr>tx_total_tax = Some 0, tx_lines = []\<rparr>"

text \<open>A provider may fail and may use the world, but it does not touch the calculations.\<close>

locale tax_authority =
  fixes prov :: tax_provider
  assumes prov_calculations: "calculations (snd (prov items addr cur s)) = calculations s"

interpretation mock_tax: tax_authority mock_tax_provider
  by unfold_locales (simp add: mock_tax_provider_def)

subsection \<open>The table\<close>

text \<open>
  A \<open>DECIMAL(12,2)\<close> column rounds to two places, half away from zero, and rejects a value that does
  not fit in ten digits before the point.
\<close>

definition cents :: "rat \<Rightarrow> int" where
  "cents x = (if 0 \<le> x then \<lfloor>x * 100 + 1 / 2\<rfloor> else - \<lfloor>- x * 100 + 1 / 2\<rfloor>)"

definition decimal2 :: "rat \<Rightarrow> rat" where
  "decimal2 x = of_int (cents x) / 100"

definition decimal2_fits :: "rat \<Rightarrow> bool" where
  "decimal2_fits x \<longleftrightarrow> \<bar>cents x\<bar> < 10 ^ 12"

definition calculation_fits :: "tax_calculation \<Rightarrow> bool" where
  "calculation_fits r \<longleftrightarrow> length (tk_id r) \<le> 100 \<and> length (tk_order_id r) \<le> 100
     \<and> (case tk_user_id r of None \<Rightarrow> True | Some u \<Rightarrow> length u \<le> 100)
     \<and> decimal2_fits (tk_subtotal r) \<and> decimal2_fits (tk_total_tax r) \<and> length (tk_currency r) \<le> 3"

definition stored_calculation :: "tax_calculation \<Rightarrow> tax_calculation" where
  "stored_calculation r =
     r\<lparr>tk_subtotal := decimal2 (tk_subtotal r), tk_total_tax := decimal2 (tk_total_tax r)\<rparr>"

definition insert_calculation :: "tax_calculation \<Rightarrow> unit tax_io" where
  "insert_calculation row =
     (\<lambda>s. if \<not> calculation_fits row \<or> tk_id row \<in> tk_id ` set (calculations s) then (Inl DbError, s)
          else (Inr (), s\<lparr>calculations := calculations s @ [stored_calculation row]\<rparr>))"

definition repo_get_calculation :: "string \<Rightarrow> tax_calculation option tax_io" where
  "repo_get_calculation cid =
     bnd (external DbError) (\<lambda>ok.
       if ok then gets (\<lambda>s. row_by tk_id cid (calculations s)) else ret None)"

definition create_calculation ::
  "string \<Rightarrow> string option \<Rightarrow> rat \<Rightarrow> rat \<Rightarrow> string \<Rightarrow> raw_tax_line list \<Rightarrow> address \<Rightarrow> string option
   \<Rightarrow> tax_calculation option tax_io" where
  "create_calculation order_id user_id subtotal total_tax currency tax_lines addr source =
     bnd (fresh_hex 12) (\<lambda>hex. bnd (gets now_us) (\<lambda>now.
       let cid = ''tax_'' @ hex;
           row = \<lparr>tk_id = cid, tk_order_id = order_id, tk_user_id = user_id, tk_subtotal = subtotal,
                  tk_total_tax = total_tax, tk_currency = currency, tk_lines = tax_lines, tk_address = addr,
                  tk_source = source, tk_created_at = now\<rparr>
       in bnd (external DbError) (\<lambda>ok.
            bnd (if ok then insert_calculation row else ret ()) (\<lambda>_. repo_get_calculation cid))))"

definition get_calculation_by_order :: "string \<Rightarrow> tax_calculation option tax_io" where
  "get_calculation_by_order order_id =
     bnd (external DbError) (\<lambda>ok. if ok then
       gets (\<lambda>s. first_row (order_desc tk_created_at (filter (\<lambda>r. tk_order_id r = order_id) (calculations s))))
       else ret None)"

definition list_calculations ::
  "int \<Rightarrow> int \<Rightarrow> string option \<Rightarrow> string option \<Rightarrow> tax_calculation list tax_io" where
  "list_calculations limit offset order_id user_id =
     bnd (external DbError) (\<lambda>ok.
       if \<not> ok then ret []
       else if limit < 0 \<or> offset < 0 then throw DbError
       else gets (\<lambda>s. take (nat limit) (drop (nat offset) (order_desc tk_created_at
         (filter (\<lambda>r. (truthy_str order_id \<longrightarrow> Some (tk_order_id r) = order_id)
                    \<and> (truthy_str user_id \<longrightarrow> tk_user_id r = user_id)) (calculations s))))))"

lemmas tax_repo_defs = insert_calculation_def repo_get_calculation_def create_calculation_def
  get_calculation_by_order_def list_calculations_def

subsection \<open>Lines\<close>

fun show_nat :: "nat \<Rightarrow> string" where
  "show_nat n = (if n < 10 then [char_of (48 + n)] else show_nat (n div 10) @ [char_of (48 + n mod 10)])"

declare show_nat.simps [simp del]

definition tax_line_of :: "nat \<Rightarrow> raw_tax_line \<Rightarrow> tax_line" where
  "tax_line_of i l =
     \<lparr>tl_line_item_id = (case rl_line_item_id l of None \<Rightarrow> ''line_'' @ show_nat i | Some x \<Rightarrow> x),
      tl_sku_id = rl_sku_id l,
      tl_tax_amount = (case rl_tax_amount l of None \<Rightarrow> 0 | Some x \<Rightarrow> x),
      tl_tax_rate = (case rl_rate l of None \<Rightarrow> 0 | Some x \<Rightarrow> x),
      tl_jurisdiction = rl_jurisdiction l, tl_tax_type = rl_tax_type l\<rparr>"

definition build_tax_lines :: "raw_tax_line list \<Rightarrow> tax_line list" where
  "build_tax_lines ls = map (\<lambda>(i, l). tax_line_of i l) (enumerate 0 ls)"

definition tax_db_line :: "tax_line \<Rightarrow> raw_tax_line" where
  "tax_db_line l =
     \<lparr>rl_line_item_id = Some (tl_line_item_id l), rl_sku_id = tl_sku_id l, rl_tax_amount = Some (tl_tax_amount l),
      rl_rate = Some (tl_tax_rate l), rl_jurisdiction = tl_jurisdiction l, rl_tax_type = tl_tax_type l\<rparr>"

definition item_total :: "tax_item \<Rightarrow> rat" where
  "item_total i =
     (let amount = (case ti_amount i of None \<Rightarrow> 0 | Some x \<Rightarrow> x) in
      if amount \<noteq> 0 then amount
      else (case ti_unit_price i of None \<Rightarrow> 0 | Some p \<Rightarrow> p) * of_int (case ti_quantity i of None \<Rightarrow> 1 | Some q \<Rightarrow> q))"

definition compute_subtotal :: "tax_item list \<Rightarrow> rat" where
  "compute_subtotal items = (\<Sum>i\<leftarrow>items. item_total i)"

subsection \<open>The service\<close>

record tax_response =
  xr_result :: tax_result
  xr_calculation_id :: "string option"
  xr_order_id :: "string option"

definition total_of :: "tax_result \<Rightarrow> rat" where
  "total_of r = (case tx_total_tax r of None \<Rightarrow> 0 | Some x \<Rightarrow> x)"

definition calculate_tax ::
  "tax_provider \<Rightarrow> tax_item list \<Rightarrow> address \<Rightarrow> string \<Rightarrow> string option \<Rightarrow> string \<Rightarrow> tax_response tax_io" where
  "calculate_tax prov items addr currency order_id user_id =
     (if items = [] \<or> addr = [] then throw (ValueError ''items and address are required'')
      else bnd (prov items addr currency) (\<lambda>res.
        bnd (gets tax_repository) (\<lambda>repo.
        if \<not> (truthy_str order_id \<and> repo)
        then ret \<lparr>xr_result = res, xr_calculation_id = None, xr_order_id = None\<rparr>
        else let subtotal = compute_subtotal items in
          bnd (create_calculation (the order_id) (Some user_id) subtotal (total_of res) currency
                 (tx_lines res) addr None) (\<lambda>row.
            case row of
              None \<Rightarrow> throw TypeError
            | Some c \<Rightarrow>
                bnd (publish (Some (TaxCalculated (the order_id) (tk_id c) user_id subtotal (total_of res) currency
                       (build_tax_lines (tx_lines res)) addr None))) (\<lambda>_.
                ret \<lparr>xr_result = res, xr_calculation_id = Some (tk_id c), xr_order_id = order_id\<rparr>)))))"

definition get_calculation :: "string \<Rightarrow> tax_calculation option tax_io" where
  "get_calculation order_id =
     bnd (gets tax_repository) (\<lambda>repo. if repo then get_calculation_by_order order_id else throw AttributeError)"

subsection \<open>The handler of \<open>inventory.reserved\<close>\<close>

text \<open>
  Of the metadata the handler reads \<open>shipping_address\<close> and \<open>address\<close>; an empty address is falsy; a
  metadata that is null raises.
\<close>

datatype reserved_meta = Reserved_meta_null | Reserved_meta "address option" "address option"

record reserved_data =
  rd_order_id :: "string option"
  rd_user_id :: "string option"
  rd_items :: "raw_item list"
  rd_metadata :: reserved_meta

definition default_address :: address where
  "default_address = [(''country'', ''US''), (''state'', ''CA''), (''city'', ''San Francisco''), (''postal_code'', ''94102'')]"

definition or_address :: "address option \<Rightarrow> address \<Rightarrow> address" where
  "or_address a b = (case a of None \<Rightarrow> b | Some x \<Rightarrow> if x = [] then b else x)"

definition tax_item_of :: "raw_item \<Rightarrow> tax_item" where
  "tax_item_of i =
     (let q = (case it_quantity i of None \<Rightarrow> 1 | Some q \<Rightarrow> q);
          p = (case it_unit_price i of None \<Rightarrow> 0 | Some p \<Rightarrow> p) in
      \<lparr>ti_sku_id = or_str (it_sku_id i) (it_product_id i), ti_quantity = Some q, ti_unit_price = Some p,
       ti_amount = Some (p * of_int q)\<rparr>)"

definition items_subtotal :: "tax_item list \<Rightarrow> rat" where
  "items_subtotal items = fold (\<lambda>i t. t + the (ti_amount i)) items 0"

definition summary_line :: "rat \<Rightarrow> rat \<Rightarrow> address \<Rightarrow> tax_line" where
  "summary_line tax subtotal addr =
     \<lparr>tl_line_item_id = ''total'', tl_sku_id = None, tl_tax_amount = tax,
      tl_tax_rate = (if subtotal > 0 then tax / subtotal else 0),
      tl_jurisdiction = or_str (map_of addr ''state'') (map_of addr ''country''), tl_tax_type = Some ''sales_tax''\<rparr>"

definition event_tax_lines :: "tax_result \<Rightarrow> rat \<Rightarrow> address \<Rightarrow> tax_line list" where
  "event_tax_lines res subtotal addr =
     (let ls = build_tax_lines (tx_lines res) in
      if ls = [] \<and> total_of res > 0 then [summary_line (total_of res) subtotal addr] else ls)"

definition record_tax ::
  "tax_provider \<Rightarrow> string \<Rightarrow> string option \<Rightarrow> address \<Rightarrow> tax_item list \<Rightarrow> rat \<Rightarrow> unit tax_io" where
  "record_tax prov order_id user_id addr items subtotal =
     catch
       (bnd (prov items addr ''USD'') (\<lambda>res.
          let ls = event_tax_lines res subtotal addr in
          bnd (create_calculation order_id user_id subtotal (total_of res) ''USD'' (map tax_db_line ls) addr
                 (Some ''inventory.reserved'')) (\<lambda>row.
            case row of
              None \<Rightarrow> throw TypeError
            | Some c \<Rightarrow>
                bnd (publish (map_option (\<lambda>u. TaxCalculated order_id (tk_id c) u subtotal (total_of res) ''USD'' ls addr
                       (Some ''inventory.reserved'')) user_id)) (\<lambda>_. ret ()))))
       (\<lambda>e. bnd (publish (map_option (\<lambda>u. TaxFailed order_id u ''CALCULATION_ERROR'' e (Some items)) user_id))
              (\<lambda>_. ret ()))"

definition handle_inventory_reserved :: "tax_provider \<Rightarrow> reserved_data \<Rightarrow> unit tax_io" where
  "handle_inventory_reserved prov d =
     catch
       (if \<not> truthy_str (rd_order_id d) \<or> rd_items d = [] then ret ()
        else case rd_metadata d of
          Reserved_meta_null \<Rightarrow> throw AttributeError
        | Reserved_meta ship addr \<Rightarrow>
            let address = or_address ship (or_address addr default_address);
                items = map tax_item_of (rd_items d) in
            record_tax prov (the (rd_order_id d)) (rd_user_id d) address items (items_subtotal items))
       (\<lambda>e. bnd (publish (Some (TaxFailed
                (case rd_order_id d of None \<Rightarrow> ''unknown'' | Some oid \<Rightarrow> oid)
                (case rd_user_id d of None \<Rightarrow> ''unknown'' | Some u \<Rightarrow> u) ''HANDLER_ERROR'' e None)))
              (\<lambda>_. ret ()))"

lemmas tax_service_defs = calculate_tax_def get_calculation_def record_tax_def handle_inventory_reserved_def

datatype tax_op =
    Calculate_tax "tax_item list" address string "string option" string
  | Query_calculation string
  | List_calculations int int "string option" "string option"
  | On_inventory_reserved reserved_data
  | Tax_clock datetime

definition tax_step :: "tax_provider \<Rightarrow> tax_op \<Rightarrow> tax_state \<Rightarrow> tax_state" where
  "tax_step prov op =
     (case op of
        Calculate_tax items addr cur oid uid \<Rightarrow> after (calculate_tax prov items addr cur oid uid)
      | Query_calculation oid \<Rightarrow> after (get_calculation oid)
      | List_calculations n k oid uid \<Rightarrow> after (list_calculations n k oid uid)
      | On_inventory_reserved d \<Rightarrow> after (handle_inventory_reserved prov d)
      | Tax_clock d \<Rightarrow> (\<lambda>s. s\<lparr>w_now := d\<rparr>))"

end
