(* ===== verification/TaxTheorems.thy ===== *)
theory TaxTheorems
  imports TaxService
begin

section \<open>Tax: properties\<close>

text \<open>
  The table of calculations is a ledger of well-typed rows that is only appended to, whatever fails;
  the handler answers every reservation with one event; what it stores is what it publishes up to half
  a cent.
\<close>

subsection \<open>The ledger\<close>

definition calculation_ok :: "tax_calculation \<Rightarrow> bool" where
  "calculation_ok r \<longleftrightarrow> (\<exists>k. tk_subtotal r = of_int k / 100 \<and> \<bar>k\<bar> < 10 ^ 12)
     \<and> (\<exists>k. tk_total_tax r = of_int k / 100 \<and> \<bar>k\<bar> < 10 ^ 12)
     \<and> length (tk_currency r) \<le> 3 \<and> length (tk_order_id r) \<le> 100"

definition ledger_from :: "tax_calculation list \<Rightarrow> tax_state \<Rightarrow> bool" where
  "ledger_from old s \<longleftrightarrow> unique_key tk_id (calculations s)
     \<and> (\<exists>new. calculations s = old @ new \<and> (\<forall>r \<in> set new. calculation_ok r))"

lemma ledger_world [simp]:
  "ledger_from old (s\<lparr>w_script := sc\<rparr>) = ledger_from old s" "ledger_from old (s\<lparr>w_events := es\<rparr>) = ledger_from old s"
  "ledger_from old (s\<lparr>w_uuid_next := k\<rparr>) = ledger_from old s" "ledger_from old (s\<lparr>w_now := d\<rparr>) = ledger_from old s"
  by (simp_all add: ledger_from_def)

lemma ledger_effects [preserve_rules]:
  "preserves (ledger_from old) (external e)" "preserves (ledger_from old) (fresh_hex n)"
  "preserves (ledger_from old) (publish ev)"
  by (simp_all add: preserves_external preserves_fresh_hex preserves_publish)

lemma stored_calculation_ok: "calculation_fits r \<Longrightarrow> calculation_ok (stored_calculation r)"
  by (auto simp: calculation_fits_def calculation_ok_def stored_calculation_def decimal2_def decimal2_fits_def)

lemma stored_calculation_id [simp]: "tk_id (stored_calculation r) = tk_id r"
  by (simp add: stored_calculation_def)

lemma ledger_insert [preserve_rules]: "preserves (ledger_from old) (insert_calculation row)"
  unfolding preserves_def insert_calculation_def
  using stored_calculation_ok [of row] by (auto simp: ledger_from_def unique_key_append)

lemma ledger_repo [preserve_rules]:
  "preserves (ledger_from old) (repo_get_calculation cid)"
  "preserves (ledger_from old) (create_calculation oid uid sub tax cur ls addr src)"
  "preserves (ledger_from old) (get_calculation_by_order oid')"
  "preserves (ledger_from old) (list_calculations n k oid'' uid')"
  unfolding repo_get_calculation_def create_calculation_def get_calculation_by_order_def list_calculations_def Let_def
  by (intro preserve_rules)+

lemma ledger_meta [preserve_rules]:
  "preserves I m \<Longrightarrow> (\<And>x y. preserves I (f x y)) \<Longrightarrow>
   preserves I (case v of Reserved_meta_null \<Rightarrow> m | Reserved_meta x y \<Rightarrow> f x y)"
  by (cases v) auto

context tax_authority
begin

lemma ledger_provider [preserve_rules]: "preserves (ledger_from old) (prov items addr cur)"
  by (simp add: preserves_def ledger_from_def prov_calculations)

lemma ledger_service:
  "preserves (ledger_from old) (calculate_tax prov items addr cur oid uid)"
  "preserves (ledger_from old) (get_calculation oid')"
  "preserves (ledger_from old) (handle_inventory_reserved prov d)"
  unfolding tax_service_defs Let_def by (intro preserve_rules)+

lemma ledger_step: "ledger_from old s \<Longrightarrow> ledger_from old (tax_step prov op s)"
  by (cases op) (simp_all add: tax_step_def preserves_after [of "ledger_from old"] ledger_service ledger_repo)

end

sublocale tax_authority \<subseteq> ledger: invariant_system "tax_step prov" "ledger_from old" for old
  by unfold_locales (rule ledger_step)

text \<open>
  With any provider, whatever operations run and fail: the calculations are a ledger. Rows already
  there stay as they are, new rows come after them with an identifier of their own, and their amounts
  are whole cents that fit the column.
\<close>
theorem tax_ledger_is_append_only:
  assumes "\<And>items addr cur t. calculations (snd (prov items addr cur t)) = calculations t"
    and "unique_key tk_id (calculations s)"
  shows "unique_key tk_id (calculations (fold (tax_step prov) ops s))
    \<and> (\<exists>new. calculations (fold (tax_step prov) ops s) = calculations s @ new \<and> list_all calculation_ok new)"
proof -
  have "tax_authority prov" using assms(1) by (rule tax_authority.intro)
  then have "invariant_system (tax_step prov) (ledger_from (calculations s))"
    by (intro invariant_system.intro tax_authority.ledger_step)
  moreover have "ledger_from (calculations s) s" using assms(2) by (simp add: ledger_from_def)
  ultimately have "ledger_from (calculations s) (fold (tax_step prov) ops s)"
    by (rule invariant_system.run_inv)
  then show ?thesis by (simp add: ledger_from_def list_all_iff)
qed

definition tax_empty :: tax_state where
  "tax_empty = \<lparr>w_now = \<lparr>dt_year = 2026, dt_month = 2, dt_day = 4, dt_us = 0\<rparr>,
     w_uuid = (\<lambda>k. replicate k (CHR ''c'') @ ''0123456789abcdef0123456789abcdef''), w_uuid_next = 0, w_script = [],
     w_bus = True, w_events = [], calculations = [], tax_repository = True\<rparr>"

definition reserved_1 :: reserved_data where
  "reserved_1 = \<lparr>rd_order_id = Some ''o1'', rd_user_id = Some ''u1'',
     rd_items = [\<lparr>it_sku_id = Some ''sku'', it_product_id = None, it_id = None, it_quantity = Some 3,
       it_unit_price = Some (19 / 8), it_price = None, it_weight_grams = None\<rparr>],
     rd_metadata = Reserved_meta None None\<rparr>"

theorem tax_ledger_is_append_only_witness:
  "unique_key tk_id (calculations (fold (tax_step mock_tax_provider)
     [On_inventory_reserved reserved_1, Query_calculation ''o1'', On_inventory_reserved reserved_1] tax_empty))"
  by (rule tax_ledger_is_append_only [THEN conjunct1])
    (simp_all add: mock_tax_provider_def tax_empty_def unique_key_def)

subsection \<open>What is stored and what is published\<close>

lemma cents_close: "\<bar>of_int (cents x) - x * 100\<bar> \<le> 1 / 2"
  using of_int_round_abs_le [of "x * 100"] of_int_round_abs_le [of "- x * 100"]
  unfolding cents_def round_def by (auto simp: abs_if split: if_splits)

text \<open>
  Rounding: an amount that is stored differs from the one that was computed and published by at
  most half a cent, is the same when that has whole cents, and rounding again changes nothing.
\<close>
theorem stored_amounts_are_close:
  "\<bar>decimal2 x - x\<bar> \<le> 1 / 200 \<and> decimal2 (decimal2 x) = decimal2 x \<and> decimal2 (- x) = - decimal2 x
   \<and> tk_subtotal (stored_calculation r) = decimal2 (tk_subtotal r) \<and> decimal2 (of_int k / 100) = of_int k / 100"
proof -
  have whole: "cents (of_int k / 100) = k" for k
    unfolding cents_def by (simp add: zero_le_divide_iff, linarith)
  have "\<bar>decimal2 x - x\<bar> \<le> 1 / 200"
    using cents_close [of x] unfolding decimal2_def by (simp add: field_simps abs_if split: if_splits)
  moreover have "cents (- x) = - cents x"
  proof (cases "x = 0")
    case True
    have "\<lfloor>1 / 2 :: rat\<rfloor> = 0" by (rule floor_unique) simp_all
    then show ?thesis using True by (simp add: cents_def)
  qed (auto simp: cents_def)
  ultimately show ?thesis by (simp add: decimal2_def whole stored_calculation_def)
qed

subsection \<open>One answer per reservation\<close>

lemma create_calculation_calm:
  assumes "w_script s = []"
    and "row = \<lparr>tk_id = ''tax_'' @ take 12 (w_uuid s (w_uuid_next s)), tk_order_id = oid, tk_user_id = uid,
      tk_subtotal = sub, tk_total_tax = tax, tk_currency = cur, tk_lines = ls, tk_address = addr, tk_source = src,
      tk_created_at = now_us s\<rparr>"
  shows "create_calculation oid uid sub tax cur ls addr src s =
    (if calculation_fits row \<and> tk_id row \<notin> tk_id ` set (calculations s)
     then (Inr (Some (stored_calculation row)),
           s\<lparr>w_uuid_next := Suc (w_uuid_next s), calculations := calculations s @ [stored_calculation row]\<rparr>)
     else (Inl DbError, s\<lparr>w_uuid_next := Suc (w_uuid_next s)\<rparr>))"
proof -
  have "row_by tk_id (tk_id row) (calculations s @ [stored_calculation row]) = Some (stored_calculation row)"
    if "tk_id row \<notin> tk_id ` set (calculations s)"
    using row_by_append_new [of tk_id "stored_calculation row" "calculations s"] that by simp
  then show ?thesis
    using assms
    by (auto simp: create_calculation_def repo_get_calculation_def insert_calculation_def bnd_apply fresh_hex_def
        now_us_def Let_def)
qed

definition tax_row :: "tax_state \<Rightarrow> string \<Rightarrow> string \<Rightarrow> address \<Rightarrow> rat \<Rightarrow> tax_result \<Rightarrow> tax_calculation" where
  "tax_row s oid u addr sub res =
     \<lparr>tk_id = ''tax_'' @ take 12 (w_uuid s (w_uuid_next s)), tk_order_id = oid, tk_user_id = Some u,
      tk_subtotal = sub, tk_total_tax = total_of res, tk_currency = ''USD'',
      tk_lines = map tax_db_line (event_tax_lines res sub addr), tk_address = addr,
      tk_source = Some ''inventory.reserved'', tk_created_at = now_us s\<rparr>"

lemma items_subtotal_sum: "items_subtotal (map tax_item_of items) =
    (\<Sum>i\<leftarrow>items. (case it_unit_price i of None \<Rightarrow> 0 | Some p \<Rightarrow> p) * of_int (case it_quantity i of None \<Rightarrow> 1 | Some q \<Rightarrow> q))"
proof -
  have "fold (\<lambda>i t. t + the (ti_amount i)) (map tax_item_of items) a =
      a + (\<Sum>i\<leftarrow>items. (case it_unit_price i of None \<Rightarrow> 0 | Some p \<Rightarrow> p) * of_int (case it_quantity i of None \<Rightarrow> 1 | Some q \<Rightarrow> q))" for a
    by (induction items arbitrary: a) (simp_all add: tax_item_of_def Let_def add.assoc)
  then show ?thesis by (simp add: items_subtotal_def)
qed

lemma record_tax_never_raises: "never_raises (record_tax prov oid uid a items sub)"
  unfolding record_tax_def by (intro never_raises_catch never_raises_bnd never_raises_publish never_raises_ret)

lemma handle_reserved_run:
  assumes "rd_order_id d = Some oid" and "oid \<noteq> []" and "rd_items d \<noteq> []"
    and "rd_metadata d = Reserved_meta ship addr"
  shows "handle_inventory_reserved prov d s = record_tax prov oid (rd_user_id d)
    (or_address ship (or_address addr default_address)) (map tax_item_of (rd_items d))
    (items_subtotal (map tax_item_of (rd_items d))) s"
proof -
  let ?m = "record_tax prov oid (rd_user_id d) (or_address ship (or_address addr default_address))
    (map tax_item_of (rd_items d)) (items_subtotal (map tax_item_of (rd_items d)))"
  obtain s' where "?m s = (Inr (), s')"
    using record_tax_never_raises by (metis never_raises_def old.unit.exhaust prod.collapse)
  then show ?thesis
    using assms by (simp add: handle_inventory_reserved_def catch_apply Let_def)
qed

lemma reserved_answer:
  assumes "w_script s = []" and "w_bus s"
    and "rd_order_id d = Some oid" and "oid \<noteq> []" and "rd_items d \<noteq> []" and "rd_user_id d = Some u"
    and "rd_metadata d = Reserved_meta ship addr" and "a = or_address ship (or_address addr default_address)"
    and "items = map tax_item_of (rd_items d)" and "prov items a ''USD'' s = (x, s)"
    and "s' = after (handle_inventory_reserved prov d) s"
  shows "case x of
      Inl e \<Rightarrow> calculations s' = calculations s
        \<and> w_events s' = w_events s @ [TaxFailed oid u ''CALCULATION_ERROR'' e (Some items)]
    | Inr res \<Rightarrow> let row = tax_row s oid u a (items_subtotal items) res in
        if calculation_fits row \<and> tk_id row \<notin> tk_id ` set (calculations s)
        then calculations s' = calculations s @ [stored_calculation row]
          \<and> w_events s' = w_events s @ [TaxCalculated oid (tk_id row) u (items_subtotal items) (total_of res) ''USD''
              (event_tax_lines res (items_subtotal items) a) a (Some ''inventory.reserved'')]
        else calculations s' = calculations s
          \<and> w_events s' = w_events s @ [TaxFailed oid u ''CALCULATION_ERROR'' DbError (Some items)]"
proof -
  have run: "handle_inventory_reserved prov d s = record_tax prov oid (Some u) a items (items_subtotal items) s"
    using handle_reserved_run [OF assms(3-5,7)] assms(6,8,9) by simp
  show ?thesis
  proof (cases x)
    case (Inl e)
    then show ?thesis
      using assms run
      by (auto simp: after_def record_tax_def catch_apply bnd_apply publish_calm)
  next
    case (Inr res)
    note create = create_calculation_calm [OF assms(1) refl, of oid "Some u" "items_subtotal items" "total_of res" "''USD''"
        "map tax_db_line (event_tax_lines res (items_subtotal items) a)" a "Some ''inventory.reserved''", folded tax_row_def]
    show ?thesis
      using assms(1,2,10,11) run Inr create
      by (auto simp: after_def record_tax_def catch_apply bnd_apply publish_calm Let_def)
  qed
qed

lemma reservation_gets_one_answer_row:
  assumes "w_script s = []" and "w_bus s"
    and "rd_order_id d = Some oid" and "oid \<noteq> []" and "rd_items d \<noteq> []" and "rd_user_id d = Some u"
    and "rd_metadata d = Reserved_meta ship addr" and "a = or_address ship (or_address addr default_address)"
    and "items = map tax_item_of (rd_items d)" and "prov items a ''USD'' s = (Inr res, s)"
    and "s' = after (handle_inventory_reserved prov d) s"
    and "calculation_fits (tax_row s oid u a (items_subtotal items) res)"
    and "tk_id (tax_row s oid u a (items_subtotal items) res) \<notin> tk_id ` set (calculations s)"
  shows "calculations s' = calculations s @ [stored_calculation (tax_row s oid u a (items_subtotal items) res)]
    \<and> w_events s' = w_events s @ [TaxCalculated oid (tk_id (tax_row s oid u a (items_subtotal items) res)) u
        (items_subtotal items) (total_of res) ''USD''
        (event_tax_lines res (items_subtotal items) a) a (Some ''inventory.reserved'')]"
  using reserved_answer [OF assms(1-11)] assms(12,13) by (simp add: Let_def)

text \<open>
  Every \<open>inventory.reserved\<close> event is answered by exactly one event: when the provider answers and
  the row can be stored, by \<open>tax.calculated\<close> with that row appended; when the provider raises or the
  row cannot be stored, by \<open>tax.failed\<close> with no row (database and bus working, user known).
\<close>
theorem reservation_gets_one_answer:
  assumes "w_script s = []" and "w_bus s"
    and "rd_order_id d = Some oid" and "oid \<noteq> []" and "rd_items d \<noteq> []" and "rd_user_id d = Some u"
    and "rd_metadata d = Reserved_meta ship addr" and "a = or_address ship (or_address addr default_address)"
    and "items = map tax_item_of (rd_items d)" and "prov items a ''USD'' s = (x, s)"
    and "s' = after (handle_inventory_reserved prov d) s"
  shows "case x of
      Inl e \<Rightarrow> calculations s' = calculations s
        \<and> w_events s' = w_events s @ [TaxFailed oid u ''CALCULATION_ERROR'' e (Some items)]
    | Inr res \<Rightarrow> let row = tax_row s oid u a (items_subtotal items) res in
        if calculation_fits row \<and> tk_id row \<notin> tk_id ` set (calculations s)
        then calculations s' = calculations s @ [stored_calculation row]
          \<and> w_events s' = w_events s @ [TaxCalculated oid (tk_id row) u (items_subtotal items) (total_of res) ''USD''
              (event_tax_lines res (items_subtotal items) a) a (Some ''inventory.reserved'')]
        else calculations s' = calculations s
          \<and> w_events s' = w_events s @ [TaxFailed oid u ''CALCULATION_ERROR'' DbError (Some items)]"
  using assms by (rule reserved_answer)

theorem reservation_gets_one_answer_witness:
  "w_events (after (handle_inventory_reserved (\<lambda>_ _ _. throw (Generic ''rates down'')) reserved_1) tax_empty)
     = [TaxFailed ''o1'' ''u1'' ''CALCULATION_ERROR'' (Generic ''rates down'') (Some (map tax_item_of (rd_items reserved_1)))]"
  using reservation_gets_one_answer [of tax_empty reserved_1 "''o1''" "''u1''" None None default_address
      "map tax_item_of (rd_items reserved_1)" "\<lambda>_ _ _. throw (Generic ''rates down'')" "Inl (Generic ''rates down'')", OF _ _ _ _ _ _ _ _ _ _ refl]
  by (simp add: tax_empty_def reserved_1_def or_address_def)

end
