(* ===== verification/OrderSaga.thy ===== *)
theory OrderSaga
  imports InventoryTheorems FulfillmentTheorems TaxTheorems
begin

section \<open>The path of an order through inventory, tax and fulfillment\<close>

text \<open>
  \<open>order.created\<close> makes inventory publish \<open>inventory.reserved\<close>, to which tax subscribes; tax publishes
  \<open>tax.calculated\<close>, to which fulfillment subscribes. The functions of this file turn what a publisher
  puts into an event into what the subscriber reads out of it.
\<close>

subsection \<open>From one service to the next\<close>

text \<open>
  \<open>publish_stock_reserved\<close> sends the reserved items and, as metadata, at most the name of the source
  event; \<open>publish_tax_calculated\<close> sends the address and, as metadata, at most that name: neither has an
  address or items in its metadata, which is where the subscriber looks for them.
\<close>

definition reserved_event_item :: "reserved_item \<Rightarrow> raw_item" where
  "reserved_event_item x = \<lparr>it_sku_id = Some (rsv_sku_id x), it_product_id = None, it_id = None,
     it_quantity = Some (rsv_quantity x), it_unit_price = rsv_unit_price x, it_price = None, it_weight_grams = None\<rparr>"

fun reserved_event :: "inv_event \<Rightarrow> reserved_data option" where
  "reserved_event (StockReserved oid rid u items expires src) =
     Some \<lparr>rd_order_id = Some oid, rd_user_id = Some u, rd_items = map reserved_event_item items,
       rd_metadata = Reserved_meta None None\<rparr>"
| "reserved_event (StockCommitted oid rid u items src) = None"
| "reserved_event (StockReleased oid rid u items reason src) = None"
| "reserved_event (StockFailed oid u items code e) = None"

fun tax_calculated_event :: "tax_event \<Rightarrow> tax_calculated_data option" where
  "tax_calculated_event (TaxCalculated oid cid u sub tax cur ls addr src) =
     Some \<lparr>tc_order_id = Some oid, tc_user_id = Some u, tc_shipping_address = Some addr,
       tc_metadata = Tax_meta_items []\<rparr>"
| "tax_calculated_event (TaxFailed oid u code e items) = None"

definition new_events :: "('ev, 'z) world_scheme \<Rightarrow> ('ev, 'z) world_scheme \<Rightarrow> 'ev list" where
  "new_events s s' = drop (length (w_events s)) (w_events s')"

record order_platform =
  op_inventory :: inv_state
  op_tax :: tax_state
  op_fulfillment :: ful_state

text \<open>Every event is delivered once, in the order of publication.\<close>

definition order_saga :: "tax_provider \<Rightarrow> order_created_data \<Rightarrow> order_platform \<Rightarrow> order_platform" where
  "order_saga prov d p =
     (let i = after (inv_handle_order_created d) (op_inventory p);
          t = fold (\<lambda>rd. after (handle_inventory_reserved prov rd))
                (List.map_filter reserved_event (new_events (op_inventory p) i)) (op_tax p);
          f = fold (\<lambda>td. after (ful_handle_tax_calculated td))
                (List.map_filter tax_calculated_event (new_events (op_tax p) t)) (op_fulfillment p)
      in \<lparr>op_inventory = i, op_tax = t, op_fulfillment = f\<rparr>)"

definition saga_ready :: "order_platform \<Rightarrow> string \<Rightarrow> bool" where
  "saga_ready p oid \<longleftrightarrow>
     w_script (op_inventory p) = [] \<and> w_bus (op_inventory p)
     \<and> ''res_'' @ take 12 (w_uuid (op_inventory p) (w_uuid_next (op_inventory p))) \<notin> rv_id ` set (reservations (op_inventory p))
     \<and> w_script (op_tax p) = [] \<and> w_bus (op_tax p)
     \<and> ''tax_'' @ take 12 (w_uuid (op_tax p) (w_uuid_next (op_tax p))) \<notin> tk_id ` set (calculations (op_tax p))
     \<and> w_script (op_fulfillment p) = []
     \<and> ''shp_'' @ take 12 (w_uuid (op_fulfillment p) (w_uuid_next (op_fulfillment p))) \<notin> sh_id ` set (shipments (op_fulfillment p))
     \<and> newest_shipment oid (shipments (op_fulfillment p)) = None"

definition order_value :: "reserved_item list \<Rightarrow> rat" where
  "order_value items = (\<Sum>x\<leftarrow>items. (case rsv_unit_price x of None \<Rightarrow> 0 | Some p \<Rightarrow> p) * of_int (rsv_quantity x))"

lemma reserved_event_subtotal:
  "items_subtotal (map tax_item_of (map reserved_event_item items)) = order_value items"
  unfolding items_subtotal_sum order_value_def by (simp add: reserved_event_item_def comp_def)

text \<open>
  From order to shipment, when nothing fails: the order is reserved, its tax is calculated on the
  value of the reserved items, and one shipment is prepared. But neither the items nor the address
  survive the way: whatever was ordered and wherever it is to go, the shipment holds one item
  \<open>placeholder\<close> and goes to the default address in San Francisco.
\<close>
theorem saga_prepares_placeholder:
  assumes "saga_ready p oid" and "oc_order_id d = Some oid" and "oid \<noteq> []" and "oc_user_id d = Some u"
    and "reserved = build_reserved_items (oc_items d)" and "reserved \<noteq> []"
    and "\<And>items. prov items default_address ''USD'' (op_tax p) = (Inr res, op_tax p)"
    and "calculation_fits (tax_row (op_tax p) oid u default_address (order_value reserved) res)"
    and "p' = order_saga prov d p"
  shows "(\<exists>r. reservations (op_inventory p') = reservations (op_inventory p) @ [r]
        \<and> rv_order_id r = oid \<and> rv_status r = ACTIVE \<and> rv_items r = map db_item reserved)
    \<and> (\<exists>c. calculations (op_tax p') = calculations (op_tax p) @ [c]
        \<and> tk_order_id c = oid \<and> tk_subtotal c = decimal2 (order_value reserved))
    \<and> (\<exists>r. shipments (op_fulfillment p') = shipments (op_fulfillment p) @ [r]
        \<and> sh_order_id r = oid \<and> sh_status r = CREATED \<and> sh_shipping_address r = default_address
        \<and> map it_sku_id (sh_items r) = [Some ''placeholder''])"
proof -
  let ?i = "op_inventory p" and ?t = "op_tax p" and ?f = "op_fulfillment p"
  let ?row = "new_row ?i oid (Some u) (map db_item reserved)"
  let ?ev = "StockReserved oid (rv_id ?row) u reserved (rv_expires_at ?row) (Some ''order.created'')"
  let ?calc = "tax_row ?t oid u default_address (order_value reserved) res"
  let ?ship = "prepared_row \<lparr>tc_order_id = Some oid, tc_user_id = Some u, tc_shipping_address = Some default_address,
       tc_metadata = Tax_meta_items []\<rparr> oid [] ?f"
  note ready = assms(1) [unfolded saga_ready_def]
  have i: "op_inventory p' = after (inv_handle_order_created d) ?i" by (simp add: assms(9) order_saga_def Let_def)
  have inv: "after (inv_handle_order_created d) ?i =
      ?i\<lparr>reservations := reservations ?i @ [?row], w_uuid_next := Suc (w_uuid_next ?i), w_events := w_events ?i @ [?ev]\<rparr>"
    using inv_handle_order_created_calm [OF _ assms(2,3,5,6), of ?i ?row] ready assms(4) by (simp add: new_row_def)
  have relay: "List.map_filter reserved_event (new_events ?i (after (inv_handle_order_created d) ?i)) =
      [\<lparr>rd_order_id = Some oid, rd_user_id = Some u, rd_items = map reserved_event_item reserved,
        rd_metadata = Reserved_meta None None\<rparr>]"
    by (simp add: inv new_events_def map_filter_simps)
  let ?rd = "\<lparr>rd_order_id = Some oid, rd_user_id = Some u, rd_items = map reserved_event_item reserved,
        rd_metadata = Reserved_meta None None\<rparr>"
  have t: "op_tax p' = after (handle_inventory_reserved prov ?rd) ?t"
    by (simp add: assms(9) order_saga_def Let_def relay)
  have tax: "calculations (op_tax p') = calculations ?t @ [stored_calculation ?calc]
      \<and> w_events (op_tax p') = w_events ?t @ [TaxCalculated oid (tk_id ?calc) u (order_value reserved) (total_of res) ''USD''
          (event_tax_lines res (order_value reserved) default_address) default_address (Some ''inventory.reserved'')]"
    using reservation_gets_one_answer_row [of ?t ?rd oid u None None default_address
        "map tax_item_of (map reserved_event_item reserved)" prov res "op_tax p'"] ready assms(3,6,7,8) t
    by (simp add: or_address_def default_address_def tax_row_def reserved_event_subtotal del: map_map)
  have "fold (\<lambda>td. after (ful_handle_tax_calculated td))
      (List.map_filter tax_calculated_event (new_events ?t (op_tax p'))) ?f = after (ful_handle_tax_calculated
        \<lparr>tc_order_id = Some oid, tc_user_id = Some u, tc_shipping_address = Some default_address, tc_metadata = Tax_meta_items []\<rparr>) ?f"
    using tax by (simp add: new_events_def map_filter_simps)
  then have f: "op_fulfillment p' = after (ful_handle_tax_calculated
        \<lparr>tc_order_id = Some oid, tc_user_id = Some u, tc_shipping_address = Some default_address, tc_metadata = Tax_meta_items []\<rparr>) ?f"
    using t by (simp add: assms(9) order_saga_def Let_def relay)
  have "shipments (op_fulfillment p') = shipments ?f @ [?ship]"
    unfolding f using ful_tax_calm [of ?f _ oid "[]" ?ship] ready assms(3) by (simp add: prepared_row_def)
  moreover have "sh_order_id ?ship = oid \<and> sh_status ?ship = CREATED \<and> sh_shipping_address ?ship = default_address
      \<and> map it_sku_id (sh_items ?ship) = [Some ''placeholder'']"
    by (simp add: prepared_row_def new_shipment_def prepared_items_def shipment_db_item_def shipment_item_of_def
        placeholder_item_def or_str_def)
  moreover have "reservations (op_inventory p') = reservations ?i @ [?row]" unfolding i inv by simp
  ultimately show ?thesis using tax
    by (auto simp: new_row_def stored_calculation_def tax_row_def)
qed

definition order_platform_empty :: order_platform where
  "order_platform_empty = \<lparr>op_inventory = inv_empty, op_tax = tax_empty, op_fulfillment = ful_empty\<rparr>"

theorem saga_prepares_placeholder_witness:
  "map (map it_sku_id \<circ> sh_items) (shipments (op_fulfillment (order_saga mock_tax_provider order_1 order_platform_empty)))
     = [[Some ''placeholder'']]"
proof -
  let ?res = "\<lparr>tx_total_tax = Some 0, tx_lines = []\<rparr>"
  have reserved: "build_reserved_items (oc_items order_1) = [\<lparr>rsv_sku_id = ''widget'', rsv_quantity = 2, rsv_unit_price = Some 5\<rparr>]"
    by (simp add: order_1_def widget_def build_reserved_items_def build_reserved_item_def item_sku_def or_str_def or_num_def
        truthy_num_def map_filter_simps)
  have fits: "decimal2_fits 10 \<and> decimal2_fits 0"
    by (simp add: decimal2_fits_def cents_def)
  have "\<exists>r. shipments (op_fulfillment (order_saga mock_tax_provider order_1 order_platform_empty)) =
      shipments (op_fulfillment order_platform_empty) @ [r] \<and> sh_order_id r = ''order_1'' \<and> sh_status r = CREATED
      \<and> sh_shipping_address r = default_address \<and> map it_sku_id (sh_items r) = [Some ''placeholder'']"
    by (rule saga_prepares_placeholder [where res = ?res and u = "''u1''", OF _ _ _ _ refl _ _ _ refl, THEN conjunct2, THEN conjunct2])
      (use fits in \<open>simp_all add: reserved, simp_all add: saga_ready_def order_platform_empty_def inv_empty_def tax_empty_def ful_empty_def
        hex_of_def order_1_def mock_tax_provider_def newest_shipment_def order_desc_def first_row_def calculation_fits_def
        tax_row_def order_value_def total_of_def\<close>)
  then show ?thesis by (auto simp: order_platform_empty_def ful_empty_def)
qed

end
