(* ===== verification/CreditData.thy ===== *)
theory CreditData
  imports Systems
begin

section \<open>Credit: data, errors and dates\<close>

text \<open>
  The data of \<open>microservices/credit_service\<close>: the rows of the four tables
  (\<open>migrations/001_create_credit_tables.sql\<close>), the exceptions of \<open>protocols.py\<close>, the events, and the
  expiration dates of \<open>credit_service.py\<close>. Credit types and policies are the strings of the source.
  Columns hold times as stamps; the repository hands them to the service as ISO strings, which for
  UTC times sort as the stamps do, and where the source confuses the two the model says so. The
  free-form columns (\<open>description\<close>, \<open>metadata\<close>, \<open>allocation_rules\<close>, \<open>currency\<close>, \<open>created_by\<close>),
  which no operation reads, are left out.
\<close>

subsection \<open>Rows\<close>

record credit_account =
  ca_id :: string
  ca_user :: string
  ca_organization :: "string option"
  ca_type :: string
  ca_balance :: int
  ca_total_allocated :: int
  ca_total_consumed :: int
  ca_total_expired :: int
  ca_policy :: string
  ca_days :: int
  ca_active :: bool
  ca_created :: int
  ca_updated :: int

datatype transaction_type = ALLOCATE | CONSUME | EXPIRE | TRANSFER_IN | TRANSFER_OUT | ADJUST

record credit_transaction =
  ct_id :: string
  ct_account :: string
  ct_user :: string
  ct_type :: transaction_type
  ct_amount :: int
  ct_before :: int
  ct_after :: int
  ct_reference :: "string option"
  ct_reference_type :: string
  ct_expires :: "int option"
  ct_created :: int

datatype allocation_status = PENDING | COMPLETED | FAILED_ALLOCATION | REVOKED | EXPIRED_ALLOCATION

record credit_allocation =
  al_id :: string
  al_campaign :: "string option"
  al_user :: string
  al_account :: string
  al_transaction :: "string option"
  al_amount :: int
  al_status :: allocation_status
  al_expires :: "int option"
  al_expired :: int
  al_consumed :: int
  al_created :: int
  al_updated :: int

text \<open>
  Of the eligibility rules only the tiers are read: \<open>None\<close> is the empty dictionary, which is falsy,
  \<open>Some tiers\<close> a dictionary with those \<open>user_tiers\<close> (empty also when it only has other keys).
\<close>

record credit_campaign =
  cp_id :: string
  cp_name :: string
  cp_type :: string
  cp_credit_amount :: int
  cp_budget :: int
  cp_allocated :: int
  cp_tiers :: "string list option"
  cp_start :: int
  cp_end :: int
  cp_days :: int
  cp_max_per_user :: int
  cp_active :: bool
  cp_created :: int
  cp_updated :: int

definition al_available :: "credit_allocation \<Rightarrow> int" where
  "al_available a = al_amount a - al_consumed a - al_expired a"

subsection \<open>Errors, events, state\<close>

datatype credit_err =
    AccountNotFound
  | InsufficientCredits int int
  | CampaignBudgetExhausted string int int
  | CampaignNotFound
  | CampaignInactive string
  | InvalidCreditType
  | AllocationFailed credit_cause
  | ConsumptionFailed credit_cause
  | TransferFailed credit_cause
  | UserValidationFailed
and credit_cause = Reason string | Because "credit_err exn"

datatype credit_event =
    CreditAllocated string string int string "int option"
  | CreditConsumed string int "string option" "string list"
  | CreditExpired string int string int
  | CreditTransferred string string int string string
  | CreditExpiringSoon string int string

record user_info =
  ui_active :: bool
  ui_tier :: "string option"

text \<open>
  \<open>cs_users\<close> is what the account service would answer, \<open>None\<close> when the service runs without an
  account client.
\<close>

record credit_state = "credit_event world" +
  cs_accounts :: "credit_account list"
  cs_transactions :: "credit_transaction list"
  cs_allocations :: "credit_allocation list"
  cs_campaigns :: "credit_campaign list"
  cs_users :: "(string \<Rightarrow> user_info option) option"

type_synonym 'a credit_io = "(credit_state, credit_err exn, 'a) io"

subsection \<open>Constants of the service\<close>

definition valid_credit_types :: "string list" where
  "valid_credit_types = [''promotional'', ''bonus'', ''referral'', ''subscription'', ''compensation'']"

definition non_transferable_types :: "string list" where
  "non_transferable_types = [''compensation'']"

definition valid_policies :: "string list" where
  "valid_policies = [''fixed_days'', ''end_of_month'', ''end_of_year'', ''subscription_period'', ''never'']"

definition type_priority :: "string \<Rightarrow> int" where
  "type_priority t =
     (case map_of [(''compensation'', 1), (''promotional'', 2), (''bonus'', 3), (''referral'', 4),
                   (''subscription'', 5)] t of
        None \<Rightarrow> 99 | Some p \<Rightarrow> p)"

subsection \<open>Calendar steps\<close>

definition next_day :: "datetime \<Rightarrow> datetime" where
  "next_day d =
     (if dt_day d < days_in_month (dt_year d) (dt_month d) then d\<lparr>dt_day := dt_day d + 1\<rparr>
      else if dt_month d < 12 then d\<lparr>dt_month := dt_month d + 1, dt_day := 1\<rparr>
      else d\<lparr>dt_year := dt_year d + 1, dt_month := 1, dt_day := 1\<rparr>)"

definition prev_day :: "datetime \<Rightarrow> datetime" where
  "prev_day d =
     (if 1 < dt_day d then d\<lparr>dt_day := dt_day d - 1\<rparr>
      else if 1 < dt_month d
      then d\<lparr>dt_month := dt_month d - 1, dt_day := days_in_month (dt_year d) (dt_month d - 1)\<rparr>
      else d\<lparr>dt_year := dt_year d - 1, dt_month := 12, dt_day := 31\<rparr>)"

definition last_us :: int where
  "last_us = us_per_day - 1"

text \<open>\<open>datetime\<close> has the years 1 to 9999; a \<open>timedelta\<close> at most 999999999 days.\<close>

definition max_ordinal :: int where
  "max_ordinal = 3652059"

definition plus_days :: "int \<Rightarrow> int \<Rightarrow> credit_err exn + int" where
  "plus_days t n =
     (let t' = t + n * us_per_day in
      if \<bar>n\<bar> \<le> 999999999 \<and> us_per_day \<le> t' \<and> t' < (max_ordinal + 1) * us_per_day then Inr t'
      else Inl (Generic ''OverflowError''))"

definition end_of_month :: "datetime \<Rightarrow> datetime" where
  "end_of_month d =
     (let next_month = (next_day ^^ 4) (d\<lparr>dt_day := 28\<rparr>);
          last_day = (prev_day ^^ nat (dt_day next_month)) next_month
      in last_day\<lparr>dt_us := last_us\<rparr>)"

definition end_of_year :: "datetime \<Rightarrow> datetime" where
  "end_of_year d = d\<lparr>dt_month := 12, dt_day := 31, dt_us := last_us\<rparr>"

text \<open>
  \<open>_calculate_expiration_date\<close>. In December of the year 9999 the step to the next month leaves the
  range of \<open>datetime\<close>.
\<close>

definition calculate_expiration_date ::
  "datetime \<Rightarrow> string \<Rightarrow> int \<Rightarrow> credit_campaign option \<Rightarrow> credit_err exn + int option" where
  "calculate_expiration_date now policy days campaign =
     (let days = (case campaign of None \<Rightarrow> days | Some c \<Rightarrow> cp_days c);
          plus = (\<lambda>n. map_sum id Some (plus_days (stamp now) n)) in
      if policy = ''never'' then Inr None
      else if policy = ''fixed_days'' then plus days
      else if policy = ''end_of_month''
      then if dt_year now = 9999 \<and> dt_month now = 12 then Inl (Generic ''OverflowError'')
           else Inr (Some (stamp (end_of_month now)))
      else if policy = ''end_of_year'' then Inr (Some (stamp (end_of_year now)))
      else if policy = ''subscription_period'' then plus 30
      else plus days)"

subsection \<open>Calendar lemmas\<close>

lemma days_in_month_cases:
  obtains "days_in_month y m = 28" | "days_in_month y m = 29"
    | "days_in_month y m = 30" | "days_in_month y m = 31"
proof -
  have "days_in_month y m \<in> {28, 29, 30, 31}" by (simp add: days_in_month_def)
  then show ?thesis using that by blast
qed

lemma next_day_early:
  assumes "dt_day e < 28"
  shows "next_day e = e\<lparr>dt_day := dt_day e + 1\<rparr>"
  using assms days_in_month_bounds [of "dt_year e" "dt_month e"] by (simp add: next_day_def)

definition first_days :: "datetime \<Rightarrow> int \<Rightarrow> datetime" where
  "first_days d n =
     (if dt_month d < 12 then d\<lparr>dt_month := dt_month d + 1, dt_day := n\<rparr>
      else d\<lparr>dt_year := dt_year d + 1, dt_month := 1, dt_day := n\<rparr>)"

lemma next_day_first_days: "n < 28 \<Longrightarrow> next_day (first_days d n) = first_days d (n + 1)"
  by (simp add: next_day_early first_days_def)

lemma next_month_is_first_days:
  "(next_day ^^ 4) (d\<lparr>dt_day := 28\<rparr>) = first_days d (32 - days_in_month (dt_year d) (dt_month d))"
proof -
  have four: "(next_day ^^ 4) e = next_day (next_day (next_day (next_day e)))" for e
    by (simp add: eval_nat_numeral)
  have first: "n = days_in_month (dt_year d) (dt_month d) \<Longrightarrow> next_day (d\<lparr>dt_day := n\<rparr>) = first_days d 1" for n
    by (simp add: next_day_def first_days_def)
  have inside: "n < days_in_month (dt_year d) (dt_month d) \<Longrightarrow> next_day (d\<lparr>dt_day := n\<rparr>) = d\<lparr>dt_day := n + 1\<rparr>" for n
    by (simp add: next_day_def)
  show ?thesis
    by (cases rule: days_in_month_cases [of "dt_year d" "dt_month d"])
      (simp_all only: four, simp_all add: first inside next_day_first_days)
qed

lemma end_of_month_fields:
  assumes "valid_datetime d"
  shows "end_of_month d =
    d\<lparr>dt_day := days_in_month (dt_year d) (dt_month d), dt_us := last_us\<rparr>"
proof -
  have to_first: "(prev_day ^^ nat (dt_day e)) e = prev_day (e\<lparr>dt_day := 1\<rparr>)" if "1 \<le> dt_day e" for e
  proof -
    have "(prev_day ^^ n) e = e\<lparr>dt_day := dt_day e - int n\<rparr>" if "int n < dt_day e" for n
      using that by (induction n) (simp_all add: prev_day_def)
    from this [of "nat (dt_day e - 1)"] that
    have "(prev_day ^^ nat (dt_day e - 1)) e = e\<lparr>dt_day := 1\<rparr>" by simp
    moreover have "nat (dt_day e) = Suc (nat (dt_day e - 1))" using that by simp
    ultimately show ?thesis by simp
  qed
  have dec: "dt_month d = 12" if "\<not> dt_month d < 12" using assms that by (simp add: valid_datetime_def)
  have jan: "1 \<le> dt_month d" using assms by (simp add: valid_datetime_def)
  let ?n = "32 - days_in_month (dt_year d) (dt_month d)"
  have "1 \<le> dt_day (first_days d ?n)"
    using days_in_month_bounds [of "dt_year d" "dt_month d"] by (simp add: first_days_def)
  from to_first [OF this]
  have "end_of_month d = (prev_day (first_days d 1))\<lparr>dt_us := last_us\<rparr>"
    by (simp add: end_of_month_def next_month_is_first_days Let_def first_days_def)
  also have "prev_day (first_days d 1) = d\<lparr>dt_day := days_in_month (dt_year d) (dt_month d)\<rparr>"
    using dec jan by (simp add: first_days_def prev_day_def days_in_month_def)
  finally show ?thesis by simp
qed

end
