(* ===== verification/CreditRepo.thy ===== *)
theory CreditRepo
  imports CreditData
begin

section \<open>Credit: the repository\<close>

text \<open>
  \<open>microservices/credit_service/credit_repository.py\<close>. Every method is one statement (three for
  \<open>delete_user_data\<close>); PostgreSQL raises when a value does not fit its column, when an \<open>INTEGER\<close>
  expression overflows or when a unique key is taken, and then the statement does nothing. The
  methods that share a name with one of the service carry the prefix \<open>repo_\<close>.
\<close>

subsection \<open>Statements\<close>

definition query_rows :: "(credit_state \<Rightarrow> 'r list) \<Rightarrow> 'r list credit_io" where
  "query_rows q = bnd (external DbError) (\<lambda>ok. if ok then gets q else ret [])"

definition query_row :: "(credit_state \<Rightarrow> 'r option) \<Rightarrow> 'r option credit_io" where
  "query_row q = bnd (external DbError) (\<lambda>ok. if ok then gets q else ret None)"

text \<open>\<open>INSERT ... RETURNING *\<close>: the row, or the exception of the method when no row came back.\<close>

definition insert_returning :: "string \<Rightarrow> (credit_state \<Rightarrow> bool) \<Rightarrow> 'r \<Rightarrow> (credit_state \<Rightarrow> credit_state) \<Rightarrow> 'r credit_io" where
  "insert_returning msg fits row ins =
     bnd (external DbError) (\<lambda>ok.
       if \<not> ok then throw (Generic msg)
       else (\<lambda>s. if fits s then (Inr row, ins s) else (Inl DbError, s)))"

text \<open>\<open>data.get("id") or f"prefix{uuid4().hex[:12]}"\<close>\<close>

definition id_or_fresh :: "string \<Rightarrow> string \<Rightarrow> string credit_io" where
  "id_or_fresh given prefix =
     (if given \<noteq> [] then ret given else bnd (fresh_hex 12) (\<lambda>h. ret (prefix @ h)))"

subsection \<open>Column constraints\<close>

definition account_fits :: "credit_account \<Rightarrow> bool" where
  "account_fits a \<longleftrightarrow> int4 (ca_balance a) \<and> int4 (ca_total_allocated a) \<and> int4 (ca_total_consumed a)
     \<and> int4 (ca_total_expired a) \<and> int4 (ca_days a) \<and> length (ca_user a) \<le> 50 \<and> length (ca_type a) \<le> 30
     \<and> length (ca_policy a) \<le> 30 \<and> length (ca_id a) \<le> 50
     \<and> (case ca_organization a of None \<Rightarrow> True | Some x \<Rightarrow> length x \<le> 50)"

definition account_insertable :: "credit_account \<Rightarrow> credit_state \<Rightarrow> bool" where
  "account_insertable a s \<longleftrightarrow> account_fits a \<and> ca_id a \<notin> ca_id ` set (cs_accounts s)
     \<and> (ca_user a, ca_type a) \<notin> (\<lambda>x. (ca_user x, ca_type x)) ` set (cs_accounts s)"

definition transaction_fits :: "credit_transaction \<Rightarrow> bool" where
  "transaction_fits t \<longleftrightarrow> int4 (ct_amount t) \<and> int4 (ct_before t) \<and> int4 (ct_after t)
     \<and> length (ct_id t) \<le> 50 \<and> length (ct_account t) \<le> 50 \<and> length (ct_user t) \<le> 50
     \<and> (case ct_reference t of None \<Rightarrow> True | Some x \<Rightarrow> length x \<le> 100)"

definition allocation_fits :: "credit_allocation \<Rightarrow> bool" where
  "allocation_fits a \<longleftrightarrow> int4 (al_amount a) \<and> int4 (al_expired a) \<and> int4 (al_consumed a)
     \<and> length (al_id a) \<le> 50 \<and> length (al_user a) \<le> 50 \<and> length (al_account a) \<le> 50
     \<and> (case al_campaign a of None \<Rightarrow> True | Some x \<Rightarrow> length x \<le> 50)"

definition campaign_fits :: "credit_campaign \<Rightarrow> bool" where
  "campaign_fits c \<longleftrightarrow> int4 (cp_credit_amount c) \<and> int4 (cp_budget c) \<and> int4 (cp_allocated c)
     \<and> int4 (cp_days c) \<and> int4 (cp_max_per_user c) \<and> length (cp_id c) \<le> 50 \<and> length (cp_name c) \<le> 100
     \<and> length (cp_type c) \<le> 30"

subsection \<open>Accounts\<close>

definition repo_create_account :: "credit_account \<Rightarrow> credit_account credit_io" where
  "repo_create_account data =
     bnd (id_or_fresh (ca_id data) ''cred_acc_'') (\<lambda>aid. bnd (gets now_us) (\<lambda>now.
       let row = data\<lparr>ca_id := aid, ca_created := now, ca_updated := now\<rparr> in
       insert_returning ''Failed to create credit account'' (account_insertable row) row
         (\<lambda>s. s\<lparr>cs_accounts := cs_accounts s @ [row]\<rparr>)))"

definition get_account_by_id :: "string \<Rightarrow> credit_account option credit_io" where
  "get_account_by_id aid = query_row (\<lambda>s. row_by ca_id aid (cs_accounts s))"

definition get_account_by_user_type :: "string \<Rightarrow> string \<Rightarrow> credit_account option credit_io" where
  "get_account_by_user_type uid ty =
     query_row (\<lambda>s. row_by (\<lambda>a. (ca_user a, ca_type a)) (uid, ty) (cs_accounts s))"

record account_filter =
  af_type :: "string option"
  af_active :: "bool option"
  af_organization :: "string option"

definition account_matches :: "string \<Rightarrow> account_filter \<Rightarrow> credit_account \<Rightarrow> bool" where
  "account_matches uid f a \<longleftrightarrow> ca_user a = uid
     \<and> (truthy_str (af_type f) \<longrightarrow> Some (ca_type a) = af_type f)
     \<and> (case af_active f of None \<Rightarrow> True | Some b \<Rightarrow> ca_active a = b)
     \<and> (truthy_str (af_organization f) \<longrightarrow> ca_organization a = af_organization f)"

definition repo_get_user_accounts :: "string \<Rightarrow> account_filter \<Rightarrow> credit_account list credit_io" where
  "repo_get_user_accounts uid f =
     query_rows (\<lambda>s. order_desc ca_created (filter (account_matches uid f) (cs_accounts s)))"

definition apply_delta :: "int \<Rightarrow> int \<Rightarrow> credit_account \<Rightarrow> credit_account" where
  "apply_delta delta now a =
     a\<lparr>ca_balance := ca_balance a + delta,
       ca_total_allocated := (if delta > 0 then ca_total_allocated a + delta else ca_total_allocated a),
       ca_total_consumed := (if delta < 0 then ca_total_consumed a + \<bar>delta\<bar> else ca_total_consumed a),
       ca_updated := now\<rparr>"

definition update_account_balance :: "string \<Rightarrow> int \<Rightarrow> bool credit_io" where
  "update_account_balance aid delta =
     bnd (gets now_us) (\<lambda>now. bnd (external DbError) (\<lambda>ok.
       if \<not> ok then ret False
       else (\<lambda>s. if \<not> int4 delta then (Inl DbError, s) else
         (case row_by ca_id aid (cs_accounts s) of
            None \<Rightarrow> (Inr False, s)
          | Some a \<Rightarrow>
              if \<not> int4 (ca_balance a + delta) then (Inl DbError, s)
              else if ca_balance a + delta < 0 then (Inr False, s)
              else if \<not> account_fits (apply_delta delta now a) then (Inl DbError, s)
              else (Inr True, s\<lparr>cs_accounts :=
                      update_where (\<lambda>x. ca_id x = aid) (apply_delta delta now) (cs_accounts s)\<rparr>)))))"

definition get_aggregated_balance :: "string \<Rightarrow> (string \<times> int) list credit_io" where
  "get_aggregated_balance uid =
     catch (query_rows (\<lambda>s.
              let rows = filter (\<lambda>a. ca_user a = uid \<and> ca_active a) (cs_accounts s) in
              map (\<lambda>ty. (ty, \<Sum>a\<leftarrow>filter (\<lambda>a. ca_type a = ty) rows. ca_balance a)) (remdups (map ca_type rows))))
           (\<lambda>_. ret [])"

subsection \<open>Transactions\<close>

definition create_transaction :: "credit_transaction \<Rightarrow> credit_transaction credit_io" where
  "create_transaction data =
     bnd (id_or_fresh (ct_id data) ''cred_txn_'') (\<lambda>tid. bnd (gets now_us) (\<lambda>now.
       let row = data\<lparr>ct_id := tid, ct_created := now\<rparr> in
       insert_returning ''Failed to create transaction''
         (\<lambda>s. transaction_fits row \<and> ct_id row \<notin> ct_id ` set (cs_transactions s)) row
         (\<lambda>s. s\<lparr>cs_transactions := cs_transactions s @ [row]\<rparr>)))"

record transaction_filter =
  tf_account :: "string option"
  tf_type :: "transaction_type option"
  tf_start :: "int option"
  tf_end :: "int option"
  tf_reference_type :: "string option"
  tf_limit :: int
  tf_offset :: int

definition transaction_matches :: "string \<Rightarrow> transaction_filter \<Rightarrow> credit_transaction \<Rightarrow> bool" where
  "transaction_matches uid f t \<longleftrightarrow> ct_user t = uid
     \<and> (truthy_str (tf_account f) \<longrightarrow> Some (ct_account t) = tf_account f)
     \<and> (case tf_type f of None \<Rightarrow> True | Some ty \<Rightarrow> ct_type t = ty)
     \<and> (case tf_start f of None \<Rightarrow> True | Some x \<Rightarrow> x \<le> ct_created t)
     \<and> (case tf_end f of None \<Rightarrow> True | Some x \<Rightarrow> ct_created t \<le> x)
     \<and> (truthy_str (tf_reference_type f) \<longrightarrow> Some (ct_reference_type t) = tf_reference_type f)"

definition get_user_transactions :: "string \<Rightarrow> transaction_filter \<Rightarrow> credit_transaction list credit_io" where
  "get_user_transactions uid f =
     bnd (external DbError) (\<lambda>ok.
       if \<not> ok then ret []
       else if tf_limit f < 0 \<or> tf_offset f < 0 then throw DbError
       else gets (\<lambda>s. take (nat (tf_limit f)) (drop (nat (tf_offset f))
              (order_desc ct_created (filter (transaction_matches uid f) (cs_transactions s))))))"

subsection \<open>Allocations\<close>

definition create_allocation :: "credit_allocation \<Rightarrow> credit_allocation credit_io" where
  "create_allocation data =
     bnd (id_or_fresh (al_id data) ''cred_alloc_'') (\<lambda>aid. bnd (gets now_us) (\<lambda>now.
       let row = data\<lparr>al_id := aid, al_created := now, al_updated := now\<rparr> in
       insert_returning ''Failed to create allocation''
         (\<lambda>s. allocation_fits row \<and> al_id row \<notin> al_id ` set (cs_allocations s)) row
         (\<lambda>s. s\<lparr>cs_allocations := cs_allocations s @ [row]\<rparr>)))"

definition expiring :: "int \<Rightarrow> credit_allocation \<Rightarrow> bool" where
  "expiring before a \<longleftrightarrow> (case al_expires a of None \<Rightarrow> False | Some t \<Rightarrow> t \<le> before)
     \<and> al_status a = COMPLETED \<and> al_available a > 0"

definition get_expiring_allocations :: "int \<Rightarrow> credit_allocation list credit_io" where
  "get_expiring_allocations before =
     query_rows (\<lambda>s. sort_key (\<lambda>a. the (al_expires a)) (filter (expiring before) (cs_allocations s)))"

definition add_to_allocation ::
  "(int \<Rightarrow> credit_allocation \<Rightarrow> credit_allocation) \<Rightarrow> string \<Rightarrow> int \<Rightarrow> bool credit_io" where
  "add_to_allocation add aid n =
     bnd (gets now_us) (\<lambda>now. bnd (external DbError) (\<lambda>ok.
       if \<not> ok then ret False
       else (\<lambda>s. if \<not> int4 n then (Inl DbError, s) else
         (case row_by al_id aid (cs_allocations s) of
            None \<Rightarrow> (Inr False, s)
          | Some a \<Rightarrow>
              if \<not> allocation_fits (add n a) then (Inl DbError, s)
              else (Inr True, s\<lparr>cs_allocations := update_where (\<lambda>x. al_id x = aid)
                     (\<lambda>x. (add n x)\<lparr>al_updated := now\<rparr>) (cs_allocations s)\<rparr>)))))"

definition update_allocation_consumed :: "string \<Rightarrow> int \<Rightarrow> bool credit_io" where
  "update_allocation_consumed =
     add_to_allocation (\<lambda>n a. a\<lparr>al_consumed := al_consumed a + n\<rparr>)"

definition update_allocation_expired :: "string \<Rightarrow> int \<Rightarrow> bool credit_io" where
  "update_allocation_expired =
     add_to_allocation (\<lambda>n a. a\<lparr>al_expired := al_expired a + n\<rparr>)"

definition get_user_allocations ::
  "string \<Rightarrow> string option \<Rightarrow> allocation_status option \<Rightarrow> bool \<Rightarrow> credit_allocation list credit_io" where
  "get_user_allocations uid campaign status active_only =
     query_rows (\<lambda>s. order_desc al_created (filter (\<lambda>a. al_user a = uid
       \<and> (truthy_str campaign \<longrightarrow> al_campaign a = campaign)
       \<and> (case status of None \<Rightarrow> True | Some st \<Rightarrow> al_status a = st)
       \<and> (active_only \<longrightarrow> al_available a > 0)) (cs_allocations s)))"

text \<open>\<open>ORDER BY expires_at ASC NULLS LAST, created_at ASC\<close>\<close>

definition fifo_key :: "credit_allocation \<Rightarrow> (int \<times> int) \<times> int" where
  "fifo_key a = ((case al_expires a of None \<Rightarrow> (1, 0) | Some t \<Rightarrow> (0, t)), al_created a)"

definition consumable :: "string \<Rightarrow> int \<Rightarrow> credit_allocation \<Rightarrow> bool" where
  "consumable acc now a \<longleftrightarrow> al_account a = acc \<and> al_status a = COMPLETED \<and> al_available a > 0
     \<and> (case al_expires a of None \<Rightarrow> True | Some t \<Rightarrow> now < t)"

definition get_available_credits_fifo :: "string \<Rightarrow> credit_allocation list credit_io" where
  "get_available_credits_fifo acc =
     query_rows (\<lambda>s. sort_key fifo_key (filter (consumable acc (now_us s)) (cs_allocations s)))"

text \<open>A failing count is logged and answered with 0.\<close>

definition get_user_campaign_allocations_count :: "string \<Rightarrow> string \<Rightarrow> int credit_io" where
  "get_user_campaign_allocations_count uid cid =
     catch (bnd (query_rows (\<lambda>s. filter (\<lambda>a. al_user a = uid \<and> al_campaign a = Some cid) (cs_allocations s)))
              (\<lambda>rows. ret (int (length rows))))
           (\<lambda>_. ret 0)"

subsection \<open>Campaigns\<close>

definition repo_create_campaign :: "credit_campaign \<Rightarrow> credit_campaign credit_io" where
  "repo_create_campaign data =
     bnd (id_or_fresh (cp_id data) ''camp_'') (\<lambda>cid. bnd (gets now_us) (\<lambda>now.
       let row = data\<lparr>cp_id := cid, cp_created := now, cp_updated := now\<rparr> in
       insert_returning ''Failed to create campaign''
         (\<lambda>s. campaign_fits row \<and> cp_id row \<notin> cp_id ` set (cs_campaigns s)) row
         (\<lambda>s. s\<lparr>cs_campaigns := cs_campaigns s @ [row]\<rparr>)))"

definition get_campaign_by_id :: "string \<Rightarrow> credit_campaign option credit_io" where
  "get_campaign_by_id cid = query_row (\<lambda>s. row_by cp_id cid (cs_campaigns s))"

definition update_campaign_budget :: "string \<Rightarrow> int \<Rightarrow> bool credit_io" where
  "update_campaign_budget cid amount =
     bnd (gets now_us) (\<lambda>now. bnd (external DbError) (\<lambda>ok.
       if \<not> ok then ret False
       else (\<lambda>s. if \<not> int4 amount then (Inl DbError, s) else
         (case row_by cp_id cid (cs_campaigns s) of
            None \<Rightarrow> (Inr False, s)
          | Some c \<Rightarrow>
              if \<not> int4 (cp_allocated c + amount) then (Inl DbError, s)
              else if cp_budget c < cp_allocated c + amount then (Inr False, s)
              else (Inr True, s\<lparr>cs_campaigns := update_where (\<lambda>x. cp_id x = cid)
                     (\<lambda>x. x\<lparr>cp_allocated := cp_allocated x + amount, cp_updated := now\<rparr>) (cs_campaigns s)\<rparr>)))))"

text \<open>
  The fields of the update request that are set; \<open>cu_other\<close> says whether it sets one of the columns
  that are not modelled.
\<close>

record campaign_updates =
  cu_name :: "string option"
  cu_type :: "string option"
  cu_credit_amount :: "int option"
  cu_budget :: "int option"
  cu_tiers :: "string list option option"
  cu_start :: "int option"
  cu_end :: "int option"
  cu_days :: "int option"
  cu_max_per_user :: "int option"
  cu_other :: bool

definition apply_updates :: "campaign_updates \<Rightarrow> credit_campaign \<Rightarrow> credit_campaign" where
  "apply_updates u c =
     c\<lparr>cp_name := (case cu_name u of None \<Rightarrow> cp_name c | Some x \<Rightarrow> x),
       cp_type := (case cu_type u of None \<Rightarrow> cp_type c | Some x \<Rightarrow> x),
       cp_credit_amount := (case cu_credit_amount u of None \<Rightarrow> cp_credit_amount c | Some x \<Rightarrow> x),
       cp_budget := (case cu_budget u of None \<Rightarrow> cp_budget c | Some x \<Rightarrow> x),
       cp_tiers := (case cu_tiers u of None \<Rightarrow> cp_tiers c | Some x \<Rightarrow> x),
       cp_start := (case cu_start u of None \<Rightarrow> cp_start c | Some x \<Rightarrow> x),
       cp_end := (case cu_end u of None \<Rightarrow> cp_end c | Some x \<Rightarrow> x),
       cp_days := (case cu_days u of None \<Rightarrow> cp_days c | Some x \<Rightarrow> x),
       cp_max_per_user := (case cu_max_per_user u of None \<Rightarrow> cp_max_per_user c | Some x \<Rightarrow> x)\<rparr>"

definition no_updates :: "campaign_updates \<Rightarrow> bool" where
  "no_updates u \<longleftrightarrow> cu_name u = None \<and> cu_type u = None \<and> cu_credit_amount u = None \<and> cu_budget u = None
     \<and> cu_tiers u = None \<and> cu_start u = None \<and> cu_end u = None \<and> cu_days u = None
     \<and> cu_max_per_user u = None \<and> \<not> cu_other u"

definition repo_update_campaign :: "string \<Rightarrow> campaign_updates \<Rightarrow> credit_campaign option credit_io" where
  "repo_update_campaign cid u =
     bnd (gets now_us) (\<lambda>now. bnd (external DbError) (\<lambda>ok.
       if \<not> ok then ret None
       else (\<lambda>s. case row_by cp_id cid (cs_campaigns s) of
            None \<Rightarrow> (Inr None, s)
          | Some c \<Rightarrow>
              let c' = (apply_updates u c)\<lparr>cp_updated := now\<rparr> in
              if \<not> campaign_fits c' then (Inl DbError, s)
              else (Inr (Some c'), s\<lparr>cs_campaigns := update_where (\<lambda>x. cp_id x = cid)
                     (\<lambda>x. (apply_updates u x)\<lparr>cp_updated := now\<rparr>) (cs_campaigns s)\<rparr>))))"

definition repo_get_active_campaigns :: "string option \<Rightarrow> credit_campaign list credit_io" where
  "repo_get_active_campaigns ty =
     query_rows (\<lambda>s. order_desc cp_created (filter (\<lambda>c. cp_active c \<and> cp_start c \<le> now_us s
       \<and> now_us s \<le> cp_end c \<and> (truthy_str ty \<longrightarrow> Some (cp_type c) = ty)) (cs_campaigns s)))"

subsection \<open>Deletion of a user's data\<close>

text \<open>
  The three \<open>DELETE\<close> statements have no \<open>RETURNING\<close>, so they give back no rows to count.
\<close>

definition delete_rows :: "(credit_state \<Rightarrow> credit_state) \<Rightarrow> int \<Rightarrow> int credit_io" where
  "delete_rows del n =
     bnd (external DbError) (\<lambda>ok. if ok then bnd (modify del) (\<lambda>_. ret n) else ret n)"

definition delete_user_data :: "string \<Rightarrow> int credit_io" where
  "delete_user_data uid =
     bnd (delete_rows (\<lambda>s. s\<lparr>cs_allocations := filter (\<lambda>a. al_user a \<noteq> uid) (cs_allocations s)\<rparr>) 0) (\<lambda>n.
     bnd (delete_rows (\<lambda>s. s\<lparr>cs_transactions := filter (\<lambda>t. ct_user t \<noteq> uid) (cs_transactions s)\<rparr>) n) (\<lambda>n.
     delete_rows (\<lambda>s. s\<lparr>cs_accounts := filter (\<lambda>a. ca_user a \<noteq> uid) (cs_accounts s)\<rparr>) n))"

end
