(* ===== verification/CreditPlan.thy ===== *)
theory CreditPlan
  imports CreditRepo "HOL-Library.Multiset"
begin

section \<open>Credit: which credits are consumed first\<close>

text \<open>
  The pure part of \<open>_build_consumption_plan\<close> in \<open>credit_service.py\<close>: the available credits of all
  accounts are sorted by expiry, type priority and age, and taken from the front until the amount
  is reached. The sort key of a credit is its expiry as an ISO string, or the \<open>datetime\<close> maximum when
  it never expires; Python cannot compare the two, so sorting credits of both kinds raises.
\<close>

record credit_source =
  cr_account :: string
  cr_type :: string
  cr_allocation :: string
  cr_available :: int
  cr_expires :: "int option"
  cr_created :: int
  cr_priority :: int

record plan_item =
  pi_account :: string
  pi_allocation :: string
  pi_amount :: int
  pi_type :: string
  pi_expires :: "int option"

definition source_of :: "credit_account \<Rightarrow> credit_allocation \<Rightarrow> credit_source" where
  "source_of acc a =
     \<lparr>cr_account = ca_id acc, cr_type = ca_type acc, cr_allocation = al_id a, cr_available = al_available a,
      cr_expires = al_expires a, cr_created = al_created a, cr_priority = type_priority (ca_type acc)\<rparr>"

definition sources_of :: "credit_account \<Rightarrow> credit_allocation list \<Rightarrow> credit_source list" where
  "sources_of acc allocs = map (source_of acc) (filter (\<lambda>a. al_available a > 0) allocs)"

definition datetime_max :: int where
  "datetime_max = max_ordinal * us_per_day + last_us"

definition sort_tuple :: "credit_source \<Rightarrow> int \<times> int \<times> int" where
  "sort_tuple c = (case cr_expires c of None \<Rightarrow> datetime_max | Some t \<Rightarrow> t, cr_priority c, cr_created c)"

definition mixed_expiry :: "credit_source list \<Rightarrow> bool" where
  "mixed_expiry cs \<longleftrightarrow> (\<exists>c \<in> set cs. cr_expires c = None) \<and> (\<exists>c \<in> set cs. cr_expires c \<noteq> None)"

definition sort_credits :: "credit_source list \<Rightarrow> credit_err exn + credit_source list" where
  "sort_credits cs = (if mixed_expiry cs then Inl TypeError else Inr (sort_key sort_tuple cs))"

fun take_credits :: "int \<Rightarrow> credit_source list \<Rightarrow> plan_item list" where
  "take_credits remaining [] = []"
| "take_credits remaining (c # cs) =
     (if remaining \<le> 0 then []
      else let a = min remaining (cr_available c) in
        \<lparr>pi_account = cr_account c, pi_allocation = cr_allocation c, pi_amount = a,
         pi_type = cr_type c, pi_expires = cr_expires c\<rparr> # take_credits (remaining - a) cs)"

definition plan_total :: "plan_item list \<Rightarrow> int" where
  "plan_total plan = (\<Sum>p\<leftarrow>plan. pi_amount p)"

definition source_total :: "credit_source list \<Rightarrow> int" where
  "source_total cs = (\<Sum>c\<leftarrow>cs. cr_available c)"

lemma plan_total_simps [simp]:
  "plan_total [] = 0" "plan_total (p # ps) = pi_amount p + plan_total ps"
  by (simp_all add: plan_total_def)

lemma source_total_simps [simp]:
  "source_total [] = 0" "source_total (c # cs) = cr_available c + source_total cs"
  by (simp_all add: source_total_def)

lemma source_total_nonneg: "(\<And>c. c \<in> set cs \<Longrightarrow> 0 < cr_available c) \<Longrightarrow> 0 \<le> source_total cs"
  by (induction cs) force+

lemma take_credits_total:
  "(\<And>c. c \<in> set cs \<Longrightarrow> 0 < cr_available c) \<Longrightarrow>
   plan_total (take_credits r cs) = (if r \<le> 0 then 0 else min r (source_total cs))"
proof (induction cs arbitrary: r)
  case Nil
  then show ?case by simp
next
  case (Cons c cs)
  then have "0 < cr_available c" and "0 \<le> source_total cs" by (auto intro: source_total_nonneg)
  with Cons show ?case by (auto simp: Let_def)
qed

lemma take_credits_amount:
  "p \<in> set (take_credits r cs) \<Longrightarrow> (\<And>c. c \<in> set cs \<Longrightarrow> 0 < cr_available c) \<Longrightarrow>
   \<exists>c \<in> set cs. pi_allocation p = cr_allocation c \<and> pi_account p = cr_account c
     \<and> pi_type p = cr_type c \<and> 0 < pi_amount p \<and> pi_amount p \<le> cr_available c"
proof (induction cs arbitrary: r)
  case Nil
  then show ?case by simp
next
  case (Cons c cs)
  from Cons.prems(1) have "0 < r" by (auto split: if_splits)
  with Cons.prems consider
      "pi_allocation p = cr_allocation c" "pi_account p = cr_account c" "pi_type p = cr_type c"
      "pi_amount p = min r (cr_available c)"
    | "p \<in> set (take_credits (r - min r (cr_available c)) cs)"
    by (auto simp: Let_def)
  then show ?case
  proof cases
    case 1
    with \<open>0 < r\<close> Cons.prems(2) [of c] show ?thesis by force
  next
    case 2
    with Cons.IH Cons.prems(2) show ?thesis by (metis list.set_intros(2))
  qed
qed

text \<open>A plan is a prefix of the sorted credits, and all of its items but the last are drained.\<close>

lemma take_credits_prefix:
  "(\<And>c. c \<in> set cs \<Longrightarrow> 0 < cr_available c) \<Longrightarrow> k < length (take_credits r cs) \<Longrightarrow>
   k < length cs \<and> pi_allocation (take_credits r cs ! k) = cr_allocation (cs ! k)
   \<and> pi_account (take_credits r cs ! k) = cr_account (cs ! k)
   \<and> 0 < pi_amount (take_credits r cs ! k) \<and> pi_amount (take_credits r cs ! k) \<le> cr_available (cs ! k)
   \<and> (Suc k < length (take_credits r cs) \<longrightarrow> pi_amount (take_credits r cs ! k) = cr_available (cs ! k))"
proof (induction cs arbitrary: r k)
  case Nil
  then show ?case by simp
next
  case (Cons c cs)
  then have r: "0 < r" by (auto split: if_splits)
  show ?case
  proof (cases k)
    case 0
    with r Cons.prems(1) [of c] show ?thesis by (cases cs) (auto simp: Let_def min_def split: if_splits)
  next
    case (Suc j)
    with r Cons.prems Cons.IH [of j "r - min r (cr_available c)"] show ?thesis
      by (simp add: Let_def)
  qed
qed

lemma take_credits_allocations:
  "map pi_allocation (take_credits r cs) = take (length (take_credits r cs)) (map cr_allocation cs)"
  by (induction cs arbitrary: r) (simp_all add: Let_def)

lemma take_credits_distinct:
  "distinct (map cr_allocation cs) \<Longrightarrow> distinct (map pi_allocation (take_credits r cs))"
  by (subst take_credits_allocations) (rule distinct_take)

lemma take_credits_nonempty: "0 < r \<Longrightarrow> cs \<noteq> [] \<Longrightarrow> take_credits r cs \<noteq> []"
  by (cases cs) (simp_all add: Let_def)

lemma sort_credits_set: "sort_credits cs = Inr cs' \<Longrightarrow> set cs' = set cs"
  by (auto simp: sort_credits_def split: if_splits)

lemma sort_credits_mset: "sort_credits cs = Inr cs' \<Longrightarrow> mset cs' = mset cs"
  by (auto simp: sort_credits_def split: if_splits)

lemma source_total_mset: "mset cs = mset cs' \<Longrightarrow> source_total cs = source_total cs'"
  unfolding source_total_def by (metis mset_map sum_mset_sum_list)

end
