(* ===== verification/CreditService.thy ===== *)
theory CreditService
  imports CreditPlan
begin

section \<open>Credit: the service\<close>

text \<open>
  \<open>microservices/credit_service/credit_service.py\<close> and \<open>events/handlers.py\<close>, method by method, with
  \<open>clients/account_client.py\<close>. A bus call of this service is not wrapped: what the bus raises, the
  method sees. Operations run one after another here; two requests that interleave between their
  database calls are not modelled.
\<close>

abbreviation fail :: "credit_err \<Rightarrow> 'a credit_io" where
  "fail e \<equiv> throw (Custom e)"

subsection \<open>Collaborators\<close>

text \<open>\<open>AccountClient.get_user\<close> turns every failure into \<open>None\<close>.\<close>

definition client_get_user :: "string \<Rightarrow> user_info option credit_io" where
  "client_get_user uid =
     catch (bnd (external ClientError) (\<lambda>ok.
              if ok then gets (\<lambda>s. case cs_users s of None \<Rightarrow> None | Some users \<Rightarrow> users uid) else ret None)
              :: user_info option credit_io)
           (\<lambda>_. ret None)"

definition client_validate_user :: "string \<Rightarrow> bool credit_io" where
  "client_validate_user uid =
     bnd (client_get_user uid) (\<lambda>u. ret (case u of None \<Rightarrow> False | Some i \<Rightarrow> ui_active i))"

definition has_client :: "credit_state \<Rightarrow> bool" where
  "has_client s \<longleftrightarrow> cs_users s \<noteq> None"

text \<open>\<open>if self.event_bus: await self.event_bus.publish(...)\<close>\<close>

definition bus_publish :: "credit_event \<Rightarrow> unit credit_io" where
  "bus_publish ev =
     bnd (gets w_bus) (\<lambda>bus.
       if \<not> bus then ret ()
       else bnd (external BusError) (\<lambda>ok.
         if ok then modify (\<lambda>s. s\<lparr>w_events := w_events s @ [ev]\<rparr>) else ret ()))"

subsection \<open>Accounts\<close>

definition create_account :: "string \<Rightarrow> string \<Rightarrow> string option \<Rightarrow> string \<Rightarrow> int \<Rightarrow> credit_account credit_io" where
  "create_account user_id ty org policy days =
     (if strip user_id = [] then throw (ValueError ''user_id is required'')
      else let uid = strip user_id in
        if length uid > 50 then throw (ValueError ''user_id must be 1-50 characters'')
        else if ty \<notin> set valid_credit_types then fail InvalidCreditType
        else if policy \<notin> set valid_policies then throw (ValueError ''expiration_policy'')
        else bnd (get_account_by_user_type uid ty) (\<lambda>existing.
          case existing of
            Some a \<Rightarrow> ret a
          | None \<Rightarrow>
              bnd (fresh_hex 24) (\<lambda>hex.
                catch (repo_create_account
                    \<lparr>ca_id = ''cred_acc_'' @ hex, ca_user = uid, ca_organization = org, ca_type = ty,
                     ca_balance = 0, ca_total_allocated = 0, ca_total_consumed = 0, ca_total_expired = 0,
                     ca_policy = policy, ca_days = days, ca_active = True, ca_created = 0, ca_updated = 0\<rparr>)
                  (\<lambda>e. fail (AllocationFailed (Because e))))))"

definition get_account :: "string \<Rightarrow> credit_account credit_io" where
  "get_account aid =
     bnd (get_account_by_id aid) (\<lambda>a. case a of None \<Rightarrow> fail AccountNotFound | Some x \<Rightarrow> ret x)"

definition get_user_accounts :: "string \<Rightarrow> string option \<Rightarrow> bool option \<Rightarrow> credit_account list credit_io" where
  "get_user_accounts uid ty active =
     repo_get_user_accounts uid \<lparr>af_type = ty, af_active = active, af_organization = None\<rparr>"

text \<open>A placeholder in the source: it logs and answers.\<close>

definition deactivate_account :: "string \<Rightarrow> bool credit_io" where
  "deactivate_account aid = ret True"

subsection \<open>Allocation\<close>

definition validate_campaign_for_allocation :: "string \<Rightarrow> string \<Rightarrow> int \<Rightarrow> credit_campaign credit_io" where
  "validate_campaign_for_allocation cid uid amount =
     bnd (get_campaign_by_id cid) (\<lambda>row.
       case row of
         None \<Rightarrow> fail CampaignNotFound
       | Some c \<Rightarrow>
           bnd (gets now_us) (\<lambda>now.
             if \<not> cp_active c then fail (CampaignInactive ''Campaign is not active'')
             else if cp_start c > now then fail (CampaignInactive ''Campaign has not started yet'')
             else if cp_end c < now then fail (CampaignInactive ''Campaign has expired'')
             else if cp_budget c - cp_allocated c < amount
             then fail (CampaignBudgetExhausted cid (cp_budget c) (cp_allocated c))
             else bnd (get_user_campaign_allocations_count uid cid) (\<lambda>n.
               if n \<ge> cp_max_per_user c then throw (ValueError ''Maximum allocations reached for this campaign'')
               else bnd (gets has_client) (\<lambda>client.
                 if \<not> client then ret c
                 else bnd (client_validate_user uid) (\<lambda>valid.
                   if \<not> valid then throw (ValueError ''User does not meet eligibility requirements'')
                   else ret c)))))"

record allocation_response =
  ar_allocation_id :: string
  ar_account_id :: string
  ar_amount :: int
  ar_balance_after :: int
  ar_expires_at :: "int option"

text \<open>The \<open>try\<close> block of \<open>allocate_credits\<close>: record, balance, allocation, budget, event.\<close>

definition write_allocation ::
  "string \<Rightarrow> int \<Rightarrow> string \<Rightarrow> string option \<Rightarrow> credit_account \<Rightarrow> int option \<Rightarrow> string \<Rightarrow> string
   \<Rightarrow> allocation_response credit_io" where
  "write_allocation uid amount ty campaign_id acc expires alloc_id txn_id =
     catch
       (bnd (create_transaction
               \<lparr>ct_id = txn_id, ct_account = ca_id acc, ct_user = uid, ct_type = ALLOCATE, ct_amount = amount,
                ct_before = ca_balance acc, ct_after = ca_balance acc + amount, ct_reference = campaign_id,
                ct_reference_type = (if truthy_str campaign_id then ''campaign'' else ''manual''),
                ct_expires = expires, ct_created = 0\<rparr>) (\<lambda>_.
        bnd (update_account_balance (ca_id acc) amount) (\<lambda>success.
        if \<not> success then fail (AllocationFailed (Reason ''balance_update_failed''))
        else bnd (create_allocation
               \<lparr>al_id = alloc_id, al_campaign = campaign_id, al_user = uid, al_account = ca_id acc,
                al_transaction = Some txn_id, al_amount = amount, al_status = COMPLETED, al_expires = expires,
                al_expired = 0, al_consumed = 0, al_created = 0, al_updated = 0\<rparr>) (\<lambda>_.
        bnd (if truthy_str campaign_id
             then bnd (update_campaign_budget (the campaign_id) amount) (\<lambda>_. ret ()) else ret ()) (\<lambda>_.
        bnd (bus_publish (CreditAllocated alloc_id uid amount ty expires)) (\<lambda>_.
        ret \<lparr>ar_allocation_id = alloc_id, ar_account_id = ca_id acc, ar_amount = amount,
             ar_balance_after = ca_balance acc + amount, ar_expires_at = expires\<rparr>))))))
       (\<lambda>e. fail (AllocationFailed (Because e)))"

definition get_or_create_account :: "string \<Rightarrow> string \<Rightarrow> credit_account credit_io" where
  "get_or_create_account uid ty =
     bnd (get_account_by_user_type uid ty) (\<lambda>a. case a of
         None \<Rightarrow> create_account uid ty None ''fixed_days'' 90 | Some acc \<Rightarrow> ret acc)"

definition allocate_credits ::
  "string \<Rightarrow> int \<Rightarrow> string \<Rightarrow> string option \<Rightarrow> int option \<Rightarrow> allocation_response credit_io" where
  "allocate_credits uid amount ty campaign_id expires_at =
     (if amount \<le> 0 then throw (ValueError ''Allocation amount must be positive'')
      else if ty \<notin> set valid_credit_types then fail InvalidCreditType
      else bnd (get_or_create_account uid ty) (\<lambda>acc.
        if \<not> ca_active acc then fail (AllocationFailed (Reason ''account_inactive''))
        else bnd (if truthy_str campaign_id
                  then bnd (validate_campaign_for_allocation (the campaign_id) uid amount) (\<lambda>c. ret (Some c))
                  else ret None) (\<lambda>campaign.
          bnd (gets w_now) (\<lambda>now.
          bnd (lift_sum (case expires_at of
                 Some t \<Rightarrow> Inr (Some t)
               | None \<Rightarrow> calculate_expiration_date now (ca_policy acc) (ca_days acc) campaign)) (\<lambda>expires.
          bnd (fresh_hex 20) (\<lambda>h1. bnd (fresh_hex 20) (\<lambda>h2.
          write_allocation uid amount ty campaign_id acc expires (''cred_alloc_'' @ h1) (''cred_txn_'' @ h2))))))))"

subsection \<open>Consumption\<close>

definition collect_credits :: "credit_account list \<Rightarrow> credit_source list credit_io" where
  "collect_credits accounts =
     for_each accounts (\<lambda>acc found.
       bnd (get_available_credits_fifo (ca_id acc)) (\<lambda>allocs. ret (found @ sources_of acc allocs))) []"

definition build_consumption_plan :: "credit_account list \<Rightarrow> int \<Rightarrow> plan_item list credit_io" where
  "build_consumption_plan accounts amount =
     bnd (collect_credits accounts) (\<lambda>found.
     bnd (lift_sum (sort_credits found)) (\<lambda>sorted.
     ret (take_credits amount sorted)))"

record consumed_item =
  cn_transaction :: string
  cn_account :: string
  cn_amount :: int
  cn_type :: string

definition consume_item ::
  "string \<Rightarrow> string option \<Rightarrow> plan_item \<Rightarrow> consumed_item list \<Rightarrow> consumed_item list credit_io" where
  "consume_item uid billing p txns =
     bnd (get_account_by_id (pi_account p)) (\<lambda>row.
       case row of
         None \<Rightarrow> throw TypeError
       | Some acc \<Rightarrow>
           bnd (fresh_hex 20) (\<lambda>hex.
             let txn_id = ''cred_txn_'' @ hex in
             bnd (create_transaction
                    \<lparr>ct_id = txn_id, ct_account = pi_account p, ct_user = uid, ct_type = CONSUME,
                     ct_amount = - pi_amount p, ct_before = ca_balance acc,
                     ct_after = ca_balance acc - pi_amount p, ct_reference = billing,
                     ct_reference_type = (if truthy_str billing then ''billing'' else ''manual''),
                     ct_expires = None, ct_created = 0\<rparr>) (\<lambda>_.
             bnd (update_account_balance (pi_account p) (- pi_amount p)) (\<lambda>success.
             if \<not> success then fail (ConsumptionFailed (Reason ''balance_update_failed''))
             else bnd (if pi_allocation p \<noteq> []
                       then bnd (update_allocation_consumed (pi_allocation p) (pi_amount p)) (\<lambda>_. ret ())
                       else ret ()) (\<lambda>_.
             ret (txns @ [\<lparr>cn_transaction = txn_id, cn_account = pi_account p, cn_amount = pi_amount p,
                           cn_type = ca_type acc\<rparr>]))))))"

record consumption_response =
  cnr_amount_consumed :: int
  cnr_balance_before :: int
  cnr_balance_after :: int
  cnr_transactions :: "consumed_item list"

definition balance_total :: "credit_account list \<Rightarrow> int" where
  "balance_total accounts = (\<Sum>a\<leftarrow>accounts. ca_balance a)"

definition execute_plan ::
  "string \<Rightarrow> string option \<Rightarrow> int \<Rightarrow> plan_item list \<Rightarrow> consumption_response credit_io" where
  "execute_plan uid billing total_balance plan =
     catch
       (bnd (for_each plan (consume_item uid billing) []) (\<lambda>txns.
          let total = (\<Sum>t\<leftarrow>txns. cn_amount t) in
          bnd (bus_publish (CreditConsumed uid total billing (map cn_transaction txns))) (\<lambda>_.
          ret \<lparr>cnr_amount_consumed = total, cnr_balance_before = total_balance,
               cnr_balance_after = total_balance - total, cnr_transactions = txns\<rparr>)))
       (\<lambda>e. fail (ConsumptionFailed (Because e)))"

definition consume_credits :: "string \<Rightarrow> int \<Rightarrow> string option \<Rightarrow> consumption_response credit_io" where
  "consume_credits uid amount billing =
     (if amount \<le> 0 then throw (ValueError ''Consumption amount must be positive'')
      else bnd (get_user_accounts uid None (Some True)) (\<lambda>accounts.
        if accounts = [] then fail (InsufficientCredits 0 amount)
        else let total_balance = balance_total accounts in
          if total_balance < amount then fail (InsufficientCredits total_balance amount)
          else bnd (build_consumption_plan accounts amount) (\<lambda>plan.
            if plan = [] then fail (ConsumptionFailed (Reason ''no_plan''))
            else execute_plan uid billing total_balance plan)))"

record availability =
  av_available :: bool
  av_total_balance :: int
  av_deficit :: int
  av_plan :: "plan_item list"

definition check_availability :: "string \<Rightarrow> int \<Rightarrow> availability credit_io" where
  "check_availability uid amount =
     (if amount \<le> 0 then throw (ValueError ''Amount must be positive'')
      else bnd (get_user_accounts uid None (Some True)) (\<lambda>accounts.
        let total_balance = balance_total accounts in
        bnd (if accounts = [] then ret [] else build_consumption_plan accounts (min amount total_balance)) (\<lambda>plan.
        ret \<lparr>av_available = (total_balance \<ge> amount), av_total_balance = total_balance,
             av_deficit = max 0 (amount - total_balance), av_plan = plan\<rparr>)))"

subsection \<open>Expiration\<close>

text \<open>
  One turn of the loop of \<open>process_expirations\<close>; the accumulator is the number of expired
  allocations and their total. Lookups outside the inner \<open>try\<close> can end the whole job.
\<close>

definition expire_one :: "credit_allocation \<Rightarrow> int \<times> int \<Rightarrow> (int \<times> int) credit_io" where
  "expire_one a counts =
     (if al_available a \<le> 0 then ret counts
      else bnd (get_account_by_id (al_account a)) (\<lambda>row.
        case row of
          None \<Rightarrow> ret counts
        | Some acc \<Rightarrow>
            let n = al_available a; done' = (fst counts + 1, snd counts + n) in
            bnd (fresh_hex 20) (\<lambda>hex.
              catch
                (bnd (create_transaction
                        \<lparr>ct_id = ''cred_txn_'' @ hex, ct_account = al_account a, ct_user = al_user a,
                         ct_type = EXPIRE, ct_amount = - n, ct_before = ca_balance acc,
                         ct_after = ca_balance acc - n, ct_reference = Some (al_id a),
                         ct_reference_type = ''allocation'', ct_expires = None, ct_created = 0\<rparr>) (\<lambda>_.
                 bnd (update_account_balance (al_account a) (- n)) (\<lambda>_.
                 bnd (update_allocation_expired (al_id a) n) (\<lambda>_.
                 bnd (catch (bus_publish (CreditExpired (al_user a) n (ca_type acc) (ca_balance acc - n)))
                        (\<lambda>_. ret ())) (\<lambda>_.
                 ret done')))))
                (\<lambda>_. ret counts))))"

record expiration_summary =
  ex_count :: int
  ex_amount :: int

definition process_expirations :: "expiration_summary credit_io" where
  "process_expirations =
     bnd (gets now_us) (\<lambda>now.
     bnd (get_expiring_allocations now) (\<lambda>allocs.
     bnd (for_each allocs expire_one (0, 0)) (\<lambda>counts.
     ret \<lparr>ex_count = fst counts, ex_amount = snd counts\<rparr>)))"

definition check_expiring_soon :: "int \<Rightarrow> credit_allocation list credit_io" where
  "check_expiring_soon days =
     bnd (gets now_us) (\<lambda>now.
     bnd (lift_sum (plus_days now days)) (\<lambda>threshold.
     bnd (get_expiring_allocations threshold) (\<lambda>allocs.
     ret (filter (\<lambda>a. case al_expires a of None \<Rightarrow> False | Some t \<Rightarrow> t > now) allocs))))"

subsection \<open>Transfer\<close>

record transfer_response =
  tr_transfer_id :: string
  tr_from_transaction :: string
  tr_to_transaction :: string
  tr_amount :: int
  tr_from_balance_after :: int
  tr_to_balance_after :: int

definition write_transfer ::
  "string \<Rightarrow> string \<Rightarrow> int \<Rightarrow> string \<Rightarrow> credit_account \<Rightarrow> credit_account \<Rightarrow> string \<Rightarrow> transfer_response credit_io" where
  "write_transfer from_uid to_uid amount ty from_acc to_acc transfer_id =
     catch
       (bnd (fresh_hex 20) (\<lambda>h1. bnd (fresh_hex 20) (\<lambda>h2.
          let t1 = ''cred_txn_'' @ h1; t2 = ''cred_txn_'' @ h2 in
          bnd (create_transaction
                 \<lparr>ct_id = t1, ct_account = ca_id from_acc, ct_user = from_uid, ct_type = TRANSFER_OUT,
                  ct_amount = - amount, ct_before = ca_balance from_acc,
                  ct_after = ca_balance from_acc - amount, ct_reference = Some transfer_id,
                  ct_reference_type = ''transfer'', ct_expires = None, ct_created = 0\<rparr>) (\<lambda>_.
          bnd (create_transaction
                 \<lparr>ct_id = t2, ct_account = ca_id to_acc, ct_user = to_uid, ct_type = TRANSFER_IN,
                  ct_amount = amount, ct_before = ca_balance to_acc,
                  ct_after = ca_balance to_acc + amount, ct_reference = Some transfer_id,
                  ct_reference_type = ''transfer'', ct_expires = None, ct_created = 0\<rparr>) (\<lambda>_.
          bnd (update_account_balance (ca_id from_acc) (- amount)) (\<lambda>from_ok.
          bnd (update_account_balance (ca_id to_acc) amount) (\<lambda>to_ok.
          if \<not> from_ok \<or> \<not> to_ok then fail (TransferFailed (Reason ''balance_update_failed''))
          else bnd (bus_publish (CreditTransferred from_uid to_uid amount ty transfer_id)) (\<lambda>_.
          ret \<lparr>tr_transfer_id = transfer_id, tr_from_transaction = t1, tr_to_transaction = t2,
               tr_amount = amount, tr_from_balance_after = ca_balance from_acc - amount,
               tr_to_balance_after = ca_balance to_acc + amount\<rparr>)))))))
         )
       (\<lambda>e. fail (TransferFailed (Because e)))"

definition transfer_credits :: "string \<Rightarrow> string \<Rightarrow> int \<Rightarrow> string \<Rightarrow> transfer_response credit_io" where
  "transfer_credits from_uid to_uid amount ty =
     (if from_uid = to_uid then throw (ValueError ''Cannot transfer to self'')
      else if amount \<le> 0 then throw (ValueError ''Transfer amount must be positive'')
      else if ty \<in> set non_transferable_types then fail (TransferFailed (Reason ''credits cannot be transferred''))
      else bnd (gets has_client) (\<lambda>client.
        bnd (if client then client_validate_user to_uid else ret True) (\<lambda>valid.
        if \<not> valid then fail UserValidationFailed
        else bnd (get_account_by_user_type from_uid ty) (\<lambda>row.
          case row of
            None \<Rightarrow> fail (InsufficientCredits 0 amount)
          | Some from_acc \<Rightarrow>
              if ca_balance from_acc < amount then fail (InsufficientCredits (ca_balance from_acc) amount)
              else bnd (get_or_create_account to_uid ty) (\<lambda>to_acc.
                bnd (fresh_hex 24) (\<lambda>hex.
                write_transfer from_uid to_uid amount ty from_acc to_acc (''trf_'' @ hex)))))))"

subsection \<open>Campaigns\<close>

definition create_campaign ::
  "string \<Rightarrow> string \<Rightarrow> int \<Rightarrow> int \<Rightarrow> int \<Rightarrow> int \<Rightarrow> string list option \<Rightarrow> int \<Rightarrow> int \<Rightarrow> credit_campaign credit_io" where
  "create_campaign name ty credit_amount budget start_date end_date tiers days max_per_user =
     (if strip name = [] then throw (ValueError ''name is required'')
      else if start_date \<ge> end_date then throw (ValueError ''start_date must be before end_date'')
      else if credit_amount \<le> 0 then throw (ValueError ''credit_amount must be positive'')
      else if budget \<le> 0 then throw (ValueError ''total_budget must be positive'')
      else if ty \<notin> set valid_credit_types then fail InvalidCreditType
      else if days < 1 \<or> days > 365 then throw (ValueError ''expiration_days must be between 1 and 365'')
      else bnd (fresh_hex 20) (\<lambda>hex. repo_create_campaign
        \<lparr>cp_id = ''camp_'' @ hex, cp_name = strip name, cp_type = ty, cp_credit_amount = credit_amount,
         cp_budget = budget, cp_allocated = 0, cp_tiers = tiers, cp_start = start_date, cp_end = end_date,
         cp_days = days, cp_max_per_user = max_per_user, cp_active = True, cp_created = 0, cp_updated = 0\<rparr>))"

definition get_campaign :: "string \<Rightarrow> credit_campaign credit_io" where
  "get_campaign cid =
     bnd (get_campaign_by_id cid) (\<lambda>c. case c of None \<Rightarrow> fail CampaignNotFound | Some x \<Rightarrow> ret x)"

definition get_active_campaigns :: "string option \<Rightarrow> credit_campaign list credit_io" where
  "get_active_campaigns ty = repo_get_active_campaigns ty"

definition update_campaign :: "string \<Rightarrow> campaign_updates \<Rightarrow> credit_campaign option credit_io" where
  "update_campaign cid u =
     bnd (get_campaign_by_id cid) (\<lambda>row.
       case row of
         None \<Rightarrow> ret None
       | Some c \<Rightarrow> if no_updates u then ret (Some c) else repo_update_campaign cid u)"

text \<open>The tier check of \<open>allocate_from_campaign\<close>: an unknown user passes it.\<close>

definition tier_allowed :: "credit_campaign \<Rightarrow> user_info option \<Rightarrow> bool" where
  "tier_allowed c user \<longleftrightarrow>
     (case (cp_tiers c, user) of
        (Some tiers, Some u) \<Rightarrow>
          tiers = [] \<or> (case ui_tier u of None \<Rightarrow> ''basic'' | Some t \<Rightarrow> t) \<in> set tiers
      | _ \<Rightarrow> True)"

definition allocate_from_campaign :: "string \<Rightarrow> string \<Rightarrow> allocation_response credit_io" where
  "allocate_from_campaign uid cid =
     bnd (validate_campaign_for_allocation cid uid 0) (\<lambda>c.
       if cp_budget c - cp_allocated c < cp_credit_amount c
       then fail (CampaignBudgetExhausted cid (cp_budget c) (cp_allocated c))
       else bnd (gets has_client) (\<lambda>client.
         bnd (if cp_tiers c \<noteq> None \<and> client then client_get_user uid else ret None) (\<lambda>user.
         if \<not> tier_allowed c user then fail (AllocationFailed (Reason ''eligibility_failed''))
         else bnd (gets now_us) (\<lambda>now.
           bnd (lift_sum (plus_days now (cp_days c))) (\<lambda>expires.
           allocate_credits uid (cp_credit_amount c) (cp_type c) (Some cid) (Some expires))))))"

subsection \<open>Warnings, balances, history, statistics\<close>

text \<open>
  \<open>alloc["expires_at"].isoformat()\<close> in \<open>process_expiration_warnings\<close>: the repository already made
  it a string, which has no such method.
\<close>

definition warn_one :: "credit_allocation \<Rightarrow> string list \<Rightarrow> string list credit_io" where
  "warn_one a notified =
     (if al_user a = [] \<or> al_available a \<le> 0 then ret notified
      else bnd (gets w_bus) (\<lambda>bus.
        if \<not> bus \<or> al_user a \<in> set notified then ret notified
        else case al_expires a of
          Some _ \<Rightarrow> throw AttributeError
        | None \<Rightarrow> bnd (bus_publish (CreditExpiringSoon (al_user a) (al_available a) (al_id a)))
                  (\<lambda>_. ret (al_user a # notified))))"

record warning_summary =
  wn_sent :: int
  wn_expiring :: int

definition process_expiration_warnings :: "int \<Rightarrow> warning_summary credit_io" where
  "process_expiration_warnings days =
     bnd (check_expiring_soon days) (\<lambda>allocs.
     bnd (for_each allocs warn_one []) (\<lambda>notified.
     ret \<lparr>wn_sent = int (length notified), wn_expiring = int (length allocs)\<rparr>))"

record balance_summary =
  bs_total :: int
  bs_expiring_soon :: int
  bs_by_type :: "(string \<times> int) list"
  bs_next_expiration :: "(int \<times> int option) option"

definition get_balance_summary :: "string \<Rightarrow> balance_summary credit_io" where
  "get_balance_summary uid =
     bnd (get_user_accounts uid None (Some True)) (\<lambda>accounts.
     bnd (get_aggregated_balance uid) (\<lambda>by_type.
     bnd (check_expiring_soon 7) (\<lambda>allocs.
     let own = filter (\<lambda>a. al_user a = uid) allocs in
     ret \<lparr>bs_total = balance_total accounts, bs_expiring_soon = (\<Sum>a\<leftarrow>own. al_available a),
          bs_by_type = by_type,
          bs_next_expiration = (case own of [] \<Rightarrow> None | a # _ \<Rightarrow> Some (al_available a, al_expires a))\<rparr>)))"

record transaction_page =
  tp_transactions :: "credit_transaction list"
  tp_total :: int
  tp_page :: int
  tp_page_size :: int

definition get_transactions :: "string \<Rightarrow> transaction_filter \<Rightarrow> transaction_page credit_io" where
  "get_transactions uid f =
     bnd (get_user_transactions uid f) (\<lambda>rows.
     ret \<lparr>tp_transactions = rows, tp_total = int (length rows),
          tp_page = (if tf_limit f > 0 then tf_offset f div tf_limit f + 1 else 1), tp_page_size = tf_limit f\<rparr>)"

record credit_statistics =
  st_allocated :: int
  st_consumed :: int
  st_expired :: int
  st_utilization :: rat
  st_expiration :: rat
  st_active_campaigns :: int
  st_active_accounts :: int

definition get_statistics :: "string option \<Rightarrow> credit_statistics credit_io" where
  "get_statistics user_id =
     bnd (if truthy_str user_id then get_user_accounts (the user_id) None (Some True) else ret []) (\<lambda>accounts.
     let total = (\<lambda>f. \<Sum>a\<leftarrow>accounts. f a);
         rate = (\<lambda>n. if total ca_total_allocated > 0 then of_int n / of_int (total ca_total_allocated) else 0) in
     bnd (get_active_campaigns None) (\<lambda>campaigns.
     ret \<lparr>st_allocated = total ca_total_allocated, st_consumed = total ca_total_consumed,
          st_expired = total ca_total_expired, st_utilization = min (rate (total ca_total_consumed)) 1,
          st_expiration = min (rate (total ca_total_expired)) 1,
          st_active_campaigns = int (length campaigns), st_active_accounts = int (length accounts)\<rparr>))"

subsection \<open>The event handlers\<close>

text \<open>
  The handlers call the service in ways it does not support: \<open>get_active_signup_campaign\<close> and
  \<open>get_referrer_by_code\<close> are not methods of \<open>CreditService\<close>, and \<open>allocate_credits\<close> has no
  parameters \<open>reference_id\<close> and \<open>reference_type\<close>. Python raises at the attribute access, or at the
  call before the body runs.
\<close>

record subscription_data =
  sd_user_id :: "string option"
  sd_subscription_id :: "string option"
  sd_credits_included :: "int option"
  sd_period_end :: "int option"

record order_completed_data =
  od_user_id :: "string option"
  od_referral_code :: "string option"

definition credit_handle_user_created :: "string option \<Rightarrow> unit credit_io" where
  "credit_handle_user_created user_id =
     catch (if \<not> truthy_str user_id then ret () else throw AttributeError :: unit credit_io) (\<lambda>_. ret ())"

definition credit_handle_subscription :: "subscription_data \<Rightarrow> unit credit_io" where
  "credit_handle_subscription d =
     catch
       (if \<not> truthy_str (sd_user_id d) then ret ()
        else if (case sd_credits_included d of None \<Rightarrow> 0 | Some n \<Rightarrow> n) > 0
        then catch (throw TypeError :: unit credit_io) (\<lambda>_. ret ())
        else ret () :: unit credit_io)
       (\<lambda>_. ret ())"

definition credit_handle_order_completed :: "order_completed_data \<Rightarrow> unit credit_io" where
  "credit_handle_order_completed d =
     catch (if \<not> truthy_str (od_referral_code d) then ret () else throw AttributeError :: unit credit_io) (\<lambda>_. ret ())"

definition credit_handle_user_deleted :: "string option \<Rightarrow> unit credit_io" where
  "credit_handle_user_deleted user_id =
     catch
       (if \<not> truthy_str user_id then ret ()
        else catch (bnd (delete_user_data (the user_id)) (\<lambda>_. ret ())) (\<lambda>_. ret ()) :: unit credit_io)
       (\<lambda>_. ret ())"

subsection \<open>All operations\<close>

datatype credit_op =
    Create_account string string "string option" string int
  | Deactivate string
  | Allocate string int string "string option" "int option"
  | Consume string int "string option"
  | Check_availability string int
  | Process_expirations
  | Transfer string string int string
  | Create_campaign string string int int int int "string list option" int int
  | Update_campaign string campaign_updates
  | Allocate_from_campaign string string
  | Expiration_warnings int
  | Balance string
  | Transactions string transaction_filter
  | Statistics "string option"
  | On_user_created "string option"
  | On_subscription subscription_data
  | On_order_completed order_completed_data
  | On_user_deleted "string option"
  | Clock datetime

definition credit_step :: "credit_op \<Rightarrow> credit_state \<Rightarrow> credit_state" where
  "credit_step op =
     (case op of
        Create_account uid ty org policy days \<Rightarrow> after (create_account uid ty org policy days)
      | Deactivate aid \<Rightarrow> after (deactivate_account aid)
      | Allocate uid amount ty cid expires \<Rightarrow> after (allocate_credits uid amount ty cid expires)
      | Consume uid amount billing \<Rightarrow> after (consume_credits uid amount billing)
      | Check_availability uid amount \<Rightarrow> after (check_availability uid amount)
      | Process_expirations \<Rightarrow> after process_expirations
      | Transfer u v amount ty \<Rightarrow> after (transfer_credits u v amount ty)
      | Create_campaign name ty ca b sd ed tiers days mx \<Rightarrow> after (create_campaign name ty ca b sd ed tiers days mx)
      | Update_campaign cid u \<Rightarrow> after (update_campaign cid u)
      | Allocate_from_campaign uid cid \<Rightarrow> after (allocate_from_campaign uid cid)
      | Expiration_warnings days \<Rightarrow> after (process_expiration_warnings days)
      | Balance uid \<Rightarrow> after (get_balance_summary uid)
      | Transactions uid f \<Rightarrow> after (get_transactions uid f)
      | Statistics uid \<Rightarrow> after (get_statistics uid)
      | On_user_created uid \<Rightarrow> after (credit_handle_user_created uid)
      | On_subscription d \<Rightarrow> after (credit_handle_subscription d)
      | On_order_completed d \<Rightarrow> after (credit_handle_order_completed d)
      | On_user_deleted uid \<Rightarrow> after (credit_handle_user_deleted uid)
      | Clock d \<Rightarrow> (\<lambda>s. s\<lparr>w_now := d\<rparr>))"

lemmas credit_service_defs = client_get_user_def client_validate_user_def create_account_def get_account_def
  get_user_accounts_def deactivate_account_def validate_campaign_for_allocation_def write_allocation_def
  get_or_create_account_def allocate_credits_def collect_credits_def build_consumption_plan_def
  consume_credits_def check_availability_def check_expiring_soon_def write_transfer_def transfer_credits_def
  create_campaign_def get_campaign_def get_active_campaigns_def update_campaign_def allocate_from_campaign_def
  process_expiration_warnings_def get_balance_summary_def get_transactions_def get_statistics_def
  credit_handle_user_created_def credit_handle_subscription_def credit_handle_order_completed_def
  credit_handle_user_deleted_def

end
