(* ===== verification/CreditInvariants.thy ===== *)
theory CreditInvariants
  imports CreditService
begin

section \<open>Credit: the invariants\<close>

text \<open>
  What every operation keeps, under every failure: \<open>credit_ok\<close> (keys, balances, the arithmetic of
  every row), \<open>budgets_ok\<close> (a campaign never gives out more than its budget) and \<open>allocs_ok\<close> (an
  allocation is never used up twice).

  The contract between service and repository is a pair of locales: an invariant that the writing
  methods of the repository keep is kept by the operations of the service that only use those
  methods (\<open>repository_frame\<close>), and by those that use up allocations when \<open>update_allocation\<close> keeps it
  too (\<open>repository_invariant\<close>). The service is walked through once, inside the locales.
\<close>

subsection \<open>The contract between service and repository\<close>

locale repository_frame =
  fixes I :: "credit_state \<Rightarrow> bool"
  assumes world_script: "I s \<Longrightarrow> I (s\<lparr>w_script := sc\<rparr>)"
    and world_events: "I s \<Longrightarrow> I (s\<lparr>w_events := es\<rparr>)"
    and world_uuid: "I s \<Longrightarrow> I (s\<lparr>w_uuid_next := k\<rparr>)"
    and world_now: "I s \<Longrightarrow> I (s\<lparr>w_now := d\<rparr>)"
    and keep_create_account: "ca_balance acc = 0 \<Longrightarrow> ca_total_allocated acc = 0 \<Longrightarrow> ca_total_consumed acc = 0
      \<Longrightarrow> ca_total_expired acc = 0 \<Longrightarrow> preserves I (repo_create_account acc)"
    and keep_update_balance: "preserves I (update_account_balance aid n)"
    and keep_create_transaction: "ct_after t = ct_before t + ct_amount t \<Longrightarrow> preserves I (create_transaction t)"
    and keep_create_allocation: "al_consumed al = 0 \<Longrightarrow> al_expired al = 0 \<Longrightarrow> 0 < al_amount al
      \<Longrightarrow> preserves I (create_allocation al)"
    and keep_create_campaign: "0 < cp_budget c \<Longrightarrow> cp_allocated c = 0 \<Longrightarrow> preserves I (repo_create_campaign c)"
    and keep_update_budget: "preserves I (update_campaign_budget cid n)"
    and keep_delete: "preserves I (delete_user_data uid)"
begin

lemma keep_world [preserve_rules]:
  "preserves I (external e)" "preserves I (fresh_hex n)" "preserves I (bus_publish ev)"
  unfolding bus_publish_def
  by (intro preserve_rules preserves_external preserves_fresh_hex preserves_modify;
      simp add: world_script world_events world_uuid)+

lemma keep_query [preserve_rules]:
  "preserves I (query_rows q)" "preserves I (query_row q')"
  unfolding query_rows_def query_row_def by (intro preserve_rules)+

lemma keep_queries [preserve_rules]:
  "preserves I (get_account_by_id aid)" "preserves I (get_account_by_user_type uid ty)"
  "preserves I (repo_get_user_accounts uid f)" "preserves I (get_aggregated_balance uid)"
  "preserves I (get_user_transactions uid tf)" "preserves I (get_expiring_allocations t)"
  "preserves I (get_available_credits_fifo aid)" "preserves I (get_user_campaign_allocations_count uid cid)"
  "preserves I (get_campaign_by_id cid)" "preserves I (repo_get_active_campaigns ty')"
  "preserves I (get_user_allocations uid cp st b)"
  unfolding get_account_by_id_def get_account_by_user_type_def repo_get_user_accounts_def
    get_aggregated_balance_def get_user_transactions_def get_expiring_allocations_def
    get_available_credits_fifo_def get_user_campaign_allocations_count_def get_campaign_by_id_def
    repo_get_active_campaigns_def get_user_allocations_def Let_def
  by (intro preserve_rules)+

lemmas keep_writes [preserve_rules] = keep_update_balance keep_update_budget keep_delete

lemma keep_clients [preserve_rules]:
  "preserves I (client_get_user uid)" "preserves I (client_validate_user uid)"
  unfolding client_get_user_def client_validate_user_def by (intro preserve_rules)+

lemma keep_account_ops [preserve_rules]:
  "preserves I (create_account uid ty org policy days)" "preserves I (get_or_create_account uid ty)"
  "preserves I (get_user_accounts uid ty' active)" "preserves I (deactivate_account aid)"
  unfolding get_or_create_account_def create_account_def get_user_accounts_def deactivate_account_def Let_def
  by (intro preserve_rules keep_create_account; simp)+

lemma keep_write_allocation:
  "0 < amount \<Longrightarrow> preserves I (write_allocation uid amount ty cid acc expires a t)"
  unfolding write_allocation_def by (intro preserve_rules keep_create_transaction keep_create_allocation; simp)

lemma keep_allocate [preserve_rules]:
  "preserves I (validate_campaign_for_allocation cid uid amount)"
  "preserves I (allocate_credits uid amount ty cid' expires)"
  "preserves I (allocate_from_campaign uid cid)"
  unfolding allocate_from_campaign_def allocate_credits_def validate_campaign_for_allocation_def
  by (intro preserve_rules keep_write_allocation; simp)+

lemma keep_transfer [preserve_rules]:
  "preserves I (write_transfer u v amount ty acc acc' tid)" "preserves I (transfer_credits u v amount ty)"
  unfolding transfer_credits_def write_transfer_def Let_def
  by (intro preserve_rules keep_create_transaction; simp)+

lemma keep_reads [preserve_rules]:
  "preserves I (build_consumption_plan accs amount)" "preserves I (check_availability uid amount)"
  "preserves I (check_expiring_soon days)" "preserves I (warn_one al users)"
  "preserves I (process_expiration_warnings days)" "preserves I (get_balance_summary uid)"
  "preserves I (get_transactions uid f)" "preserves I (get_statistics uid')"
  unfolding build_consumption_plan_def collect_credits_def check_availability_def check_expiring_soon_def
    process_expiration_warnings_def warn_one_def get_balance_summary_def get_transactions_def
    get_statistics_def get_active_campaigns_def Let_def
  by (intro preserve_rules)+

lemma keep_create_campaign_op [preserve_rules]:
  "preserves I (create_campaign name ty ca b sd ed tiers d mx)"
  unfolding create_campaign_def by (intro preserve_rules keep_create_campaign; simp)

lemma keep_handlers [preserve_rules]:
  "preserves I (credit_handle_user_created uid')" "preserves I (credit_handle_subscription sd')"
  "preserves I (credit_handle_order_completed od)" "preserves I (credit_handle_user_deleted uid')"
  unfolding credit_handle_user_created_def credit_handle_subscription_def
    credit_handle_order_completed_def credit_handle_user_deleted_def
  by (intro preserve_rules)+

text \<open>Every operation but the two that use up allocations and the editing of a campaign.\<close>

lemma frame_step:
  assumes "I s" and "\<nexists>uid n b. op = Consume uid n b" and "op \<noteq> Process_expirations"
    and "\<And>cid u. op = Update_campaign cid u \<Longrightarrow> preserves I (repo_update_campaign cid u)"
  shows "I (credit_step op s)"
proof -
  have upd: "preserves I (update_campaign cid u)" if "op = Update_campaign cid u" for cid u
    unfolding update_campaign_def by (intro preserve_rules assms(4) that)
  show ?thesis
    using assms(1-3) upd
    by (cases op)
      (simp_all add: credit_step_def world_now preserves_after [of I] keep_account_ops keep_allocate
        keep_transfer keep_reads keep_create_campaign_op keep_handlers)
qed

end

locale repository_invariant = repository_frame +
  assumes keep_consumed: "preserves I (update_allocation_consumed aid n)"
    and keep_expired: "preserves I (update_allocation_expired aid n)"
begin

lemma keep_consume:
  "preserves I (consume_credits uid amount billing)"
  unfolding consume_credits_def execute_plan_def consume_item_def Let_def
  by (intro preserve_rules keep_create_transaction keep_consumed; simp)

lemma keep_expire: "preserves I process_expirations"
  unfolding process_expirations_def expire_one_def Let_def
  by (intro preserve_rules keep_create_transaction keep_expired; simp)

lemma invariant_step:
  assumes "I s" and "\<And>cid u. op = Update_campaign cid u \<Longrightarrow> preserves I (repo_update_campaign cid u)"
  shows "I (credit_step op s)"
proof (cases "(\<exists>uid n b. op = Consume uid n b) \<or> op = Process_expirations")
  case True
  then show ?thesis
    using assms(1) by (auto simp: credit_step_def preserves_after [of I] keep_consume keep_expire)
next
  case False
  then show ?thesis by (intro frame_step assms) auto
qed

end

subsection \<open>The table invariant\<close>

definition acct_ok :: "credit_account \<Rightarrow> bool" where
  "acct_ok a \<longleftrightarrow> account_fits a \<and> 0 \<le> ca_balance a
     \<and> ca_balance a = ca_total_allocated a - ca_total_consumed a \<and> ca_total_expired a = 0"

definition txn_ok :: "credit_transaction \<Rightarrow> bool" where
  "txn_ok t \<longleftrightarrow> ct_after t = ct_before t + ct_amount t"

definition owner :: "credit_account \<Rightarrow> string \<times> string" where
  "owner a = (ca_user a, ca_type a)"

definition credit_ok :: "credit_state \<Rightarrow> bool" where
  "credit_ok s \<longleftrightarrow> unique_key ca_id (cs_accounts s) \<and> unique_key owner (cs_accounts s)
     \<and> unique_key ct_id (cs_transactions s) \<and> unique_key al_id (cs_allocations s)
     \<and> unique_key cp_id (cs_campaigns s)
     \<and> (\<forall>a \<in> set (cs_accounts s). acct_ok a) \<and> (\<forall>t \<in> set (cs_transactions s). txn_ok t)"

lemma credit_ok_world [simp]:
  "credit_ok (s\<lparr>w_script := sc\<rparr>) = credit_ok s" "credit_ok (s\<lparr>w_events := es\<rparr>) = credit_ok s"
  "credit_ok (s\<lparr>w_uuid_next := k\<rparr>) = credit_ok s" "credit_ok (s\<lparr>w_now := d\<rparr>) = credit_ok s"
  by (simp_all add: credit_ok_def)

lemma preserves_insert_returning:
  assumes "\<And>s. I s \<Longrightarrow> fits s \<Longrightarrow> I (ins s)" and "\<And>s sc. I s \<Longrightarrow> I (s\<lparr>w_script := sc\<rparr>)"
  shows "preserves I (insert_returning msg fits row ins)"
  unfolding insert_returning_def using assms(1)
  by (intro preserve_rules preserves_external assms(2)) (auto simp: preserves_def)

lemma preserves_id_or_fresh: "(\<And>s k. I s \<Longrightarrow> I (s\<lparr>w_uuid_next := k\<rparr>)) \<Longrightarrow> preserves I (id_or_fresh g p)"
  unfolding id_or_fresh_def by (intro preserve_rules preserves_fresh_hex)

lemma repo_create_account_ok:
  assumes "ca_balance data = 0" "ca_total_allocated data = 0" "ca_total_consumed data = 0"
    "ca_total_expired data = 0"
  shows "preserves credit_ok (repo_create_account data)"
  unfolding repo_create_account_def Let_def
  by (intro preserve_rules preserves_insert_returning preserves_id_or_fresh)
    (use assms in \<open>auto simp: credit_ok_def unique_key_append account_insertable_def owner_def acct_ok_def account_fits_def\<close>)

lemma create_transaction_ok:
  assumes "txn_ok data"
  shows "preserves credit_ok (create_transaction data)"
  unfolding create_transaction_def Let_def
  by (intro preserve_rules preserves_insert_returning preserves_id_or_fresh)
    (use assms in \<open>auto simp: credit_ok_def unique_key_append txn_ok_def\<close>)

lemma create_allocation_ok [preserve_rules]: "preserves credit_ok (create_allocation data)"
  unfolding create_allocation_def Let_def
  by (intro preserve_rules preserves_insert_returning preserves_id_or_fresh) (auto simp: credit_ok_def unique_key_append)

lemma repo_create_campaign_ok [preserve_rules]: "preserves credit_ok (repo_create_campaign data)"
  unfolding repo_create_campaign_def Let_def
  by (intro preserve_rules preserves_insert_returning preserves_id_or_fresh) (auto simp: credit_ok_def unique_key_append)

lemma apply_delta_simps [simp]:
  "ca_id (apply_delta d now a) = ca_id a" "owner (apply_delta d now a) = owner a"
  "ca_balance (apply_delta d now a) = ca_balance a + d" "ca_user (apply_delta d now a) = ca_user a"
  "ca_type (apply_delta d now a) = ca_type a" "ca_active (apply_delta d now a) = ca_active a"
  "ca_created (apply_delta d now a) = ca_created a"
  by (simp_all add: apply_delta_def owner_def)

lemma apply_delta_acct_ok:
  "acct_ok a \<Longrightarrow> 0 \<le> ca_balance a + d \<Longrightarrow> account_fits (apply_delta d now a) \<Longrightarrow> acct_ok (apply_delta d now a)"
  by (auto simp: acct_ok_def apply_delta_def)

lemma row_by_only:
  "unique_key key rows \<Longrightarrow> row_by key k rows = Some a \<Longrightarrow> x \<in> set rows \<Longrightarrow> key x = k \<Longrightarrow> x = a"
  using row_by_unique by fastforce

lemma update_account_balance_ok [preserve_rules]: "preserves credit_ok (update_account_balance aid d)"
  unfolding update_account_balance_def
proof (intro preserve_rules preserves_external, simp, rule preservesI, goal_cases)
  case (1 now ok s)
  then show ?case
    by (auto simp: credit_ok_def unique_key_update_where set_update_where apply_delta_acct_ok
        dest: row_by_only [of ca_id "cs_accounts s" aid] split: option.split)
qed

lemma add_to_allocation_ok:
  assumes "\<And>n a. al_id (add n a) = al_id a"
  shows "preserves credit_ok (add_to_allocation add aid n)"
  unfolding add_to_allocation_def
proof (intro preserve_rules preserves_external, simp, rule preservesI, goal_cases)
  case (1 now ok s)
  then show ?case
    using assms by (auto simp: credit_ok_def unique_key_update_where split: option.split)
qed

lemma update_allocation_ok [preserve_rules]:
  "preserves credit_ok (update_allocation_consumed aid n)" "preserves credit_ok (update_allocation_expired aid n)"
  unfolding update_allocation_consumed_def update_allocation_expired_def
  by (rule add_to_allocation_ok; simp)+

lemma update_campaign_ok [preserve_rules]:
  "preserves credit_ok (update_campaign_budget cid n)" "preserves credit_ok (repo_update_campaign cid u)"
  unfolding update_campaign_budget_def repo_update_campaign_def Let_def
  by (intro preserve_rules preserves_external; simp?; (rule preservesI)?;
      auto simp: credit_ok_def unique_key_update_where apply_updates_def split: option.split)+

lemma unique_key_filter: "unique_key key rows \<Longrightarrow> unique_key key (filter P rows)"
  by (simp add: unique_key_def distinct_map_filter)

lemma delete_user_data_ok [preserve_rules]: "preserves credit_ok (delete_user_data uid)"
  unfolding delete_user_data_def delete_rows_def
  by (intro preserve_rules preserves_external preserves_modify) (auto simp: credit_ok_def unique_key_filter)

interpretation tables: repository_invariant credit_ok
  by unfold_locales
    (auto intro: repo_create_account_ok create_transaction_ok create_allocation_ok repo_create_campaign_ok
      update_account_balance_ok update_campaign_ok delete_user_data_ok update_allocation_ok simp: txn_ok_def)

interpretation credit_tables: invariant_system credit_step credit_ok
  by unfold_locales (rule tables.invariant_step, assumption, rule update_campaign_ok)

end
