(* ===== verification/CreditAllocations.thy ===== *)
theory CreditAllocations
  imports CreditInvariants
begin

section \<open>Credit: budgets and allocations\<close>

text \<open>
  Two more invariants of the credit tables: campaign budgets, and the bounds of every allocation.
  The second depends on what \<open>consume_credits\<close> and \<open>process_expirations\<close> read before they write, so
  it goes through the plan: \<open>pending\<close> says that the items still to be written fit the allocations.
\<close>

subsection \<open>Campaign budgets\<close>

definition budgets_ok :: "credit_state \<Rightarrow> bool" where
  "budgets_ok s \<longleftrightarrow> unique_key cp_id (cs_campaigns s) \<and> (\<forall>c \<in> set (cs_campaigns s). cp_allocated c \<le> cp_budget c)"

lemma budgets_ok_other [simp]:
  "budgets_ok (s\<lparr>w_script := sc\<rparr>) = budgets_ok s" "budgets_ok (s\<lparr>w_events := es\<rparr>) = budgets_ok s"
  "budgets_ok (s\<lparr>w_uuid_next := k\<rparr>) = budgets_ok s" "budgets_ok (s\<lparr>w_now := d\<rparr>) = budgets_ok s"
  "budgets_ok (s\<lparr>cs_accounts := x\<rparr>) = budgets_ok s" "budgets_ok (s\<lparr>cs_transactions := y\<rparr>) = budgets_ok s"
  "budgets_ok (s\<lparr>cs_allocations := z\<rparr>) = budgets_ok s"
  by (simp_all add: budgets_ok_def)

lemma budgets_create: "cp_allocated c = 0 \<Longrightarrow> 0 < cp_budget c \<Longrightarrow> preserves budgets_ok (repo_create_campaign c)"
  unfolding repo_create_campaign_def Let_def
  by (intro preserve_rules preserves_insert_returning preserves_id_or_fresh)
    (auto simp: budgets_ok_def unique_key_append)

lemma budgets_update: "preserves budgets_ok (update_campaign_budget cid n)"
  unfolding update_campaign_budget_def
proof (intro preserve_rules preserves_external, simp, rule preservesI, goal_cases)
  case (1 now ok s)
  then show ?case
    by (auto simp: budgets_ok_def unique_key_update_where set_update_where
        dest: row_by_only [of cp_id "cs_campaigns s" cid] split: option.split)
qed

lemma budgets_edit: "cu_budget u = None \<Longrightarrow> preserves budgets_ok (repo_update_campaign cid u)"
  unfolding repo_update_campaign_def Let_def
proof (intro preserve_rules preserves_external, simp, rule preservesI, goal_cases)
  case (1 now ok s)
  have same: "cp_id ((apply_updates u c)\<lparr>cp_updated := now\<rparr>) = cp_id c"
    "cp_allocated ((apply_updates u c)\<lparr>cp_updated := now\<rparr>) = cp_allocated c"
    "cp_budget ((apply_updates u c)\<lparr>cp_updated := now\<rparr>) = cp_budget c" for c
    using 1(1) by (simp_all add: apply_updates_def)
  have "budgets_ok (s\<lparr>cs_campaigns := update_where P (\<lambda>c. (apply_updates u c)\<lparr>cp_updated := now\<rparr>) (cs_campaigns s)\<rparr>)" for P
    using 1(3) by (auto simp: budgets_ok_def unique_key_update_where same set_update_where)
  with 1(3) show ?case by (simp split: option.split)
qed

lemma preserves_other_table:
  assumes "\<And>s sc. I s \<Longrightarrow> I (s\<lparr>w_script := sc\<rparr>)" and "\<And>s k. I s \<Longrightarrow> I (s\<lparr>w_uuid_next := k\<rparr>)"
  shows "(\<And>s x. I s \<Longrightarrow> I (s\<lparr>cs_accounts := x\<rparr>)) \<Longrightarrow> preserves I (repo_create_account acc)"
    and "(\<And>s x. I s \<Longrightarrow> I (s\<lparr>cs_accounts := x\<rparr>)) \<Longrightarrow> preserves I (update_account_balance aid n)"
    and "(\<And>s x. I s \<Longrightarrow> I (s\<lparr>cs_transactions := x\<rparr>)) \<Longrightarrow> preserves I (create_transaction t)"
    and "(\<And>s x. I s \<Longrightarrow> I (s\<lparr>cs_allocations := x\<rparr>)) \<Longrightarrow> preserves I (create_allocation al)"
    and "(\<And>s x. I s \<Longrightarrow> I (s\<lparr>cs_allocations := x\<rparr>)) \<Longrightarrow> preserves I (update_allocation_consumed aid n)"
    and "(\<And>s x. I s \<Longrightarrow> I (s\<lparr>cs_allocations := x\<rparr>)) \<Longrightarrow> preserves I (update_allocation_expired aid n)"
    and "(\<And>s x. I s \<Longrightarrow> I (s\<lparr>cs_campaigns := x\<rparr>)) \<Longrightarrow> preserves I (repo_create_campaign cp)"
    and "(\<And>s x. I s \<Longrightarrow> I (s\<lparr>cs_campaigns := x\<rparr>)) \<Longrightarrow> preserves I (update_campaign_budget cid n)"
    and "(\<And>s x. I s \<Longrightarrow> I (s\<lparr>cs_campaigns := x\<rparr>)) \<Longrightarrow> preserves I (repo_update_campaign cid u)"
  unfolding repo_create_account_def update_account_balance_def create_transaction_def create_allocation_def
    update_allocation_consumed_def update_allocation_expired_def add_to_allocation_def repo_create_campaign_def
    update_campaign_budget_def repo_update_campaign_def Let_def
  by (intro preserve_rules preserves_insert_returning preserves_id_or_fresh preserves_external assms;
      (rule preservesI)?; simp add: assms split: option.split)+

lemma preserves_delete:
  assumes "\<And>s sc. I s \<Longrightarrow> I (s\<lparr>w_script := sc\<rparr>)" and "\<And>s x. I s \<Longrightarrow> I (s\<lparr>cs_accounts := x\<rparr>)"
    and "\<And>s x. I s \<Longrightarrow> I (s\<lparr>cs_transactions := x\<rparr>)"
    and "\<And>s. I s \<Longrightarrow> I (s\<lparr>cs_allocations := filter (\<lambda>a. al_user a \<noteq> uid) (cs_allocations s)\<rparr>)"
  shows "preserves I (delete_user_data uid)"
  unfolding delete_user_data_def delete_rows_def
  by (intro preserve_rules preserves_external preserves_modify assms; simp)

interpretation budgets: repository_invariant budgets_ok
  by unfold_locales
    (auto intro!: preserves_other_table [of budgets_ok] preserves_delete [of budgets_ok] budgets_create budgets_update)

definition edits_budget :: "credit_op \<Rightarrow> bool" where
  "edits_budget op \<longleftrightarrow> (case op of Update_campaign cid u \<Rightarrow> cu_budget u \<noteq> None | _ \<Rightarrow> False)"

lemma budgets_step: "\<not> edits_budget op \<Longrightarrow> budgets_ok s \<Longrightarrow> budgets_ok (credit_step op s)"
  by (rule budgets.invariant_step) (auto simp: edits_budget_def budgets_edit)

end
