(* ===== verification/CreditConsumption.thy ===== *)
theory CreditConsumption
  imports CreditAllocations
begin

section \<open>Credit: allocations are never used up twice\<close>

text \<open>
  \<open>consume_credits\<close> and \<open>process_expirations\<close> read allocations, build a list of amounts, and write them
  one by one without looking again. \<open>pending\<close> is what makes that safe when requests do not overlap:
  the listed allocations are different, and each amount still fits.
\<close>

subsection \<open>One-step transitions between assertions\<close>

definition leads :: "('s \<Rightarrow> bool) \<Rightarrow> ('s \<Rightarrow> bool) \<Rightarrow> ('s, 'e, 'a) io \<Rightarrow> bool" where
  "leads I J m \<longleftrightarrow> (\<forall>s. I s \<longrightarrow> J (snd (m s)))"

named_theorems lead_rules "rules that move an assertion through an effectful program"

lemma leadsD: "leads I J m \<Longrightarrow> I s \<Longrightarrow> J (snd (m s))"
  by (simp add: leads_def)

lemma leads_preserves: "preserves I m \<Longrightarrow> (\<And>s. I s \<Longrightarrow> J s) \<Longrightarrow> leads I J m"
  by (simp add: leads_def preserves_def)

lemma leads_bnd [lead_rules]:
  assumes "preserves I m" and "\<And>a. leads I J (f a)" and "\<And>s. I s \<Longrightarrow> J s"
  shows "leads I J (bnd m f)"
  unfolding leads_def bnd_def
proof (intro allI impI)
  fix s assume "I s"
  then have "I (snd (m s))" using assms(1) by (simp add: preserves_def)
  then show "J (snd (case m s of (Inl e, s') \<Rightarrow> (Inl e, s') | (Inr a, s') \<Rightarrow> f a s'))"
    using assms(2,3) by (auto simp: leads_def split: prod.splits sum.splits)
qed

lemma leads_bnd_ret:
  assumes "leads I J m" and "\<And>a. preserves J (f a)"
  shows "leads I J (bnd m f)"
  unfolding leads_def bnd_def
proof (intro allI impI)
  fix s assume "I s"
  then have "J (snd (m s))" using assms(1) by (simp add: leads_def)
  then show "J (snd (case m s of (Inl e, s') \<Rightarrow> (Inl e, s') | (Inr a, s') \<Rightarrow> f a s'))"
    using assms(2) by (auto simp: preserves_def split: prod.splits sum.splits)
qed

lemma leads_if [lead_rules]:
  "leads I J m \<Longrightarrow> leads I J n \<Longrightarrow> leads I J (if b then m else n)"
  by simp

lemma leads_option [lead_rules]:
  "leads I J m \<Longrightarrow> (\<And>a. x = Some a \<Longrightarrow> leads I J (f a)) \<Longrightarrow> leads I J (case x of None \<Rightarrow> m | Some a \<Rightarrow> f a)"
  by (cases x) auto

lemma leads_catch:
  assumes "leads I J m" and "\<And>e. preserves J (h e)"
  shows "leads I J (catch m h)"
  unfolding leads_def catch_def
proof (intro allI impI)
  fix s assume "I s"
  then have "J (snd (m s))" using assms(1) by (simp add: leads_def)
  then show "J (snd (case m s of (Inl e, s') \<Rightarrow> h e s' | (Inr a, s') \<Rightarrow> (Inr a, s')))"
    using assms(2) by (auto simp: preserves_def split: prod.splits sum.splits)
qed

lemma for_each_leads:
  assumes "\<And>x xs acc. leads (P (x # xs)) (P xs) (f x acc)" and "\<And>x xs s. P (x # xs) s \<Longrightarrow> P xs s"
  shows "leads (P xs) (P []) (for_each xs f acc)"
proof (induction xs arbitrary: acc)
  case Nil
  then show ?case by (simp add: leads_def)
next
  case (Cons x xs)
  have drop: "P xs s \<Longrightarrow> P [] s" for s
  proof (induction xs)
    case (Cons y ys)
    then show ?case using assms(2) by blast
  qed
  show ?case
    unfolding leads_def for_each.simps bnd_def
  proof (intro allI impI)
    fix s assume "P (x # xs) s"
    then have "P xs (snd (f x acc s))" using assms(1) by (simp add: leads_def)
    then show "P [] (snd (case f x acc s of (Inl e, s') \<Rightarrow> (Inl e, s') | (Inr a, s') \<Rightarrow> for_each xs f a s'))"
      using Cons.IH drop by (auto simp: leads_def split: prod.splits sum.splits)
  qed
qed

subsection \<open>Allocations with amounts still to be written\<close>

definition alloc_ok :: "credit_allocation \<Rightarrow> bool" where
  "alloc_ok a \<longleftrightarrow> 0 \<le> al_consumed a \<and> 0 \<le> al_expired a \<and> al_consumed a + al_expired a \<le> al_amount a"

definition pending :: "(string \<times> int) list \<Rightarrow> credit_state \<Rightarrow> bool" where
  "pending xs s \<longleftrightarrow> unique_key al_id (cs_allocations s) \<and> (\<forall>a \<in> set (cs_allocations s). alloc_ok a)
     \<and> distinct (map fst xs)
     \<and> (\<forall>x \<in> set xs. 0 \<le> snd x \<and> (\<forall>a \<in> set (cs_allocations s). al_id a = fst x \<longrightarrow> snd x \<le> al_available a))"

abbreviation allocs_ok :: "credit_state \<Rightarrow> bool" where
  "allocs_ok \<equiv> pending []"

lemma pending_other [simp]:
  "pending xs (s\<lparr>w_script := sc\<rparr>) = pending xs s" "pending xs (s\<lparr>w_events := es\<rparr>) = pending xs s"
  "pending xs (s\<lparr>w_uuid_next := k\<rparr>) = pending xs s" "pending xs (s\<lparr>w_now := d\<rparr>) = pending xs s"
  "pending xs (s\<lparr>cs_accounts := x\<rparr>) = pending xs s" "pending xs (s\<lparr>cs_transactions := y\<rparr>) = pending xs s"
  "pending xs (s\<lparr>cs_campaigns := z\<rparr>) = pending xs s"
  by (simp_all add: pending_def)

lemma pending_drop: "pending (x # xs) s \<Longrightarrow> pending xs s"
  by (simp add: pending_def)

lemma pending_preserve [preserve_rules]:
  "preserves (pending xs) (external e)" "preserves (pending xs) (fresh_hex n)"
  "preserves (pending xs) (bus_publish ev)" "preserves (pending xs) (query_rows q)"
  "preserves (pending xs) (query_row q')" "preserves (pending xs) (get_account_by_id aid)"
  "preserves (pending xs) (update_account_balance aid d)" "preserves (pending xs) (create_transaction t)"
  unfolding bus_publish_def query_rows_def query_row_def get_account_by_id_def
  by (intro preserve_rules preserves_other_table preserves_external preserves_fresh_hex preserves_modify; simp)+

lemma pending_add:
  assumes add: "\<And>n a. al_id (add n a) = al_id a" "\<And>n a. al_available (add n a) = al_available a - n"
    "\<And>n a. 0 \<le> n \<Longrightarrow> alloc_ok a \<Longrightarrow> n \<le> al_available a \<Longrightarrow> alloc_ok (add n a)"
    and p: "pending ((i, n) # xs) s"
  shows "pending xs (s\<lparr>cs_allocations := update_where (\<lambda>x. al_id x = i)
    (\<lambda>x. (add n x)\<lparr>al_updated := now\<rparr>) (cs_allocations s)\<rparr>)"
proof -
  have [simp]: "alloc_ok (a\<lparr>al_updated := now\<rparr>) = alloc_ok a" "al_available (a\<lparr>al_updated := now\<rparr>) = al_available a" for a
    by (simp_all add: alloc_ok_def al_available_def)
  from p have n: "0 \<le> n" and fits: "\<And>a. a \<in> set (cs_allocations s) \<Longrightarrow> al_id a = i \<Longrightarrow> n \<le> al_available a"
    and i: "i \<notin> fst ` set xs"
    by (auto simp: pending_def)
  have "alloc_ok a'" if "a' \<in> set (update_where (\<lambda>x. al_id x = i) (\<lambda>x. (add n x)\<lparr>al_updated := now\<rparr>) (cs_allocations s))" for a'
    using that p n fits add(3) by (auto simp: set_update_where pending_def)
  moreover have "snd x \<le> al_available a'" if "x \<in> set xs" "al_id a' = fst x"
    "a' \<in> set (update_where (\<lambda>x. al_id x = i) (\<lambda>x. (add n x)\<lparr>al_updated := now\<rparr>) (cs_allocations s))" for x a'
  proof -
    from that obtain a where a: "a \<in> set (cs_allocations s)" "al_id a = fst x" "a' = (if al_id a = i then (add n a)\<lparr>al_updated := now\<rparr> else a)"
      by (auto simp: set_update_where add(1))
    with i that(1) have "a' = a" by (auto simp: image_iff)
    with a p that(1) show ?thesis by (auto simp: pending_def)
  qed
  ultimately show ?thesis
    using p by (auto simp: pending_def unique_key_update_where add(1))
qed

lemma pending_add_to_allocation:
  assumes add: "\<And>n a. al_id (add n a) = al_id a" "\<And>n a. al_available (add n a) = al_available a - n"
    "\<And>n a. 0 \<le> n \<Longrightarrow> alloc_ok a \<Longrightarrow> n \<le> al_available a \<Longrightarrow> alloc_ok (add n a)"
  shows "leads (pending ((i, n) # xs)) (pending xs) (add_to_allocation add i n)"
  unfolding add_to_allocation_def
proof (intro leads_bnd leads_if preserve_rules)
  show "leads (pending ((i, n) # xs)) (pending xs) (ret False)"
    by (auto simp: leads_def dest: pending_drop)
  fix now
  show "leads (pending ((i, n) # xs)) (pending xs) (\<lambda>s. if \<not> int4 n then (Inl DbError, s) else
      (case row_by al_id i (cs_allocations s) of
         None \<Rightarrow> (Inr False, s)
       | Some a \<Rightarrow> if \<not> allocation_fits (add n a) then (Inl DbError, s)
           else (Inr True, s\<lparr>cs_allocations := update_where (\<lambda>x. al_id x = i)
                  (\<lambda>x. (add n x)\<lparr>al_updated := now\<rparr>) (cs_allocations s)\<rparr>)))"
    unfolding leads_def using pending_add [OF add, where now = now]
    by (auto dest: pending_drop split: option.split)
qed (erule pending_drop)+

lemma pending_update:
  "leads (pending ((i, n) # xs)) (pending xs) (update_allocation_consumed i n)"
  "leads (pending ((i, n) # xs)) (pending xs) (update_allocation_expired i n)"
  unfolding update_allocation_consumed_def update_allocation_expired_def
  by (rule pending_add_to_allocation; simp add: al_available_def alloc_ok_def)+

subsection \<open>The two loops\<close>

definition plan_key :: "plan_item \<Rightarrow> string \<times> int" where
  "plan_key p = (pi_allocation p, pi_amount p)"

definition expiry_key :: "credit_allocation \<Rightarrow> string \<times> int" where
  "expiry_key a = (al_id a, al_available a)"

lemma consume_tail:
  "leads (pending ((i, n) # xs)) (pending xs)
     (bnd (if i \<noteq> [] then bnd (update_allocation_consumed i n) (\<lambda>_. ret ()) else ret ()) (\<lambda>_. ret x))"
  by (rule leads_bnd_ret, rule leads_if, rule leads_bnd_ret, rule pending_update)
    (auto intro: preserve_rules leads_preserves dest: pending_drop)

lemma expire_tail:
  "leads (pending ((i, n) # xs)) (pending xs) (bnd (update_allocation_expired i n)
     (\<lambda>_. bnd (catch (bus_publish ev) (\<lambda>_. ret ())) (\<lambda>_. ret x)))"
  by (rule leads_bnd_ret, rule pending_update) (intro preserve_rules)

lemma leads_drop:
  "leads (pending (x # xs)) (pending xs) (ret r)" "leads (pending (x # xs)) (pending xs) (throw e)"
  by (auto simp: leads_def dest: pending_drop)

lemma consume_item_leads:
  "leads (pending (map plan_key (p # ps))) (pending (map plan_key ps)) (consume_item uid billing p txns)"
  unfolding consume_item_def Let_def list.map(2) plan_key_def
  by (rule consume_tail leads_drop leads_bnd leads_option leads_if preserve_rules | erule pending_drop)+

lemma expire_one_leads:
  "leads (pending (map expiry_key (a # as))) (pending (map expiry_key as)) (expire_one a counts)"
  unfolding expire_one_def Let_def list.map(2) expiry_key_def
  by (rule expire_tail leads_drop leads_catch leads_bnd leads_option leads_if preserve_rules | erule pending_drop)+

lemma map_pending_loop:
  assumes "\<And>x xs acc. leads (pending (map key (x # xs))) (pending (map key xs)) (f x acc)"
  shows "leads (pending (map key xs)) allocs_ok (for_each xs f acc)"
  using for_each_leads [of "\<lambda>xs. pending (map key xs)" f xs acc, OF assms] pending_drop by simp

lemma execute_plan_leads:
  "leads (pending (map plan_key plan)) allocs_ok (execute_plan uid billing tot plan)"
  unfolding execute_plan_def Let_def
  by (intro leads_catch leads_bnd_ret map_pending_loop consume_item_leads preserve_rules)

subsection \<open>Reading the plan\<close>

definition same_tables :: "credit_state \<Rightarrow> credit_state \<Rightarrow> bool" where
  "same_tables s s' \<longleftrightarrow> s'\<lparr>w_script := [], w_uuid_next := 0\<rparr> = s\<lparr>w_script := [], w_uuid_next := 0\<rparr>"

lemma same_tables_refl [simp]: "same_tables s s"
  by (simp add: same_tables_def)

lemma same_tables_trans: "same_tables s s' \<Longrightarrow> same_tables s' s'' \<Longrightarrow> same_tables s s''"
  by (simp add: same_tables_def)

lemma same_tables_script [simp]: "same_tables s (s\<lparr>w_script := sc\<rparr>)"
  by (simp add: same_tables_def)

lemma same_tablesD:
  assumes "same_tables s s'"
  shows "cs_accounts s' = cs_accounts s" "cs_allocations s' = cs_allocations s" "now_us s' = now_us s"
proof -
  note eq = assms [unfolded same_tables_def]
  show "cs_accounts s' = cs_accounts s" using arg_cong [OF eq, of cs_accounts] by simp
  show "cs_allocations s' = cs_allocations s" using arg_cong [OF eq, of cs_allocations] by simp
  show "now_us s' = now_us s" using arg_cong [OF eq, of now_us] by (simp add: now_us_def)
qed

lemma same_tables_pending: "same_tables s s' \<Longrightarrow> pending xs s' = pending xs s"
  by (simp add: pending_def same_tablesD)

lemma query_rows_result:
  assumes "query_rows q s = (r, s')"
  shows "same_tables s s' \<and> (r = Inl DbError \<or> r = Inr [] \<or> r = Inr (q s'))"
proof -
  obtain x where "external DbError s = (x, s')" and r: "r = (case x of Inl e \<Rightarrow> Inl e | Inr ok \<Rightarrow> if ok then Inr (q s') else Inr [])"
    using assms by (auto simp: query_rows_def bnd_apply split: prod.splits sum.splits if_splits)
  with external_cases [of "DbError :: credit_err exn" s] show ?thesis by auto
qed

text \<open>What the plan is made of: available amounts of different allocations of the listed accounts.\<close>

definition drawn_from :: "credit_state \<Rightarrow> credit_source list \<Rightarrow> bool" where
  "drawn_from s cs \<longleftrightarrow> distinct (map cr_allocation cs)
     \<and> (\<forall>c \<in> set cs. \<exists>a \<in> set (cs_allocations s). consumable (cr_account c) (now_us s) a
          \<and> cr_allocation c = al_id a \<and> cr_available c = al_available a \<and> cr_expires c = al_expires a)"

lemma drawn_fromE:
  assumes "drawn_from s cs" and "c \<in> set cs"
  obtains a where "a \<in> set (cs_allocations s)" and "consumable (cr_account c) (now_us s) a"
    and "cr_allocation c = al_id a" and "cr_available c = al_available a" and "cr_expires c = al_expires a"
  using assms by (auto simp: drawn_from_def)

lemma drawn_from_same: "same_tables s s' \<Longrightarrow> drawn_from s' cs = drawn_from s cs"
  by (simp add: drawn_from_def same_tablesD)

lemma drawn_from_positive: "drawn_from s cs \<Longrightarrow> c \<in> set cs \<Longrightarrow> 0 < cr_available c"
  by (auto simp: drawn_from_def consumable_def)

lemma sources_drawn:
  assumes "unique_key al_id (cs_allocations s)"
  shows "drawn_from s (sources_of acc (sort_key fifo_key (filter (consumable (ca_id acc) (now_us s)) (cs_allocations s))))"
proof -
  let ?rows = "sort_key fifo_key (filter (consumable (ca_id acc) (now_us s)) (cs_allocations s))"
  have "distinct (map al_id (filter (consumable (ca_id acc) (now_us s)) (cs_allocations s)))"
    using assms by (simp add: unique_key_def distinct_map_filter)
  then have "distinct (map al_id ?rows)"
    by (metis distinct_map distinct_sort set_sort)
  then have "distinct (map cr_allocation (sources_of acc ?rows))"
    by (simp add: sources_of_def source_of_def comp_def distinct_map_filter)
  then show ?thesis
    by (auto simp: drawn_from_def sources_of_def source_of_def)
qed

lemma drawn_from_append:
  assumes "drawn_from s cs" and "drawn_from s ds" and "\<And>c d. c \<in> set cs \<Longrightarrow> d \<in> set ds \<Longrightarrow> cr_account c \<noteq> cr_account d"
    and "unique_key al_id (cs_allocations s)"
  shows "drawn_from s (cs @ ds)"
proof -
  have "cr_allocation c \<noteq> cr_allocation d" if cd: "c \<in> set cs" "d \<in> set ds" for c d
  proof
    assume same: "cr_allocation c = cr_allocation d"
    obtain a where a: "a \<in> set (cs_allocations s)" "consumable (cr_account c) (now_us s) a" "cr_allocation c = al_id a"
      using assms(1) cd(1) by (rule drawn_fromE)
    obtain b where b: "b \<in> set (cs_allocations s)" "consumable (cr_account d) (now_us s) b" "cr_allocation d = al_id b"
      using assms(2) cd(2) by (rule drawn_fromE)
    have "al_id a = al_id b" using same a(3) b(3) by simp
    with row_by_only [OF assms(4) row_by_unique [OF assms(4) b(1)] a(1)] have "a = b" .
    with a b assms(3) [OF cd] show False by (simp add: consumable_def)
  qed
  then have "set (map cr_allocation cs) \<inter> set (map cr_allocation ds) = {}" by auto
  then show ?thesis using assms(1,2) by (auto simp: drawn_from_def)
qed

lemma collect_drawn:
  assumes "for_each accs (\<lambda>acc found. bnd (get_available_credits_fifo (ca_id acc))
      (\<lambda>allocs. ret (found @ sources_of acc allocs))) found0 s = (r, s')"
    and "unique_key al_id (cs_allocations s)" and "distinct (map ca_id accs)"
    and "drawn_from s found0" and "\<And>c. c \<in> set found0 \<Longrightarrow> cr_account c \<notin> ca_id ` set accs"
  shows "same_tables s s' \<and> (\<forall>found. r = Inr found \<longrightarrow> drawn_from s found)"
  using assms
proof (induction accs arbitrary: found0 s)
  case Nil
  then show ?case by auto
next
  case (Cons acc accs)
  let ?q = "\<lambda>s. sort_key fifo_key (filter (consumable (ca_id acc) (now_us s)) (cs_allocations s))"
  obtain x s1 where q: "query_rows ?q s = (x, s1)" by (cases "query_rows ?q s")
  note res = query_rows_result [OF q]
  show ?case
  proof (cases x)
    case (Inl e)
    with q Cons.prems(1) res show ?thesis
      by (auto simp: bnd_apply get_available_credits_fifo_def)
  next
    case (Inr rows)
    with res have same: "same_tables s s1" and rows: "rows = [] \<or> rows = ?q s1" by auto
    have tabs: "cs_allocations s1 = cs_allocations s" "now_us s1 = now_us s" using same_tablesD [OF same] by simp_all
    let ?found = "found0 @ sources_of acc rows"
    have "bnd (get_available_credits_fifo (ca_id acc)) (\<lambda>allocs. ret (found0 @ sources_of acc allocs)) s = (Inr ?found, s1)"
      using q Inr by (simp add: bnd_apply get_available_credits_fifo_def)
    note found = bnd_Inr [where m = "bnd (get_available_credits_fifo (ca_id acc)) (\<lambda>allocs. ret (found0 @ sources_of acc allocs))"
        and s = s, OF this]
    have rest: "for_each accs (\<lambda>acc found. bnd (get_available_credits_fifo (ca_id acc))
        (\<lambda>allocs. ret (found @ sources_of acc allocs))) ?found s1 = (r, s')"
      using Cons.prems(1) unfolding for_each.simps found .
    have "drawn_from s (sources_of acc rows)"
      using rows sources_drawn [OF Cons.prems(2)] tabs by (auto simp: sources_of_def drawn_from_def)
    moreover have new: "\<And>c. c \<in> set (sources_of acc rows) \<Longrightarrow> cr_account c = ca_id acc"
      by (auto simp: sources_of_def source_of_def)
    ultimately have "drawn_from s ?found"
      using Cons.prems(2,4,5) by (intro drawn_from_append) auto
    then have "drawn_from s1 ?found" using drawn_from_same [OF same] by simp
    then have "same_tables s1 s' \<and> (\<forall>found. r = Inr found \<longrightarrow> drawn_from s1 found)"
      using Cons.prems(2,3,5) new tabs by (intro Cons.IH [OF rest]) auto
    then show ?thesis using same same_tables_trans drawn_from_same [OF same] by blast
  qed
qed

lemma plan_drawn:
  assumes "build_consumption_plan accs amount s = (r, s')" and "unique_key al_id (cs_allocations s)"
    and "distinct (map ca_id accs)"
  shows "same_tables s s' \<and> (\<forall>plan. r = Inr plan \<longrightarrow>
    (\<exists>cs. drawn_from s cs \<and> (\<exists>ordered. sort_credits cs = Inr ordered \<and> plan = take_credits amount ordered)))"
proof -
  obtain x s1 where c: "collect_credits accs s = (x, s1)" by (cases "collect_credits accs s")
  have "same_tables s s1 \<and> (\<forall>found. x = Inr found \<longrightarrow> drawn_from s found)"
    using collect_drawn [OF c [unfolded collect_credits_def] assms(2,3)] by (simp add: drawn_from_def)
  then show ?thesis
    using assms(1) c
    by (cases x) (auto simp: build_consumption_plan_def bnd_apply split: sum.splits)
qed

lemma drawn_from_sorted:
  assumes "drawn_from s cs" and "sort_credits cs = Inr ordered"
  shows "drawn_from s ordered"
proof -
  have "mset (map cr_allocation ordered) = mset (map cr_allocation cs)"
    using sort_credits_mset [OF assms(2)] by simp
  then have "distinct (map cr_allocation ordered)"
    using assms(1) unfolding drawn_from_def by (metis mset_eq_imp_distinct_iff)
  then show ?thesis using assms(1) sort_credits_set [OF assms(2)] by (simp add: drawn_from_def)
qed

lemma plan_pending:
  assumes "allocs_ok s" and "drawn_from s ordered"
  shows "pending (map plan_key (take_credits amount ordered)) s"
proof -
  have u: "unique_key al_id (cs_allocations s)" using assms(1) by (simp add: pending_def)
  have "distinct (map fst (map plan_key (take_credits amount ordered)))"
    using take_credits_distinct [of ordered amount] assms(2) by (simp add: drawn_from_def plan_key_def comp_def)
  moreover have item: "\<exists>c \<in> set ordered. pi_allocation p = cr_allocation c \<and> pi_account p = cr_account c
      \<and> pi_type p = cr_type c \<and> 0 < pi_amount p \<and> pi_amount p \<le> cr_available c"
    if "p \<in> set (take_credits amount ordered)" for p
    using that by (rule take_credits_amount) (rule drawn_from_positive [OF assms(2)])
  have fits: "pi_amount p \<le> al_available a"
    if p: "p \<in> set (take_credits amount ordered)" and a: "a \<in> set (cs_allocations s)" "al_id a = pi_allocation p" for p a
  proof -
    obtain c where c: "c \<in> set ordered" "pi_allocation p = cr_allocation c" "pi_amount p \<le> cr_available c"
      using item [OF p] by auto
    obtain b where b: "b \<in> set (cs_allocations s)" "cr_allocation c = al_id b" "cr_available c = al_available b"
      using assms(2) c(1) by (rule drawn_fromE)
    have "al_id a = al_id b" using a(2) b(2) c(2) by simp
    with row_by_only [OF u row_by_unique [OF u b(1)] a(1)] have "a = b" .
    with b(3) c(3) show ?thesis by simp
  qed
  moreover have "0 \<le> snd x \<and> (\<forall>a \<in> set (cs_allocations s). al_id a = fst x \<longrightarrow> snd x \<le> al_available a)"
    if x: "x \<in> set (map plan_key (take_credits amount ordered))" for x
  proof -
    obtain p where p: "p \<in> set (take_credits amount ordered)" "x = plan_key p" using x by auto
    have "0 < pi_amount p" using item [OF p(1)] by auto
    then show ?thesis using fits [OF p(1)] p(2) by (simp add: plan_key_def)
  qed
  ultimately show ?thesis using assms(1) unfolding pending_def by blast
qed

subsection \<open>Every operation keeps the allocations within their amounts\<close>

lemma allocs_create_allocation:
  "al_consumed al = 0 \<Longrightarrow> al_expired al = 0 \<Longrightarrow> 0 < al_amount al \<Longrightarrow> preserves allocs_ok (create_allocation al)"
  unfolding create_allocation_def Let_def
  by (intro preserve_rules preserves_insert_returning preserves_id_or_fresh)
    (auto simp: pending_def unique_key_append alloc_ok_def)

interpretation allocs: repository_frame allocs_ok
  by unfold_locales
    (auto intro!: preserves_other_table [of allocs_ok] preserves_delete [of allocs_ok] allocs_create_allocation
      simp: pending_def unique_key_filter)

definition accounts_distinct :: "credit_state \<Rightarrow> bool" where
  "accounts_distinct s \<longleftrightarrow> distinct (map ca_id (cs_accounts s))"

lemma get_user_accounts_result:
  assumes "get_user_accounts uid ty active s = (r, s')"
  shows "same_tables s s' \<and> (\<forall>accs. r = Inr accs \<longrightarrow>
    accs = [] \<or> accs = order_desc ca_created (filter (account_matches uid
      \<lparr>af_type = ty, af_active = active, af_organization = None\<rparr>) (cs_accounts s)))"
  using query_rows_result [OF assms [unfolded get_user_accounts_def repo_get_user_accounts_def]]
  by (auto simp: same_tablesD)

lemma distinct_order_desc: "distinct (map f rows) \<Longrightarrow> distinct (map f (order_desc g (filter P rows)))"
  by (auto simp: order_desc_def distinct_map inj_on_def)

lemma consume_allocs_ok:
  assumes ok: "allocs_ok s" and "unique_key ca_id (cs_accounts s)"
  shows "allocs_ok (after (consume_credits uid amount billing) s)"
proof (cases "amount \<le> 0")
  case True
  then show ?thesis using ok by (simp add: consume_credits_def after_def)
next
  case False
  obtain r s1 where acc: "get_user_accounts uid None (Some True) s = (r, s1)"
    by (cases "get_user_accounts uid None (Some True) s")
  note res = get_user_accounts_result [OF acc]
  have ok1: "allocs_ok s1" using res ok same_tables_pending by blast
  show ?thesis
  proof (cases r)
    case (Inl e)
    then show ?thesis using False acc ok1 by (simp add: consume_credits_def after_def bnd_apply)
  next
    case (Inr accs)
    have dist: "distinct (map ca_id accs)"
      using res Inr assms(2) distinct_order_desc by (fastforce simp: unique_key_def)
    obtain p s2 where plan: "build_consumption_plan accs amount s1 = (p, s2)"
      by (cases "build_consumption_plan accs amount s1")
    have u: "unique_key al_id (cs_allocations s1)" using ok1 by (simp add: pending_def)
    note built = plan_drawn [OF plan u dist]
    have ok2: "allocs_ok s2" using built ok1 same_tables_pending by blast
    have "allocs_ok (snd (execute_plan uid billing (balance_total accs) items s2))" if items: "p = Inr items" for items
    proof -
      obtain cs ordered where "drawn_from s1 cs" "sort_credits cs = Inr ordered" "items = take_credits amount ordered"
        using built items by auto
      then have "pending (map plan_key items) s1" using plan_pending [OF ok1 drawn_from_sorted] by simp
      then have "pending (map plan_key items) s2" using built same_tables_pending by blast
      then show ?thesis by (rule leadsD [OF execute_plan_leads])
    qed
    with False acc Inr plan ok1 ok2 show ?thesis
      by (cases p) (auto simp: consume_credits_def after_def bnd_apply Let_def)
  qed
qed

lemma expire_allocs_ok:
  assumes ok: "allocs_ok s"
  shows "allocs_ok (after process_expirations s)"
proof -
  let ?q = "\<lambda>s'. sort_key (\<lambda>a. the (al_expires a)) (filter (expiring (now_us s)) (cs_allocations s'))"
  obtain r s1 where q: "query_rows ?q s = (r, s1)" by (cases "query_rows ?q s")
  note res = query_rows_result [OF q]
  have ok1: "allocs_ok s1" using res ok same_tables_pending by blast
  have "allocs_ok (snd (for_each rows expire_one (0, 0) s1))" if rows: "r = Inr rows" for rows
  proof -
    have sub: "set rows \<subseteq> set (cs_allocations s1)" and dist: "distinct (map al_id rows)"
    proof -
      have "rows = [] \<or> rows = ?q s1" using res rows by auto
      moreover have "distinct (map al_id (?q s1))"
        using ok1 by (simp add: pending_def unique_key_def distinct_map inj_on_def)
      ultimately show "set rows \<subseteq> set (cs_allocations s1)" "distinct (map al_id rows)" by auto
    qed
    have fits: "al_available b = al_available a" if "a \<in> set rows" "b \<in> set (cs_allocations s1)" "al_id b = al_id a" for a b
      using row_by_only [OF _ row_by_unique, of al_id "cs_allocations s1" a b] that sub ok1
      by (auto simp: pending_def)
    have "0 \<le> al_available a" if "a \<in> set rows" for a
    proof -
      have "alloc_ok a" using that sub ok1 by (auto simp: pending_def)
      then show ?thesis by (simp add: alloc_ok_def al_available_def)
    qed
    then have "pending (map expiry_key rows) s1"
      using ok1 dist fits by (auto simp: pending_def expiry_key_def comp_def)
    then show ?thesis by (rule leadsD [OF map_pending_loop [OF expire_one_leads]])
  qed
  then show ?thesis using q ok1
    by (cases r) (auto simp: process_expirations_def get_expiring_allocations_def after_def bnd_apply
        split: prod.split sum.split)
qed

definition allocations_safe :: "credit_state \<Rightarrow> bool" where
  "allocations_safe s \<longleftrightarrow> credit_ok s \<and> allocs_ok s"

interpretation credit_allocations: invariant_system credit_step allocations_safe
proof
  fix s op assume safe: "allocations_safe s"
  have "credit_ok (credit_step op s)"
    using safe credit_tables.step_inv by (simp add: allocations_safe_def)
  moreover have "allocs_ok (credit_step op s)"
  proof (cases "(\<exists>uid n b. op = Consume uid n b) \<or> op = Process_expirations")
    case True
    then show ?thesis using safe
      by (auto simp: allocations_safe_def credit_ok_def credit_step_def consume_allocs_ok expire_allocs_ok)
  next
    case False
    have "preserves allocs_ok (repo_update_campaign cid u)" for cid u
      by (rule preserves_other_table) simp_all
    then show ?thesis using False safe by (intro allocs.frame_step) (auto simp: allocations_safe_def)
  qed
  ultimately show "allocations_safe (credit_step op s)" by (simp add: allocations_safe_def)
qed

end
