(* ===== verification/CreditTheorems.thy ===== *)
theory CreditTheorems
  imports CreditConsumption
begin

section \<open>Credit: properties\<close>

text \<open>
  Safety of balances, budgets and allocations under all sequences of operations and all failures;
  then, on an environment where nothing fails, what allocation, consumption, transfer and the
  handlers achieve, with the cases where they do not do what the service documents.
\<close>

subsection \<open>The repository when nothing fails\<close>

lemma query_calm [simp]:
  "w_script s = [] \<Longrightarrow> query_rows q s = (Inr (q s), s)" "w_script s = [] \<Longrightarrow> query_row q' s = (Inr (q' s), s)"
  by (simp_all add: query_rows_def query_row_def bnd_apply)

lemma insert_returning_calm [simp]:
  "w_script s = [] \<Longrightarrow> insert_returning msg fits row ins s = (if fits s then (Inr row, ins s) else (Inl DbError, s))"
  by (simp add: insert_returning_def bnd_apply)

lemma id_or_fresh_given [simp]: "g \<noteq> [] \<Longrightarrow> id_or_fresh g p = ret g"
  by (simp add: id_or_fresh_def)

lemma bus_publish_calm [simp]:
  "w_script s = [] \<Longrightarrow> bus_publish ev s = (Inr (), s\<lparr>w_events := w_events s @ published (w_bus s) (Some ev)\<rparr>)"
  by (simp add: bus_publish_def bnd_apply published_def)

lemma create_transaction_calm:
  assumes "w_script s = []" and "ct_id t \<noteq> []" and "row = t\<lparr>ct_created := now_us s\<rparr>"
    and "transaction_fits row" and "ct_id row \<notin> ct_id ` set (cs_transactions s)"
  shows "create_transaction t s = (Inr row, s\<lparr>cs_transactions := cs_transactions s @ [row]\<rparr>)"
proof -
  have "t\<lparr>ct_id := ct_id t\<rparr> = t" by simp
  with assms show ?thesis by (simp add: create_transaction_def Let_def bnd_apply)
qed

lemma create_allocation_calm:
  assumes "w_script s = []" and "al_id a \<noteq> []" and "row = a\<lparr>al_created := now_us s, al_updated := now_us s\<rparr>"
    and "allocation_fits row" and "al_id row \<notin> al_id ` set (cs_allocations s)"
  shows "create_allocation a s = (Inr row, s\<lparr>cs_allocations := cs_allocations s @ [row]\<rparr>)"
proof -
  have "a\<lparr>al_id := al_id a\<rparr> = a" by simp
  with assms show ?thesis by (simp add: create_allocation_def Let_def bnd_apply)
qed

definition set_delta :: "string \<Rightarrow> int \<Rightarrow> int \<Rightarrow> credit_account list \<Rightarrow> credit_account list" where
  "set_delta aid n now = update_where (\<lambda>x. ca_id x = aid) (apply_delta n now)"

lemma update_balance_calm:
  assumes "w_script s = []" and "row_by ca_id aid (cs_accounts s) = Some a" and "int4 n"
    and "0 \<le> ca_balance a + n" and "account_fits (apply_delta n (now_us s) a)"
  shows "update_account_balance aid n s =
    (Inr True, s\<lparr>cs_accounts := set_delta aid n (now_us s) (cs_accounts s)\<rparr>)"
proof -
  have "int4 (ca_balance a + n)" using assms(5) by (simp add: account_fits_def apply_delta_def)
  with assms show ?thesis by (simp add: update_account_balance_def set_delta_def bnd_apply)
qed

definition set_consumed :: "string \<Rightarrow> int \<Rightarrow> int \<Rightarrow> credit_allocation list \<Rightarrow> credit_allocation list" where
  "set_consumed i n now =
     update_where (\<lambda>x. al_id x = i) (\<lambda>a. a\<lparr>al_consumed := al_consumed a + n, al_updated := now\<rparr>)"

lemma update_consumed_calm:
  assumes "w_script s = []" and "row_by al_id i (cs_allocations s) = Some a" and "int4 n"
    and "allocation_fits (a\<lparr>al_consumed := al_consumed a + n\<rparr>)"
  shows "update_allocation_consumed i n s =
    (Inr True, s\<lparr>cs_allocations := set_consumed i n (now_us s) (cs_allocations s)\<rparr>)"
  using assms
  by (simp add: update_allocation_consumed_def add_to_allocation_def set_consumed_def bnd_apply)

text \<open>
  The reconciliation view of \<open>migrations/003_add_reconciliation_view.sql\<close>: the balance of an account
  against what its completed allocations still hold.
\<close>

definition pool :: "string \<Rightarrow> credit_allocation list \<Rightarrow> int" where
  "pool aid rows = (\<Sum>a\<leftarrow>rows. if al_account a = aid \<and> al_status a = COMPLETED then al_available a else 0)"

definition drift :: "credit_state \<Rightarrow> credit_account \<Rightarrow> int" where
  "drift s a = ca_balance a - pool (ca_id a) (cs_allocations s)"

definition account_drift :: "string \<Rightarrow> credit_state \<Rightarrow> int option" where
  "account_drift aid s = map_option (drift s) (row_by ca_id aid (cs_accounts s))"

lemma row_by_set_delta:
  "row_by ca_id k (set_delta aid n now rows) =
     map_option (\<lambda>a. if ca_id a = aid then apply_delta n now a else a) (row_by ca_id k rows)"
  unfolding set_delta_def by (rule row_by_update_where) simp

lemma pool_append: "pool aid (rows @ [a]) =
    pool aid rows + (if al_account a = aid \<and> al_status a = COMPLETED then al_available a else 0)"
  by (simp add: pool_def)

subsection \<open>A concrete world, for the witnesses\<close>

definition credit_empty :: credit_state where
  "credit_empty = \<lparr>w_now = \<lparr>dt_year = 2026, dt_month = 2, dt_day = 4, dt_us = 0\<rparr>,
     w_uuid = (\<lambda>k. replicate k (CHR ''c'') @ ''0123456789abcdef0123456789abcdef''), w_uuid_next = 0, w_script = [],
     w_bus = True, w_events = [], cs_accounts = [], cs_transactions = [], cs_allocations = [],
     cs_campaigns = [], cs_users = None\<rparr>"

lemma credit_empty_ok [simp]: "credit_ok credit_empty" "budgets_ok credit_empty" "allocations_safe credit_empty"
  by (simp_all add: credit_empty_def credit_ok_def budgets_ok_def allocations_safe_def pending_def unique_key_def)

subsection \<open>Safety\<close>

text \<open>
  C3. Whatever operations run and however their calls to the database, the bus and the account
  service fail in between: no balance is ever negative or out of the range of its column, every
  balance is exactly what was credited minus what was debited, a user has at most one account per
  credit type, and every transaction row adds up. Expired credits are booked as consumed:
  \<open>total_expired\<close> stays 0 for ever.
\<close>
theorem balances_stay_consistent:
  assumes "credit_ok s" and "s' = fold credit_step ops s"
  shows "(\<forall>a \<in> set (cs_accounts s'). 0 \<le> ca_balance a \<and> ca_balance a < 2 ^ 31
      \<and> ca_balance a = ca_total_allocated a - ca_total_consumed a \<and> ca_total_expired a = 0)
    \<and> distinct (map (\<lambda>a. (ca_user a, ca_type a)) (cs_accounts s'))
    \<and> (\<forall>t \<in> set (cs_transactions s'). ct_after t = ct_before t + ct_amount t)"
proof -
  have "credit_ok s'" unfolding assms(2) using assms(1) by (rule credit_tables.run_inv)
  then show ?thesis
    by (auto simp: credit_ok_def acct_ok_def txn_ok_def account_fits_def int4_def unique_key_def owner_def [abs_def])
qed

theorem balances_stay_consistent_witness:
  "list_all (\<lambda>a. 0 \<le> ca_balance a) (cs_accounts (fold credit_step
     [Allocate ''u'' 50 ''bonus'' None None, Consume ''u'' 20 None, Process_expirations] credit_empty))"
  unfolding list_all_iff using balances_stay_consistent [OF credit_empty_ok(1) refl] by blast



text \<open>
  C4. No credit is spent twice: for every allocation, what was consumed and what was expired are
  never negative and together never exceed the amount that was allocated, whatever runs and fails.
\<close>
theorem allocations_never_overdrawn:
  assumes "allocations_safe s"
  shows "\<forall>a \<in> set (cs_allocations (fold credit_step ops s)).
    0 \<le> al_consumed a \<and> 0 \<le> al_expired a \<and> al_consumed a + al_expired a \<le> al_amount a"
  using credit_allocations.run_inv [OF assms, of ops] by (simp add: allocations_safe_def pending_def alloc_ok_def)

theorem allocations_never_overdrawn_witness:
  "list_all (\<lambda>a. 0 \<le> al_consumed a \<and> 0 \<le> al_expired a \<and> al_consumed a + al_expired a \<le> al_amount a)
    (cs_allocations (fold credit_step
      [Allocate ''u'' 50 ''bonus'' None None, Consume ''u'' 20 None, Consume ''u'' 40 None] credit_empty))"
  unfolding list_all_iff by (rule allocations_never_overdrawn) simp

subsection \<open>Which credits are consumed\<close>

text \<open>
  C38. The consumption plan is first-expiring-first-out and greedy: the credits are ordered by expiry,
  then type priority, then age; the plan takes a prefix of that order, empties every credit before it
  touches the next, never takes more than a credit holds, and reaches the requested amount exactly
  when that much is available.
\<close>
theorem plan_is_greedy_fifo:
  assumes "\<forall>c \<in> set cs. 0 < cr_available c" and "sort_credits cs = Inr ordered" and "0 < amount"
    and "plan = take_credits amount ordered"
  shows "mset ordered = mset cs \<and> sorted (map sort_tuple ordered)
    \<and> plan_total plan = min amount (source_total cs)
    \<and> (\<forall>k < length plan. k < length ordered \<and> pi_allocation (plan ! k) = cr_allocation (ordered ! k)
        \<and> 0 < pi_amount (plan ! k) \<and> pi_amount (plan ! k) \<le> cr_available (ordered ! k)
        \<and> (Suc k < length plan \<longrightarrow> pi_amount (plan ! k) = cr_available (ordered ! k)))"
proof -
  have pos: "\<And>c. c \<in> set ordered \<Longrightarrow> 0 < cr_available c" using assms(1) sort_credits_set [OF assms(2)] by simp
  have "mset ordered = mset cs" using assms(2) by (rule sort_credits_mset)
  moreover have "sorted (map sort_tuple ordered)"
    using assms(2) by (auto simp: sort_credits_def split: if_splits)
  moreover have "plan_total plan = min amount (source_total ordered)"
    unfolding assms(4) using assms(3) take_credits_total [OF pos, where r = amount] by simp
  moreover have "source_total ordered = source_total cs"
    using sort_credits_mset [OF assms(2)] by (rule source_total_mset)
  moreover note take_credits_prefix [where cs = ordered and r = amount, OF pos, folded assms(4)]
  ultimately show ?thesis by simp
qed

definition two_credits :: "credit_source list" where
  "two_credits =
     [\<lparr>cr_account = ''a'', cr_type = ''bonus'', cr_allocation = ''x'', cr_available = 5, cr_expires = Some 9,
       cr_created = 1, cr_priority = 3\<rparr>,
      \<lparr>cr_account = ''b'', cr_type = ''compensation'', cr_allocation = ''y'', cr_available = 4, cr_expires = Some 9,
       cr_created = 2, cr_priority = 1\<rparr>]"

theorem plan_is_greedy_fifo_witness:
  "\<exists>ordered. sort_credits two_credits = Inr ordered \<and> plan_total (take_credits 7 ordered) = 7"
proof -
  have "sort_credits two_credits = Inr (sort_key sort_tuple two_credits)"
    by (simp add: sort_credits_def mixed_expiry_def two_credits_def)
  moreover from plan_is_greedy_fifo [OF _ this _ refl, of 7]
  have "plan_total (take_credits 7 (sort_key sort_tuple two_credits)) = 7"
    by (simp add: two_credits_def)
  ultimately show ?thesis by blast
qed

text \<open>
  The end-of-month policy gives the last microsecond of the current month, for every month and
  leap year, which is a valid date and not in the past.
\<close>
theorem end_of_month_is_last_moment:
  assumes "valid_datetime now" and "dt_year now \<noteq> 9999 \<or> dt_month now \<noteq> 12"
    and "e = now\<lparr>dt_day := days_in_month (dt_year now) (dt_month now), dt_us := us_per_day - 1\<rparr>"
  shows "calculate_expiration_date now ''end_of_month'' days campaign = Inr (Some (stamp e))
    \<and> valid_datetime e \<and> stamp now \<le> stamp e"
proof -
  have bounds: "28 \<le> days_in_month (dt_year now) (dt_month now)" using days_in_month_bounds by blast
  have "dt_day now \<le> dt_day e" and "dt_us now \<le> dt_us e"
    using assms(1,3) by (simp_all add: valid_datetime_def)
  then have "ordinal now * us_per_day + dt_us now \<le> ordinal e * us_per_day + dt_us e"
    by (intro add_mono mult_right_mono) (simp_all add: ordinal_def assms(3) us_per_day_def)
  moreover have "valid_datetime e"
    using assms(1,3) bounds by (simp add: valid_datetime_def us_per_day_def)
  ultimately show ?thesis
    using assms by (simp add: calculate_expiration_date_def end_of_month_fields stamp_def last_us_def Let_def)
qed

theorem end_of_month_is_last_moment_witness:
  "calculate_expiration_date \<lparr>dt_year = 2024, dt_month = 2, dt_day = 10, dt_us = 5\<rparr> ''end_of_month'' 90 None
     = Inr (Some (stamp \<lparr>dt_year = 2024, dt_month = 2, dt_day = 29, dt_us = 86399999999\<rparr>))"
  using end_of_month_is_last_moment [of "\<lparr>dt_year = 2024, dt_month = 2, dt_day = 10, dt_us = 5\<rparr>" _ 90 None, OF _ _ refl]
  by (simp add: valid_datetime_def days_in_month_def is_leap_def us_per_day_def)

subsection \<open>Reading the credits of a user when nothing fails\<close>

definition active_accounts :: "string \<Rightarrow> credit_state \<Rightarrow> credit_account list" where
  "active_accounts uid s = order_desc ca_created (filter (\<lambda>a. ca_user a = uid \<and> ca_active a) (cs_accounts s))"

definition available_fifo :: "credit_state \<Rightarrow> credit_account \<Rightarrow> credit_allocation list" where
  "available_fifo s acc = sort_key fifo_key (filter (consumable (ca_id acc) (now_us s)) (cs_allocations s))"

definition user_credits :: "string \<Rightarrow> credit_state \<Rightarrow> credit_source list" where
  "user_credits uid s = concat (map (\<lambda>acc. sources_of acc (available_fifo s acc)) (active_accounts uid s))"

lemma user_accounts_calm:
  "w_script s = [] \<Longrightarrow> get_user_accounts uid None (Some True) s = (Inr (active_accounts uid s), s)"
  by (simp add: get_user_accounts_def repo_get_user_accounts_def active_accounts_def account_matches_def [abs_def])

lemma collect_loop_calm:
  assumes "w_script s = []"
  shows "for_each accs (\<lambda>acc found. bnd (get_available_credits_fifo (ca_id acc))
      (\<lambda>allocs. ret (found @ sources_of acc allocs))) found s
    = (Inr (found @ concat (map (\<lambda>acc. sources_of acc (available_fifo s acc)) accs)), s)"
  using assms
  by (induction accs arbitrary: found)
    (simp_all add: bnd_apply get_available_credits_fifo_def available_fifo_def)

lemma plan_calm:
  "w_script s = [] \<Longrightarrow> build_consumption_plan (active_accounts uid s) amount s =
     (case sort_credits (user_credits uid s) of Inl e \<Rightarrow> (Inl e, s) | Inr ordered \<Rightarrow> (Inr (take_credits amount ordered), s))"
  by (simp add: build_consumption_plan_def collect_credits_def bnd_apply collect_loop_calm user_credits_def split: sum.split)

lemma consume_calm:
  assumes "w_script s = []" and "0 < amount" and "active_accounts uid s \<noteq> []"
    and "amount \<le> balance_total (active_accounts uid s)"
  shows "consume_credits uid amount billing s =
    (case sort_credits (user_credits uid s) of
       Inl e \<Rightarrow> (Inl e, s)
     | Inr ordered \<Rightarrow>
         if take_credits amount ordered = [] then (Inl (Custom (ConsumptionFailed (Reason ''no_plan''))), s)
         else execute_plan uid billing (balance_total (active_accounts uid s)) (take_credits amount ordered) s)"
  using assms by (simp add: consume_credits_def bnd_apply user_accounts_calm plan_calm Let_def split: sum.split)

lemma user_credits_member:
  assumes "acc \<in> set (cs_accounts s)" "ca_user acc = uid" "ca_active acc"
    and "a \<in> set (cs_allocations s)" "consumable (ca_id acc) (now_us s) a"
  shows "source_of acc a \<in> set (user_credits uid s)"
  using assms by (auto simp: user_credits_def active_accounts_def available_fifo_def sources_of_def consumable_def)

text \<open>
  A user who holds both credits that never expire and credits that do cannot consume at all, nor
  ask what is available: ordering the two kinds compares a \<open>datetime\<close> with a string, which raises,
  whatever the amount and the balance.
\<close>
theorem mixed_expiry_blocks_consumption:
  assumes "w_script s = []" and "0 < amount" and "amount \<le> balance_total (active_accounts uid s)"
    and "acc \<in> set (cs_accounts s)" "ca_user acc = uid" "ca_active acc"
    and "a \<in> set (cs_allocations s)" "consumable (ca_id acc) (now_us s) a" "al_expires a = None"
    and "acc' \<in> set (cs_accounts s)" "ca_user acc' = uid" "ca_active acc'"
    and "b \<in> set (cs_allocations s)" "consumable (ca_id acc') (now_us s) b" "al_expires b = Some t"
  shows "consume_credits uid amount billing s = (Inl TypeError, s)
    \<and> check_availability uid amount s = (Inl TypeError, s)"
proof -
  have "mixed_expiry (user_credits uid s)"
    unfolding mixed_expiry_def
    using user_credits_member [OF assms(4-8)] user_credits_member [OF assms(10-14)] assms(9,15)
    by (metis option.distinct(1) source_of_def credit_source.select_convs(5))
  then have sort: "sort_credits (user_credits uid s) = Inl TypeError" by (simp add: sort_credits_def)
  have "acc \<in> set (active_accounts uid s)" using assms(4-6) by (simp add: active_accounts_def)
  then have ne: "active_accounts uid s \<noteq> []" by auto
  show ?thesis
    using consume_calm [OF assms(1,2) ne assms(3)] sort assms(1,2) ne
    by (simp add: check_availability_def bnd_apply user_accounts_calm plan_calm Let_def)
qed

text \<open>
  Credits without an allocation cannot be spent: a user whose balance covers the amount but whose
  accounts have no allocation left to draw from, as after receiving a transfer, is refused with
  \<open>no_plan\<close>.
\<close>
theorem balance_without_allocation_is_refused:
  assumes "w_script s = []" and "0 < amount" and "amount \<le> balance_total (active_accounts uid s)"
    and "\<forall>acc \<in> set (cs_accounts s). \<forall>a \<in> set (cs_allocations s).
      ca_user acc = uid \<longrightarrow> \<not> consumable (ca_id acc) (now_us s) a"
  shows "consume_credits uid amount billing s = (Inl (Custom (ConsumptionFailed (Reason ''no_plan''))), s)"
proof -
  have "active_accounts uid s \<noteq> []" using assms(2,3) by (auto simp: balance_total_def)
  moreover have "user_credits uid s = []"
    using assms(4) by (auto simp: user_credits_def active_accounts_def available_fifo_def sources_of_def
        filter_empty_conv)
  ultimately show ?thesis
    using consume_calm [OF assms(1,2) _ assms(3)] by (simp add: sort_credits_def mixed_expiry_def)
qed

subsection \<open>Witnesses of the refusals\<close>

definition account_1 :: credit_account where
  "account_1 = \<lparr>ca_id = ''acc1'', ca_user = ''u'', ca_organization = None, ca_type = ''bonus'', ca_balance = 30,
     ca_total_allocated = 30, ca_total_consumed = 0, ca_total_expired = 0, ca_policy = ''fixed_days'', ca_days = 90,
     ca_active = True, ca_created = 1, ca_updated = 1\<rparr>"

definition allocation_1 :: credit_allocation where
  "allocation_1 = \<lparr>al_id = ''al1'', al_campaign = None, al_user = ''u'', al_account = ''acc1'', al_transaction = None,
     al_amount = 10, al_status = COMPLETED, al_expires = None, al_expired = 0, al_consumed = 0, al_created = 1,
     al_updated = 1\<rparr>"

definition allocation_2 :: credit_allocation where
  "allocation_2 = allocation_1\<lparr>al_id := ''al2'', al_amount := 20, al_expires := Some (2 ^ 70)\<rparr>"

lemmas credit_examples = credit_empty_def account_1_def allocation_1_def allocation_2_def

theorem mixed_expiry_blocks_consumption_witness:
  "consume_credits ''u'' 5 None (credit_empty\<lparr>cs_accounts := [account_1], cs_allocations := [allocation_1, allocation_2]\<rparr>)
     = (Inl TypeError, credit_empty\<lparr>cs_accounts := [account_1], cs_allocations := [allocation_1, allocation_2]\<rparr>)"
  by (rule conjunct1 [OF mixed_expiry_blocks_consumption [where acc = account_1 and acc' = account_1
        and a = allocation_1 and b = allocation_2 and t = "2 ^ 70"]])
    (simp_all add: credit_examples active_accounts_def order_desc_def balance_total_def consumable_def al_available_def
      now_us_def stamp_def ordinal_def days_before_year_def numeral_eq_Suc days_in_month_def us_per_day_def)

theorem balance_without_allocation_is_refused_witness:
  "consume_credits ''u'' 5 None (credit_empty\<lparr>cs_accounts := [account_1]\<rparr>)
     = (Inl (Custom (ConsumptionFailed (Reason ''no_plan''))), credit_empty\<lparr>cs_accounts := [account_1]\<rparr>)"
  by (rule balance_without_allocation_is_refused)
    (simp_all add: credit_examples active_accounts_def order_desc_def balance_total_def)

subsection \<open>Allocation\<close>

lemma account_by_owner_calm:
  "w_script s = [] \<Longrightarrow> get_account_by_user_type uid ty s = (Inr (row_by owner (uid, ty) (cs_accounts s)), s)"
  by (simp add: get_account_by_user_type_def owner_def [abs_def])

lemma owner_row:
  assumes "row_by owner (uid, ty) (cs_accounts s) = Some acc" and "credit_ok s"
  shows "acc \<in> set (cs_accounts s) \<and> ca_user acc = uid \<and> ca_type acc = ty \<and> acct_ok acc
    \<and> row_by ca_id (ca_id acc) (cs_accounts s) = Some acc"
  using row_by_Some [OF assms(1)] assms(2) by (auto simp: owner_def credit_ok_def intro: row_by_unique)

lemma int4_credit: "acct_ok acc \<Longrightarrow> 0 < n \<Longrightarrow> account_fits (apply_delta n now acc) \<Longrightarrow> int4 n"
  by (auto simp: acct_ok_def account_fits_def apply_delta_def int4_def)

lemma length_take_le: "length (take n xs) \<le> n"
  by simp

definition allocation_row ::
  "credit_state \<Rightarrow> string \<Rightarrow> string \<Rightarrow> credit_account \<Rightarrow> int \<Rightarrow> int option \<Rightarrow> credit_allocation" where
  "allocation_row s aid tid acc amount expires =
     \<lparr>al_id = aid, al_campaign = None, al_user = ca_user acc, al_account = ca_id acc, al_transaction = Some tid,
      al_amount = amount, al_status = COMPLETED, al_expires = expires, al_expired = 0, al_consumed = 0,
      al_created = now_us s, al_updated = now_us s\<rparr>"

definition allocation_txn ::
  "credit_state \<Rightarrow> string \<Rightarrow> credit_account \<Rightarrow> int \<Rightarrow> int option \<Rightarrow> credit_transaction" where
  "allocation_txn s tid acc amount expires =
     \<lparr>ct_id = tid, ct_account = ca_id acc, ct_user = ca_user acc, ct_type = ALLOCATE, ct_amount = amount,
      ct_before = ca_balance acc, ct_after = ca_balance acc + amount, ct_reference = None,
      ct_reference_type = ''manual'', ct_expires = expires, ct_created = now_us s\<rparr>"

lemma write_allocation_calm:
  assumes "w_script s = []" and "acct_ok acc" and "row_by ca_id (ca_id acc) (cs_accounts s) = Some acc"
    and "0 < amount" and "account_fits (apply_delta amount (now_us s) acc)"
    and "aid \<noteq> []" "length aid \<le> 50" "aid \<notin> al_id ` set (cs_allocations s)"
    and "tid \<noteq> []" "length tid \<le> 50" "tid \<notin> ct_id ` set (cs_transactions s)"
  shows "write_allocation (ca_user acc) amount ty None acc expires aid tid s =
    (Inr \<lparr>ar_allocation_id = aid, ar_account_id = ca_id acc, ar_amount = amount,
          ar_balance_after = ca_balance acc + amount, ar_expires_at = expires\<rparr>,
     s\<lparr>cs_transactions := cs_transactions s @ [allocation_txn s tid acc amount expires],
       cs_accounts := set_delta (ca_id acc) amount (now_us s) (cs_accounts s),
       cs_allocations := cs_allocations s @ [allocation_row s aid tid acc amount expires],
       w_events := w_events s @ published (w_bus s) (Some (CreditAllocated aid (ca_user acc) amount ty expires))\<rparr>)"
proof -
  have n: "int4 amount" using int4_credit [OF assms(2,4,5)] .
  have fits: "int4 (ca_balance acc)" "int4 (ca_balance acc + amount)" "length (ca_id acc) \<le> 50" "length (ca_user acc) \<le> 50"
    "0 \<le> ca_balance acc"
    using assms(2,5) by (auto simp: acct_ok_def account_fits_def apply_delta_def)
  let ?s1 = "s\<lparr>cs_transactions := cs_transactions s @ [allocation_txn s tid acc amount expires]\<rparr>"
  let ?s2 = "?s1\<lparr>cs_accounts := set_delta (ca_id acc) amount (now_us s) (cs_accounts s)\<rparr>"
  have "create_transaction (allocation_txn s tid acc amount expires\<lparr>ct_created := 0\<rparr>) s
      = (Inr (allocation_txn s tid acc amount expires), ?s1)"
    by (rule create_transaction_calm) (use assms fits n in \<open>simp_all add: allocation_txn_def transaction_fits_def\<close>)
  moreover have "update_account_balance (ca_id acc) amount ?s1 = (Inr True, ?s2)"
    using update_balance_calm [of ?s1 "ca_id acc" acc amount] assms fits n by (simp add: now_us_def)
  moreover have "create_allocation (allocation_row s aid tid acc amount expires\<lparr>al_created := 0, al_updated := 0\<rparr>) ?s2
      = (Inr (allocation_row s aid tid acc amount expires),
         ?s2\<lparr>cs_allocations := cs_allocations s @ [allocation_row s aid tid acc amount expires]\<rparr>)"
    by (subst create_allocation_calm [OF _ _ refl])
      (use assms fits n in \<open>simp_all add: allocation_row_def allocation_fits_def now_us_def int4_def\<close>)
  ultimately show ?thesis
    using assms(1)
    by (simp add: write_allocation_def catch_apply bnd_apply allocation_txn_def allocation_row_def)
qed

text \<open>
  Granting credits: for a user with an active account, allocation answers with the new balance,
  credits exactly that account, records one transaction and one allocation that expires when the
  policy or the caller says, publishes the event, and leaves the reconciliation drift as it was.
\<close>
theorem allocate_credits_effect:
  assumes "w_script s = []" and "credit_ok s" and "0 < amount" and "ty \<in> set valid_credit_types"
    and "row_by owner (uid, ty) (cs_accounts s) = Some acc" and "ca_active acc"
    and "(case expires_at of Some t \<Rightarrow> Inr (Some t)
          | None \<Rightarrow> calculate_expiration_date (w_now s) (ca_policy acc) (ca_days acc) None) = Inr expires"
    and "account_fits (apply_delta amount (now_us s) acc)"
    and "aid = ''cred_alloc_'' @ take 20 (w_uuid s (w_uuid_next s))" "aid \<notin> al_id ` set (cs_allocations s)"
    and "tid = ''cred_txn_'' @ take 20 (w_uuid s (Suc (w_uuid_next s)))" "tid \<notin> ct_id ` set (cs_transactions s)"
    and "(r, s') = allocate_credits uid amount ty None expires_at s"
  shows "r = Inr \<lparr>ar_allocation_id = aid, ar_account_id = ca_id acc, ar_amount = amount,
        ar_balance_after = ca_balance acc + amount, ar_expires_at = expires\<rparr>
    \<and> cs_accounts s' = set_delta (ca_id acc) amount (now_us s) (cs_accounts s)
    \<and> cs_transactions s' = cs_transactions s @ [allocation_txn s tid acc amount expires]
    \<and> cs_allocations s' = cs_allocations s @ [allocation_row s aid tid acc amount expires]
    \<and> w_events s' = w_events s @ published (w_bus s) (Some (CreditAllocated aid uid amount ty expires))
    \<and> account_drift (ca_id acc) s' = account_drift (ca_id acc) s"
proof -
  note acc = owner_row [OF assms(5,2)]
  let ?s2 = "s\<lparr>w_uuid_next := Suc (Suc (w_uuid_next s))\<rparr>"
  have "allocate_credits uid amount ty None expires_at s = write_allocation (ca_user acc) amount ty None acc expires aid tid ?s2"
    using assms(1,3-6,9,11) acc
    by (simp add: allocate_credits_def get_or_create_account_def bnd_apply account_by_owner_calm fresh_hex_def
        assms(7))
  also have "\<dots> = (Inr \<lparr>ar_allocation_id = aid, ar_account_id = ca_id acc, ar_amount = amount,
          ar_balance_after = ca_balance acc + amount, ar_expires_at = expires\<rparr>,
     ?s2\<lparr>cs_transactions := cs_transactions s @ [allocation_txn s tid acc amount expires],
       cs_accounts := set_delta (ca_id acc) amount (now_us s) (cs_accounts s),
       cs_allocations := cs_allocations s @ [allocation_row s aid tid acc amount expires],
       w_events := w_events s @ published (w_bus s) (Some (CreditAllocated aid uid amount ty expires))\<rparr>)"
    using write_allocation_calm [of ?s2 acc amount aid tid ty expires] assms acc length_take_le [of 20]
    by (simp add: now_us_def allocation_txn_def allocation_row_def)
  finally show ?thesis
    using assms(13) acc
    by (simp add: account_drift_def row_by_set_delta drift_def pool_append allocation_row_def al_available_def)
qed

theorem allocate_credits_effect_witness:
  "map ca_balance (cs_accounts (snd (allocate_credits ''u'' 12 ''bonus'' None (Some 99)
     (credit_empty\<lparr>cs_accounts := [account_1]\<rparr>)))) = [42]"
proof -
  let ?s = "credit_empty\<lparr>cs_accounts := [account_1]\<rparr>"
  let ?run = "allocate_credits ''u'' 12 ''bonus'' None (Some 99) ?s"
  have "cs_accounts (snd ?run) = set_delta (ca_id account_1) 12 (now_us ?s) (cs_accounts ?s)"
    by (rule allocate_credits_effect [OF _ _ _ _ _ _ _ _ refl _ refl _ surjective_pairing [symmetric],
          THEN conjunct2, THEN conjunct1])
      (simp_all add: credit_empty_def account_1_def credit_ok_def unique_key_def acct_ok_def account_fits_def int4_def
        valid_credit_types_def row_by_def owner_def apply_delta_def)
  then show ?thesis by (simp add: set_delta_def update_where_def account_1_def)
qed

text \<open>
  Granting is not atomic: when the database fails at the last of its writes, the caller is told
  that the allocation failed, but the balance has been raised and the transaction recorded, with no
  allocation to draw the credits from, so the account drifts by the amount.
\<close>
theorem failed_grant_leaves_balance:
  assumes "w_script s = [Fine, Fine, Fine, Raises]" and "credit_ok s" and "0 < amount"
    and "ty \<in> set valid_credit_types"
    and "row_by owner (uid, ty) (cs_accounts s) = Some acc" and "ca_active acc"
    and "account_fits (apply_delta amount (now_us s) acc)"
    and "tid = ''cred_txn_'' @ take 20 (w_uuid s (Suc (w_uuid_next s)))" "tid \<notin> ct_id ` set (cs_transactions s)"
    and "(r, s') = allocate_credits uid amount ty None (Some t) s"
  shows "r = Inl (Custom (AllocationFailed (Because DbError)))
    \<and> cs_accounts s' = set_delta (ca_id acc) amount (now_us s) (cs_accounts s)
    \<and> cs_transactions s' = cs_transactions s @ [allocation_txn s tid acc amount (Some t)]
    \<and> cs_allocations s' = cs_allocations s
    \<and> account_drift (ca_id acc) s' = map_option (\<lambda>d. d + amount) (account_drift (ca_id acc) s)"
proof -
  note acc = owner_row [OF assms(5,2)]
  have n: "int4 amount" using int4_credit [of acc amount "now_us s"] acc assms(3,7) by blast
  have fits: "int4 (ca_balance acc)" "int4 (ca_balance acc + amount)" "length (ca_id acc) \<le> 50" "length (ca_user acc) \<le> 50"
    "0 \<le> ca_balance acc"
    using acc assms(7) by (auto simp: acct_ok_def account_fits_def apply_delta_def)
  let ?s0 = "s\<lparr>w_script := [Fine, Fine, Raises], w_uuid_next := Suc (Suc (w_uuid_next s))\<rparr>"
  let ?s' = "s\<lparr>w_script := [], w_uuid_next := Suc (Suc (w_uuid_next s)),
      cs_transactions := cs_transactions s @ [allocation_txn s tid acc amount (Some t)],
      cs_accounts := set_delta (ca_id acc) amount (now_us s) (cs_accounts s)\<rparr>"
  have "get_account_by_user_type uid ty s = (Inr (Some acc), s\<lparr>w_script := [Fine, Fine, Raises]\<rparr>)"
    using assms(1,5) by (simp add: get_account_by_user_type_def query_row_def bnd_apply external_def owner_def [abs_def])
  then have "allocate_credits uid amount ty None (Some t) s
      = write_allocation uid amount ty None acc (Some t)
          (''cred_alloc_'' @ take 20 (w_uuid s (w_uuid_next s))) tid ?s0"
    using assms(3,4,6,8)
    by (simp add: allocate_credits_def get_or_create_account_def bnd_apply fresh_hex_def)
  also have "\<dots> = (Inl (Custom (AllocationFailed (Because DbError))), ?s')"
    using acc n fits assms(3,7,8,9)
    by (simp add: write_allocation_def create_transaction_def update_account_balance_def create_allocation_def
        insert_returning_def catch_apply bnd_apply external_def now_us_def Let_def transaction_fits_def
        allocation_txn_def set_delta_def)
  finally show ?thesis
    using assms(10) acc by (simp add: account_drift_def row_by_set_delta drift_def)
qed

theorem failed_grant_leaves_balance_witness:
  "fst (allocate_credits ''u'' 12 ''bonus'' None (Some 99)
      (credit_empty\<lparr>cs_accounts := [account_1], w_script := [Fine, Fine, Fine, Raises]\<rparr>))
     = Inl (Custom (AllocationFailed (Because DbError)))"
  by (rule failed_grant_leaves_balance [where acc = account_1, OF _ _ _ _ _ _ _ refl _ surjective_pairing [symmetric], THEN conjunct1])
    (simp_all add: credit_empty_def account_1_def credit_ok_def unique_key_def acct_ok_def account_fits_def int4_def
        valid_credit_types_def row_by_def owner_def apply_delta_def)

end
