(* ===== verification/CreditFlows.thy ===== *)
theory CreditFlows
  imports CreditTheorems
begin

section \<open>Credit: consumption, transfer and expiry from end to end\<close>

text \<open>
  What the operations that move credits achieve when nothing fails, followed through their loops, and
  the handlers and jobs that cannot work.
\<close>

subsection \<open>One item of a consumption plan\<close>

definition consume_accounts :: "plan_item list \<Rightarrow> int \<Rightarrow> credit_account list \<Rightarrow> credit_account list" where
  "consume_accounts plan now rows = fold (\<lambda>p. set_delta (pi_account p) (- pi_amount p) now) plan rows"

definition consume_allocations :: "plan_item list \<Rightarrow> int \<Rightarrow> credit_allocation list \<Rightarrow> credit_allocation list" where
  "consume_allocations plan now rows = fold (\<lambda>p. set_consumed (pi_allocation p) (pi_amount p) now) plan rows"

definition needs :: "string \<Rightarrow> plan_item list \<Rightarrow> int" where
  "needs aid plan = (\<Sum>p\<leftarrow>plan. if pi_account p = aid then pi_amount p else 0)"

lemma needs_simps [simp]:
  "needs aid [] = 0" "needs aid (p # ps) = (if pi_account p = aid then pi_amount p else 0) + needs aid ps"
  by (simp_all add: needs_def)

lemma needs_nonneg: "(\<And>p. p \<in> set plan \<Longrightarrow> 0 < pi_amount p) \<Longrightarrow> 0 \<le> needs aid plan"
  by (induction plan) force+

text \<open>An item that can be written: its account and its allocation are there and hold the amount.\<close>

definition item_ready :: "credit_state \<Rightarrow> plan_item \<Rightarrow> bool" where
  "item_ready s p \<longleftrightarrow> 0 < pi_amount p \<and> pi_allocation p \<noteq> [] \<and> pi_account p \<in> ca_id ` set (cs_accounts s)
     \<and> (\<exists>a \<in> set (cs_allocations s). al_id a = pi_allocation p \<and> al_account a = pi_account p
          \<and> al_status a = COMPLETED \<and> pi_amount p \<le> al_available a \<and> alloc_ok a \<and> allocation_fits a)"

definition txn_id_at :: "credit_state \<Rightarrow> nat \<Rightarrow> string" where
  "txn_id_at s k = ''cred_txn_'' @ take 20 (w_uuid s k)"

definition ids_fresh :: "credit_state \<Rightarrow> nat \<Rightarrow> bool" where
  "ids_fresh s n \<longleftrightarrow> (\<forall>k < n. txn_id_at s (w_uuid_next s + k) \<notin> ct_id ` set (cs_transactions s))
     \<and> inj_on (txn_id_at s) {w_uuid_next s ..< w_uuid_next s + n}"

definition plan_ready :: "credit_state \<Rightarrow> plan_item list \<Rightarrow> bool" where
  "plan_ready s plan \<longleftrightarrow> w_script s = [] \<and> credit_ok s \<and> (\<forall>p \<in> set plan. item_ready s p)
     \<and> distinct (map pi_allocation plan) \<and> (\<forall>a \<in> set (cs_accounts s). needs (ca_id a) plan \<le> ca_balance a)
     \<and> ids_fresh s (length plan)"

definition consume_txn :: "credit_state \<Rightarrow> string \<Rightarrow> string option \<Rightarrow> plan_item \<Rightarrow> credit_account \<Rightarrow> credit_transaction" where
  "consume_txn s uid billing p acc =
     \<lparr>ct_id = txn_id_at s (w_uuid_next s), ct_account = pi_account p, ct_user = uid, ct_type = CONSUME,
      ct_amount = - pi_amount p, ct_before = ca_balance acc, ct_after = ca_balance acc - pi_amount p,
      ct_reference = billing, ct_reference_type = (if truthy_str billing then ''billing'' else ''manual''),
      ct_expires = None, ct_created = now_us s\<rparr>"

definition after_item :: "credit_state \<Rightarrow> string \<Rightarrow> string option \<Rightarrow> plan_item \<Rightarrow> credit_account \<Rightarrow> credit_state" where
  "after_item s uid billing p acc =
     s\<lparr>w_uuid_next := Suc (w_uuid_next s),
       cs_transactions := cs_transactions s @ [consume_txn s uid billing p acc],
       cs_accounts := set_delta (pi_account p) (- pi_amount p) (now_us s) (cs_accounts s),
       cs_allocations := set_consumed (pi_allocation p) (pi_amount p) (now_us s) (cs_allocations s)\<rparr>"

definition billing_fits :: "string option \<Rightarrow> bool" where
  "billing_fits billing \<longleftrightarrow> (case billing of None \<Rightarrow> True | Some b \<Rightarrow> length b \<le> 100)"

lemma debit_fits:
  assumes "acct_ok a" and "0 < n" and "n \<le> ca_balance a"
  shows "account_fits (apply_delta (- n) now a) \<and> int4 (- n) \<and> int4 n"
  using assms by (auto simp: acct_ok_def account_fits_def apply_delta_def int4_def)

lemma consume_item_calm:
  assumes ready: "plan_ready s (p # ps)" and "length uid \<le> 50" and "billing_fits billing"
    and acc: "row_by ca_id (pi_account p) (cs_accounts s) = Some acc"
  shows "consume_item uid billing p txns s =
    (Inr (txns @ [\<lparr>cn_transaction = txn_id_at s (w_uuid_next s), cn_account = pi_account p,
                   cn_amount = pi_amount p, cn_type = ca_type acc\<rparr>]),
     after_item s uid billing p acc)"
proof -
  have sc: "w_script s = []" and item: "item_ready s p" and ok: "credit_ok s"
    using ready by (simp_all add: plan_ready_def)
  have acc': "acc \<in> set (cs_accounts s)" "ca_id acc = pi_account p" using row_by_Some [OF acc] by simp_all
  have aok: "acct_ok acc" using ok acc' by (simp add: credit_ok_def)
  have n: "0 < pi_amount p" using item by (simp add: item_ready_def)
  have "0 \<le> needs (pi_account p) ps"
    using ready by (intro needs_nonneg) (simp add: plan_ready_def item_ready_def)
  then have le: "pi_amount p \<le> ca_balance acc"
    using ready acc' by (force simp: plan_ready_def)
  note fits = debit_fits [OF aok n le]
  obtain a where a: "a \<in> set (cs_allocations s)" "al_id a = pi_allocation p" "pi_amount p \<le> al_available a"
      "alloc_ok a" "allocation_fits a"
    using item by (auto simp: item_ready_def)
  have row: "row_by al_id (pi_allocation p) (cs_allocations s) = Some a"
    using row_by_unique [of al_id "cs_allocations s" a] ok a by (simp add: credit_ok_def)
  have afits: "allocation_fits (a\<lparr>al_consumed := al_consumed a + pi_amount p\<rparr>)"
    using a n by (auto simp: allocation_fits_def int4_def alloc_ok_def al_available_def)
  let ?s0 = "s\<lparr>w_uuid_next := Suc (w_uuid_next s)\<rparr>"
  let ?s1 = "?s0\<lparr>cs_transactions := cs_transactions s @ [consume_txn s uid billing p acc]\<rparr>"
  let ?s2 = "?s1\<lparr>cs_accounts := set_delta (pi_account p) (- pi_amount p) (now_us s) (cs_accounts s)\<rparr>"
  have fresh: "txn_id_at s (w_uuid_next s) \<notin> ct_id ` set (cs_transactions s)"
    using ready by (auto simp: plan_ready_def ids_fresh_def dest: spec [of _ 0])
  have "create_transaction (consume_txn s uid billing p acc\<lparr>ct_created := 0\<rparr>) ?s0 = (Inr (consume_txn s uid billing p acc), ?s1)"
  proof (subst create_transaction_calm [OF _ _ refl])
    have "int4 (ca_balance acc - pi_amount p)" "int4 (ca_balance acc)" "length (ca_id acc) \<le> 50"
      using fits aok by (auto simp: account_fits_def apply_delta_def acct_ok_def)
    then show "transaction_fits (consume_txn s uid billing p acc\<lparr>ct_created := 0\<rparr>\<lparr>ct_created := now_us ?s0\<rparr>)"
      using assms(2,3) fits acc' by (simp add: transaction_fits_def consume_txn_def txn_id_at_def billing_fits_def)
  qed (use sc fresh in \<open>simp_all add: consume_txn_def now_us_def txn_id_at_def\<close>)
  moreover have "update_account_balance (pi_account p) (- pi_amount p) ?s1 = (Inr True, ?s2)"
    using update_balance_calm [of ?s1 "pi_account p" acc "- pi_amount p"] sc acc fits le by (simp add: now_us_def)
  moreover have "update_allocation_consumed (pi_allocation p) (pi_amount p) ?s2 = (Inr True, after_item s uid billing p acc)"
    using update_consumed_calm [of ?s2 "pi_allocation p" a "pi_amount p"] sc row fits afits
    by (simp add: now_us_def after_item_def)
  ultimately show ?thesis
    using sc acc item
    by (simp add: consume_item_def get_account_by_id_def bnd_apply fresh_hex_def Let_def item_ready_def
        consume_txn_def txn_id_at_def)
qed

subsection \<open>What a plan draws from the allocations\<close>

definition covered :: "plan_item list \<Rightarrow> credit_allocation list \<Rightarrow> bool" where
  "covered plan rows \<longleftrightarrow> unique_key al_id rows \<and> distinct (map pi_allocation plan)
     \<and> (\<forall>a \<in> set rows. 0 \<le> al_available a)
     \<and> (\<forall>p \<in> set plan. \<exists>a \<in> set rows. al_id a = pi_allocation p \<and> al_account a = pi_account p
          \<and> al_status a = COMPLETED \<and> pi_amount p \<le> al_available a)"

lemma coveredE:
  assumes "covered plan rows" and "p \<in> set plan"
  obtains a where "a \<in> set rows" "al_id a = pi_allocation p" "al_account a = pi_account p"
    "al_status a = COMPLETED" "pi_amount p \<le> al_available a"
  using assms unfolding covered_def by blast

lemma pool_set_consumed:
  assumes "unique_key al_id rows" and "a \<in> set rows" and "al_id a = i"
  shows "pool aid (set_consumed i n now rows) =
    pool aid rows - (if al_account a = aid \<and> al_status a = COMPLETED then n else 0)"
  unfolding pool_def set_consumed_def
  using sum_list_update_where [OF assms(1,2), of "\<lambda>x. al_id x = i"] assms(3) by (simp add: al_available_def)

lemma set_consumed_keys: "map al_id (set_consumed i n now rows) = map al_id rows"
  by (simp add: set_consumed_def map_key_update_where)

lemma set_consumed_keeps:
  "b \<in> set rows \<Longrightarrow> al_id b \<noteq> i \<Longrightarrow> b \<in> set (set_consumed i n now rows)"
  by (force simp: set_consumed_def set_update_where)

lemma covered_step:
  assumes "covered (p # ps) rows"
  shows "covered ps (set_consumed (pi_allocation p) (pi_amount p) now rows)
    \<and> pool aid (set_consumed (pi_allocation p) (pi_amount p) now rows)
      = pool aid rows - (if pi_account p = aid then pi_amount p else 0)"
proof -
  let ?rows = "set_consumed (pi_allocation p) (pi_amount p) now rows"
  obtain a where a: "a \<in> set rows" "al_id a = pi_allocation p" "al_account a = pi_account p"
      "al_status a = COMPLETED" "pi_amount p \<le> al_available a"
    using coveredE [OF assms list.set_intros(1)] by blast
  have u: "unique_key al_id rows" using assms by (simp add: covered_def)
  have only: "b = a" if "b \<in> set rows" "al_id b = pi_allocation p" for b
    using row_by_only [OF u row_by_unique [OF u a(1)]] that a(2) by simp
  have "0 \<le> al_available b" if b: "b \<in> set ?rows" for b
  proof -
    obtain c where c: "c \<in> set rows"
        "b = (if al_id c = pi_allocation p then c\<lparr>al_consumed := al_consumed c + pi_amount p, al_updated := now\<rparr> else c)"
      using b unfolding set_consumed_def set_update_where by blast
    have "0 \<le> al_available c" using c(1) assms unfolding covered_def by blast
    then show ?thesis using c only [OF c(1)] a(5) by (auto simp: al_available_def)
  qed
  moreover have "\<exists>b \<in> set ?rows. al_id b = pi_allocation q \<and> al_account b = pi_account q
      \<and> al_status b = COMPLETED \<and> pi_amount q \<le> al_available b" if q: "q \<in> set ps" for q
  proof -
    obtain b where "b \<in> set rows" "al_id b = pi_allocation q" "al_account b = pi_account q"
        "al_status b = COMPLETED" "pi_amount q \<le> al_available b"
      using coveredE [OF assms list.set_intros(2) [OF q]] by blast
    moreover have "pi_allocation q \<noteq> pi_allocation p"
      using assms q by (auto simp: covered_def image_iff)
    ultimately show ?thesis using set_consumed_keeps by metis
  qed
  moreover have "unique_key al_id ?rows" using u by (simp add: unique_key_def set_consumed_keys)
  ultimately have "covered ps ?rows" using assms by (auto simp: covered_def)
  then show ?thesis using pool_set_consumed [OF u a(1,2)] a(3,4) by simp
qed

lemma covered_pool:
  "covered plan rows \<Longrightarrow> pool aid (consume_allocations plan now rows) = pool aid rows - needs aid plan
     \<and> needs aid plan \<le> pool aid rows"
proof (induction plan arbitrary: rows)
  case Nil
  have "0 \<le> pool aid rows" unfolding pool_def using Nil by (intro sum_list_nonneg) (auto simp: covered_def)
  then show ?case by (simp add: consume_allocations_def)
next
  case (Cons p ps)
  from covered_step [OF Cons.prems, of now aid] Cons.IH [of "set_consumed (pi_allocation p) (pi_amount p) now rows"]
  show ?case by (simp add: consume_allocations_def)
qed

subsection \<open>The whole plan\<close>

lemma set_delta_ids: "ca_id ` set (set_delta aid n now rows) = ca_id ` set rows"
proof -
  have "map ca_id (set_delta aid n now rows) = map ca_id rows"
    unfolding set_delta_def by (rule map_key_update_where) simp
  then show ?thesis by (metis set_map)
qed

lemma ids_fresh_next:
  assumes "ids_fresh s (Suc n)"
  shows "(\<forall>k < n. txn_id_at s (Suc (w_uuid_next s) + k) \<notin> insert (txn_id_at s (w_uuid_next s)) (ct_id ` set (cs_transactions s)))
    \<and> inj_on (txn_id_at s) {Suc (w_uuid_next s)..<Suc (w_uuid_next s) + n}"
proof -
  have sub: "{Suc (w_uuid_next s)..<Suc (w_uuid_next s) + n} \<subseteq> {w_uuid_next s..<w_uuid_next s + Suc n}" by auto
  have inj: "inj_on (txn_id_at s) {w_uuid_next s..<w_uuid_next s + Suc n}"
    using assms by (simp add: ids_fresh_def)
  have "txn_id_at s (Suc (w_uuid_next s + k)) \<noteq> txn_id_at s (w_uuid_next s)" if "k < n" for k
    using inj_onD [OF inj, of "Suc (w_uuid_next s + k)" "w_uuid_next s"] that by auto
  moreover have "txn_id_at s (Suc (w_uuid_next s + k)) \<notin> ct_id ` set (cs_transactions s)" if "k < n" for k
    using assms that by (auto simp: ids_fresh_def dest: spec [of _ "Suc k"])
  moreover have "inj_on (txn_id_at s) {Suc (w_uuid_next s)..<Suc (w_uuid_next s) + n}"
    using inj sub by (rule inj_on_subset)
  ultimately show ?thesis by simp
qed

lemma ids_fresh_Suc:
  assumes "ids_fresh s (Suc n)"
  shows "ids_fresh (after_item s uid billing p acc) n"
proof -
  have id: "txn_id_at (after_item s uid billing p acc) = txn_id_at s"
    by (simp add: txn_id_at_def after_item_def fun_eq_iff)
  show ?thesis
    using ids_fresh_next [OF assms] unfolding ids_fresh_def id by (auto simp: after_item_def consume_txn_def)
qed

lemma plan_ready_step:
  assumes "plan_ready s (p # ps)" and "row_by ca_id (pi_account p) (cs_accounts s) = Some acc"
    and "credit_ok (after_item s uid billing p acc)"
  shows "plan_ready (after_item s uid billing p acc) ps"
proof -
  let ?s = "after_item s uid billing p acc"
  have "item_ready ?s q" if q: "q \<in> set ps" for q
  proof -
    have ready: "item_ready s q" and other: "pi_allocation q \<noteq> pi_allocation p"
      using assms(1) q by (auto simp: plan_ready_def image_iff)
    then obtain a where a: "a \<in> set (cs_allocations s)" "al_id a = pi_allocation q" "al_account a = pi_account q"
        "al_status a = COMPLETED" "pi_amount q \<le> al_available a" "alloc_ok a" "allocation_fits a"
      by (auto simp: item_ready_def)
    have "a \<in> set (cs_allocations ?s)" using set_consumed_keeps a(1,2) other by (simp add: after_item_def)
    with a ready show ?thesis by (auto simp: item_ready_def after_item_def set_delta_ids)
  qed
  moreover have "needs (ca_id a) ps \<le> ca_balance a" if a: "a \<in> set (cs_accounts ?s)" for a
  proof -
    obtain b where b: "b \<in> set (cs_accounts s)"
        "a = (if ca_id b = pi_account p then apply_delta (- pi_amount p) (now_us s) b else b)"
      using a by (auto simp: after_item_def set_delta_def set_update_where)
    have "needs (ca_id b) (p # ps) \<le> ca_balance b" using assms(1) b(1) unfolding plan_ready_def by blast
    then show ?thesis using b(2) by (auto simp: apply_delta_def split: if_splits)
  qed
  moreover have "ids_fresh ?s (length ps)"
    using assms(1) by (intro ids_fresh_Suc) (simp add: plan_ready_def)
  moreover have "w_script ?s = []" and "distinct (map pi_allocation ps)"
    using assms(1) by (simp_all add: plan_ready_def after_item_def)
  ultimately show ?thesis using assms(3) unfolding plan_ready_def by blast
qed

lemma consume_item_ok: "preserves credit_ok (consume_item uid billing p txns)"
  unfolding consume_item_def Let_def
  by (intro preserve_rules tables.keep_create_transaction tables.keep_consumed; simp)

definition recorded :: "plan_item list \<Rightarrow> consumed_item list \<Rightarrow> credit_state \<Rightarrow> credit_state \<Rightarrow> bool" where
  "recorded plan items s s' \<longleftrightarrow> (\<exists>ts. cs_transactions s' = cs_transactions s @ ts
     \<and> map ct_id ts = map cn_transaction items \<and> map ct_account ts = map pi_account plan
     \<and> map ct_amount ts = map (\<lambda>p. - pi_amount p) plan)
   \<and> map cn_amount items = map pi_amount plan"

lemma consume_loop_calm:
  assumes "plan_ready s plan" and "length uid \<le> 50" and "billing_fits billing"
  shows "\<exists>items s'. for_each plan (consume_item uid billing) txns s = (Inr (txns @ items), s')
    \<and> recorded plan items s s'
    \<and> cs_accounts s' = consume_accounts plan (now_us s) (cs_accounts s)
    \<and> cs_allocations s' = consume_allocations plan (now_us s) (cs_allocations s)
    \<and> w_script s' = [] \<and> w_events s' = w_events s \<and> w_bus s' = w_bus s"
  using assms(1)
proof (induction plan arbitrary: s txns)
  case Nil
  then show ?case
    by (simp add: consume_accounts_def consume_allocations_def recorded_def plan_ready_def)
next
  case (Cons p ps)
  have "pi_account p \<in> ca_id ` set (cs_accounts s)" and ok: "credit_ok s"
    using Cons.prems by (simp_all add: plan_ready_def item_ready_def)
  then obtain acc where acc: "row_by ca_id (pi_account p) (cs_accounts s) = Some acc"
    using row_by_None [of ca_id "pi_account p" "cs_accounts s"] by (cases "row_by ca_id (pi_account p) (cs_accounts s)") auto
  let ?s = "after_item s uid billing p acc"
  let ?item = "\<lparr>cn_transaction = txn_id_at s (w_uuid_next s), cn_account = pi_account p,
    cn_amount = pi_amount p, cn_type = ca_type acc\<rparr>"
  have item: "consume_item uid billing p txns s = (Inr (txns @ [?item]), ?s)"
    using Cons.prems assms(2,3) acc by (rule consume_item_calm)
  have "credit_ok ?s" using preservesD [OF consume_item_ok ok, of uid billing p txns] item by simp
  then have "plan_ready ?s ps" using plan_ready_step [OF Cons.prems acc] by blast
  from Cons.IH [OF this, of "txns @ [?item]"]
  obtain items s' where rest: "for_each ps (consume_item uid billing) (txns @ [?item]) ?s = (Inr ((txns @ [?item]) @ items), s')"
    and rec: "recorded ps items ?s s'" and same: "cs_accounts s' = consume_accounts ps (now_us ?s) (cs_accounts ?s)"
      "cs_allocations s' = consume_allocations ps (now_us ?s) (cs_allocations ?s)"
      "w_script s' = []" "w_events s' = w_events ?s" "w_bus s' = w_bus ?s"
    by blast
  have "recorded (p # ps) (?item # items) s s'"
    using rec by (auto simp: recorded_def after_item_def consume_txn_def)
  moreover have "for_each (p # ps) (consume_item uid billing) txns s = (Inr (txns @ (?item # items)), s')"
    using rest item by (simp add: bnd_apply)
  ultimately show ?case
    using same
    by (intro exI [of _ "?item # items"] exI [of _ s'])
      (simp add: after_item_def now_us_def consume_accounts_def consume_allocations_def)
qed

lemma consume_accounts_balance:
  "map_option ca_balance (row_by ca_id k (consume_accounts plan now rows)) =
     map_option (\<lambda>a. ca_balance a - needs k plan) (row_by ca_id k rows)"
proof (induction plan arbitrary: rows)
  case Nil
  then show ?case by (simp add: consume_accounts_def)
next
  case (Cons p ps)
  have "map_option ca_balance (row_by ca_id k (consume_accounts (p # ps) now rows)) =
      map_option (\<lambda>a. ca_balance a - needs k ps) (row_by ca_id k (set_delta (pi_account p) (- pi_amount p) now rows))"
    using Cons.IH [of "set_delta (pi_account p) (- pi_amount p) now rows"] by (simp add: consume_accounts_def)
  then show ?case
    by (cases "row_by ca_id k rows") (auto simp: row_by_set_delta dest: row_by_Some)
qed

lemma account_drift_balance:
  "account_drift aid s = map_option (\<lambda>b. b - pool aid (cs_allocations s))
     (map_option ca_balance (row_by ca_id aid (cs_accounts s)))"
  by (cases "row_by ca_id aid (cs_accounts s)") (auto simp: account_drift_def drift_def dest: row_by_Some)

subsection \<open>Consumption\<close>

lemma user_credits_drawn:
  assumes "w_script s = []" and "credit_ok s"
  shows "drawn_from s (user_credits uid s)"
proof -
  have "distinct (map ca_id (active_accounts uid s))" and u: "unique_key al_id (cs_allocations s)"
    using assms(2) distinct_order_desc by (auto simp: active_accounts_def credit_ok_def unique_key_def)
  then show ?thesis
    using collect_drawn [OF collect_loop_calm [OF assms(1)] u, of "active_accounts uid s" "[]"]
    by (simp add: user_credits_def drawn_from_def)
qed

lemma user_credits_account:
  "c \<in> set (user_credits uid s) \<Longrightarrow> \<exists>acc \<in> set (active_accounts uid s). cr_account c = ca_id acc"
  by (auto simp: user_credits_def sources_of_def source_of_def)

lemma needs_none: "(\<And>p. p \<in> set plan \<Longrightarrow> pi_account p \<noteq> aid) \<Longrightarrow> needs aid plan = 0"
  by (induction plan) auto

definition fifo_plan :: "int \<Rightarrow> string \<Rightarrow> credit_state \<Rightarrow> plan_item list" where
  "fifo_plan amount uid s = take_credits amount (sort_key sort_tuple (user_credits uid s))"

definition rows_fit :: "credit_state \<Rightarrow> bool" where
  "rows_fit s \<longleftrightarrow> (\<forall>a \<in> set (cs_allocations s). al_id a \<noteq> [] \<and> allocation_fits a)"

lemma fifo_plan_item:
  assumes "w_script s = []" and "credit_ok s" and "p \<in> set (fifo_plan amount uid s)"
  shows "0 < pi_amount p \<and> (\<exists>a \<in> set (cs_allocations s). \<exists>acc \<in> set (active_accounts uid s).
    al_id a = pi_allocation p \<and> al_account a = pi_account p \<and> ca_id acc = pi_account p
      \<and> al_status a = COMPLETED \<and> pi_amount p \<le> al_available a)"
proof -
  note drawn = user_credits_drawn [OF assms(1,2), of uid]
  obtain c where c: "c \<in> set (user_credits uid s)" "pi_allocation p = cr_allocation c" "pi_account p = cr_account c"
      "0 < pi_amount p" "pi_amount p \<le> cr_available c"
    using take_credits_amount [OF assms(3) [unfolded fifo_plan_def]] drawn_from_positive [OF drawn] by auto
  obtain a where "a \<in> set (cs_allocations s)" "consumable (cr_account c) (now_us s) a" "cr_allocation c = al_id a"
      "cr_available c = al_available a"
    using drawn c(1) by (rule drawn_fromE)
  moreover obtain acc where "acc \<in> set (active_accounts uid s)" "cr_account c = ca_id acc"
    using user_credits_account [OF c(1)] by blast
  ultimately show ?thesis using c by (auto simp: consumable_def)
qed

lemma fifo_plan_covered:
  assumes "w_script s = []" and "allocations_safe s"
  shows "covered (fifo_plan amount uid s) (cs_allocations s)"
proof -
  have ok: "credit_ok s" and al: "\<forall>a \<in> set (cs_allocations s). alloc_ok a"
    using assms(2) by (simp_all add: allocations_safe_def pending_def)
  have "mset (map cr_allocation (sort_key sort_tuple (user_credits uid s))) = mset (map cr_allocation (user_credits uid s))"
    by simp
  then have "distinct (map cr_allocation (sort_key sort_tuple (user_credits uid s)))"
    using user_credits_drawn [OF assms(1) ok, of uid] unfolding drawn_from_def by (metis mset_eq_imp_distinct_iff)
  then have "distinct (map pi_allocation (fifo_plan amount uid s))"
    unfolding fifo_plan_def by (rule take_credits_distinct)
  moreover have "0 \<le> al_available a" if "a \<in> set (cs_allocations s)" for a
    using al that by (auto simp: alloc_ok_def al_available_def)
  ultimately show ?thesis
    using ok fifo_plan_item [OF assms(1) ok] unfolding covered_def credit_ok_def by blast
qed

lemma fifo_plan_ready:
  assumes "w_script s = []" and "allocations_safe s" and "rows_fit s"
    and "\<forall>a \<in> set (active_accounts uid s). 0 \<le> drift s a"
    and "ids_fresh s (length (fifo_plan amount uid s))"
  shows "plan_ready s (fifo_plan amount uid s)"
proof -
  let ?plan = "fifo_plan amount uid s"
  have ok: "credit_ok s" and al: "\<forall>a \<in> set (cs_allocations s). alloc_ok a"
    using assms(2) by (simp_all add: allocations_safe_def pending_def)
  note cov = fifo_plan_covered [OF assms(1,2), of amount uid]
  have "item_ready s p" if p: "p \<in> set ?plan" for p
  proof -
    obtain a acc where a: "a \<in> set (cs_allocations s)" "al_id a = pi_allocation p" "al_account a = pi_account p"
        "al_status a = COMPLETED" "pi_amount p \<le> al_available a"
      and acc: "acc \<in> set (active_accounts uid s)" "ca_id acc = pi_account p" and n: "0 < pi_amount p"
      using fifo_plan_item [OF assms(1) ok p] by blast
    have "alloc_ok a" "allocation_fits a" "pi_allocation p \<noteq> []"
      using a(1,2) al assms(3) by (auto simp: rows_fit_def)
    moreover have "pi_account p \<in> ca_id ` set (cs_accounts s)"
      unfolding acc(2) [symmetric] using acc(1) by (intro imageI) (simp add: active_accounts_def)
    ultimately show ?thesis using a n unfolding item_ready_def by blast
  qed
  moreover have "needs (ca_id a) ?plan \<le> ca_balance a" if a: "a \<in> set (cs_accounts s)" for a
  proof (cases "a \<in> set (active_accounts uid s)")
    case True
    then have "pool (ca_id a) (cs_allocations s) \<le> ca_balance a" using assms(4) by (simp add: drift_def)
    with covered_pool [OF cov, of "ca_id a"] show ?thesis by (meson order_trans)
  next
    case False
    have "pi_account p \<noteq> ca_id a" if p: "p \<in> set ?plan" for p
    proof
      assume same: "pi_account p = ca_id a"
      obtain acc where acc: "acc \<in> set (active_accounts uid s)" "ca_id acc = pi_account p"
        using fifo_plan_item [OF assms(1) ok p] by blast
      then have "acc \<in> set (cs_accounts s)" by (simp add: active_accounts_def)
      then have "acc = a" using row_by_unique [of ca_id "cs_accounts s"] ok a acc(2) same
        by (metis credit_ok_def option.inject)
      with False acc(1) show False by simp
    qed
    then have "needs (ca_id a) ?plan = 0" by (rule needs_none)
    moreover have "acct_ok a" using ok a unfolding credit_ok_def by blast
    then have "0 \<le> ca_balance a" unfolding acct_ok_def by blast
    ultimately show ?thesis by simp
  qed
  ultimately show ?thesis
    using assms(1,5) ok cov unfolding plan_ready_def covered_def by blast
qed

text \<open>
  C33. Consuming credits, on accounts whose balance covers their allocations: the credits are taken
  first-expiring-first, the answer reports exactly what was taken, which is the requested amount or
  all there is to draw from when that is less; every account loses exactly what was drawn from its
  allocations, so its reconciliation drift stays; and each draw is one transaction row.
\<close>
theorem consume_credits_effect:
  assumes "w_script s = []" and "allocations_safe s" and "rows_fit s"
    and "0 < amount" and "amount \<le> balance_total (active_accounts uid s)"
    and "user_credits uid s \<noteq> []" and "\<not> mixed_expiry (user_credits uid s)"
    and "\<forall>a \<in> set (active_accounts uid s). 0 \<le> drift s a"
    and "plan = fifo_plan amount uid s" and "ids_fresh s (length plan)"
    and "length uid \<le> 50" and "billing_fits billing"
    and "(r, s') = consume_credits uid amount billing s"
  shows "(\<exists>resp. r = Inr resp \<and> cnr_amount_consumed resp = min amount (source_total (user_credits uid s))
        \<and> cnr_balance_after resp = balance_total (active_accounts uid s) - cnr_amount_consumed resp
        \<and> recorded plan (cnr_transactions resp) s s')
    \<and> cs_allocations s' = consume_allocations plan (now_us s) (cs_allocations s)
    \<and> (\<forall>aid. map_option ca_balance (row_by ca_id aid (cs_accounts s')) =
          map_option (\<lambda>a. ca_balance a - needs aid plan) (row_by ca_id aid (cs_accounts s)))
    \<and> (\<forall>aid. account_drift aid s' = account_drift aid s)"
proof -
  have ok: "credit_ok s" using assms(2) by (simp add: allocations_safe_def)
  have sort: "sort_credits (user_credits uid s) = Inr (sort_key sort_tuple (user_credits uid s))"
    using assms(7) by (simp add: sort_credits_def)
  have pos: "\<And>c. c \<in> set (sort_key sort_tuple (user_credits uid s)) \<Longrightarrow> 0 < cr_available c"
    using drawn_from_positive [OF user_credits_drawn [OF assms(1) ok]] by simp
  have acts: "active_accounts uid s \<noteq> []" using assms(4,5) by (auto simp: balance_total_def)
  have "sort_key sort_tuple (user_credits uid s) \<noteq> []" using assms(6) by (metis set_empty set_sort)
  then have ne: "plan \<noteq> []" unfolding assms(9) fifo_plan_def using assms(4) by (intro take_credits_nonempty)
  have run: "consume_credits uid amount billing s = execute_plan uid billing (balance_total (active_accounts uid s)) plan s"
    using consume_calm [OF assms(1,4) acts assms(5)] sort ne assms(9) by (simp add: fifo_plan_def)
  have cov: "covered plan (cs_allocations s)" using fifo_plan_covered [OF assms(1,2)] assms(9) by simp
  have "plan_ready s plan" using fifo_plan_ready [OF assms(1-3,8)] assms(9,10) by blast
  from consume_loop_calm [OF this assms(11,12), of "[]"]
  obtain items s1 where loop: "for_each plan (consume_item uid billing) [] s = (Inr items, s1)"
    and rec: "recorded plan items s s1" and acc: "cs_accounts s1 = consume_accounts plan (now_us s) (cs_accounts s)"
    and al: "cs_allocations s1 = consume_allocations plan (now_us s) (cs_allocations s)"
    and sc: "w_script s1 = []"
    by auto
  have sum: "(\<Sum>t\<leftarrow>items. cn_amount t) = min amount (source_total (user_credits uid s))"
  proof -
    have "(\<Sum>t\<leftarrow>items. cn_amount t) = plan_total plan" using rec by (simp add: recorded_def plan_total_def)
    then show ?thesis
      using take_credits_total [of "sort_key sort_tuple (user_credits uid s)" amount, OF pos] assms(4,9)
        source_total_mset [of "sort_key sort_tuple (user_credits uid s)" "user_credits uid s"]
      by (simp add: fifo_plan_def)
  qed
  obtain resp where r: "r = Inr resp" "cnr_amount_consumed resp = (\<Sum>t\<leftarrow>items. cn_amount t)"
      "cnr_balance_after resp = balance_total (active_accounts uid s) - (\<Sum>t\<leftarrow>items. cn_amount t)"
      "cnr_transactions resp = items" "cs_accounts s' = cs_accounts s1" "cs_allocations s' = cs_allocations s1"
      "cs_transactions s' = cs_transactions s1"
    using assms(13) loop sc by (simp add: run execute_plan_def catch_apply bnd_apply Let_def)
  have bal: "map_option ca_balance (row_by ca_id aid (cs_accounts s')) =
      map_option (\<lambda>a. ca_balance a - needs aid plan) (row_by ca_id aid (cs_accounts s))" for aid
    unfolding r(5) acc by (rule consume_accounts_balance)
  have "account_drift aid s' = account_drift aid s" for aid
    unfolding account_drift_balance bal r(6) al covered_pool [OF cov, THEN conjunct1]
    by (cases "row_by ca_id aid (cs_accounts s)") simp_all
  moreover have "recorded plan (cnr_transactions resp) s s'" using rec r(4,7) by (simp add: recorded_def)
  ultimately show ?thesis using r(1-3) sum bal r(6) al by auto
qed

theorem consume_credits_effect_witness:
  "account_drift ''acc1'' (snd (consume_credits ''u'' 5 None
      (credit_empty\<lparr>cs_accounts := [account_1], cs_allocations := [allocation_1]\<rparr>))) = Some 20"
proof -
  let ?s = "credit_empty\<lparr>cs_accounts := [account_1], cs_allocations := [allocation_1]\<rparr>"
  have acts: "active_accounts ''u'' ?s = [account_1]"
    by (simp add: active_accounts_def order_desc_def account_1_def)
  have credits: "user_credits ''u'' ?s = [source_of account_1 allocation_1]"
    unfolding user_credits_def acts
    by (simp add: available_fifo_def sources_of_def consumable_def account_1_def allocation_1_def al_available_def)
  have "account_drift ''acc1'' (snd (consume_credits ''u'' 5 None ?s)) = account_drift ''acc1'' ?s"
    by (rule consume_credits_effect [OF _ _ _ _ _ _ _ _ refl _ _ _ surjective_pairing [symmetric],
          where amount = 5 and uid = "''u''" and billing = None and s = ?s,
          THEN conjunct2, THEN conjunct2, THEN conjunct2, rule_format])
      (simp_all add: acts credits fifo_plan_def, simp_all add: credit_empty_def account_1_def allocation_1_def source_of_def
        allocations_safe_def pending_def credit_ok_def acct_ok_def account_fits_def allocation_fits_def rows_fit_def int4_def
        alloc_ok_def unique_key_def balance_total_def mixed_expiry_def drift_def pool_def al_available_def ids_fresh_def
        billing_fits_def)
  then show ?thesis
    by (simp add: account_drift_def row_by_def drift_def pool_def account_1_def allocation_1_def al_available_def)
qed

subsection \<open>Transfer\<close>

definition transfer_txn ::
  "credit_state \<Rightarrow> transaction_type \<Rightarrow> nat \<Rightarrow> credit_account \<Rightarrow> int \<Rightarrow> string \<Rightarrow> credit_transaction" where
  "transfer_txn s ty k acc n trf =
     \<lparr>ct_id = txn_id_at s k, ct_account = ca_id acc, ct_user = ca_user acc, ct_type = ty, ct_amount = n,
      ct_before = ca_balance acc, ct_after = ca_balance acc + n, ct_reference = Some trf,
      ct_reference_type = ''transfer'', ct_expires = None, ct_created = now_us s\<rparr>"

definition user_accepted :: "string \<Rightarrow> credit_state \<Rightarrow> bool" where
  "user_accepted uid s \<longleftrightarrow> (case cs_users s of None \<Rightarrow> True
     | Some users \<Rightarrow> (case users uid of None \<Rightarrow> False | Some u \<Rightarrow> ui_active u))"

lemma validation_calm:
  assumes "w_script s = []" and "user_accepted uid s"
  shows "(if has_client s then client_validate_user uid else ret True) s = (Inr True, s)"
  using assms
  by (auto simp: user_accepted_def has_client_def client_validate_user_def client_get_user_def bnd_apply catch_apply
      split: option.splits)

lemma write_transfer_calm:
  assumes "w_script s = []" and "credit_ok s" and "0 < amount"
    and "row_by ca_id (ca_id from_acc) (cs_accounts s) = Some from_acc" "acct_ok from_acc"
    and "row_by ca_id (ca_id to_acc) (cs_accounts s) = Some to_acc" "acct_ok to_acc"
    and "ca_id from_acc \<noteq> ca_id to_acc" and "amount \<le> ca_balance from_acc"
    and "account_fits (apply_delta amount (now_us s) to_acc)" and "length trf \<le> 100" and "ids_fresh s 2"
  shows "write_transfer (ca_user from_acc) (ca_user to_acc) amount ty from_acc to_acc trf s =
    (Inr \<lparr>tr_transfer_id = trf, tr_from_transaction = txn_id_at s (w_uuid_next s),
          tr_to_transaction = txn_id_at s (Suc (w_uuid_next s)), tr_amount = amount,
          tr_from_balance_after = ca_balance from_acc - amount, tr_to_balance_after = ca_balance to_acc + amount\<rparr>,
     s\<lparr>w_uuid_next := Suc (Suc (w_uuid_next s)),
       cs_transactions := cs_transactions s @ [transfer_txn s TRANSFER_OUT (w_uuid_next s) from_acc (- amount) trf,
         transfer_txn s TRANSFER_IN (Suc (w_uuid_next s)) to_acc amount trf],
       cs_accounts := set_delta (ca_id to_acc) amount (now_us s) (set_delta (ca_id from_acc) (- amount) (now_us s) (cs_accounts s)),
       w_events := w_events s @ published (w_bus s)
         (Some (CreditTransferred (ca_user from_acc) (ca_user to_acc) amount ty trf))\<rparr>)"
proof -
  let ?t1 = "transfer_txn s TRANSFER_OUT (w_uuid_next s) from_acc (- amount) trf"
  let ?t2 = "transfer_txn s TRANSFER_IN (Suc (w_uuid_next s)) to_acc amount trf"
  let ?s0 = "s\<lparr>w_uuid_next := Suc (Suc (w_uuid_next s))\<rparr>"
  let ?s1 = "?s0\<lparr>cs_transactions := cs_transactions s @ [?t1]\<rparr>"
  let ?s2 = "?s1\<lparr>cs_transactions := cs_transactions s @ [?t1, ?t2]\<rparr>"
  let ?s3 = "?s2\<lparr>cs_accounts := set_delta (ca_id from_acc) (- amount) (now_us s) (cs_accounts s)\<rparr>"
  let ?s4 = "?s3\<lparr>cs_accounts := set_delta (ca_id to_acc) amount (now_us s) (set_delta (ca_id from_acc) (- amount) (now_us s) (cs_accounts s))\<rparr>"
  note debit = debit_fits [OF assms(5,3,9)]
  have bounds: "int4 (ca_balance from_acc)" "int4 (ca_balance from_acc - amount)" "int4 (ca_balance to_acc)"
      "int4 (ca_balance to_acc + amount)" "int4 amount" "int4 (- amount)" "0 \<le> ca_balance to_acc"
      "length (ca_id from_acc) \<le> 50" "length (ca_user from_acc) \<le> 50" "length (ca_id to_acc) \<le> 50" "length (ca_user to_acc) \<le> 50"
    using assms(5,7,10) debit by (auto simp: acct_ok_def account_fits_def apply_delta_def)
  have fresh: "txn_id_at s (w_uuid_next s) \<notin> ct_id ` set (cs_transactions s)"
      "txn_id_at s (Suc (w_uuid_next s)) \<notin> ct_id ` set (cs_transactions s)"
    using assms(12) by (auto simp: ids_fresh_def dest: spec [of _ 0] spec [of _ 1])
  have diff: "txn_id_at s (Suc (w_uuid_next s)) \<noteq> txn_id_at s (w_uuid_next s)"
    using assms(12) inj_onD [of "txn_id_at s" "{w_uuid_next s..<w_uuid_next s + 2}" "Suc (w_uuid_next s)" "w_uuid_next s"]
    by (auto simp: ids_fresh_def)
  have c1: "create_transaction (?t1\<lparr>ct_created := 0\<rparr>) ?s0 = (Inr ?t1, ?s1)"
    by (subst create_transaction_calm [OF _ _ refl])
      (use assms(1,11) fresh bounds in \<open>simp_all add: transfer_txn_def transaction_fits_def txn_id_at_def now_us_def\<close>)
  have c2: "create_transaction (?t2\<lparr>ct_created := 0\<rparr>) ?s1 = (Inr ?t2, ?s2)"
    by (subst create_transaction_calm [OF _ _ refl])
      (use assms(1,11) fresh bounds diff in \<open>simp_all add: transfer_txn_def transaction_fits_def txn_id_at_def now_us_def\<close>)
  have u1: "update_account_balance (ca_id from_acc) (- amount) ?s2 = (Inr True, ?s3)"
    using update_balance_calm [of ?s2 "ca_id from_acc" from_acc "- amount"] assms(1,4,9) debit bounds
    by (simp add: now_us_def)
  have u2: "update_account_balance (ca_id to_acc) amount ?s3 = (Inr True, ?s4)"
    using update_balance_calm [of ?s3 "ca_id to_acc" to_acc amount] assms(1,3,6,8,10) bounds
    by (simp add: now_us_def row_by_set_delta)
  show ?thesis
    using assms(1) c1 c2 u1 u2
    by (simp add: write_transfer_def catch_apply bnd_apply fresh_hex_def Let_def transfer_txn_def txn_id_at_def)
qed

lemma balance_total_set_delta:
  assumes "unique_key ca_id rows" and "row_by ca_id aid rows = Some acc"
  shows "balance_total (set_delta aid n now rows) = balance_total rows + n"
  unfolding balance_total_def set_delta_def
  using sum_list_update_where [OF assms(1), of acc "\<lambda>x. ca_id x = aid"] row_by_Some [OF assms(2)]
  by (simp add: apply_delta_def)

text \<open>
  A transfer between two accounts debits the sender, credits the recipient, keeps the total of all
  balances and records the two matching rows. But it moves no allocation: the sender's account ends
  with less balance than its allocations promise and the recipient's with more, a drift of the whole
  amount on either side.
\<close>
theorem transfer_credits_effect:
  assumes "w_script s = []" and "credit_ok s" and "from_uid \<noteq> to_uid" and "0 < amount"
    and "ty \<notin> set non_transferable_types" and "user_accepted to_uid s"
    and "row_by owner (from_uid, ty) (cs_accounts s) = Some from_acc" and "amount \<le> ca_balance from_acc"
    and "row_by owner (to_uid, ty) (cs_accounts s) = Some to_acc"
    and "account_fits (apply_delta amount (now_us s) to_acc)"
    and "ids_fresh (s\<lparr>w_uuid_next := Suc (w_uuid_next s)\<rparr>) 2"
    and "(r, s') = transfer_credits from_uid to_uid amount ty s"
  shows "(\<exists>resp. r = Inr resp \<and> tr_from_balance_after resp = ca_balance from_acc - amount
        \<and> tr_to_balance_after resp = ca_balance to_acc + amount
        \<and> map ct_id (cs_transactions s') = map ct_id (cs_transactions s) @ [tr_from_transaction resp, tr_to_transaction resp])
    \<and> cs_accounts s' = set_delta (ca_id to_acc) amount (now_us s) (set_delta (ca_id from_acc) (- amount) (now_us s) (cs_accounts s))
    \<and> balance_total (cs_accounts s') = balance_total (cs_accounts s)
    \<and> cs_allocations s' = cs_allocations s
    \<and> account_drift (ca_id from_acc) s' = map_option (\<lambda>d. d - amount) (account_drift (ca_id from_acc) s)
    \<and> account_drift (ca_id to_acc) s' = map_option (\<lambda>d. d + amount) (account_drift (ca_id to_acc) s)"
proof -
  note sender = owner_row [OF assms(7,2)] and recipient = owner_row [OF assms(9,2)]
  have u: "unique_key ca_id (cs_accounts s)" using assms(2) by (simp add: credit_ok_def)
  have other: "ca_id from_acc \<noteq> ca_id to_acc"
    using sender recipient assms(3) by (metis option.inject)
  let ?trf = "''trf_'' @ take 24 (w_uuid s (w_uuid_next s))"
  let ?s0 = "s\<lparr>w_uuid_next := Suc (w_uuid_next s)\<rparr>"
  have "length ?trf \<le> 100" using length_take_le [of 24 "w_uuid s (w_uuid_next s)"] by simp
  note written = write_transfer_calm [of ?s0 amount from_acc to_acc ?trf ty, simplified now_us_def, simplified, folded now_us_def]
  have run: "transfer_credits from_uid to_uid amount ty s =
      write_transfer (ca_user from_acc) (ca_user to_acc) amount ty from_acc to_acc ?trf ?s0"
    using validation_calm [OF assms(1,6)] assms(1,3-5,7-9) sender recipient
    by (simp add: transfer_credits_def get_or_create_account_def bnd_apply account_by_owner_calm fresh_hex_def)
  have accounts: "cs_accounts s' = set_delta (ca_id to_acc) amount (now_us s) (set_delta (ca_id from_acc) (- amount) (now_us s) (cs_accounts s))"
    and rest: "cs_allocations s' = cs_allocations s"
      "\<exists>resp. r = Inr resp \<and> tr_from_balance_after resp = ca_balance from_acc - amount
        \<and> tr_to_balance_after resp = ca_balance to_acc + amount
        \<and> map ct_id (cs_transactions s') = map ct_id (cs_transactions s) @ [tr_from_transaction resp, tr_to_transaction resp]"
    using assms(1,2,4,8,10,11,12) sender recipient other written \<open>length ?trf \<le> 100\<close>
    by (simp_all add: run transfer_txn_def txn_id_at_def)
  have "unique_key ca_id (set_delta (ca_id from_acc) (- amount) (now_us s) (cs_accounts s))"
    unfolding set_delta_def using u by (subst unique_key_update_where) simp_all
  then have "balance_total (cs_accounts s') = balance_total (cs_accounts s)"
    unfolding accounts using sender recipient other u
    by (simp add: balance_total_set_delta [where acc = from_acc] row_by_set_delta
        balance_total_set_delta [where rows = "set_delta (ca_id from_acc) (- amount) (now_us s) (cs_accounts s)" and acc = to_acc])
  moreover have "account_drift (ca_id from_acc) s' = map_option (\<lambda>d. d - amount) (account_drift (ca_id from_acc) s)"
      "account_drift (ca_id to_acc) s' = map_option (\<lambda>d. d + amount) (account_drift (ca_id to_acc) s)"
    using sender recipient other rest(1) accounts
    by (simp_all add: account_drift_def row_by_set_delta drift_def apply_delta_def)
  ultimately show ?thesis using accounts rest by blast
qed

definition account_2 :: credit_account where
  "account_2 = account_1\<lparr>ca_id := ''acc2'', ca_user := ''v''\<rparr>"

theorem transfer_credits_effect_witness:
  "balance_total (cs_accounts (snd (transfer_credits ''u'' ''v'' 7 ''bonus''
     (credit_empty\<lparr>cs_accounts := [account_1, account_2]\<rparr>)))) = 60"
proof -
  let ?a = "account_1" and ?b = "account_2"
  let ?s = "credit_empty\<lparr>cs_accounts := [?a, ?b]\<rparr>"
  have two: "{Suc 0..<Suc (Suc (Suc 0))} = {Suc 0, Suc (Suc 0)}" by auto
  have "balance_total (cs_accounts (snd (transfer_credits ''u'' ''v'' 7 ''bonus'' ?s))) = balance_total (cs_accounts ?s)"
    by (rule transfer_credits_effect [OF _ _ _ _ _ _ _ _ _ _ _ surjective_pairing [symmetric],
          where from_acc = ?a and to_acc = ?b and s = ?s and amount = 7 and ty = "''bonus''" and from_uid = "''u''" and to_uid = "''v''",
          THEN conjunct2, THEN conjunct2, THEN conjunct1])
      (simp_all add: credit_empty_def account_1_def account_2_def credit_ok_def acct_ok_def account_fits_def int4_def
        unique_key_def owner_def row_by_def non_transferable_types_def user_accepted_def apply_delta_def ids_fresh_def
        txn_id_at_def inj_on_def numeral_eq_Suc two)
  then show ?thesis by (simp add: balance_total_def account_1_def account_2_def)
qed

end
