(* ===== verification/CreditExpiry.thy ===== *)
theory CreditExpiry
  imports CreditFlows
begin

section \<open>Credit: the expiry job, the warnings and the event handlers\<close>

text \<open>
  What the daily expiry job does to allocations, balances and the reconciliation drift when nothing
  fails, and two parts of the service that cannot work: the expiry warnings and the handlers that are
  to grant credits.
\<close>

subsection \<open>One allocation\<close>

definition use_up :: "int \<Rightarrow> credit_allocation \<Rightarrow> credit_allocation" where
  "use_up now a = a\<lparr>al_expired := al_expired a + al_available a, al_updated := now\<rparr>"

lemma use_up_simps [simp]:
  "al_id (use_up now a) = al_id a" "al_account (use_up now a) = al_account a"
  "al_status (use_up now a) = al_status a" "al_available (use_up now a) = 0"
  by (simp_all add: use_up_def al_available_def)

definition expiry_ready :: "credit_state \<Rightarrow> credit_allocation list \<Rightarrow> bool" where
  "expiry_ready s as \<longleftrightarrow> w_script s = [] \<and> credit_ok s \<and> pending (map expiry_key as) s \<and> rows_fit s
     \<and> (\<forall>a \<in> set as. a \<in> set (cs_allocations s) \<and> al_status a = COMPLETED \<and> 0 < al_available a
          \<and> al_account a \<in> ca_id ` set (cs_accounts s))
     \<and> ids_fresh s (length as)"

definition expire_txn :: "credit_state \<Rightarrow> credit_allocation \<Rightarrow> credit_account \<Rightarrow> credit_transaction" where
  "expire_txn s a acc =
     \<lparr>ct_id = txn_id_at s (w_uuid_next s), ct_account = al_account a, ct_user = al_user a, ct_type = EXPIRE,
      ct_amount = - al_available a, ct_before = ca_balance acc, ct_after = ca_balance acc - al_available a,
      ct_reference = Some (al_id a), ct_reference_type = ''allocation'', ct_expires = None, ct_created = now_us s\<rparr>"

definition debit_if_covered :: "string \<Rightarrow> int \<Rightarrow> int \<Rightarrow> credit_account list \<Rightarrow> credit_account list" where
  "debit_if_covered aid n now rows =
     (case row_by ca_id aid rows of
        None \<Rightarrow> rows | Some acc \<Rightarrow> if n \<le> ca_balance acc then set_delta aid (- n) now rows else rows)"

definition after_expiry :: "credit_state \<Rightarrow> credit_allocation \<Rightarrow> credit_account \<Rightarrow> credit_state" where
  "after_expiry s a acc =
     s\<lparr>w_uuid_next := Suc (w_uuid_next s),
       cs_transactions := cs_transactions s @ [expire_txn s a acc],
       cs_accounts := debit_if_covered (al_account a) (al_available a) (now_us s) (cs_accounts s),
       cs_allocations := update_where (\<lambda>x. al_id x = al_id a) (use_up (now_us s)) (cs_allocations s),
       w_events := w_events s @ published (w_bus s)
         (Some (CreditExpired (al_user a) (al_available a) (ca_type acc) (ca_balance acc - al_available a)))\<rparr>"

lemma debit_calm:
  assumes "w_script s = []" and "row_by ca_id aid (cs_accounts s) = Some acc" and "acct_ok acc"
    and "0 < n" and "int4 n"
  shows "\<exists>b. update_account_balance aid (- n) s =
    (Inr b, s\<lparr>cs_accounts := debit_if_covered aid n (now_us s) (cs_accounts s)\<rparr>)"
proof (cases "n \<le> ca_balance acc")
  case True
  note fits = debit_fits [OF assms(3,4) True]
  then show ?thesis
    using update_balance_calm [OF assms(1,2), of "- n"] True assms(2)
    by (intro exI [of _ True]) (simp add: debit_if_covered_def)
next
  case False
  have "int4 (ca_balance acc - n)" "int4 (- n)"
    using assms(3-5) False by (auto simp: acct_ok_def account_fits_def int4_def)
  then show ?thesis
    using assms(1,2) False by (intro exI [of _ False]) (simp add: update_account_balance_def bnd_apply debit_if_covered_def)
qed

lemma set_expired_use_up:
  assumes "unique_key al_id rows" and "a \<in> set rows"
  shows "update_where (\<lambda>x. al_id x = al_id a) (\<lambda>x. x\<lparr>al_expired := al_expired x + al_available a, al_updated := now\<rparr>) rows
    = update_where (\<lambda>x. al_id x = al_id a) (use_up now) rows"
  using row_by_only [OF assms(1) row_by_unique [OF assms]]
  by (auto simp: update_where_def use_up_def)

lemma expire_one_calm:
  assumes ready: "expiry_ready s (a # as)" and acc: "row_by ca_id (al_account a) (cs_accounts s) = Some acc"
  shows "expire_one a (c, m) s = (Inr (c + 1, m + al_available a), after_expiry s a acc)"
proof -
  let ?n = "al_available a"
  have sc: "w_script s = []" and ok: "credit_ok s" and a: "a \<in> set (cs_allocations s)" and n: "0 < ?n"
    and u: "unique_key al_id (cs_allocations s)" and aok: "alloc_ok a" and afits: "allocation_fits a"
    using ready by (auto simp: expiry_ready_def pending_def rows_fit_def)
  have acc': "acc \<in> set (cs_accounts s)" "ca_id acc = al_account a" using row_by_Some [OF acc] by simp_all
  have accok: "acct_ok acc" using ok acc'(1) unfolding credit_ok_def by blast
  have n4: "int4 ?n" using n aok afits by (auto simp: alloc_ok_def allocation_fits_def al_available_def int4_def)
  let ?s0 = "s\<lparr>w_uuid_next := Suc (w_uuid_next s)\<rparr>"
  let ?s1 = "?s0\<lparr>cs_transactions := cs_transactions s @ [expire_txn s a acc]\<rparr>"
  let ?s2 = "?s1\<lparr>cs_accounts := debit_if_covered (al_account a) ?n (now_us s) (cs_accounts s)\<rparr>"
  have fresh: "txn_id_at s (w_uuid_next s) \<notin> ct_id ` set (cs_transactions s)"
    using ready by (auto simp: expiry_ready_def ids_fresh_def dest: spec [of _ 0])
  have "create_transaction (expire_txn s a acc\<lparr>ct_created := 0\<rparr>) ?s0 = (Inr (expire_txn s a acc), ?s1)"
    by (subst create_transaction_calm [OF _ _ refl])
      (use sc fresh accok n n4 afits acc'(2) in \<open>auto simp: expire_txn_def transaction_fits_def txn_id_at_def now_us_def
        acct_ok_def account_fits_def allocation_fits_def int4_def\<close>)
  moreover obtain b where "update_account_balance (al_account a) (- ?n) ?s1 = (Inr b, ?s2)"
    using debit_calm [of ?s1 "al_account a" acc ?n] sc acc accok n n4 by (auto simp: now_us_def)
  moreover have "allocation_fits (a\<lparr>al_expired := al_expired a + ?n\<rparr>)"
    using afits n aok by (auto simp: allocation_fits_def int4_def alloc_ok_def al_available_def)
  then have "update_allocation_expired (al_id a) ?n ?s2 = (Inr True, ?s2\<lparr>cs_allocations :=
      update_where (\<lambda>x. al_id x = al_id a) (use_up (now_us s)) (cs_allocations s)\<rparr>)"
    using sc n4 row_by_unique [OF u a] set_expired_use_up [OF u a, of "now_us s"]
    by (simp add: update_allocation_expired_def add_to_allocation_def bnd_apply now_us_def)
  ultimately show ?thesis
    using sc acc n
    by (simp add: expire_one_def get_account_by_id_def bnd_apply catch_apply fresh_hex_def Let_def
        expire_txn_def txn_id_at_def after_expiry_def)
qed

subsection \<open>The whole job\<close>

lemma expire_one_ok: "preserves credit_ok (expire_one a counts)"
  unfolding expire_one_def Let_def
  by (intro preserve_rules tables.keep_create_transaction tables.keep_expired; simp)

lemma debit_ids: "ca_id ` set (debit_if_covered aid n now rows) = ca_id ` set rows"
  by (simp add: debit_if_covered_def set_delta_ids split: option.split)

lemma expire_ids_fresh:
  assumes "ids_fresh s (Suc n)"
  shows "ids_fresh (after_expiry s a acc) n"
proof -
  have id: "txn_id_at (after_expiry s a acc) = txn_id_at s"
    by (simp add: txn_id_at_def after_expiry_def fun_eq_iff)
  show ?thesis
    using ids_fresh_next [OF assms] unfolding ids_fresh_def id by (auto simp: after_expiry_def expire_txn_def)
qed

lemma expiry_ready_step:
  assumes ready: "expiry_ready s (a # as)" and acc: "row_by ca_id (al_account a) (cs_accounts s) = Some acc"
  shows "expiry_ready (after_expiry s a acc) as"
proof -
  let ?s = "after_expiry s a acc"
  have run: "snd (expire_one a (0, 0) s) = ?s" using expire_one_calm [OF assms, of 0 0] by simp
  have "credit_ok ?s" using preservesD [OF expire_one_ok, of s a "(0, 0)"] ready run by (simp add: expiry_ready_def)
  moreover have "pending (map expiry_key as) ?s"
    using leadsD [OF expire_one_leads [of a as "(0, 0)"], of s] ready run by (simp add: expiry_ready_def)
  moreover have "rows_fit ?s"
  proof -
    have "allocation_fits (use_up now b)" if "allocation_fits b" "alloc_ok b" for b now
      using that by (auto simp: use_up_def allocation_fits_def int4_def alloc_ok_def al_available_def)
    then show ?thesis using ready
      by (auto simp: rows_fit_def after_expiry_def set_update_where expiry_ready_def pending_def)
  qed
  moreover have "b \<in> set (cs_allocations ?s)" if b: "b \<in> set as" for b
  proof -
    have "b \<in> set (cs_allocations s)" "al_id b \<noteq> al_id a"
      using ready b by (auto simp: expiry_ready_def pending_def expiry_key_def image_iff)
    then show ?thesis by (force simp: after_expiry_def set_update_where)
  qed
  moreover have "ids_fresh ?s (length as)"
    using ready by (intro expire_ids_fresh) (simp add: expiry_ready_def)
  moreover have "w_script ?s = []" using ready by (simp add: expiry_ready_def after_expiry_def)
  moreover have "\<forall>b \<in> set as. al_status b = COMPLETED \<and> 0 < al_available b \<and> al_account b \<in> ca_id ` set (cs_accounts ?s)"
    using ready by (auto simp: expiry_ready_def after_expiry_def debit_ids)
  ultimately show ?thesis unfolding expiry_ready_def by blast
qed

lemma pool_use_up:
  assumes "unique_key al_id rows" and "a \<in> set rows" and "al_status a = COMPLETED"
  shows "pool aid (update_where (\<lambda>x. al_id x = al_id a) (use_up now) rows) =
    pool aid rows - (if al_account a = aid then al_available a else 0)"
  unfolding pool_def
  using sum_list_update_where [OF assms(1,2), of "\<lambda>x. al_id x = al_id a"] assms(3) by simp

lemma pool_member:
  assumes "\<And>a. a \<in> set rows \<Longrightarrow> 0 \<le> al_available a" and "a \<in> set rows" and "al_status a = COMPLETED"
  shows "al_available a \<le> pool (al_account a) rows"
  using assms
proof (induction rows)
  case (Cons r rows)
  have "0 \<le> pool (al_account a) rows" using Cons.prems(1) unfolding pool_def by (intro sum_list_nonneg) auto
  moreover have "0 \<le> al_available r" using Cons.prems(1) by simp
  ultimately show ?case using Cons by (auto simp: pool_def add_increasing)
qed simp

lemma after_expiry_drift:
  assumes ready: "expiry_ready s (a # as)" and acc: "row_by ca_id (al_account a) (cs_accounts s) = Some acc"
    and "account_drift aid s = Some d" and "0 \<le> d"
  shows "account_drift aid (after_expiry s a acc) = Some d"
proof -
  have u: "unique_key al_id (cs_allocations s)" and a: "a \<in> set (cs_allocations s)" and st: "al_status a = COMPLETED"
    and al: "\<forall>b \<in> set (cs_allocations s). alloc_ok b"
    using ready by (auto simp: expiry_ready_def pending_def)
  have nonneg: "0 \<le> al_available b" if "b \<in> set (cs_allocations s)" for b
    using al that by (auto simp: alloc_ok_def al_available_def)
  note pool = pool_use_up [OF u a st, of aid "now_us s"]
  obtain r where r: "row_by ca_id aid (cs_accounts s) = Some r" "ca_balance r - pool aid (cs_allocations s) = d"
    using assms(3) by (auto simp: account_drift_def drift_def dest: row_by_Some)
  show ?thesis
  proof (cases "al_account a = aid")
    case True
    then have "al_available a \<le> ca_balance r"
      using pool_member [OF nonneg a st] r(2) assms(4) by simp
    then show ?thesis using True r pool acc row_by_Some [OF r(1)]
      by (simp add: account_drift_def after_expiry_def debit_if_covered_def row_by_set_delta drift_def)
  next
    case False
    then show ?thesis using r pool acc row_by_Some [OF r(1)]
      by (simp add: account_drift_def after_expiry_def debit_if_covered_def row_by_set_delta drift_def)
  qed
qed

definition expire_ids :: "string set \<Rightarrow> int \<Rightarrow> credit_allocation list \<Rightarrow> credit_allocation list" where
  "expire_ids ids now = update_where (\<lambda>a. al_id a \<in> ids) (use_up now)"

lemma expire_ids_insert:
  "i \<notin> ids \<Longrightarrow> expire_ids ids now (update_where (\<lambda>a. al_id a = i) (use_up now) rows) = expire_ids (insert i ids) now rows"
  by (auto simp: expire_ids_def update_where_def)

lemma expire_loop_calm:
  assumes "expiry_ready s as"
  shows "\<exists>s'. for_each as expire_one (c, m) s = (Inr (c + int (length as), m + (\<Sum>a\<leftarrow>as. al_available a)), s')
    \<and> cs_allocations s' = expire_ids (al_id ` set as) (now_us s) (cs_allocations s)
    \<and> map ct_amount (cs_transactions s') = map ct_amount (cs_transactions s) @ map (\<lambda>a. - al_available a) as
    \<and> (\<forall>aid d. account_drift aid s = Some d \<longrightarrow> 0 \<le> d \<longrightarrow> account_drift aid s' = Some d)"
  using assms
proof (induction as arbitrary: s c m)
  case Nil
  then show ?case by (simp add: expire_ids_def update_where_def)
next
  case (Cons a as)
  have "al_account a \<in> ca_id ` set (cs_accounts s)" using Cons.prems by (simp add: expiry_ready_def)
  then obtain acc where acc: "row_by ca_id (al_account a) (cs_accounts s) = Some acc"
    using row_by_None [of ca_id "al_account a" "cs_accounts s"] by (cases "row_by ca_id (al_account a) (cs_accounts s)") auto
  let ?s = "after_expiry s a acc"
  have other: "al_id a \<notin> al_id ` set as"
    using Cons.prems by (auto simp: expiry_ready_def pending_def expiry_key_def image_iff)
  from Cons.IH [OF expiry_ready_step [OF Cons.prems acc], of "c + 1" "m + al_available a"]
  obtain s' where rest: "for_each as expire_one (c + 1, m + al_available a) ?s =
        (Inr (c + 1 + int (length as), m + al_available a + (\<Sum>a\<leftarrow>as. al_available a)), s')"
    and al: "cs_allocations s' = expire_ids (al_id ` set as) (now_us ?s) (cs_allocations ?s)"
    and ts: "map ct_amount (cs_transactions s') = map ct_amount (cs_transactions ?s) @ map (\<lambda>a. - al_available a) as"
    and dr: "\<forall>aid d. account_drift aid ?s = Some d \<longrightarrow> 0 \<le> d \<longrightarrow> account_drift aid s' = Some d"
    by blast
  have "cs_allocations s' = expire_ids (al_id ` set (a # as)) (now_us s) (cs_allocations s)"
    unfolding al using expire_ids_insert [OF other] by (simp add: after_expiry_def now_us_def)
  moreover have "account_drift aid s' = Some d" if "account_drift aid s = Some d" "0 \<le> d" for aid d
    using after_expiry_drift [OF Cons.prems acc that] dr that(2) by blast
  ultimately show ?case
    using rest ts expire_one_calm [OF Cons.prems acc, of c m]
    by (intro exI [of _ s']) (simp add: bnd_apply after_expiry_def expire_txn_def add.assoc)
qed

text \<open>
  The expiry job, when nothing fails: exactly the completed allocations whose time has come and
  which still hold credits are emptied, each with one transaction row of its remainder; the summary
  reports their number and total; and an account whose balance covered its allocations keeps its
  reconciliation drift, so it was debited by exactly what expired.
\<close>
theorem process_expirations_effect:
  assumes "w_script s = []" and "allocations_safe s" and "rows_fit s"
    and "\<forall>a \<in> set (cs_allocations s). expiring (now_us s) a \<longrightarrow> al_account a \<in> ca_id ` set (cs_accounts s)"
    and "due = filter (expiring (now_us s)) (cs_allocations s)" and "ids_fresh s (length due)"
    and "(r, s') = process_expirations s"
  shows "r = Inr \<lparr>ex_count = int (length due), ex_amount = (\<Sum>a\<leftarrow>due. al_available a)\<rparr>
    \<and> cs_allocations s' = update_where (expiring (now_us s)) (use_up (now_us s)) (cs_allocations s)
    \<and> filter (expiring (now_us s)) (cs_allocations s') = []
    \<and> length (cs_transactions s') = length (cs_transactions s) + length due
    \<and> (\<forall>aid d. account_drift aid s = Some d \<longrightarrow> 0 \<le> d \<longrightarrow> account_drift aid s' = Some d)"
proof -
  have ok: "credit_ok s" and p: "allocs_ok s" using assms(2) by (simp_all add: allocations_safe_def)
  have u: "unique_key al_id (cs_allocations s)" using p by (simp add: pending_def)
  let ?as = "sort_key (\<lambda>a. the (al_expires a)) due"
  have only: "b = a" if "a \<in> set (cs_allocations s)" "b \<in> set (cs_allocations s)" "al_id b = al_id a" for a b
    using row_by_only [OF u row_by_unique [OF u that(1)] that(2,3)] .
  have "distinct (map al_id ?as)"
    using u by (simp add: assms(5) unique_key_def distinct_map inj_on_def)
  moreover have "0 \<le> al_available a \<and> (\<forall>b \<in> set (cs_allocations s). al_id b = al_id a \<longrightarrow> al_available a \<le> al_available b)"
    if a: "a \<in> set ?as" for a
  proof -
    have "a \<in> set (cs_allocations s)" "0 < al_available a" using a by (auto simp: assms(5) expiring_def)
    then show ?thesis using only by fastforce
  qed
  ultimately have "pending (map expiry_key ?as) s"
    using p unfolding pending_def by (simp add: expiry_key_def comp_def)
  then have "expiry_ready s ?as"
    using assms(1,3,4,6) ok by (auto simp: expiry_ready_def assms(5) expiring_def)
  from expire_loop_calm [OF this, of 0 0]
  obtain s1 where loop: "for_each ?as expire_one (0, 0) s = (Inr (int (length due), \<Sum>a\<leftarrow>?as. al_available a), s1)"
    and al: "cs_allocations s1 = expire_ids (al_id ` set due) (now_us s) (cs_allocations s)"
    and ts: "map ct_amount (cs_transactions s1) = map ct_amount (cs_transactions s) @ map (\<lambda>a. - al_available a) ?as"
    and dr: "\<forall>aid d. account_drift aid s = Some d \<longrightarrow> 0 \<le> d \<longrightarrow> account_drift aid s1 = Some d"
    by auto
  have "mset (map al_available ?as) = mset (map al_available due)" by simp
  then have "(\<Sum>a\<leftarrow>?as. al_available a) = (\<Sum>a\<leftarrow>due. al_available a)"
    unfolding sum_mset_sum_list [symmetric] by (rule arg_cong)
  then have run: "r = Inr \<lparr>ex_count = int (length due), ex_amount = (\<Sum>a\<leftarrow>due. al_available a)\<rparr>" "s' = s1"
    using assms(1,5,7) loop by (simp_all add: process_expirations_def get_expiring_allocations_def bnd_apply)
  have "al_id a \<in> al_id ` set due \<longleftrightarrow> expiring (now_us s) a" if "a \<in> set (cs_allocations s)" for a
    using that only by (auto simp: assms(5))
  then have emptied: "cs_allocations s' = update_where (expiring (now_us s)) (use_up (now_us s)) (cs_allocations s)"
    unfolding run(2) al expire_ids_def by (simp add: update_where_def)
  moreover have "filter (expiring (now_us s)) (cs_allocations s') = []"
    unfolding emptied by (auto simp: filter_empty_conv set_update_where expiring_def)
  moreover have "length (cs_transactions s') = length (cs_transactions s) + length due"
    using arg_cong [OF ts, of length] run(2) by simp
  ultimately show ?thesis using run dr by blast
qed

lemma now_of_empty: "5 < now_us credit_empty \<and> now_us credit_empty < 2 ^ 70"
  by (simp add: now_us_def credit_empty_def stamp_def ordinal_def days_before_year_def numeral_eq_Suc days_in_month_def
      us_per_day_def)

definition allocation_due :: credit_allocation where
  "allocation_due = allocation_1\<lparr>al_expires := Some 5\<rparr>"

lemmas credit_world_checks = credit_empty_def account_1_def allocation_1_def allocations_safe_def pending_def credit_ok_def
  acct_ok_def account_fits_def allocation_fits_def rows_fit_def int4_def alloc_ok_def unique_key_def al_available_def
  ids_fresh_def

theorem process_expirations_effect_witness:
  "fst (process_expirations (credit_empty\<lparr>cs_accounts := [account_1], cs_allocations := [allocation_due]\<rparr>))
     = Inr \<lparr>ex_count = 1, ex_amount = 10\<rparr>"
proof -
  let ?s = "credit_empty\<lparr>cs_accounts := [account_1], cs_allocations := [allocation_due]\<rparr>"
  have now: "now_us ?s = now_us credit_empty" by (simp add: now_us_def)
  have due: "filter (expiring (now_us ?s)) (cs_allocations ?s) = [allocation_due]"
    unfolding now using now_of_empty by (simp add: expiring_def allocation_due_def allocation_1_def al_available_def)
  have "fst (process_expirations ?s) = Inr \<lparr>ex_count = int (length [allocation_due]), ex_amount = (\<Sum>a\<leftarrow>[allocation_due]. al_available a)\<rparr>"
    by (rule process_expirations_effect [OF _ _ _ _ due [symmetric] _ surjective_pairing [symmetric], THEN conjunct1])
      (simp_all add: allocation_due_def, simp_all add: credit_world_checks)
  then show ?thesis by (simp add: allocation_due_def allocation_1_def al_available_def)
qed

subsection \<open>The warnings that are never sent\<close>

lemma warn_loop_raises:
  assumes "w_bus s" and "\<forall>b \<in> set as. al_expires b \<noteq> None"
    and "\<exists>b \<in> set as. al_user b \<noteq> [] \<and> 0 < al_available b"
  shows "for_each as warn_one [] s = (Inl AttributeError, s)"
  using assms(2,3)
proof (induction as)
  case (Cons b bs)
  then show ?case using assms(1) by (auto simp: bnd_apply warn_one_def)
qed simp

text \<open>
  The expiry warnings: whenever the service has a bus and any user holds credits that expire within
  the warning period, the job raises \<open>AttributeError\<close> at the first of them, sends nothing and changes
  nothing.
\<close>
theorem expiration_warnings_raise:
  assumes "w_script s = []" and "w_bus s" and "plus_days (now_us s) days = Inr threshold"
    and "a \<in> set (cs_allocations s)" and "expiring threshold a" and "al_expires a = Some t" and "now_us s < t"
    and "al_user a \<noteq> []"
  shows "process_expiration_warnings days s = (Inl AttributeError, s)"
proof -
  let ?soon = "\<lambda>b. case al_expires b of None \<Rightarrow> False | Some t \<Rightarrow> now_us s < t"
  let ?as = "filter ?soon (sort_key (\<lambda>a. the (al_expires a)) (filter (expiring threshold) (cs_allocations s)))"
  have "for_each ?as warn_one [] s = (Inl AttributeError, s)"
    using assms(2) by (rule warn_loop_raises) (use assms(4-8) in \<open>auto simp: expiring_def split: option.splits\<close>)
  then show ?thesis
    using assms(1,3)
    by (simp add: process_expiration_warnings_def check_expiring_soon_def get_expiring_allocations_def bnd_apply)
qed

theorem expiration_warnings_raise_witness:
  "\<exists>a. process_expiration_warnings 7 (credit_empty\<lparr>cs_allocations := [a]\<rparr>) = (Inl AttributeError, credit_empty\<lparr>cs_allocations := [a]\<rparr>)"
proof -
  let ?t = "now_us credit_empty + 1"
  let ?a = "allocation_1\<lparr>al_expires := Some ?t\<rparr>"
  let ?s = "credit_empty\<lparr>cs_allocations := [?a]\<rparr>"
  have now: "now_us (credit_empty\<lparr>cs_allocations := as\<rparr>) = now_us credit_empty" for as by (simp add: now_us_def)
  have plain: "w_script credit_empty = []" "w_bus credit_empty" by (simp_all add: credit_empty_def)
  have "plus_days (now_us ?s) 7 = Inr (now_us credit_empty + 7 * us_per_day)"
    unfolding now
    by (simp add: plus_days_def now_us_def credit_empty_def stamp_def ordinal_def days_before_year_def numeral_eq_Suc
        days_in_month_def us_per_day_def max_ordinal_def)
  from expiration_warnings_raise [OF _ _ this, of ?a ?t]
  have "process_expiration_warnings 7 ?s = (Inl AttributeError, ?s)"
    by (simp add: plain now expiring_def al_available_def allocation_1_def us_per_day_def)
  then show ?thesis by blast
qed

subsection \<open>The handlers that never grant\<close>

text \<open>
  None of the three events that are to grant credits (sign-up, subscription, referral) changes
  anything: the handlers call methods and parameters that do not exist and swallow the error, so a
  bonus is never granted, whatever the data and the state.
\<close>
theorem credit_grants_never_happen:
  "credit_handle_user_created uid s = (Inr (), s) \<and> credit_handle_subscription d s = (Inr (), s)
   \<and> credit_handle_order_completed od s = (Inr (), s)"
  by (simp add: credit_handle_user_created_def credit_handle_subscription_def credit_handle_order_completed_def catch_apply)

end
