(* ===== verification/RedisClient.thy ===== *)
theory RedisClient
  imports RateLimitBackend
begin

section \<open>Redis as the services see it, and the shared cache\<close>

text \<open>
  \<open>core/redis_cache.py\<close>: a cache over a Redis server that never raises to its readers, and the
  latch it shares with \<open>core/distributed_lock.py\<close> (both files carry the same methods): the first
  failure opens it, and after a cooldown one probe may close it again.

  The server is not part of the repository. \<open>redis_api\<close> holds the commands the sources send to it,
  as functions of the time and of a server of any type; the locale \<open>redis_server\<close> states what Redis
  documents about them, and \<open>map_redis\<close>, a table with deadlines, meets it. The JSON callbacks of the
  cache (\<open>loads\<close>, \<open>dumps\<close>) are in the same record, as the sources hand them over.
\<close>

subsection \<open>The server\<close>

record ('r, 'v) redis_api =
  rd_get :: "string \<Rightarrow> int \<Rightarrow> 'r \<Rightarrow> string option"
  rd_set_nx :: "string \<Rightarrow> string \<Rightarrow> int \<Rightarrow> int \<Rightarrow> 'r \<Rightarrow> bool \<times> 'r"
  rd_set :: "string \<Rightarrow> string \<Rightarrow> int \<Rightarrow> int \<Rightarrow> 'r \<Rightarrow> 'r"
  rd_del :: "string \<Rightarrow> int \<Rightarrow> 'r \<Rightarrow> bool \<times> 'r"
  rd_pexpire :: "string \<Rightarrow> int \<Rightarrow> int \<Rightarrow> 'r \<Rightarrow> bool \<times> 'r"
  rd_scan :: "string \<Rightarrow> int \<Rightarrow> 'r \<Rightarrow> string list"
  rd_dumps :: "'v \<Rightarrow> string option"
  rd_loads :: "string \<Rightarrow> unit + 'v option"

text \<open>
  \<open>GET\<close>, \<open>SET NX EX\<close>, \<open>SET EX\<close>, \<open>DEL\<close> and \<open>PEXPIRE\<close> at time \<open>t\<close>, in microseconds: a key is visible
  until its deadline, a command touches no key but its own, and a key that is gone stays gone.
\<close>

locale redis_server =
  fixes api :: "('r, 'v) redis_api"
  assumes get_gone: "rd_get api k t r = None \<Longrightarrow> t \<le> t' \<Longrightarrow> rd_get api k t' r = None"
    and set_nx_wins: "fst (rd_set_nx api k v ttl t r) \<longleftrightarrow> rd_get api k t r = None"
    and set_nx_loses: "rd_get api k t r \<noteq> None \<Longrightarrow> snd (rd_set_nx api k v ttl t r) = r"
    and set_nx_get: "rd_get api k t r = None \<Longrightarrow> 0 < ttl \<Longrightarrow> t \<le> t' \<Longrightarrow>
      rd_get api k t' (snd (rd_set_nx api k v ttl t r)) = (if t' < t + ttl * us_per_second then Some v else None)"
    and set_nx_other: "k' \<noteq> k \<Longrightarrow> rd_get api k' t' (snd (rd_set_nx api k v ttl t r)) = rd_get api k' t' r"
    and set_get: "0 < ttl \<Longrightarrow> t \<le> t' \<Longrightarrow>
      rd_get api k t' (rd_set api k v ttl t r) = (if t' < t + ttl * us_per_second then Some v else None)"
    and set_other: "k' \<noteq> k \<Longrightarrow> rd_get api k' t' (rd_set api k v ttl t r) = rd_get api k' t' r"
    and del_wins: "fst (rd_del api k t r) \<longleftrightarrow> rd_get api k t r \<noteq> None"
    and del_get: "t \<le> t' \<Longrightarrow> rd_get api k t' (snd (rd_del api k t r)) = None"
    and del_other: "k' \<noteq> k \<Longrightarrow> rd_get api k' t' (snd (rd_del api k t r)) = rd_get api k' t' r"
    and pexpire_wins: "fst (rd_pexpire api k ms t r) \<longleftrightarrow> rd_get api k t r \<noteq> None"
    and pexpire_get: "rd_get api k t r = Some v \<Longrightarrow> 0 < ms \<Longrightarrow> t \<le> t' \<Longrightarrow>
      rd_get api k t' (snd (rd_pexpire api k ms t r)) = (if t' < t + ms * 1000 then Some v else None)"
    and pexpire_other: "k' \<noteq> k \<Longrightarrow> rd_get api k' t' (snd (rd_pexpire api k ms t r)) = rd_get api k' t' r"

text \<open>
  \<open>SCAN MATCH\<close> to its end, while nobody else writes: a pattern that ends in a star and has no other special
  character finds every visible key with that prefix.
\<close>

definition glob_special :: string where
  "glob_special = [CHR ''*'', CHR ''?'', CHR ''['', CHR 0x5C]"

definition glob_literal :: "string \<Rightarrow> bool" where
  "glob_literal p \<longleftrightarrow> list_all (\<lambda>c. c \<notin> set glob_special) p"

locale redis_scan = redis_server api for api :: "('r, 'v) redis_api" +
  assumes scan_prefix: "glob_literal p \<Longrightarrow> rd_get api (p @ rest) t r \<noteq> None \<Longrightarrow> p @ rest \<in> set (rd_scan api (p @ ''*'') t r)"

text \<open>A table from keys to values with their deadlines. Its patterns have stars, question marks and escapes.\<close>

fun glob_match :: "string \<Rightarrow> string \<Rightarrow> bool" where
  "glob_match [] k \<longleftrightarrow> k = []"
| "glob_match (CHR ''*'' # p) k \<longleftrightarrow> glob_match p k \<or> (case k of [] \<Rightarrow> False | _ # k' \<Rightarrow> glob_match (CHR ''*'' # p) k')"
| "glob_match (c # p) [] \<longleftrightarrow> False"
| "glob_match (CHR ''?'' # p) (x # k) \<longleftrightarrow> glob_match p k"
| "glob_match (CHR 0x5C # c # p) (x # k) \<longleftrightarrow> x = c \<and> glob_match p k"
| "glob_match (c # p) (x # k) \<longleftrightarrow> x = c \<and> glob_match p k"

lemma glob_match_star: "glob_match ''*'' k"
  by (induction k) simp_all

lemma glob_match_literal:
  assumes "c \<notin> set glob_special"
  shows "glob_match (c # p) (x # k) \<longleftrightarrow> x = c \<and> glob_match p k"
  using assms by (cases "(c # p, x # k)" rule: glob_match.cases) (simp_all add: glob_special_def)

lemma glob_match_prefix: "glob_literal p \<Longrightarrow> glob_match (p @ ''*'') (p @ rest)"
  by (induction p) (simp_all del: glob_match.simps add: glob_match_star glob_literal_def glob_match_literal)

type_synonym redis_table = "(string \<times> string \<times> int) list"

definition table_get :: "string \<Rightarrow> int \<Rightarrow> redis_table \<Rightarrow> string option" where
  "table_get k t r = (case map_of r k of None \<Rightarrow> None | Some (v, e) \<Rightarrow> if t < e then Some v else None)"

definition table_del :: "string \<Rightarrow> redis_table \<Rightarrow> redis_table" where
  "table_del k r = filter (\<lambda>(k', _). k' \<noteq> k) r"

definition map_redis :: "(redis_table, string) redis_api" where
  "map_redis = \<lparr>
     rd_get = table_get,
     rd_set_nx = (\<lambda>k v ttl t r. if table_get k t r = None then (True, (k, v, t + ttl * us_per_second) # r) else (False, r)),
     rd_set = (\<lambda>k v ttl t r. (k, v, t + ttl * us_per_second) # r),
     rd_del = (\<lambda>k t r. (table_get k t r \<noteq> None, table_del k r)),
     rd_pexpire = (\<lambda>k ms t r. case table_get k t r of
        None \<Rightarrow> (False, r) | Some v \<Rightarrow> (True, (k, v, t + ms * 1000) # r)),
     rd_scan = (\<lambda>p t r. filter (\<lambda>k. table_get k t r \<noteq> None \<and> glob_match p k) (remdups (map fst r))),
     rd_dumps = Some,
     rd_loads = (\<lambda>v. Inr (Some v))\<rparr>"

lemma map_of_table_del: "map_of (table_del k r) k' = (if k' = k then None else map_of r k')"
  by (induction r) (auto simp: table_del_def)

lemma map_of_key: "map_of r k = Some v \<Longrightarrow> k \<in> fst ` set r"
  by (force dest: map_of_SomeD)

interpretation map_redis: redis_scan map_redis
proof unfold_locales
qed (auto simp: map_redis_def table_get_def map_of_table_del glob_match_prefix
    dest: map_of_key split: option.splits if_splits)

subsection \<open>The client side\<close>

text \<open>
  A lock or cache object: its namespace, whether its client exists already, whether it has an address
  to build one from, the latch and the time it opened.
\<close>

record redis_obj =
  ro_namespace :: string
  ro_client :: bool
  ro_url :: bool
  ro_default_ttl :: int
  ro_available :: bool
  ro_healthy :: bool
  ro_unhealthy_since :: "int option"
  ro_recovery_cooldown :: int

definition redis_obj_init :: "string \<Rightarrow> bool \<Rightarrow> bool \<Rightarrow> int \<Rightarrow> int option \<Rightarrow> redis_obj" where
  "redis_obj_init namespace client url ttl cooldown =
     \<lparr>ro_namespace = namespace, ro_client = client, ro_url = url, ro_default_ttl = ttl,
      ro_available = (client \<or> url), ro_healthy = (client \<or> url), ro_unhealthy_since = None,
      ro_recovery_cooldown = (case cooldown of None \<Rightarrow> 30 * us_per_second | Some c \<Rightarrow> c)\<rparr>"

text \<open>
  The world of a process that uses Redis: the server, the monotonic clock in microseconds, what the
  other processes do to the server while this one sleeps, and its lock and cache objects.
\<close>

record ('ev, 'r) redis_world = "'ev world" +
  server :: 'r
  mono_us :: int
  neighbours :: "('r \<Rightarrow> 'r) list"
  lock_obj :: redis_obj
  cache_obj :: redis_obj

datatype lock_err = DistributedLockError | LockContended | CacheInvalidationError

type_synonym ('ev, 'r, 'z, 'a) redis_io = "(('ev, 'r, 'z) redis_world_scheme, lock_err exn, 'a) io"

text \<open>
  One command: the connection may fail; a reply that is lost comes back as \<open>falsy\<close>, with no effect on
  the server.
\<close>

definition redis_call :: "string \<Rightarrow> ('ev, 'r, 'z, bool) redis_io" where
  "redis_call what = external (Generic what)"

definition redis_command :: "'a \<Rightarrow> (int \<Rightarrow> 'r \<Rightarrow> 'a \<times> 'r) \<Rightarrow> ('ev, 'r, 'z, 'a) redis_io" where
  "redis_command falsy cmd =
     bnd (redis_call ''redis'') (\<lambda>ok. if \<not> ok then ret falsy else
       (\<lambda>s. case cmd (mono_us s) (server s) of (a, r) \<Rightarrow> (Inr a, s\<lparr>server := r\<rparr>)))"

text \<open>\<open>_mark_unhealthy\<close>, \<open>_should_attempt_recovery\<close> and the outcome of the probe of \<open>_attempt_recovery\<close>.\<close>

definition mark_unhealthy :: "int \<Rightarrow> redis_obj \<Rightarrow> redis_obj" where
  "mark_unhealthy now ob = ob\<lparr>ro_healthy := False,
     ro_unhealthy_since := (case ro_unhealthy_since ob of None \<Rightarrow> Some now | Some t \<Rightarrow> Some t)\<rparr>"

definition mark_healthy :: "redis_obj \<Rightarrow> redis_obj" where
  "mark_healthy ob = ob\<lparr>ro_healthy := True, ro_unhealthy_since := None\<rparr>"

definition should_attempt_recovery :: "int \<Rightarrow> redis_obj \<Rightarrow> bool" where
  "should_attempt_recovery now ob \<longleftrightarrow> \<not> ro_healthy ob
     \<and> (case ro_unhealthy_since ob of None \<Rightarrow> True | Some t \<Rightarrow> ro_recovery_cooldown ob \<le> now - t)"

text \<open>The state of a failed construction of the client.\<close>

definition unusable :: "redis_obj \<Rightarrow> redis_obj" where
  "unusable ob = ob\<lparr>ro_available := False, ro_healthy := False\<rparr>"

definition probed :: "int \<Rightarrow> unit exn + bool \<Rightarrow> redis_obj \<Rightarrow> redis_obj" where
  "probed now pong ob = (if pong = Inr True then mark_healthy ob else ob\<lparr>ro_unhealthy_since := Some now\<rparr>)"

definition ping_server :: "('ev, 'r, 'z, unit exn + bool) redis_io" where
  "ping_server = catch (bnd (redis_call ''ping'') (\<lambda>ok. ret (Inr ok))) (\<lambda>_. ret (Inl (Generic ''ping'')))"

subsection \<open>The cache\<close>

definition on_cache :: "(redis_obj \<Rightarrow> redis_obj) \<Rightarrow> ('ev, 'r, 'z, unit) redis_io" where
  "on_cache f = modify (\<lambda>s. s\<lparr>cache_obj := f (cache_obj s)\<rparr>)"

definition cache_mark_unhealthy :: "('ev, 'r, 'z, unit) redis_io" where
  "cache_mark_unhealthy = bnd (gets mono_us) (\<lambda>now. on_cache (mark_unhealthy now))"

definition cache_ensure_client :: "('ev, 'r, 'z, bool) redis_io" where
  "cache_ensure_client =
     bnd (gets cache_obj) (\<lambda>ob.
       if ro_client ob then ret True
       else if \<not> ro_url ob then ret False
       else catch (bnd (redis_call ''from_url'') (\<lambda>_.
                   bnd (on_cache (\<lambda>ob. ob\<lparr>ro_client := True\<rparr>)) (\<lambda>_. ret True)))
                  (\<lambda>_. bnd (on_cache unusable) (\<lambda>_. ret False)))"

definition cache_attempt_recovery :: "('ev, 'r, 'z, bool) redis_io" where
  "cache_attempt_recovery =
     bnd (gets cache_obj) (\<lambda>ob. if ro_healthy ob then ret True else
       bnd ping_server (\<lambda>pong. bnd (gets mono_us) (\<lambda>now.
       bnd (on_cache (probed now pong)) (\<lambda>_. ret (pong = Inr True)))))"

definition cache_ready :: "('ev, 'r, 'z, bool) redis_io" where
  "cache_ready =
     bnd (gets cache_obj) (\<lambda>ob. bnd (gets mono_us) (\<lambda>now.
       if ro_healthy ob then ret True
       else if \<not> should_attempt_recovery now ob then ret False
       else cache_attempt_recovery))"

definition cache_key :: "redis_obj \<Rightarrow> string \<Rightarrow> string" where
  "cache_key ob key = ro_namespace ob @ '':'' @ key"

definition cache_get :: "('r, 'v) redis_api \<Rightarrow> string \<Rightarrow> ('ev, 'r, 'z, 'v option) redis_io" where
  "cache_get api key =
     bnd cache_ensure_client (\<lambda>c. if \<not> c then ret None else
     bnd cache_ready (\<lambda>h. if \<not> h then ret None else
     bnd (gets (\<lambda>s. cache_key (cache_obj s) key)) (\<lambda>full_key.
     catch (bnd (redis_command None (\<lambda>t r. (rd_get api full_key t r, r))) (\<lambda>raw.
              ret (case raw of None \<Rightarrow> None
                   | Some x \<Rightarrow> (case rd_loads api x of Inl _ \<Rightarrow> None | Inr v \<Rightarrow> v))))
           (\<lambda>_. bnd cache_mark_unhealthy (\<lambda>_. ret None)))))"

definition cache_set :: "('r, 'v) redis_api \<Rightarrow> string \<Rightarrow> 'v \<Rightarrow> int option \<Rightarrow> ('ev, 'r, 'z, bool) redis_io" where
  "cache_set api key v ttl =
     bnd cache_ensure_client (\<lambda>c. if \<not> c then ret False else
     bnd (gets cache_obj) (\<lambda>ob.
     case rd_dumps api v of
       None \<Rightarrow> ret False
     | Some payload \<Rightarrow>
         let full_key = cache_key ob key;
             ex = (case ttl of None \<Rightarrow> ro_default_ttl ob | Some x \<Rightarrow> x) in
         catch (bnd (redis_command () (\<lambda>t r. ((), rd_set api full_key payload ex t r))) (\<lambda>_.
                bnd (on_cache (\<lambda>ob. if ro_healthy ob then ob else mark_healthy ob)) (\<lambda>_. ret True)))
               (\<lambda>_. bnd cache_mark_unhealthy (\<lambda>_. ret False))))"

definition cache_delete :: "('r, 'v) redis_api \<Rightarrow> string \<Rightarrow> ('ev, 'r, 'z, bool) redis_io" where
  "cache_delete api key =
     bnd cache_ensure_client (\<lambda>c. if \<not> c then ret False else
     bnd (gets (\<lambda>s. cache_key (cache_obj s) key)) (\<lambda>full_key.
     catch (bnd (redis_command False (rd_del api full_key)) (\<lambda>_. ret True))
           (\<lambda>_. bnd cache_mark_unhealthy (\<lambda>_. ret False))))"

text \<open>
  \<open>delete_pattern\<close>: the keys of \<open>SCAN\<close> one after the other; the keys deleted before a failure stay
  deleted. With \<open>raise_on_error\<close> nothing short of a confirmed deletion counts as success.
\<close>

definition cache_delete_pattern :: "('r, 'v) redis_api \<Rightarrow> string \<Rightarrow> bool \<Rightarrow> ('ev, 'r, 'z, nat) redis_io" where
  "cache_delete_pattern api pat raise_on_error =
     bnd cache_ensure_client (\<lambda>c.
       if \<not> c then (if raise_on_error then throw (Custom CacheInvalidationError) else ret 0) else
     bnd cache_ready (\<lambda>h.
       if \<not> h then (if raise_on_error then throw (Custom CacheInvalidationError) else ret 0) else
     bnd (gets (\<lambda>s. cache_key (cache_obj s) pat)) (\<lambda>full_pattern.
     bnd (catch (bnd (redis_command [] (\<lambda>t r. (rd_scan api full_pattern t r, r))) (\<lambda>ks. ret (Some ks))) (\<lambda>_. ret None)) (\<lambda>scan.
     bnd (case scan of
            None \<Rightarrow> ret (0, False)
          | Some ks \<Rightarrow> for_each ks (\<lambda>k (n, fine). if \<not> fine then ret (n, fine) else
              catch (bnd (redis_command False (rd_del api k)) (\<lambda>_. ret (Suc n, True))) (\<lambda>_. ret (n, False))) (0, True))
         (\<lambda>(deleted, fine).
            if fine then ret deleted
            else bnd cache_mark_unhealthy (\<lambda>_.
              if raise_on_error then throw (Custom CacheInvalidationError) else ret deleted))))))"

definition cache_ping :: "('ev, 'r, 'z, bool) redis_io" where
  "cache_ping =
     bnd cache_ensure_client (\<lambda>c. if \<not> c then ret False else
     bnd ping_server (\<lambda>pong.
       if pong = Inr True then bnd (on_cache mark_healthy) (\<lambda>_. ret True)
       else bnd cache_mark_unhealthy (\<lambda>_. ret False)))"

text \<open>\<open>get_or_load\<close>; the loader is the caller's.\<close>

definition cache_get_or_load ::
  "('r, 'v) redis_api \<Rightarrow> string \<Rightarrow> ('ev, 'r, 'z, 'v option) redis_io \<Rightarrow> int option \<Rightarrow> ('ev, 'r, 'z, 'v option) redis_io" where
  "cache_get_or_load api key loader ttl =
     bnd (cache_get api key) (\<lambda>cached. case cached of
       Some v \<Rightarrow> ret (Some v)
     | None \<Rightarrow> bnd loader (\<lambda>loaded. case loaded of
         None \<Rightarrow> ret None
       | Some v \<Rightarrow> bnd (cache_set api key v ttl) (\<lambda>_. ret (Some v))))"

lemmas cache_defs = cache_mark_unhealthy_def cache_ensure_client_def cache_attempt_recovery_def cache_ready_def
  cache_get_def cache_set_def cache_delete_def cache_delete_pattern_def cache_ping_def cache_get_or_load_def

subsection \<open>Which Redis\<close>

definition cache_env_vars :: "string option \<Rightarrow> string list" where
  "cache_env_vars service_name =
     (case service_env_prefix service_name of None \<Rightarrow> [] | Some prefix \<Rightarrow> [prefix @ ''_CACHE_REDIS_URL''])
     @ [''CACHE_REDIS_URL'', ''REDIS_URL'']"

definition resolve_cache_redis_url :: "(string \<rightharpoonup> string) \<Rightarrow> string option \<Rightarrow> string option" where
  "resolve_cache_redis_url environ service_name = first_set environ (cache_env_vars service_name)"

definition build_redis_cache :: "(string \<rightharpoonup> string) \<Rightarrow> string \<Rightarrow> string option \<Rightarrow> int \<Rightarrow> bool \<Rightarrow> redis_obj" where
  "build_redis_cache environ namespace service_name ttl client =
     redis_obj_init namespace client (\<not> client \<and> resolve_cache_redis_url environ service_name \<noteq> None) ttl None"

end
