(* ===== verification/DistributedLock.thy ===== *)
theory DistributedLock
  imports RedisClient
begin

section \<open>The distributed lock and its guard\<close>

text \<open>
  \<open>core/distributed_lock.py\<close>: a lock over \<open>SET NX EX\<close> with a token per holder, released and extended
  by the compare-and-act scripts of the source, which fails closed when Redis does; and \<open>guard\<close>, the
  context manager that wraps an event handler with the lock and a cache of results. The two Lua
  scripts run atomically on the server, so they are one command each.
\<close>

subsection \<open>Scripts\<close>

definition release_script :: "('r, 'v) redis_api \<Rightarrow> string \<Rightarrow> string \<Rightarrow> int \<Rightarrow> 'r \<Rightarrow> bool \<times> 'r" where
  "release_script api full_key token t r =
     (if rd_get api full_key t r = Some token then rd_del api full_key t r else (False, r))"

definition extend_script :: "('r, 'v) redis_api \<Rightarrow> string \<Rightarrow> string \<Rightarrow> int \<Rightarrow> int \<Rightarrow> 'r \<Rightarrow> bool \<times> 'r" where
  "extend_script api full_key token ms t r =
     (if rd_get api full_key t r = Some token then rd_pexpire api full_key ms t r else (False, r))"

subsection \<open>The lock object\<close>

definition on_lock :: "(redis_obj \<Rightarrow> redis_obj) \<Rightarrow> ('ev, 'r, 'z, unit) redis_io" where
  "on_lock f = modify (\<lambda>s. s\<lparr>lock_obj := f (lock_obj s)\<rparr>)"

definition lock_key :: "redis_obj \<Rightarrow> string \<Rightarrow> string" where
  "lock_key ob key = ''lock:'' @ ro_namespace ob @ '':'' @ key"

definition lock_unavailable :: "('ev, 'r, 'z, 'a) redis_io" where
  "lock_unavailable = throw (Custom DistributedLockError)"

definition lock_mark_unhealthy :: "('ev, 'r, 'z, unit) redis_io" where
  "lock_mark_unhealthy = bnd (gets mono_us) (\<lambda>now. on_lock (mark_unhealthy now))"

definition lock_ensure_client :: "('ev, 'r, 'z, unit) redis_io" where
  "lock_ensure_client =
     bnd (gets lock_obj) (\<lambda>ob.
       if ro_client ob then ret ()
       else if \<not> ro_url ob then lock_unavailable
       else catch (bnd (redis_call ''from_url'') (\<lambda>_. on_lock (\<lambda>ob. ob\<lparr>ro_client := True\<rparr>)))
                  (\<lambda>_. bnd (on_lock unusable) (\<lambda>_. lock_unavailable)))"

definition lock_attempt_recovery :: "('ev, 'r, 'z, bool) redis_io" where
  "lock_attempt_recovery =
     bnd (gets lock_obj) (\<lambda>ob. if ro_healthy ob then ret True else
       bnd ping_server (\<lambda>pong. bnd (gets mono_us) (\<lambda>now.
       bnd (on_lock (probed now pong)) (\<lambda>_. ret (pong = Inr True)))))"

definition lock_ensure_healthy :: "('ev, 'r, 'z, unit) redis_io" where
  "lock_ensure_healthy =
     bnd (gets lock_obj) (\<lambda>ob. bnd (gets mono_us) (\<lambda>now.
       if ro_healthy ob then ret ()
       else if \<not> should_attempt_recovery now ob then lock_unavailable
       else bnd lock_attempt_recovery (\<lambda>recovered. if recovered then ret () else lock_unavailable)))"

text \<open>A command of the lock: an exception of the client opens the latch and fails closed.\<close>

definition lock_cmd :: "'a \<Rightarrow> (int \<Rightarrow> 'r \<Rightarrow> 'a \<times> 'r) \<Rightarrow> ('ev, 'r, 'z, 'a) redis_io" where
  "lock_cmd falsy cmd =
     catch (redis_command falsy cmd) (\<lambda>_. bnd lock_mark_unhealthy (\<lambda>_. lock_unavailable))"

definition acquire :: "('r, 'v) redis_api \<Rightarrow> string \<Rightarrow> int option \<Rightarrow> ('ev, 'r, 'z, string option) redis_io" where
  "acquire api key ttl_seconds =
     bnd lock_ensure_client (\<lambda>_. bnd lock_ensure_healthy (\<lambda>_. bnd (gets lock_obj) (\<lambda>ob.
       let ttl = (case ttl_seconds of None \<Rightarrow> ro_default_ttl ob | Some x \<Rightarrow> x) in
       if ttl \<le> 0 then throw (ValueError ''ttl_seconds must be > 0'')
       else bnd (fresh_hex 32) (\<lambda>token.
         bnd (lock_cmd False (rd_set_nx api (lock_key ob key) token ttl)) (\<lambda>ok.
           ret (if ok then Some token else None))))))"

definition release :: "('r, 'v) redis_api \<Rightarrow> string \<Rightarrow> string \<Rightarrow> ('ev, 'r, 'z, bool) redis_io" where
  "release api key token =
     (if token = [] then throw (ValueError ''release() requires the token returned by acquire()'')
      else bnd lock_ensure_client (\<lambda>_. bnd lock_ensure_healthy (\<lambda>_. bnd (gets lock_obj) (\<lambda>ob.
        lock_cmd False (release_script api (lock_key ob key) token)))))"

definition extend_lock :: "('r, 'v) redis_api \<Rightarrow> string \<Rightarrow> string \<Rightarrow> int \<Rightarrow> ('ev, 'r, 'z, bool) redis_io" where
  "extend_lock api key token ttl_seconds =
     (if ttl_seconds \<le> 0 then throw (ValueError ''ttl_seconds must be > 0'')
      else bnd lock_ensure_client (\<lambda>_. bnd lock_ensure_healthy (\<lambda>_. bnd (gets lock_obj) (\<lambda>ob.
        lock_cmd False (extend_script api (lock_key ob key) token (ttl_seconds * 1000))))))"

definition lock_ping :: "('ev, 'r, 'z, bool) redis_io" where
  "lock_ping =
     bnd (catch (bnd lock_ensure_client (\<lambda>_. ret True)) (\<lambda>_. ret False)) (\<lambda>c. if \<not> c then ret False else
     bnd ping_server (\<lambda>pong.
       if pong = Inr True then bnd (on_lock mark_healthy) (\<lambda>_. ret True)
       else bnd lock_mark_unhealthy (\<lambda>_. ret False)))"

lemmas lock_defs = lock_unavailable_def lock_mark_unhealthy_def lock_ensure_client_def lock_attempt_recovery_def
  lock_ensure_healthy_def lock_cmd_def acquire_def release_def extend_lock_def lock_ping_def

subsection \<open>What no call changes\<close>

text \<open>
  No operation of the lock or the cache moves the monotonic clock or replays the neighbours; only
  sleeping does.
\<close>

definition clock_of :: "('ev, 'r, 'z) redis_world_scheme \<Rightarrow> int \<times> ('r \<Rightarrow> 'r) list" where
  "clock_of s = (mono_us s, neighbours s)"

lemma clock_of_updates [simp]:
  "clock_of (s\<lparr>w_script := sc\<rparr>) = clock_of s" "clock_of (s\<lparr>w_uuid_next := k\<rparr>) = clock_of s"
  "clock_of (s\<lparr>server := r\<rparr>) = clock_of s" "clock_of (s\<lparr>lock_obj := ob\<rparr>) = clock_of s"
  "clock_of (s\<lparr>cache_obj := ob\<rparr>) = clock_of s"
  by (simp_all add: clock_of_def)

lemma clock_effects [preserve_rules]:
  "preserves (\<lambda>s. clock_of s = c) (external e)" "preserves (\<lambda>s. clock_of s = c) (fresh_hex n)"
  "preserves (\<lambda>s. clock_of s = c) (on_lock f)" "preserves (\<lambda>s. clock_of s = c) (on_cache f)"
  "preserves (\<lambda>s. clock_of s = c) (\<lambda>s. case cmd (mono_us s) (server s) of (a, r) \<Rightarrow> (Inr a, s\<lparr>server := r\<rparr>))"
  by (auto simp: preserves_external preserves_fresh_hex on_lock_def on_cache_def preserves_modify)
    (simp add: preserves_def split: prod.split)

lemma clock_redis [preserve_rules]:
  "preserves (\<lambda>s. clock_of s = c) (redis_call e)" "preserves (\<lambda>s. clock_of s = c) (redis_command f cmd)"
  "preserves (\<lambda>s. clock_of s = c) ping_server"
  unfolding redis_call_def redis_command_def ping_server_def
  by (intro preserve_rules)+

lemma clock_cache [preserve_rules]:
  "preserves (\<lambda>s. clock_of s = c) cache_ensure_client" "preserves (\<lambda>s. clock_of s = c) cache_ready"
  "preserves (\<lambda>s. clock_of s = c) (cache_get api key)" "preserves (\<lambda>s. clock_of s = c) (cache_set api key v ttl)"
  unfolding cache_defs Let_def by (intro preserve_rules)+

lemma clock_lock [preserve_rules]:
  "preserves (\<lambda>s. clock_of s = c) lock_ensure_client" "preserves (\<lambda>s. clock_of s = c) lock_ensure_healthy"
  "preserves (\<lambda>s. clock_of s = c) (acquire api key ttl)" "preserves (\<lambda>s. clock_of s = c) (release api key token)"
  "preserves (\<lambda>s. clock_of s = c) (extend_lock api key token ttl')" "preserves (\<lambda>s. clock_of s = c) lock_ping"
  unfolding lock_defs Let_def by (intro preserve_rules)+

lemma acquire_clock: "clock_of (snd (acquire api key ttl s)) = clock_of s"
  using clock_lock(3) [of "clock_of s" api key ttl] by (simp only: preserves_def) blast

lemma cache_get_clock: "clock_of (snd (cache_get api key s)) = clock_of s"
  using clock_cache(3) [of "clock_of s" api key] by (simp only: preserves_def) blast

subsection \<open>Waiting for a contended lock\<close>

text \<open>
  \<open>asyncio.sleep\<close>: the clock advances by the interval, at least by its resolution, and the other
  processes act on the server.
\<close>

definition pause :: "int \<Rightarrow> ('ev, 'r, 'z) redis_world_scheme \<Rightarrow> ('ev, 'r, 'z) redis_world_scheme" where
  "pause poll s = (case neighbours s of
       [] \<Rightarrow> s\<lparr>mono_us := mono_us s + max 1 poll\<rparr>
     | f # fs \<Rightarrow> s\<lparr>mono_us := mono_us s + max 1 poll, server := f (server s), neighbours := fs\<rparr>)"

datatype 'v wait_end = Got string | Late 'v | Gave_up

text \<open>
  The \<open>while True\<close> of \<open>guard\<close>: try to acquire, otherwise look for the result of the holder, until the
  deadline has passed. It ends because the clock advances with every turn.
\<close>

function wait_for_lock ::
  "('r, 'v) redis_api \<Rightarrow> string \<Rightarrow> int option \<Rightarrow> bool \<Rightarrow> int \<Rightarrow> int \<Rightarrow> ('ev, 'r, 'z) redis_world_scheme
   \<Rightarrow> (lock_err exn + 'v wait_end) \<times> ('ev, 'r, 'z) redis_world_scheme" where
  "wait_for_lock api key ttl with_cache poll deadline s =
     (case acquire api key ttl s of
        (Inl e, s1) \<Rightarrow> (Inl e, s1)
      | (Inr (Some token), s1) \<Rightarrow> (Inr (Got token), s1)
      | (Inr None, s1) \<Rightarrow>
          (case (if with_cache then cache_get api key s1 else (Inr None, s1)) of
             (Inl e, s2) \<Rightarrow> (Inl e, s2)
           | (Inr (Some v), s2) \<Rightarrow> (Inr (Late v), s2)
           | (Inr None, s2) \<Rightarrow>
               if deadline \<le> mono_us s2 then (Inr Gave_up, s2)
               else wait_for_lock api key ttl with_cache poll deadline (pause poll s2)))"
  by pat_completeness auto

lemma mono_pause: "mono_us (pause poll s) = mono_us s + max 1 poll"
  by (simp add: pause_def split: list.split)

termination wait_for_lock
proof (relation "measure (\<lambda>(api, key, ttl, with_cache, poll, deadline, s). nat (deadline - mono_us s))", goal_cases)
  case 1
  show ?case by simp
next
  case (2 api key ttl with_cache poll deadline s x1 s1 x2 x3 s2 x4)
  have "snd (acquire api key ttl s) = s1" by (subst 2(1) [symmetric]) simp
  then have "clock_of s1 = clock_of s" using acquire_clock [of api key ttl s] by simp
  moreover have "snd (if with_cache then cache_get api key s1 else (Inr None, s1)) = s2"
    by (subst 2(4) [symmetric]) simp
  then have "clock_of s2 = clock_of s1" using cache_get_clock [of api key s1] by (cases with_cache) simp_all
  ultimately have "mono_us s2 = mono_us s" by (simp add: clock_of_def)
  with 2(7) show ?case by (simp add: mono_pause)
qed

declare wait_for_lock.simps [simp del]

subsection \<open>The guard\<close>

text \<open>
  What the body of the \<open>async with\<close> sees (\<open>LockOutcome\<close>): a cached result, a lost race, or a lock with
  its token; it returns what it passed to \<open>set_result\<close>, if anything.
\<close>

datatype 'v lock_outcome = Cached 'v | Contended | Held string

datatype on_contended = Raise_contended | Return_contended

definition release_quietly :: "('r, 'v) redis_api \<Rightarrow> string \<Rightarrow> string \<Rightarrow> ('ev, 'r, 'z, unit) redis_io" where
  "release_quietly api key token =
     catch (bnd (release api key token) (\<lambda>_. ret ()))
       (\<lambda>e. if e = Custom DistributedLockError then ret () else throw e)"

definition guard ::
  "('r, 'v) redis_api \<Rightarrow> string \<Rightarrow> int option \<Rightarrow> bool \<Rightarrow> int option \<Rightarrow> int \<Rightarrow> int \<Rightarrow> on_contended
   \<Rightarrow> ('v lock_outcome \<Rightarrow> ('ev, 'r, 'z, 'v option) redis_io) \<Rightarrow> ('ev, 'r, 'z, unit) redis_io" where
  "guard api key ttl with_cache result_cache_ttl wait_us poll contended body =
     (let look = (if with_cache then cache_get api key else ret None) in
      bnd look (\<lambda>cached. case cached of
        Some v \<Rightarrow> bnd (body (Cached v)) (\<lambda>_. ret ())
      | None \<Rightarrow>
          bnd (\<lambda>s. wait_for_lock api key ttl with_cache poll (mono_us s + max wait_us 0) s) (\<lambda>w.
          case w of
            Late v \<Rightarrow> bnd (body (Cached v)) (\<lambda>_. ret ())
          | Gave_up \<Rightarrow>
              (case contended of
                 Return_contended \<Rightarrow> bnd (body Contended) (\<lambda>_. ret ())
               | Raise_contended \<Rightarrow> throw (Custom LockContended))
          | Got token \<Rightarrow>
              bnd look (\<lambda>cached. case cached of
                Some v \<Rightarrow> bnd (release_quietly api key token) (\<lambda>_. bnd (body (Cached v)) (\<lambda>_. ret ()))
              | None \<Rightarrow>
                  bnd (catch
                        (bnd (body (Held token)) (\<lambda>res.
                          bnd (case res of
                                 None \<Rightarrow> ret ()
                               | Some v \<Rightarrow> if with_cache then bnd (cache_set api key v result_cache_ttl) (\<lambda>_. ret ()) else ret ())
                              (\<lambda>_. ret None)))
                        (\<lambda>e. ret (Some e))) (\<lambda>failed.
                  bnd (release_quietly api key token) (\<lambda>_.
                  case failed of None \<Rightarrow> ret () | Some e \<Rightarrow> throw e))))))"

definition build_distributed_lock ::
  "(string \<rightharpoonup> string) \<Rightarrow> string \<Rightarrow> string option \<Rightarrow> int \<Rightarrow> bool \<Rightarrow> bool \<Rightarrow> redis_obj" where
  "build_distributed_lock environ namespace service_name ttl client url =
     redis_obj_init namespace client
       (\<not> client \<and> (url \<or> resolve_cache_redis_url environ service_name \<noteq> None)) ttl None"

end
