(* ===== verification/LockTheorems.thy ===== *)
theory LockTheorems
  imports DistributedLock
begin

section \<open>The distributed lock: properties\<close>

text \<open>
  Processes that share one Redis server: nobody else gets a lock before its time is over, a crashed
  holder frees it by then, waiting for a lock is bounded, and what a guarded handler recorded is what
  its retries see.
\<close>

subsection \<open>Processes around one server\<close>

text \<open>
  A cluster is the server, the time, and the state of every process, whose own copies of the server
  and of the clock are loaded before and stored after each call.
\<close>

record ('ev, 'r) cluster =
  cl_server :: 'r
  cl_time :: int
  cl_procs :: "nat \<Rightarrow> ('ev, 'r) redis_world"

datatype lock_op = Acquire nat string int | Release nat string string | Extend nat string string int | Elapse nat

definition in_proc :: "('ev, 'r) cluster \<Rightarrow> nat \<Rightarrow> ('ev, 'r) redis_world" where
  "in_proc c p = (cl_procs c p)\<lparr>server := cl_server c, mono_us := cl_time c\<rparr>"

definition out_proc :: "nat \<Rightarrow> ('ev, 'r) redis_world \<Rightarrow> ('ev, 'r) cluster \<Rightarrow> ('ev, 'r) cluster" where
  "out_proc p s c = c\<lparr>cl_server := server s, cl_procs := (cl_procs c)(p := s)\<rparr>"

definition lock_step :: "('r, 'v) redis_api \<Rightarrow> lock_op \<Rightarrow> ('ev, 'r) cluster \<Rightarrow> ('ev, 'r) cluster" where
  "lock_step api op c = (case op of
       Acquire p key ttl \<Rightarrow> out_proc p (after (acquire api key (Some ttl)) (in_proc c p)) c
     | Release p key token \<Rightarrow> out_proc p (after (release api key token) (in_proc c p)) c
     | Extend p key token ttl \<Rightarrow> out_proc p (after (extend_lock api key token ttl) (in_proc c p)) c
     | Elapse us \<Rightarrow> c\<lparr>cl_time := cl_time c + int us\<rparr>)"

definition same_namespace :: "string \<Rightarrow> ('ev, 'r) cluster \<Rightarrow> bool" where
  "same_namespace ns c \<longleftrightarrow> (\<forall>p. ro_namespace (lock_obj (cl_procs c p)) = ns)"

definition held_until :: "('r, 'v) redis_api \<Rightarrow> string \<Rightarrow> string \<Rightarrow> int \<Rightarrow> int \<Rightarrow> 'r \<Rightarrow> bool" where
  "held_until api full_key token deadline now r \<longleftrightarrow>
     (\<forall>t. now \<le> t \<longrightarrow> t < deadline \<longrightarrow> rd_get api full_key t r = Some token)"

text \<open>Only the holder knows its token.\<close>

fun uses_token :: "string \<Rightarrow> lock_op \<Rightarrow> bool" where
  "uses_token token (Acquire p key ttl) = False"
| "uses_token token (Release p key tok) = (tok = token)"
| "uses_token token (Extend p key tok ttl) = (tok = token)"
| "uses_token token (Elapse us) = False"

subsection \<open>What one call does to the server\<close>

text \<open>
  A predicate on server and lock object that client construction, latch and world leave alone is kept
  by a call if its one command keeps it.
\<close>

definition server_view :: "(int \<Rightarrow> 'r \<Rightarrow> bool) \<Rightarrow> string \<Rightarrow> int \<Rightarrow> ('ev, 'r, 'z) redis_world_scheme \<Rightarrow> bool" where
  "server_view P ns now s \<longleftrightarrow> mono_us s = now \<and> ro_namespace (lock_obj s) = ns \<and> P now (server s)"

lemma server_view_updates [simp]:
  "server_view P ns now (s\<lparr>w_script := sc\<rparr>) = server_view P ns now s"
  "server_view P ns now (s\<lparr>w_uuid_next := k\<rparr>) = server_view P ns now s"
  by (simp_all add: server_view_def)

lemma obj_namespace [simp]:
  "ro_namespace (mark_unhealthy now ob) = ro_namespace ob" "ro_namespace (mark_healthy ob) = ro_namespace ob"
  "ro_namespace (unusable ob) = ro_namespace ob" "ro_namespace (probed now x ob) = ro_namespace ob"
  by (simp_all add: mark_unhealthy_def mark_healthy_def unusable_def probed_def)

lemma server_view_on_lock:
  "(\<And>ob. ro_namespace (f ob) = ro_namespace ob) \<Longrightarrow> preserves (server_view P ns now) (on_lock f)"
  unfolding on_lock_def by (intro preserves_modify) (simp add: server_view_def)

lemma server_view_effects [preserve_rules]:
  "preserves (server_view P ns now) (external e)" "preserves (server_view P ns now) (fresh_hex n)"
  "preserves (server_view P ns now) (redis_call w)"
  by (simp_all add: preserves_external preserves_fresh_hex redis_call_def)

lemma server_view_cmd:
  "(\<And>r. P now r \<Longrightarrow> P now (snd (cmd now r))) \<Longrightarrow> preserves (server_view P ns now) (redis_command f cmd)"
  unfolding redis_command_def redis_call_def
  by (intro preserve_rules) (auto simp: preserves_external preserves_def server_view_def split: prod.split, metis snd_conv)

lemma server_view_lock [preserve_rules]:
  "preserves (server_view P ns now) lock_mark_unhealthy" "preserves (server_view P ns now) ping_server"
  "preserves (server_view P ns now) lock_ensure_client" "preserves (server_view P ns now) lock_ensure_healthy"
  unfolding lock_mark_unhealthy_def lock_ensure_client_def lock_ensure_healthy_def lock_attempt_recovery_def
    lock_unavailable_def ping_server_def
  by (intro preserve_rules server_view_on_lock; simp)+

lemma server_view_lock_cmd:
  "(\<And>r. P now r \<Longrightarrow> P now (snd (cmd now r))) \<Longrightarrow> preserves (server_view P ns now) (lock_cmd f cmd)"
  unfolding lock_cmd_def lock_unavailable_def by (intro preserve_rules server_view_cmd)

lemma preserves_gets_bnd:
  "(\<And>s. I s \<Longrightarrow> I (snd (f (g s) s))) \<Longrightarrow> preserves I (bnd (gets g) f)"
  by (simp add: preserves_def)

lemma server_view_full_key:
  assumes "\<And>ob. ro_namespace ob = ns \<Longrightarrow> preserves (server_view P ns now) (f ob)"
  shows "preserves (server_view P ns now) (bnd (gets lock_obj) f)"
  using assms by (intro preserves_gets_bnd) (auto simp: preserves_def server_view_def)

lemma lock_key_ns: "ro_namespace ob = ns \<Longrightarrow> lock_key ob key = ''lock:'' @ ns @ '':'' @ key"
  by (simp add: lock_key_def)

context redis_server
begin

lemma held_set_nx:
  assumes "held_until api k token d now r" and "now < d"
  shows "held_until api k token d now (snd (rd_set_nx api k' v ttl now r))"
proof (cases "k' = k")
  case True
  with assms have "rd_get api k' now r \<noteq> None" by (simp add: held_until_def)
  with assms True show ?thesis by (simp add: set_nx_loses)
next
  case False
  with assms show ?thesis by (simp add: held_until_def set_nx_other)
qed

lemma held_release:
  assumes "held_until api k token d now r" and "now < d" and "k' = k \<Longrightarrow> token' \<noteq> token"
  shows "held_until api k token d now (snd (release_script api k' token' now r))"
  using assms by (cases "k' = k") (auto simp: held_until_def release_script_def del_other)

lemma held_extend:
  assumes "held_until api k token d now r" and "now < d" and "k' = k \<Longrightarrow> token' \<noteq> token"
  shows "held_until api k token d now (snd (extend_script api k' token' ms now r))"
  using assms by (cases "k' = k") (auto simp: held_until_def extend_script_def pexpire_other)

lemma held_calls:
  assumes "now < d"
  shows "preserves (server_view (held_until api k token d) ns now) (acquire api key ttl)"
    and "token' \<noteq> token \<Longrightarrow> preserves (server_view (held_until api k token d) ns now) (release api key token')"
    and "token' \<noteq> token \<Longrightarrow> preserves (server_view (held_until api k token d) ns now) (extend_lock api key token' ttl')"
  unfolding acquire_def release_def extend_lock_def Let_def
  by (intro preserve_rules server_view_full_key server_view_lock_cmd held_set_nx held_release held_extend assms; simp)+

lemma held_step:
  assumes "held_until api k token d (cl_time c) (cl_server c)" and "same_namespace ns c"
    and "cl_time c < d" and "\<not> uses_token token op"
  shows "held_until api k token d (cl_time (lock_step api op c)) (cl_server (lock_step api op c))
    \<and> same_namespace ns (lock_step api op c) \<and> cl_time c \<le> cl_time (lock_step api op c)"
proof -
  let ?V = "server_view (held_until api k token d) ns (cl_time c)"
  have V: "?V (in_proc c p)" for p
    using assms(1,2) by (simp add: server_view_def in_proc_def same_namespace_def)
  have out: "held_until api k token d (cl_time (out_proc p s c)) (cl_server (out_proc p s c))
      \<and> same_namespace ns (out_proc p s c) \<and> cl_time c \<le> cl_time (out_proc p s c)" if "?V s" for p s
    using that assms(2) by (auto simp: server_view_def out_proc_def same_namespace_def)
  show ?thesis
  proof (cases op)
    case (Elapse us)
    with assms(1,2) show ?thesis by (auto simp: lock_step_def held_until_def same_namespace_def)
  next
    case (Acquire p key ttl)
    show ?thesis unfolding Acquire lock_step_def
      by (simp, intro out preserves_after [of ?V, OF held_calls(1)] V assms(3))
  next
    case (Release p key token')
    with assms(4) have "token' \<noteq> token" by simp
    then show ?thesis unfolding Release lock_step_def
      by (simp, intro out preserves_after [of ?V, OF held_calls(2)] V assms(3))
  next
    case (Extend p key token' ttl)
    with assms(4) have "token' \<noteq> token" by simp
    then show ?thesis unfolding Extend lock_step_def
      by (simp, intro out preserves_after [of ?V, OF held_calls(3)] V assms(3))
  qed
qed

lemma time_step: "cl_time c \<le> cl_time (lock_step api op c)"
  by (cases op) (simp_all add: lock_step_def out_proc_def)

lemma time_run: "cl_time c \<le> cl_time (fold (lock_step api) ops c)"
  by (induction ops arbitrary: c) (auto intro: order_trans time_step)

lemma held_run:
  assumes "held_until api k token d (cl_time c) (cl_server c)" and "same_namespace ns c"
    and "list_all (\<lambda>op. \<not> uses_token token op) ops" and "cl_time (fold (lock_step api) ops c) < d"
  shows "held_until api k token d (cl_time (fold (lock_step api) ops c)) (cl_server (fold (lock_step api) ops c))
    \<and> same_namespace ns (fold (lock_step api) ops c)"
  using assms
proof (induction ops arbitrary: c)
  case Nil
  then show ?case by simp
next
  case (Cons op ops)
  have "cl_time (lock_step api op c) \<le> cl_time (fold (lock_step api) (op # ops) c)" using time_run by simp
  with Cons.prems time_step [of c op] have "cl_time c < d" by simp
  with held_step [OF Cons.prems(1,2)] Cons.prems(3)
  have "held_until api k token d (cl_time (lock_step api op c)) (cl_server (lock_step api op c))"
    and "same_namespace ns (lock_step api op c)" by simp_all
  from Cons.IH [OF this] Cons.prems show ?case by simp
qed

lemma acquire_result:
  assumes "acquire api key (Some ttl) s = (Inr (Some token), s')"
  shows "rd_get api (lock_key (lock_obj s) key) (mono_us s) (server s) = None \<and> 0 < ttl
    \<and> server s' = snd (rd_set_nx api (lock_key (lock_obj s) key) token ttl (mono_us s) (server s))"
proof -
  let ?ns = "ro_namespace (lock_obj s)" and ?now = "mono_us s" and ?r = "server s"
  let ?V = "server_view (\<lambda>_ r. r = ?r) ?ns ?now"
  have V: "?V s" by (simp add: server_view_def)
  obtain s1 where s1: "lock_ensure_client s = (Inr (), s1)"
    using assms by (auto simp: acquire_def elim!: bnd_eq_InrE)
  with assms obtain s2 where s2: "lock_ensure_healthy s1 = (Inr (), s2)"
    by (auto simp: acquire_def bnd_Inr elim!: bnd_eq_InrE)
  have "?V s1" using preservesD [OF server_view_lock(3) V] s1 by simp
  then have "?V s2" using preservesD [OF server_view_lock(4)] s2 by (metis snd_conv)
  then have v2: "mono_us s2 = ?now" "server s2 = ?r" "lock_key (lock_obj s2) key = lock_key (lock_obj s) key"
    by (simp_all add: server_view_def lock_key_def)
  let ?k = "lock_key (lock_obj s) key"
  note key = v2(3)
  from assms s1 s2 have run: "(if ttl \<le> 0 then throw (ValueError ''ttl_seconds must be > 0'')
      else bnd (fresh_hex 32) (\<lambda>token. bnd (lock_cmd False (rd_set_nx api ?k token ttl)) (\<lambda>ok.
           ret (if ok then Some token else None)))) s2 = (Inr (Some token), s')"
    unfolding v2(3) [symmetric] by (simp add: acquire_def bnd_Inr Let_def split del: if_split)
  then have ttl: "0 < ttl" by (auto split: if_splits)
  with run have cmd: "lock_cmd False (rd_set_nx api ?k token ttl) (s2\<lparr>w_uuid_next := Suc (w_uuid_next s2)\<rparr>) = (Inr True, s')"
    by (auto simp: fresh_hex_def bnd_apply split: if_splits sum.splits prod.splits)
  then have "rd_set_nx api ?k token ttl ?now ?r = (True, server s')"
    by (auto simp: lock_cmd_def catch_def redis_command_def redis_call_def bnd_def external_def lock_mark_unhealthy_def
        lock_unavailable_def v2 split: list.splits outcome.splits prod.splits sum.splits)
  then have "fst (rd_set_nx api ?k token ttl ?now ?r)" "server s' = snd (rd_set_nx api ?k token ttl ?now ?r)" by simp_all
  with ttl show ?thesis by (simp add: set_nx_wins)
qed

end

lemma server_view_acquire:
  "preserves (server_view (\<lambda>_ _. True) ns now) (acquire api key ttl)"
  unfolding acquire_def Let_def
  by (intro preserve_rules server_view_full_key server_view_lock_cmd; simp)+

lemma acquire_namespace:
  "same_namespace ns c \<Longrightarrow> acquire api key ttl (in_proc c p) = (x, s1) \<Longrightarrow> same_namespace ns (out_proc p s1 c)"
  using preservesD [OF server_view_acquire, of ns "cl_time c" "in_proc c p" api key ttl]
  by (simp add: same_namespace_def out_proc_def server_view_def in_proc_def)

lemma lock_key_in_proc:
  "same_namespace ns c \<Longrightarrow> lock_key (lock_obj (in_proc c p)) key = ''lock:'' @ ns @ '':'' @ key"
  by (simp add: same_namespace_def lock_key_def in_proc_def)

lemma in_proc_sel [simp]: "mono_us (in_proc c p) = cl_time c" "server (in_proc c p) = cl_server c"
  by (simp_all add: in_proc_def)

lemma out_proc_sel [simp]: "cl_time (out_proc p s c) = cl_time c" "cl_server (out_proc p s c) = server s"
  by (simp_all add: out_proc_def)

subsection \<open>Mutual exclusion\<close>

text \<open>
  C6. Mutual exclusion: while the time a holder asked for is not over, no process gets the same lock,
  whatever all processes do meanwhile, however connections and probes fail, as long as nobody uses the
  holder's own token.
\<close>
theorem lock_excludes_until_expiry:
  assumes "redis_server api" and "same_namespace ns c"
    and "acquire api key (Some ttl) (in_proc c p) = (Inr (Some token), s1)"
    and "list_all (\<lambda>op. \<not> uses_token token op) ops"
    and "c2 = fold (lock_step api) ops (out_proc p s1 c)"
    and "cl_time c2 < cl_time c + ttl * us_per_second"
  shows "result (acquire api key (Some ttl2)) (in_proc c2 q) \<noteq> Inr (Some token2)"
proof
  let ?k = "''lock:'' @ ns @ '':'' @ key" and ?d = "cl_time c + ttl * us_per_second"
  assume "result (acquire api key (Some ttl2)) (in_proc c2 q) = Inr (Some token2)"
  then obtain s2 where s2: "acquire api key (Some ttl2) (in_proc c2 q) = (Inr (Some token2), s2)"
    by (cases "acquire api key (Some ttl2) (in_proc c2 q)") (simp add: result_def)
  note k = lock_key_in_proc [OF assms(2), of p key]
  have "held_until api ?k token ?d (cl_time c) (server s1)"
    using redis_server.acquire_result [OF assms(1,3)] redis_server.set_nx_get [OF assms(1)]
    by (simp add: held_until_def k)
  then have "held_until api ?k token ?d (cl_time c2) (cl_server c2) \<and> same_namespace ns c2"
    unfolding assms(5)
    by (intro redis_server.held_run [OF assms(1) _ acquire_namespace [OF assms(2,3)] assms(4)])
      (use assms(5,6) in simp_all)
  then have "rd_get api ?k (cl_time c2) (cl_server c2) = Some token"
    and "lock_key (lock_obj (in_proc c2 q)) key = ?k"
    using assms(6) lock_key_in_proc [of ns c2 q key] by (simp_all add: held_until_def)
  with redis_server.acquire_result [OF assms(1) s2] show False by simp
qed

text \<open>
  C30. A crashed holder does not wedge the lock: once its time is over, the next process whose
  connection works gets it, although nobody released it.
\<close>
theorem lock_frees_itself:
  assumes "redis_server api" and "same_namespace ns c"
    and "acquire api key (Some ttl) (in_proc c p) = (Inr (Some token), s1)"
    and "cl_time c + ttl * us_per_second \<le> t"
    and "c2 = (out_proc p s1 c)\<lparr>cl_time := t\<rparr>"
    and "w_script (in_proc c2 q) = []" and "ro_client (lock_obj (in_proc c2 q))" and "ro_healthy (lock_obj (in_proc c2 q))"
    and "0 < ttl2"
  shows "\<exists>token2. result (acquire api key (Some ttl2)) (in_proc c2 q) = Inr (Some token2)"
proof -
  let ?k = "''lock:'' @ ns @ '':'' @ key"
  have "same_namespace ns c2"
    using acquire_namespace [OF assms(2,3)] by (simp add: assms(5) same_namespace_def out_proc_def)
  note k = lock_key_in_proc [OF assms(2), of p key] lock_key_in_proc [OF this, of q key]
  from redis_server.acquire_result [OF assms(1,3)]
  have "rd_get api ?k (cl_time c) (cl_server c) = None" "0 < ttl"
    and "cl_server c2 = snd (rd_set_nx api ?k token ttl (cl_time c) (cl_server c))"
    by (simp_all add: k assms(5))
  moreover have "cl_time c \<le> t" "cl_time c2 = t" using assms(4,5) \<open>0 < ttl\<close> by (simp_all add: us_per_second_def)
  ultimately have "rd_get api ?k t (cl_server c2) = None"
    using redis_server.set_nx_get [OF assms(1)] assms(4) by simp
  then have "fst (rd_set_nx api ?k (take 32 (w_uuid (in_proc c2 q) (w_uuid_next (in_proc c2 q)))) ttl2 t (cl_server c2))"
    by (simp add: redis_server.set_nx_wins [OF assms(1)])
  then obtain r where "rd_set_nx api ?k (take 32 (w_uuid (in_proc c2 q) (w_uuid_next (in_proc c2 q)))) ttl2 t (cl_server c2)
      = (True, r)" by (metis (full_types) prod.collapse)
  then show ?thesis
    using assms(6-9) k(2) \<open>cl_time c2 = t\<close>
    by (simp add: result_def acquire_def lock_ensure_client_def lock_ensure_healthy_def lock_cmd_def redis_command_def
        redis_call_def fresh_hex_def bnd_apply catch_apply lock_key_def split: prod.split)
qed

subsection \<open>Waiting\<close>


subsection \<open>Calls while Redis works\<close>

definition redis_up :: "('ev, 'r, 'z) redis_world_scheme \<Rightarrow> bool" where
  "redis_up s \<longleftrightarrow> w_script s = [] \<and> ro_client (lock_obj s) \<and> ro_healthy (lock_obj s)
     \<and> ro_client (cache_obj s) \<and> ro_healthy (cache_obj s)"

definition cache_view :: "('r, 'v) redis_api \<Rightarrow> string \<Rightarrow> ('ev, 'r, 'z) redis_world_scheme \<Rightarrow> 'v option" where
  "cache_view api key s =
     (case rd_get api (cache_key (cache_obj s) key) (mono_us s) (server s) of
        None \<Rightarrow> None
      | Some x \<Rightarrow> (case rd_loads api x of Inl _ \<Rightarrow> None | Inr v \<Rightarrow> v))"

definition next_token :: "('ev, 'r, 'z) redis_world_scheme \<Rightarrow> string" where
  "next_token s = take 32 (w_uuid s (w_uuid_next s))"

lemma redis_up_simps [simp]:
  "redis_up (s\<lparr>server := r\<rparr>) = redis_up s" "redis_up (s\<lparr>w_uuid_next := k\<rparr>) = redis_up s"
  "redis_up (s\<lparr>mono_us := t\<rparr>) = redis_up s"
  by (simp_all add: redis_up_def)

lemma redis_call_calm [simp]: "w_script s = [] \<Longrightarrow> redis_call e s = (Inr True, s)"
  by (simp add: redis_call_def)

lemma redis_cmd_calm:
  "w_script s = [] \<Longrightarrow> redis_command f cmd s = (Inr (fst (cmd (mono_us s) (server s))), s\<lparr>server := snd (cmd (mono_us s) (server s))\<rparr>)"
  by (simp add: redis_command_def bnd_apply split: prod.split)

lemma cache_get_calm: "redis_up s \<Longrightarrow> cache_get api key s = (Inr (cache_view api key s), s)"
  by (simp add: redis_up_def cache_get_def cache_ensure_client_def cache_ready_def bnd_apply catch_apply redis_cmd_calm
      cache_view_def)

lemma cache_set_calm:
  "redis_up s \<Longrightarrow> rd_dumps api v = Some x \<Longrightarrow> cache_set api key v None s =
     (Inr True, s\<lparr>server := rd_set api (cache_key (cache_obj s) key) x (ro_default_ttl (cache_obj s)) (mono_us s) (server s)\<rparr>)"
  by (simp add: redis_up_def cache_set_def cache_ensure_client_def bnd_apply catch_apply redis_cmd_calm on_cache_def)

lemma lock_ready_calm: "redis_up s \<Longrightarrow> lock_ensure_client s = (Inr (), s)" "redis_up s \<Longrightarrow> lock_ensure_healthy s = (Inr (), s)"
  by (simp_all add: redis_up_def lock_ensure_client_def lock_ensure_healthy_def bnd_apply)

lemma lock_cmd_calm:
  "w_script s = [] \<Longrightarrow> lock_cmd f cmd s = (Inr (fst (cmd (mono_us s) (server s))), s\<lparr>server := snd (cmd (mono_us s) (server s))\<rparr>)"
  by (simp add: lock_cmd_def catch_apply redis_cmd_calm)

lemma acquire_calm:
  assumes "redis_up s" and "0 < ttl"
  shows "acquire api key (Some ttl) s =
    (let (ok, r) = rd_set_nx api (lock_key (lock_obj s) key) (next_token s) ttl (mono_us s) (server s)
     in (Inr (if ok then Some (next_token s) else None), s\<lparr>server := r, w_uuid_next := Suc (w_uuid_next s)\<rparr>))"
  using assms by (simp add: acquire_def bnd_apply lock_ready_calm fresh_hex_def lock_cmd_calm redis_up_def next_token_def
      split: prod.split)

lemma release_calm:
  "redis_up s \<Longrightarrow> token \<noteq> [] \<Longrightarrow> release api key token s =
     (let (ok, r) = release_script api (lock_key (lock_obj s) key) token (mono_us s) (server s) in (Inr ok, s\<lparr>server := r\<rparr>))"
  by (simp add: release_def bnd_apply lock_ready_calm lock_cmd_calm redis_up_def split: prod.split)

lemma release_quietly_calm:
  "redis_up s \<Longrightarrow> token \<noteq> [] \<Longrightarrow> release_quietly api key token s =
     (Inr (), s\<lparr>server := snd (release_script api (lock_key (lock_obj s) key) token (mono_us s) (server s))\<rparr>)"
  by (simp add: release_quietly_def catch_apply bnd_apply release_calm split: prod.split)

text \<open>The state in which the body of a guard runs when the lock was free.\<close>

definition locked :: "('r, 'v) redis_api \<Rightarrow> string \<Rightarrow> int \<Rightarrow> ('ev, 'r, 'z) redis_world_scheme \<Rightarrow> ('ev, 'r, 'z) redis_world_scheme" where
  "locked api key ttl s = s\<lparr>w_uuid_next := Suc (w_uuid_next s),
     server := snd (rd_set_nx api (lock_key (lock_obj s) key) (next_token s) ttl (mono_us s) (server s))\<rparr>"

definition lock_free :: "('r, 'v) redis_api \<Rightarrow> string \<Rightarrow> ('ev, 'r, 'z) redis_world_scheme \<Rightarrow> bool" where
  "lock_free api key s \<longleftrightarrow> rd_get api (lock_key (lock_obj s) key) (mono_us s) (server s) = None
     \<and> lock_key (lock_obj s) key \<noteq> cache_key (cache_obj s) key \<and> next_token s \<noteq> []"

context redis_server
begin

lemma wait_for_lock_free:
  assumes "redis_up s" and "lock_free api key s" and "0 < ttl"
  shows "wait_for_lock api key (Some ttl) wc poll dl s = (Inr (Got (next_token s)), locked api key ttl s)"
proof -
  obtain r where r: "rd_set_nx api (lock_key (lock_obj s) key) (next_token s) ttl (mono_us s) (server s) = (True, r)"
    using set_nx_wins [of "lock_key (lock_obj s) key"] assms(2) unfolding lock_free_def by (metis (full_types) prod.collapse)
  then have "acquire api key (Some ttl) s = (Inr (Some (next_token s)), locked api key ttl s)"
    using acquire_calm [OF assms(1,3), of api key] by (simp add: locked_def)
  then show ?thesis by (subst wait_for_lock.simps) simp
qed

lemma cache_view_locked: "lock_free api key s \<Longrightarrow> cache_view api key (locked api key ttl s) = cache_view api key s"
proof -
  assume "lock_free api key s"
  then have "cache_key (cache_obj s) key \<noteq> lock_key (lock_obj s) key" by (auto simp: lock_free_def)
  then show ?thesis by (simp add: cache_view_def locked_def set_nx_other)
qed

lemma redis_up_locked [simp]: "redis_up (locked api key ttl s) = redis_up s"
  by (simp add: locked_def)

text \<open>The body runs once, with the lock; a recorded result is cached, then the lock is released.\<close>

lemma guard_held:
  assumes "redis_up s" and "lock_free api key s" and "cache_view api key s = None" and "0 < ttl"
    and body: "body (Held (next_token s)) (locked api key ttl s) = (res, s2)" and "redis_up s2"
  shows "\<exists>r. guard api key (Some ttl) True None w poll c body s = (case res of Inl e \<Rightarrow> Inl e | Inr _ \<Rightarrow> Inr (), s2\<lparr>server := r\<rparr>)"
proof -
  have tok: "next_token s \<noteq> []" using assms(2) by (simp add: lock_free_def)
  have look: "cache_get api key (locked api key ttl s) = (Inr None, locked api key ttl s)"
    using assms by (simp add: cache_get_calm cache_view_locked)
  have rel: "release_quietly api key (next_token s) t =
      (Inr (), t\<lparr>server := snd (release_script api (lock_key (lock_obj t) key) (next_token s) (mono_us t) (server t))\<rparr>)"
    if "redis_up t" for t :: "('ev, 'r, 'z) redis_world_scheme" using that tok by (rule release_quietly_calm)
  have set: "\<exists>b r. cache_set api key v None s2 = (Inr b, s2\<lparr>server := r\<rparr>)" for v
  proof (cases "rd_dumps api v")
    case None
    with assms(6) have "cache_set api key v None s2 = (Inr False, s2\<lparr>server := server s2\<rparr>)"
      by (simp add: cache_set_def cache_ensure_client_def bnd_apply redis_up_def)
    then show ?thesis by blast
  next
    case (Some x)
    from cache_set_calm [OF assms(6) Some] show ?thesis by blast
  qed
  show ?thesis
  proof (cases res)
    case (Inl e)
    with assms look rel [OF assms(6)] show ?thesis
      by (simp add: guard_def bnd_apply catch_apply cache_get_calm wait_for_lock_free Let_def) blast
  next
    case (Inr v)
    show ?thesis
    proof (cases v)
      case None
      with assms Inr look rel [OF assms(6)] show ?thesis
        by (simp add: guard_def bnd_apply catch_apply cache_get_calm wait_for_lock_free Let_def) blast
    next
      case (Some x)
      with set obtain b r where "cache_set api key x None s2 = (Inr b, s2\<lparr>server := r\<rparr>)" by blast
      with assms Inr Some look rel [of "s2\<lparr>server := r\<rparr>"] show ?thesis
        by (simp add: guard_def bnd_apply catch_apply cache_get_calm wait_for_lock_free Let_def) blast
    qed
  qed
qed

lemma guard_held_result:
  assumes "redis_up s" and "lock_free api key s" and "cache_view api key s = None" and "0 < ttl"
    and body: "body (Held (next_token s)) (locked api key ttl s) = (Inr (Some v), s2)" and "redis_up s2"
    and "rd_dumps api v = Some x"
  shows "guard api key (Some ttl) True None w poll c body s = (Inr (), s2\<lparr>server :=
     snd (release_script api (lock_key (lock_obj s2) key) (next_token s) (mono_us s2)
       (rd_set api (cache_key (cache_obj s2) key) x (ro_default_ttl (cache_obj s2)) (mono_us s2) (server s2)))\<rparr>)"
proof -
  have tok: "next_token s \<noteq> []" using assms(2) by (simp add: lock_free_def)
  have "cache_get api key (locked api key ttl s) = (Inr None, locked api key ttl s)"
    using assms by (simp add: cache_get_calm cache_view_locked)
  then show ?thesis
    using assms cache_set_calm [OF assms(6,7), of key] tok
    by (simp add: guard_def bnd_apply catch_apply cache_get_calm wait_for_lock_free release_quietly_calm Let_def)
qed

end

lemma guard_cached:
  assumes "redis_up s" and "cache_view api key s = Some v"
  shows "guard api key ttl True rttl w poll c body s = bnd (body (Cached v)) (\<lambda>_. ret ()) s"
  using assms by (simp add: guard_def bnd_apply cache_get_calm Let_def)

subsection \<open>The retry contract\<close>

text \<open>
  C32. Idempotent retries: when a guarded handler has recorded its result and Redis works, the lock is
  free again afterwards, and until the cached result expires every further guard for the same key
  hands the recorded result to its body instead of the lock.
\<close>
theorem guarded_result_is_reused:
  assumes "redis_server api" and "redis_up s" and "lock_free api key s" and "cache_view api key s = None" and "0 < ttl"
    and "body (Held (next_token s)) (locked api key ttl s) = (Inr (Some v), s2)"
    and "redis_up s2" and "server s2 = server (locked api key ttl s)" and "mono_us s2 = mono_us s"
    and "lock_obj s2 = lock_obj s" and "cache_obj s2 = cache_obj s"
    and "rd_dumps api v = Some x" and "rd_loads api x = Inr (Some v)"
    and "s3 = after (guard api key (Some ttl) True None w poll c body) s"
    and "mono_us s \<le> t" and "t < mono_us s + ro_default_ttl (cache_obj s) * us_per_second"
  shows "rd_get api (lock_key (lock_obj s) key) t (server s3) = None
    \<and> guard api key ttl2 True None w2 poll2 c2 body2 (s3\<lparr>mono_us := t\<rparr>) = bnd (body2 (Cached v)) (\<lambda>_. ret ()) (s3\<lparr>mono_us := t\<rparr>)"
proof -
  let ?lk = "lock_key (lock_obj s) key" and ?ck = "cache_key (cache_obj s) key" and ?now = "mono_us s"
  let ?d = "ro_default_ttl (cache_obj s)"
  let ?r1 = "rd_set api ?ck x ?d ?now (server s2)"
  let ?r = "snd (release_script api ?lk (next_token s) ?now ?r1)"
  have s3: "s3 = s2\<lparr>server := ?r\<rparr>"
    using redis_server.guard_held_result [where body = body, OF assms(1-5) assms(6,7,12)] by (simp add: assms(14) after_def assms(9-11))
  have ne: "?ck \<noteq> ?lk" using assms(3) by (auto simp: lock_free_def)
  have "0 < ?d" using assms(15,16) by (auto simp: us_per_second_def zero_less_mult_iff)
  have "rd_get api ?lk ?now ?r1 = Some (next_token s)"
    using redis_server.set_nx_get [OF assms(1), of ?lk ?now "server s" ttl ?now "next_token s"] assms(3,5)
      redis_server.set_other [OF assms(1), of ?lk ?ck] ne
    by (simp add: assms(8) locked_def lock_free_def us_per_second_def)
  then have r: "?r = snd (rd_del api ?lk ?now ?r1)" by (simp add: release_script_def)
  then have "rd_get api ?lk t ?r = None" using redis_server.del_get [OF assms(1,15)] by simp
  moreover have "rd_get api ?ck t ?r = Some x"
    using redis_server.del_other [OF assms(1) ne] redis_server.set_get [OF assms(1) \<open>0 < ?d\<close> assms(15)] assms(16)
    by (simp add: r)
  then have "cache_view api key (s3\<lparr>mono_us := t\<rparr>) = Some v"
    by (simp add: cache_view_def s3 assms(10,11,13))
  then have "guard api key ttl2 True None w2 poll2 c2 body2 (s3\<lparr>mono_us := t\<rparr>)
      = bnd (body2 (Cached v)) (\<lambda>_. ret ()) (s3\<lparr>mono_us := t\<rparr>)"
    by (rule guard_cached [rotated]) (use assms(7) in \<open>simp add: s3\<close>)
  ultimately show ?thesis by (simp add: s3)
qed

subsection \<open>Witnesses\<close>

definition lock_world :: "nat \<Rightarrow> (unit, redis_table) redis_world" where
  "lock_world p = \<lparr>w_now = \<lparr>dt_year = 2026, dt_month = 2, dt_day = 4, dt_us = 0\<rparr>,
     w_uuid = (\<lambda>k. replicate (Suc p) (CHR ''a'') @ replicate k (CHR ''c'')), w_uuid_next = 0, w_script = [],
     w_bus = True, w_events = [], server = [], mono_us = 0, neighbours = [],
     lock_obj = redis_obj_init ''svc'' True False 60 None, cache_obj = redis_obj_init ''results'' True False 300 None\<rparr>"

definition two_processes :: "(unit, redis_table) cluster" where
  "two_processes = \<lparr>cl_server = [], cl_time = 0, cl_procs = lock_world\<rparr>"

lemmas lock_world_defs = lock_world_def redis_obj_init_def in_proc_def two_processes_def redis_up_def lock_free_def
  next_token_def lock_key_def cache_key_def map_redis_def table_get_def

lemma first_acquire:
  "acquire map_redis ''e1'' (Some 60) (in_proc two_processes 0)
     = (Inr (Some ''a''), (in_proc two_processes 0)\<lparr>server := [(''lock:svc:e1'', ''a'', 60000000)], w_uuid_next := 1\<rparr>)"
  by (subst acquire_calm) (simp_all add: lock_world_defs us_per_second_def)

lemma two_processes_namespace: "same_namespace ''svc'' two_processes"
  by (simp add: same_namespace_def two_processes_def lock_world_def redis_obj_init_def)

theorem lock_excludes_until_expiry_witness:
  "result (acquire map_redis ''e1'' (Some 30)) (in_proc (fold (lock_step map_redis)
     [Elapse 1000000, Release 1 ''e1'' ''b'', Acquire 2 ''e2'' 5, Elapse 58999999]
     (out_proc 0 (snd (acquire map_redis ''e1'' (Some 60) (in_proc two_processes 0))) two_processes)) 1)
   \<noteq> Inr (Some ''aa'')"
  by (rule lock_excludes_until_expiry [OF map_redis.redis_server_axioms two_processes_namespace _ _ refl,
        where token = "''a''" and ttl = 60 and p = 0 and key = "''e1''"])
    (simp_all add: first_acquire, simp_all add: lock_step_def out_proc_def two_processes_def us_per_second_def)

theorem lock_frees_itself_witness:
  "\<exists>token2. result (acquire map_redis ''e1'' (Some 30)) (in_proc ((out_proc 0 (snd (acquire map_redis ''e1'' (Some 60)
     (in_proc two_processes 0))) two_processes)\<lparr>cl_time := 60000000\<rparr>) 1) = Inr (Some token2)"
  by (rule lock_frees_itself [OF map_redis.redis_server_axioms two_processes_namespace _ _ refl,
        where token = "''a''" and ttl = 60 and p = 0 and key = "''e1''"])
    (simp_all add: first_acquire, simp_all add: out_proc_def lock_world_defs us_per_second_def)

theorem guarded_result_is_reused_witness:
  "guard map_redis ''e1'' (Some 60) True None 0 0 Return_contended (\<lambda>_. ret None)
     ((after (guard map_redis ''e1'' (Some 60) True None 0 0 Return_contended (\<lambda>_. ret (Some ''done''))) (lock_world 0))\<lparr>mono_us := 299999999\<rparr>)
   = bnd (ret (None :: string option)) (\<lambda>_. ret ())
     ((after (guard map_redis ''e1'' (Some 60) True None 0 0 Return_contended (\<lambda>_. ret (Some ''done''))) (lock_world 0))\<lparr>mono_us := 299999999\<rparr>)"
  by (rule guarded_result_is_reused [OF map_redis.redis_server_axioms _ _ _ _ _ _ _ _ _ _ _ _ refl,
        where s = "lock_world 0" and v = "''done''" and x = "''done''" and body = "\<lambda>_. ret (Some ''done'')"
          and ?body2.0 = "\<lambda>_. ret None" and ?s2.0 = "locked map_redis ''e1'' 60 (lock_world 0)", THEN conjunct2])
    (simp_all add: lock_world_defs cache_view_def locked_def us_per_second_def)

end
