(* ===== verification/WalletRepo.thy ===== *)
theory WalletRepo
  imports LockTheorems Systems
begin

section \<open>Wallets: data and repository\<close>

text \<open>
  \<open>microservices/wallet_service\<close>: wallets, their transactions and the durable claims on events. The
  repository catches its exceptions and answers \<open>None\<close> or an empty list; only the claims raise.

  Amounts are decimals with eight places, columns are \<open>DOUBLE PRECISION\<close>: \<open>dbl\<close> is what a decimal
  becomes on its way through \<open>float\<close>, the column and \<open>Decimal(str(..))\<close>. Nothing is assumed about it
  here; where it matters, properties assume that it is exact up to fifteen digits.
\<close>

subsection \<open>Data\<close>

datatype wallet_type = FIAT | CRYPTO | HYBRID

datatype wallet_tx_type = DEPOSIT | WITHDRAW | CONSUME | REFUND | TRANSFER | REWARD | FEE | BLOCKCHAIN_IN | BLOCKCHAIN_OUT

datatype blockchain_network = ETHEREUM | BINANCE_SMART_CHAIN | POLYGON | ISA_CHAIN | TESTNET

record wallet =
  wb_wallet_id :: string
  wb_user_id :: string
  wb_balance :: rat
  wb_locked :: rat
  wb_currency :: string
  wb_type :: wallet_type
  wb_address :: "string option"
  wb_network :: "blockchain_network option"
  wb_active :: bool
  wb_created_at :: int
  wb_updated_at :: int

record wallet_tx =
  wt_id :: string
  wt_wallet_id :: string
  wt_user_id :: string
  wt_type :: wallet_tx_type
  wt_amount :: rat
  wt_before :: rat
  wt_after :: rat
  wt_reference_id :: "string option"
  wt_usage :: bool
  wt_to_wallet_id :: "string option"
  wt_meta :: meta
  wt_created_at :: int

datatype claim_status = Processing | Completed | Failed

record event_claim =
  ec_key :: string
  ec_source :: string
  ec_status :: claim_status
  ec_processor :: string
  ec_claimed_at :: int
  ec_completed_at :: "int option"
  ec_updated_at :: int

record wallet_create =
  wc_user_id :: string
  wc_type :: wallet_type
  wc_initial_balance :: rat
  wc_currency :: string
  wc_network :: "blockchain_network option"
  wc_address :: "string option"

record tx_create =
  tn_wallet_id :: string
  tn_user_id :: string
  tn_type :: wallet_tx_type
  tn_amount :: rat
  tn_reference_id :: "string option"
  tn_usage_record_id :: "int option"
  tn_to_wallet_id :: "string option"
  tn_meta :: meta

record tx_filter =
  tf_wallet_id :: "string option"
  tf_user_id :: "string option"
  tf_type :: "wallet_tx_type option"
  tf_start :: "int option"
  tf_end :: "int option"
  tf_min :: "rat option"
  tf_max :: "rat option"
  tf_limit :: int
  tf_offset :: int

datatype wallet_event =
    WalletCreated string string wallet_type string rat
  | WalletDeposited string string string rat rat rat "string option"
  | WalletWithdrawn string string string rat rat rat "string option"
  | WalletConsumed string string string rat rat rat "int option"
  | WalletRefunded string string string string rat rat rat string
  | WalletTransferred string string string string rat string string rat rat
  | TokensDeducted string string string rat rat rat
  | TokensInsufficient string string rat rat

text \<open>
  The state of one process of the service around its tables. \<open>parse_int\<close> is pydantic's reading of a
  string as an integer, \<open>set_order\<close> the order in which Python lists a set. \<open>processed\<close> is the module's
  \<open>_processed_event_ids\<close>; \<open>h_claimed\<close> and \<open>h_completed\<close> are the local variables of the running handler
  that its \<open>except\<close> clause reads.
\<close>

record 'r wal_state = "(wallet_event, 'r) redis_world" +
  wallets :: "wallet list"
  wal_txs :: "wallet_tx list"
  claims :: "event_claim list"
  dbl :: "rat \<Rightarrow> rat"
  parse_int :: "string \<Rightarrow> int option"
  set_order :: "string list \<Rightarrow> string list"
  processed :: "string list"
  h_claimed :: bool
  h_completed :: bool

type_synonym ('r, 'a) wal_io = "('r wal_state, lock_err exn, 'a) io"

subsection \<open>Validation\<close>

definition decimals8 :: "rat \<Rightarrow> bool" where
  "decimals8 x \<longleftrightarrow> snd (quotient_of (x * 10 ^ 8)) = 1"

definition valid_amount :: "rat \<Rightarrow> bool" where
  "valid_amount x \<longleftrightarrow> 0 < x \<and> decimals8 x"

definition wb_available :: "wallet \<Rightarrow> rat" where
  "wb_available w = wb_balance w - wb_locked w"

definition valid_wallet :: "wallet \<Rightarrow> bool" where
  "valid_wallet w \<longleftrightarrow> 0 \<le> wb_balance w \<and> decimals8 (wb_balance w) \<and> 0 \<le> wb_locked w \<and> decimals8 (wb_locked w)
     \<and> 0 \<le> wb_available w \<and> decimals8 (wb_available w)"

definition valid_tx :: "wallet_tx \<Rightarrow> bool" where
  "valid_tx t \<longleftrightarrow> decimals8 (wt_amount t) \<and> decimals8 (wt_before t) \<and> decimals8 (wt_after t)"

definition wallet_fits :: "wallet \<Rightarrow> bool" where
  "wallet_fits w \<longleftrightarrow> length (wb_wallet_id w) \<le> 255 \<and> length (wb_user_id w) \<le> 255 \<and> 0 \<le> wb_balance w \<and> 0 \<le> wb_locked w
     \<and> length (wb_currency w) \<le> 10 \<and> opt_fits 255 (wb_address w)"

definition tx_fits :: "wallet_tx \<Rightarrow> bool" where
  "tx_fits t \<longleftrightarrow> length (wt_id t) \<le> 255 \<and> length (wt_wallet_id t) \<le> 255 \<and> length (wt_user_id t) \<le> 255
     \<and> opt_fits 255 (wt_reference_id t) \<and> opt_fits 255 (wt_to_wallet_id t)"

definition claim_fits :: "event_claim \<Rightarrow> bool" where
  "claim_fits c \<longleftrightarrow> length (ec_key c) \<le> 255 \<and> length (ec_source c) \<le> 100 \<and> length (ec_processor c) \<le> 255"

subsection \<open>Claims on events\<close>

definition claim_event_processing :: "string \<Rightarrow> string \<Rightarrow> string \<Rightarrow> int \<Rightarrow> ('r, bool) wal_io" where
  "claim_event_processing key src processor stale_after =
     bnd (gets now_us) (\<lambda>now.
       let stale_cutoff = now - max stale_after 1 * us_per_second;
           row = \<lparr>ec_key = key, ec_source = src, ec_status = Processing, ec_processor = processor, ec_claimed_at = now,
                  ec_completed_at = None, ec_updated_at = now\<rparr>;
           again = (\<lambda>c. c\<lparr>ec_source := src, ec_status := Processing, ec_processor := processor, ec_claimed_at := now,
                  ec_completed_at := None, ec_updated_at := now\<rparr>);
           reclaimable = (\<lambda>c. ec_key c = key \<and> ec_status c \<noteq> Completed
                  \<and> (ec_status c = Failed \<or> ec_updated_at c < stale_cutoff)) in
       bnd (external DbError) (\<lambda>ok.
       bnd (if \<not> ok then ret False
            else (\<lambda>s. if \<not> claim_fits row then (Inl DbError, s)
                      else if key \<in> ec_key ` set (claims s) then (Inr False, s)
                      else (Inr True, s\<lparr>claims := claims s @ [row]\<rparr>))) (\<lambda>inserted.
       if inserted then ret True
       else bnd (external DbError) (\<lambda>ok. if \<not> ok then ret False else
         (\<lambda>s. if \<exists>c \<in> set (claims s). reclaimable c
              then (if claim_fits row then (Inr True, s\<lparr>claims := update_where reclaimable again (claims s)\<rparr>) else (Inl DbError, s))
              else (Inr False, s))))))"

definition mark_event_processing_completed :: "string \<Rightarrow> string \<Rightarrow> ('r, unit) wal_io" where
  "mark_event_processing_completed key src =
     bnd (gets now_us) (\<lambda>now. bnd (external DbError) (\<lambda>ok. if \<not> ok then ret () else
       (\<lambda>s. if 100 < length src then (Inl DbError, s) else
            (Inr (), s\<lparr>claims := update_where (\<lambda>c. ec_key c = key)
              (\<lambda>c. c\<lparr>ec_source := src, ec_status := Completed, ec_completed_at := Some now, ec_updated_at := now\<rparr>) (claims s)\<rparr>))))"

definition mark_event_processing_failed :: "string \<Rightarrow> string \<Rightarrow> ('r, unit) wal_io" where
  "mark_event_processing_failed key src =
     bnd (gets now_us) (\<lambda>now. bnd (external DbError) (\<lambda>ok. if \<not> ok then ret () else
       (\<lambda>s. if 100 < length src then (Inl DbError, s) else
            (Inr (), s\<lparr>claims := update_where (\<lambda>c. ec_key c = key \<and> ec_status c \<noteq> Completed)
              (\<lambda>c. c\<lparr>ec_source := src, ec_status := Failed, ec_updated_at := now\<rparr>) (claims s)\<rparr>))))"

lemmas claim_defs = claim_event_processing_def mark_event_processing_completed_def mark_event_processing_failed_def

subsection \<open>Wallets\<close>

text \<open>Reading a row builds the model, which validates it.\<close>

definition to_wallet :: "wallet \<Rightarrow> ('r, wallet) wal_io" where
  "to_wallet w = (if valid_wallet w then ret w else throw ValidationError)"

definition repo_get_wallet :: "string \<Rightarrow> ('r, wallet option) wal_io" where
  "repo_get_wallet wid =
     catch (bnd (external DbError) (\<lambda>ok. if \<not> ok then ret None else
              bnd (gets (\<lambda>s. row_by wb_wallet_id wid (wallets s))) (\<lambda>row.
              case row of None \<Rightarrow> ret None | Some w \<Rightarrow> bnd (to_wallet w) (\<lambda>w. ret (Some w)))))
           (\<lambda>_. ret None)"

definition user_wallet_rows :: "string \<Rightarrow> wallet_type option \<Rightarrow> wallet list \<Rightarrow> wallet list" where
  "user_wallet_rows uid wtype ws =
     order_desc wb_created_at (filter (\<lambda>w. wb_user_id w = uid
       \<and> (case wtype of None \<Rightarrow> True | Some t \<Rightarrow> wb_type w = t)) ws)"

definition repo_get_user_wallets :: "string \<Rightarrow> wallet_type option \<Rightarrow> ('r, wallet list) wal_io" where
  "repo_get_user_wallets uid wtype =
     catch (bnd (external DbError) (\<lambda>ok. if \<not> ok then ret [] else
              bnd (gets (\<lambda>s. user_wallet_rows uid wtype (wallets s))) (\<lambda>rows.
              for_each rows (\<lambda>w acc. bnd (to_wallet w) (\<lambda>w. ret (acc @ [w]))) [])))
           (\<lambda>_. ret [])"

definition get_primary_wallet :: "string \<Rightarrow> ('r, wallet option) wal_io" where
  "get_primary_wallet uid = bnd (repo_get_user_wallets uid (Some FIAT)) (\<lambda>ws. ret (first_row ws))"

text \<open>The \<open>UPDATE\<close> writes an absolute value; the column has \<open>CHECK (balance >= 0)\<close>.\<close>

definition write_balance :: "string \<Rightarrow> rat \<Rightarrow> ('r, rat option) wal_io" where
  "write_balance wid new =
     bnd (gets now_us) (\<lambda>now. bnd (external DbError) (\<lambda>ok. if \<not> ok then ret None else
       (\<lambda>s. if wid \<notin> wb_wallet_id ` set (wallets s) then (Inr None, s)
            else if dbl s new < 0 then (Inl DbError, s)
            else (Inr (Some new), s\<lparr>wallets := update_where (\<lambda>w. wb_wallet_id w = wid)
                   (\<lambda>w. w\<lparr>wb_balance := dbl s new, wb_updated_at := now\<rparr>) (wallets s)\<rparr>))))"

definition update_balance :: "string \<Rightarrow> rat \<Rightarrow> string \<Rightarrow> ('r, rat option) wal_io" where
  "update_balance wid amount operation =
     catch (bnd (repo_get_wallet wid) (\<lambda>w. case w of
              None \<Rightarrow> ret None
            | Some w \<Rightarrow>
                if operation = ''add'' then write_balance wid (wb_balance w + amount)
                else if operation = ''subtract'' then
                  (if wb_balance w < amount then ret None else write_balance wid (wb_balance w - amount))
                else throw (ValueError ''Invalid operation'')))
           (\<lambda>_. ret None)"

subsection \<open>Transactions\<close>

definition insert_tx :: "wallet_tx \<Rightarrow> ('r, bool) wal_io" where
  "insert_tx t = bnd (external DbError) (\<lambda>ok. if \<not> ok then ret False else
     (\<lambda>s. if \<not> tx_fits t \<or> wt_id t \<in> wt_id ` set (wal_txs s) then (Inl DbError, s)
          else (Inr True, s\<lparr>wal_txs := wal_txs s @ [t]\<rparr>)))"

definition to_tx :: "wallet_tx \<Rightarrow> ('r, wallet_tx) wal_io" where
  "to_tx t = (if valid_tx t then ret t else throw ValidationError)"

definition create_tx :: "tx_create \<Rightarrow> rat \<Rightarrow> rat \<Rightarrow> ('r, wallet_tx option) wal_io" where
  "create_tx d before after_balance =
     catch (bnd (fresh_hex 36) (\<lambda>tid. bnd (gets now_us) (\<lambda>now. bnd (gets dbl) (\<lambda>f.
            bnd (insert_tx \<lparr>wt_id = tid, wt_wallet_id = tn_wallet_id d, wt_user_id = tn_user_id d, wt_type = tn_type d,
                   wt_amount = f (tn_amount d), wt_before = f before, wt_after = f after_balance,
                   wt_reference_id = tn_reference_id d,
                   wt_usage = (case tn_usage_record_id d of None \<Rightarrow> False | Some n \<Rightarrow> n \<noteq> 0),
                   wt_to_wallet_id = tn_to_wallet_id d, wt_meta = tn_meta d, wt_created_at = now\<rparr>) (\<lambda>inserted.
            if \<not> inserted then ret None else
            bnd (external DbError) (\<lambda>ok. if \<not> ok then ret None else
            bnd (gets (\<lambda>s. row_by wt_id tid (wal_txs s))) (\<lambda>row.
            case row of None \<Rightarrow> ret None | Some t \<Rightarrow> bnd (to_tx t) (\<lambda>t. ret (Some t)))))))))
          (\<lambda>_. ret None)"

text \<open>\<open>TransactionCreate(...)\<close> validates its amount before \<open>_create_transaction\<close> runs.\<close>

definition record_tx :: "tx_create \<Rightarrow> rat \<Rightarrow> rat \<Rightarrow> ('r, wallet_tx option) wal_io" where
  "record_tx d before after_balance =
     (if valid_amount (tn_amount d) then create_tx d before after_balance else throw ValidationError)"

definition tx_data :: "string \<Rightarrow> string \<Rightarrow> wallet_tx_type \<Rightarrow> rat \<Rightarrow> meta \<Rightarrow> tx_create" where
  "tx_data wid uid ty amount meta =
     \<lparr>tn_wallet_id = wid, tn_user_id = uid, tn_type = ty, tn_amount = amount, tn_reference_id = None,
      tn_usage_record_id = None, tn_to_wallet_id = None, tn_meta = meta\<rparr>"

text \<open>\<open>dict.update\<close>: later entries win.\<close>

definition meta_update :: "meta \<Rightarrow> meta \<Rightarrow> meta" where
  "meta_update m new = filter (\<lambda>(k, _). k \<notin> fst ` set new) m @ new"

subsection \<open>Operations\<close>

definition new_wallet :: "string \<Rightarrow> int \<Rightarrow> rat \<Rightarrow> wallet_create \<Rightarrow> wallet" where
  "new_wallet wid now balance d =
     \<lparr>wb_wallet_id = wid, wb_user_id = wc_user_id d, wb_balance = balance, wb_locked = 0, wb_currency = wc_currency d,
      wb_type = wc_type d, wb_address = wc_address d, wb_network = wc_network d, wb_active = True,
      wb_created_at = now, wb_updated_at = now\<rparr>"

definition repo_create_wallet :: "wallet_create \<Rightarrow> ('r, wallet option) wal_io" where
  "repo_create_wallet d =
     catch (bnd (fresh_hex 36) (\<lambda>wid. bnd (gets now_us) (\<lambda>now. bnd (gets dbl) (\<lambda>f.
            let row = new_wallet wid now (f (wc_initial_balance d)) d in
            bnd (external DbError) (\<lambda>ok.
            bnd (if \<not> ok then ret False else
                 (\<lambda>s. if \<not> wallet_fits row \<or> wid \<in> wb_wallet_id ` set (wallets s) then (Inl DbError, s)
                      else (Inr True, s\<lparr>wallets := wallets s @ [row]\<rparr>))) (\<lambda>inserted.
            bnd (if inserted \<and> 0 < wc_initial_balance d
                 then bnd (record_tx (tx_data wid (wc_user_id d) DEPOSIT (wc_initial_balance d) [(''initial_funding'', Some ''True'')])
                        0 (wc_initial_balance d)) (\<lambda>_. ret ())
                 else ret ()) (\<lambda>_.
            repo_get_wallet wid)))))))
          (\<lambda>_. ret None)"

definition repo_deposit :: "string \<Rightarrow> rat \<Rightarrow> string option \<Rightarrow> meta \<Rightarrow> ('r, wallet_tx option) wal_io" where
  "repo_deposit wid amount ref meta =
     catch (bnd (repo_get_wallet wid) (\<lambda>w. case w of None \<Rightarrow> ret None | Some w \<Rightarrow>
            bnd (update_balance wid amount ''add'') (\<lambda>nb. case nb of None \<Rightarrow> ret None | Some new \<Rightarrow>
            record_tx ((tx_data wid (wb_user_id w) DEPOSIT amount meta)\<lparr>tn_reference_id := ref\<rparr>) (wb_balance w) new)))
          (\<lambda>_. ret None)"

definition repo_withdraw :: "string \<Rightarrow> rat \<Rightarrow> string option \<Rightarrow> meta \<Rightarrow> ('r, wallet_tx option) wal_io" where
  "repo_withdraw wid amount destination meta =
     catch (bnd (repo_get_wallet wid) (\<lambda>w. case w of None \<Rightarrow> ret None | Some w \<Rightarrow>
            if wb_available w < amount then ret None else
            bnd (update_balance wid amount ''subtract'') (\<lambda>nb. case nb of None \<Rightarrow> ret None | Some new \<Rightarrow>
            record_tx (tx_data wid (wb_user_id w) WITHDRAW amount
              (if truthy_str destination then meta_update meta [(''destination'', destination)] else meta)) (wb_balance w) new)))
          (\<lambda>_. ret None)"

definition repo_consume :: "string \<Rightarrow> rat \<Rightarrow> int option \<Rightarrow> meta \<Rightarrow> ('r, wallet_tx option) wal_io" where
  "repo_consume wid amount usage_record_id meta =
     catch (bnd (repo_get_wallet wid) (\<lambda>w. case w of None \<Rightarrow> ret None | Some w \<Rightarrow>
            if wb_available w < amount then ret None else
            bnd (update_balance wid amount ''subtract'') (\<lambda>nb. case nb of None \<Rightarrow> ret None | Some new \<Rightarrow>
            record_tx ((tx_data wid (wb_user_id w) CONSUME amount meta)\<lparr>tn_usage_record_id := usage_record_id\<rparr>) (wb_balance w) new)))
          (\<lambda>_. ret None)"

definition transfer_meta :: "meta \<Rightarrow> string \<Rightarrow> meta" where
  "transfer_meta meta other = meta_update meta [(''transfer_type'', Some ''internal''), (''counterparty_wallet_id'', Some other)]"

definition repo_transfer :: "string \<Rightarrow> string \<Rightarrow> rat \<Rightarrow> meta \<Rightarrow> ('r, (wallet_tx \<times> wallet_tx) option) wal_io" where
  "repo_transfer src dst amount meta =
     catch (bnd (repo_get_wallet src) (\<lambda>fw. bnd (repo_get_wallet dst) (\<lambda>tw.
            case fw of None \<Rightarrow> ret None | Some fw \<Rightarrow> case tw of None \<Rightarrow> ret None | Some tw \<Rightarrow>
            if wb_balance fw < amount then ret None else
            bnd (update_balance src amount ''subtract'') (\<lambda>fb. case fb of None \<Rightarrow> ret None | Some from_new \<Rightarrow>
            bnd (update_balance dst amount ''add'') (\<lambda>tb. case tb of
              None \<Rightarrow> bnd (update_balance src amount ''add'') (\<lambda>_. ret None)
            | Some to_new \<Rightarrow>
                bnd (record_tx ((tx_data src (wb_user_id fw) TRANSFER amount (transfer_meta meta dst))
                  \<lparr>tn_to_wallet_id := Some dst\<rparr>) (wb_balance fw) from_new) (\<lambda>from_tx.
                bnd (record_tx (tx_data dst (wb_user_id tw) TRANSFER amount (transfer_meta meta src)) (wb_balance tw) to_new) (\<lambda>to_tx.
                ret (case from_tx of None \<Rightarrow> None | Some a \<Rightarrow> case to_tx of None \<Rightarrow> None | Some b \<Rightarrow> Some (a, b))))))))) 
          (\<lambda>_. ret None)"

definition repo_refund :: "string \<Rightarrow> rat option \<Rightarrow> string \<Rightarrow> meta \<Rightarrow> ('r, wallet_tx option) wal_io" where
  "repo_refund original_id amount reason meta =
     catch (bnd (external DbError) (\<lambda>ok. if \<not> ok then ret None else
            bnd (gets (\<lambda>s. row_by wt_id original_id (wal_txs s))) (\<lambda>original. case original of None \<Rightarrow> ret None | Some t \<Rightarrow>
            let refund_amount = (if truthy_num amount then the amount else wt_amount t) in
            if wt_amount t < refund_amount then ret None else
            bnd (repo_get_wallet (wt_wallet_id t)) (\<lambda>w. case w of None \<Rightarrow> ret None | Some w \<Rightarrow>
            bnd (update_balance (wb_wallet_id w) refund_amount ''add'') (\<lambda>nb. case nb of None \<Rightarrow> ret None | Some new \<Rightarrow>
            record_tx ((tx_data (wb_wallet_id w) (wb_user_id w) REFUND refund_amount
                (meta_update meta [(''original_transaction_id'', Some original_id), (''refund_reason'', Some reason)]))
              \<lparr>tn_reference_id := Some original_id\<rparr>) (wb_balance w) new)))))
          (\<lambda>_. ret None)"

subsection \<open>Queries\<close>

definition tx_matches :: "(rat \<Rightarrow> rat) \<Rightarrow> tx_filter \<Rightarrow> wallet_tx \<Rightarrow> bool" where
  "tx_matches f q t \<longleftrightarrow>
     (truthy_str (tf_wallet_id q) \<longrightarrow> Some (wt_wallet_id t) = tf_wallet_id q)
     \<and> (truthy_str (tf_user_id q) \<longrightarrow> Some (wt_user_id t) = tf_user_id q)
     \<and> opt_all (tf_type q) (\<lambda>ty. wt_type t = ty)
     \<and> opt_all (tf_start q) (\<lambda>d. d \<le> wt_created_at t) \<and> opt_all (tf_end q) (\<lambda>d. wt_created_at t \<le> d)
     \<and> (truthy_num (tf_min q) \<longrightarrow> f (the (tf_min q)) \<le> wt_amount t)
     \<and> (truthy_num (tf_max q) \<longrightarrow> wt_amount t \<le> f (the (tf_max q)))"

definition repo_get_transactions :: "tx_filter \<Rightarrow> ('r, wallet_tx list) wal_io" where
  "repo_get_transactions q =
     catch (bnd (external DbError) (\<lambda>ok. if \<not> ok then ret []
            else if tf_limit q < 0 \<or> tf_offset q < 0 then throw DbError
            else bnd (gets (\<lambda>s. take (nat (tf_limit q)) (drop (nat (tf_offset q))
                   (order_desc wt_created_at (filter (tx_matches (dbl s) q) (wal_txs s)))))) (\<lambda>rows.
              for_each rows (\<lambda>t acc. bnd (to_tx t) (\<lambda>t. ret (acc @ [t]))) [])))
          (\<lambda>_. ret [])"

record wallet_stats =
  ws_wallet_id :: string
  ws_user_id :: string
  ws_balance :: rat
  ws_deposits :: rat
  ws_withdrawals :: rat
  ws_consumed :: rat
  ws_refunded :: rat
  ws_transfers_in :: rat
  ws_transfers_out :: rat
  ws_count :: nat

definition incoming :: "wallet_tx \<Rightarrow> bool" where
  "incoming t \<longleftrightarrow> map_of (wt_meta t) ''direction'' = Some (Some ''in'')"

definition total_where :: "(wallet_tx \<Rightarrow> bool) \<Rightarrow> wallet_tx list \<Rightarrow> rat" where
  "total_where P ts = (\<Sum>t\<leftarrow>filter P ts. wt_amount t)"

definition repo_get_statistics :: "string \<Rightarrow> int option \<Rightarrow> int option \<Rightarrow> ('r, wallet_stats option) wal_io" where
  "repo_get_statistics wid start_date end_date =
     catch (bnd (repo_get_wallet wid) (\<lambda>w. case w of None \<Rightarrow> ret None | Some w \<Rightarrow>
            bnd (repo_get_transactions \<lparr>tf_wallet_id = Some wid, tf_user_id = None, tf_type = None, tf_start = start_date,
                   tf_end = end_date, tf_min = None, tf_max = None, tf_limit = 100, tf_offset = 0\<rparr>) (\<lambda>ts.
            ret (Some \<lparr>ws_wallet_id = wid, ws_user_id = wb_user_id w, ws_balance = wb_balance w,
              ws_deposits = total_where (\<lambda>t. wt_type t = DEPOSIT) ts,
              ws_withdrawals = total_where (\<lambda>t. wt_type t = WITHDRAW) ts,
              ws_consumed = total_where (\<lambda>t. wt_type t = CONSUME) ts,
              ws_refunded = total_where (\<lambda>t. wt_type t = REFUND) ts,
              ws_transfers_in = total_where (\<lambda>t. wt_type t = TRANSFER \<and> incoming t) ts,
              ws_transfers_out = total_where (\<lambda>t. wt_type t = TRANSFER \<and> \<not> incoming t) ts,
              ws_count = length ts\<rparr>))))
          (\<lambda>_. ret None)"

lemmas wal_repo_defs = to_wallet_def repo_get_wallet_def repo_get_user_wallets_def get_primary_wallet_def write_balance_def
  update_balance_def insert_tx_def to_tx_def create_tx_def record_tx_def repo_create_wallet_def repo_deposit_def
  repo_withdraw_def repo_consume_def repo_transfer_def repo_refund_def repo_get_transactions_def repo_get_statistics_def

end
