(* ===== verification/WalletService.thy ===== *)
theory WalletService
  imports WalletRepo
begin

section \<open>Wallets: service and event handlers\<close>

text \<open>
  \<open>wallet_service.py\<close> and \<open>events/handlers.py\<close>. Every method of the service turns failures into a
  response. The six handlers share one skeleton, \<open>idempotent\<close>: the lock and result cache of
  \<open>guard\<close>, then the durable claim, then the work.
\<close>

subsection \<open>The service\<close>

text \<open>
  \<open>WalletResponse\<close>; of its \<open>data\<close> the transaction is kept, which is what the handler of
  \<open>billing.calculated\<close> reads: a failure has no data.
\<close>

record wallet_response =
  wr_success :: bool
  wr_wallet_id :: "string option"
  wr_balance :: "rat option"
  wr_transaction_id :: "string option"
  wr_tx :: "wallet_tx option"

definition wal_failure :: wallet_response where
  "wal_failure = \<lparr>wr_success = False, wr_wallet_id = None, wr_balance = None, wr_transaction_id = None, wr_tx = None\<rparr>"

definition tx_response :: "string \<Rightarrow> wallet_tx \<Rightarrow> wallet_response" where
  "tx_response wid t = \<lparr>wr_success = True, wr_wallet_id = Some wid, wr_balance = Some (wt_after t),
     wr_transaction_id = Some (wt_id t), wr_tx = Some t\<rparr>"

text \<open>The common end of the operations: no transaction is a failure, an exception is a failure.\<close>

definition respond :: "('r, wallet_tx option) wal_io \<Rightarrow> (wallet_tx \<Rightarrow> wallet_event) \<Rightarrow> (wallet_tx \<Rightarrow> string) \<Rightarrow> ('r, wallet_response) wal_io" where
  "respond m event wid =
     catch (bnd m (\<lambda>t. case t of
              None \<Rightarrow> ret wal_failure
            | Some t \<Rightarrow> bnd (publish (Some (event t))) (\<lambda>_. ret (tx_response (wid t) t))))
           (\<lambda>_. ret wal_failure)"

definition create_wallet :: "wallet_create \<Rightarrow> ('r, wallet_response) wal_io" where
  "create_wallet d =
     catch (bnd (repo_get_user_wallets (wc_user_id d) (Some (wc_type d))) (\<lambda>existing.
            if existing \<noteq> [] \<and> wc_type d = FIAT
            then ret (wal_failure\<lparr>wr_wallet_id := Some (wb_wallet_id (hd existing)), wr_balance := Some (wb_balance (hd existing))\<rparr>)
            else bnd (repo_create_wallet d) (\<lambda>w. case w of
              None \<Rightarrow> ret wal_failure
            | Some w \<Rightarrow>
                bnd (publish (Some (WalletCreated (wb_wallet_id w) (wb_user_id w) (wb_type w) (wb_currency w) (wb_balance w)))) (\<lambda>_.
                ret \<lparr>wr_success = True, wr_wallet_id = Some (wb_wallet_id w), wr_balance = Some (wb_balance w),
                     wr_transaction_id = None, wr_tx = None\<rparr>))))
          (\<lambda>_. ret wal_failure)"

definition get_balance :: "string \<Rightarrow> ('r, wallet_response) wal_io" where
  "get_balance wid =
     catch (bnd (repo_get_wallet wid) (\<lambda>w. ret (case w of
              None \<Rightarrow> wal_failure
            | Some w \<Rightarrow> \<lparr>wr_success = True, wr_wallet_id = Some (wb_wallet_id w), wr_balance = Some (wb_available w),
                         wr_transaction_id = None, wr_tx = None\<rparr>)))
           (\<lambda>_. ret wal_failure)"

definition wal_deposit :: "string \<Rightarrow> rat \<Rightarrow> string option \<Rightarrow> meta \<Rightarrow> ('r, wallet_response) wal_io" where
  "wal_deposit wid amount ref meta =
     respond (repo_deposit wid amount ref meta)
       (\<lambda>t. WalletDeposited wid (wt_user_id t) (wt_id t) amount (wt_before t) (wt_after t) ref) (\<lambda>_. wid)"

definition wal_withdraw :: "string \<Rightarrow> rat \<Rightarrow> string option \<Rightarrow> meta \<Rightarrow> ('r, wallet_response) wal_io" where
  "wal_withdraw wid amount destination meta =
     respond (bnd (repo_get_wallet wid) (\<lambda>w. case w of None \<Rightarrow> ret None
              | Some _ \<Rightarrow> repo_withdraw wid amount destination meta))
       (\<lambda>t. WalletWithdrawn wid (wt_user_id t) (wt_id t) amount (wt_before t) (wt_after t) destination) (\<lambda>_. wid)"

definition wal_consume :: "string \<Rightarrow> rat \<Rightarrow> int option \<Rightarrow> meta \<Rightarrow> ('r, wallet_response) wal_io" where
  "wal_consume wid amount usage meta =
     (if wid = [] then ret wal_failure
      else respond (repo_consume wid amount usage meta)
        (\<lambda>t. WalletConsumed wid (wt_user_id t) (wt_id t) amount (wt_before t) (wt_after t) usage) (\<lambda>_. wid))"

definition wal_consume_by_user :: "string \<Rightarrow> rat \<Rightarrow> int option \<Rightarrow> meta \<Rightarrow> ('r, wallet_response) wal_io" where
  "wal_consume_by_user uid amount usage meta =
     catch (bnd (get_primary_wallet uid) (\<lambda>w. case w of
              Some w \<Rightarrow> wal_consume (wb_wallet_id w) amount usage meta
            | None \<Rightarrow>
                bnd (create_wallet \<lparr>wc_user_id = uid, wc_type = FIAT, wc_initial_balance = 0, wc_currency = ''CREDIT'',
                       wc_network = None, wc_address = None\<rparr>) (\<lambda>created.
                if \<not> wr_success created then ret created
                else bnd (get_primary_wallet uid) (\<lambda>w. case w of
                  None \<Rightarrow> throw AttributeError
                | Some w \<Rightarrow> wal_consume (wb_wallet_id w) amount usage meta))))
          (\<lambda>_. ret wal_failure)"

definition wal_refund :: "string \<Rightarrow> rat option \<Rightarrow> string \<Rightarrow> meta \<Rightarrow> ('r, wallet_response) wal_io" where
  "wal_refund original_id amount reason meta =
     respond (repo_refund original_id amount reason meta)
       (\<lambda>t. WalletRefunded (wt_wallet_id t) (wt_user_id t) (wt_id t) original_id (wt_amount t) (wt_before t) (wt_after t) reason)
       wt_wallet_id"

definition wal_transfer :: "string \<Rightarrow> string \<Rightarrow> rat \<Rightarrow> meta \<Rightarrow> ('r, wallet_response) wal_io" where
  "wal_transfer src dst amount meta =
     catch (bnd (repo_transfer src dst amount meta) (\<lambda>r. case r of
              None \<Rightarrow> ret wal_failure
            | Some (a, b) \<Rightarrow>
                bnd (publish (Some (WalletTransferred src dst (wt_user_id a) (wt_user_id b) amount (wt_id a) (wt_id b)
                       (wt_after a) (wt_after b)))) (\<lambda>_. ret (tx_response src a))))
          (\<lambda>_. ret wal_failure)"

text \<open>\<open>get_user_statistics\<close> adds up the statistics of the wallets it can read; on an exception nothing.\<close>

record user_stats =
  us_balance :: rat
  us_deposits :: rat
  us_withdrawals :: rat
  us_consumed :: rat
  us_refunded :: rat
  us_count :: nat
  us_wallets :: "string list"

definition wal_user_statistics :: "string \<Rightarrow> int option \<Rightarrow> int option \<Rightarrow> ('r, user_stats option) wal_io" where
  "wal_user_statistics uid start_date end_date =
     catch (bnd (repo_get_user_wallets uid None) (\<lambda>ws.
            bnd (for_each ws (\<lambda>w acc. bnd (repo_get_statistics (wb_wallet_id w) start_date end_date) (\<lambda>st. case st of
                   None \<Rightarrow> ret acc
                 | Some x \<Rightarrow> ret \<lparr>us_balance = us_balance acc + wb_balance w, us_deposits = us_deposits acc + ws_deposits x,
                     us_withdrawals = us_withdrawals acc + ws_withdrawals x, us_consumed = us_consumed acc + ws_consumed x,
                     us_refunded = us_refunded acc + ws_refunded x, us_count = us_count acc + ws_count x,
                     us_wallets = us_wallets acc @ [wb_wallet_id w]\<rparr>))
                   \<lparr>us_balance = 0, us_deposits = 0, us_withdrawals = 0, us_consumed = 0, us_refunded = 0, us_count = 0,
                    us_wallets = []\<rparr>) (\<lambda>acc. ret (Some acc))))
          (\<lambda>_. ret None)"

text \<open>\<open>sync_blockchain\<close> has no result yet: after the wallet is found it always fails.\<close>

definition sync_blockchain :: "string \<Rightarrow> ('r, wallet_response) wal_io" where
  "sync_blockchain wid = catch (bnd (repo_get_wallet wid) (\<lambda>_. ret wal_failure)) (\<lambda>_. ret wal_failure)"

lemmas wal_service_defs = respond_def create_wallet_def get_balance_def wal_deposit_def wal_withdraw_def wal_consume_def
  wal_consume_by_user_def wal_refund_def wal_transfer_def wal_user_statistics_def sync_blockchain_def

subsection \<open>The skeleton of the handlers\<close>

type_synonym outcome_result = "(string \<times> string) list"

type_synonym 'r wal_redis = "('r, outcome_result) redis_api"

definition is_event_processed :: "string \<Rightarrow> 'r wal_state \<Rightarrow> bool" where
  "is_event_processed eid s \<longleftrightarrow> eid \<in> set (processed s)"

definition mark_event_processed :: "string \<Rightarrow> ('r, unit) wal_io" where
  "mark_event_processed eid = modify (\<lambda>s.
     let p = (if eid \<in> set (processed s) then processed s else processed s @ [eid]) in
     s\<lparr>processed := (if 10000 < length p then drop 5000 (set_order s p) else p)\<rparr>)"

text \<open>Claims fail closed; marking a claim never raises.\<close>

definition processor_id :: string where
  "processor_id = ''wallet_service:local:1''"

definition claim_wallet_event :: "string \<Rightarrow> string \<Rightarrow> ('r, bool) wal_io" where
  "claim_wallet_event key src = catch (claim_event_processing key src processor_id 300) (\<lambda>_. ret False)"

definition mark_completed :: "string \<Rightarrow> string \<Rightarrow> ('r, unit) wal_io" where
  "mark_completed key src =
     bnd (catch (mark_event_processing_completed key src) (\<lambda>_. ret ())) (\<lambda>_. modify (\<lambda>s. s\<lparr>h_completed := True\<rparr>))"

definition mark_failed :: "string \<Rightarrow> string \<Rightarrow> ('r, unit) wal_io" where
  "mark_failed key src = catch (mark_event_processing_failed key src) (\<lambda>_. ret ())"

definition claimed_work ::
  "string \<Rightarrow> string \<Rightarrow> bool \<Rightarrow> ('r, outcome_result option) wal_io \<Rightarrow> outcome_result lock_outcome \<Rightarrow> ('r, outcome_result option) wal_io" where
  "claimed_work claim_key eid remembers work outcome =
     (case outcome of
        Cached _ \<Rightarrow> bnd (if remembers then mark_event_processed eid else ret ()) (\<lambda>_. ret None)
      | Contended \<Rightarrow> ret None
      | Held token \<Rightarrow>
          if token = [] then ret None else
          bnd (claim_wallet_event claim_key eid) (\<lambda>claimed.
          bnd (modify (\<lambda>s. s\<lparr>h_claimed := claimed\<rparr>)) (\<lambda>_.
          if \<not> claimed then ret (Some [(''status'', ''skipped''), (''reason'', ''already_claimed'')])
          else work)))"

definition idempotent ::
  "'r wal_redis \<Rightarrow> string \<Rightarrow> string \<Rightarrow> bool \<Rightarrow> string \<Rightarrow> ('r, outcome_result option) wal_io \<Rightarrow> ('r, unit) wal_io" where
  "idempotent api lock_label claim_label remembers eid work =
     (let claim_key = ''wallet:'' @ claim_label @ '':'' @ eid in
      bnd (gets (is_event_processed eid)) (\<lambda>seen.
      if remembers \<and> seen then ret () else
      bnd (modify (\<lambda>s. s\<lparr>h_claimed := False, h_completed := False\<rparr>)) (\<lambda>_.
      catch (guard api (lock_label @ '':'' @ eid) (Some 120) True None 500000 50000 Return_contended
               (claimed_work claim_key eid remembers work))
            (\<lambda>e. if e = Custom DistributedLockError \<or> e = Custom LockContended then ret ()
                 else bnd (gets (\<lambda>s. h_claimed s \<and> \<not> h_completed s)) (\<lambda>unfinished.
                   if unfinished then mark_failed claim_key eid else ret ())))))"

subsection \<open>The handlers\<close>

record payment_event =
  pe_id :: string
  pe_type :: string
  pe_timestamp :: string
  pe_user_id :: "string option"
  pe_amount :: amount_field
  pe_currency :: "string option"
  pe_payment_id :: "string option"
  pe_refund_id :: "string option"
  pe_reason :: "string option"

record subscription_event =
  se_id :: string
  se_type :: string
  se_timestamp :: string
  se_user_id :: "string option"
  se_subscription_id :: "string option"
  se_plan_id :: "string option"
  se_monthly_credits :: amount_field

record user_event =
  ue_id :: string
  ue_user_id :: "string option"

record billing_data =
  bd_user_id :: string
  bd_billing_record_id :: string
  bd_tokens :: rat
  bd_is_free_tier :: bool
  bd_is_included :: bool

record billing_event =
  be_id :: string
  be_data :: "billing_data option"

definition to_decimal :: "amount_field \<Rightarrow> ('r, rat) wal_io" where
  "to_decimal a = (case a of Amount q \<Rightarrow> ret q | _ \<Rightarrow> throw (ValueError ''decimal''))"

text \<open>\<open>DepositRequest(...)\<close> validates its amount; the response of \<open>deposit\<close> is not looked at.\<close>

definition deposit_request :: "string \<Rightarrow> rat \<Rightarrow> string option \<Rightarrow> meta \<Rightarrow> ('r, unit) wal_io" where
  "deposit_request wid amount ref meta =
     (if valid_amount amount then bnd (wal_deposit wid amount ref meta) (\<lambda>_. ret ()) else throw ValidationError)"

definition skip_no_wallet :: "string \<Rightarrow> string \<Rightarrow> string \<Rightarrow> ('r, outcome_result option) wal_io" where
  "skip_no_wallet key eid why =
     bnd (mark_event_processed eid) (\<lambda>_. bnd (mark_completed key eid) (\<lambda>_.
     ret (Some [(''status'', ''skipped''), (''reason'', why)])))"

definition missing_fields :: "string \<Rightarrow> string \<Rightarrow> ('r, outcome_result option) wal_io" where
  "missing_fields key eid = bnd (mark_failed key eid) (\<lambda>_. ret None)"

definition finish :: "string \<Rightarrow> string \<Rightarrow> string \<Rightarrow> ('r, outcome_result option) wal_io" where
  "finish key eid status =
     bnd (mark_event_processed eid) (\<lambda>_. bnd (mark_completed key eid) (\<lambda>_. ret (Some [(''status'', status)])))"

definition credit_payment :: "string \<Rightarrow> payment_event \<Rightarrow> string option \<Rightarrow> meta \<Rightarrow> string \<Rightarrow> ('r, outcome_result option) wal_io" where
  "credit_payment key ev ref extra status =
     (if \<not> truthy_str (pe_user_id ev) \<or> \<not> truthy_amount (pe_amount ev) then missing_fields key (pe_id ev)
      else bnd (get_primary_wallet (the (pe_user_id ev))) (\<lambda>w. case w of
        None \<Rightarrow> skip_no_wallet key (pe_id ev) ''no_wallet''
      | Some w \<Rightarrow>
          bnd (to_decimal (pe_amount ev)) (\<lambda>amount.
          bnd (deposit_request (wb_wallet_id w) amount ref
                 ([(''event_id'', Some (pe_id ev)), (''event_type'', Some (pe_type ev)), (''payment_id'', pe_payment_id ev),
                   (''timestamp'', Some (pe_timestamp ev)),
                   (''currency'', Some (case pe_currency ev of None \<Rightarrow> ''USD'' | Some c \<Rightarrow> c))] @ extra)) (\<lambda>_.
          finish key (pe_id ev) status))))"

definition wal_handle_payment_completed :: "'r wal_redis \<Rightarrow> payment_event \<Rightarrow> ('r, unit) wal_io" where
  "wal_handle_payment_completed api ev =
     idempotent api ''payment_completed'' ''payment_completed'' True (pe_id ev)
       (credit_payment (''wallet:payment_completed:'' @ pe_id ev) ev (pe_payment_id ev) [] ''deposited'')"

definition wal_handle_payment_refunded :: "'r wal_redis \<Rightarrow> payment_event \<Rightarrow> ('r, unit) wal_io" where
  "wal_handle_payment_refunded api ev =
     idempotent api ''payment_refunded'' ''payment_refunded'' True (pe_id ev)
       (credit_payment (''wallet:payment_refunded:'' @ pe_id ev) ev (or_str (pe_refund_id ev) (pe_payment_id ev))
          [(''refund_id'', pe_refund_id ev),
           (''reason'', Some (case pe_reason ev of None \<Rightarrow> ''Payment refund'' | Some r \<Rightarrow> r)), (''is_refund'', Some ''True'')]
          ''refunded'')"

definition allocate_subscription :: "string \<Rightarrow> subscription_event \<Rightarrow> ('r, outcome_result option) wal_io" where
  "allocate_subscription key ev =
     (if \<not> truthy_str (se_user_id ev) \<or> \<not> truthy_str (se_subscription_id ev) then missing_fields key (se_id ev)
      else bnd (get_primary_wallet (the (se_user_id ev))) (\<lambda>w. case w of
        None \<Rightarrow> skip_no_wallet key (se_id ev) ''no_wallet''
      | Some w \<Rightarrow>
          if \<not> truthy_amount (se_monthly_credits ev) then finish key (se_id ev) ''no_credits''
          else bnd (to_decimal (se_monthly_credits ev)) (\<lambda>credits.
            if credits \<le> 0 then finish key (se_id ev) ''no_credits''
            else bnd (deposit_request (wb_wallet_id w) credits (se_subscription_id ev)
                 [(''event_id'', Some (se_id ev)), (''event_type'', Some (se_type ev)),
                  (''subscription_id'', se_subscription_id ev), (''plan_id'', se_plan_id ev),
                  (''timestamp'', Some (se_timestamp ev)), (''is_subscription_credit'', Some ''True'')]) (\<lambda>_.
               finish key (se_id ev) ''allocated''))))"

definition wal_handle_subscription_created :: "'r wal_redis \<Rightarrow> subscription_event \<Rightarrow> ('r, unit) wal_io" where
  "wal_handle_subscription_created api ev =
     idempotent api ''subscription_created'' ''subscription_created'' True (se_id ev)
       (allocate_subscription (''wallet:subscription_created:'' @ se_id ev) ev)"

text \<open>
  \<open>handle_user_deleted\<close> calls \<open>deactivate_wallet\<close>, \<open>update_wallet_metadata\<close> and
  \<open>anonymize_user_transactions\<close> of the repository, which has none of them.
\<close>

definition missing_method :: "('r, unit) wal_io" where
  "missing_method = throw AttributeError"

definition freeze_wallets :: "string \<Rightarrow> user_event \<Rightarrow> ('r, outcome_result option) wal_io" where
  "freeze_wallets key ev =
     (if \<not> truthy_str (ue_user_id ev) then missing_fields key (ue_id ev)
      else bnd (repo_get_user_wallets (the (ue_user_id ev)) None) (\<lambda>ws.
        if ws = [] then skip_no_wallet key (ue_id ev) ''no_wallets''
        else bnd (for_each ws (\<lambda>w n. catch (bnd missing_method (\<lambda>_. ret (Suc n))) (\<lambda>_. ret n)) 0) (\<lambda>frozen_count :: nat.
             bnd (catch missing_method (\<lambda>_. ret ())) (\<lambda>_.
             finish key (ue_id ev) ''frozen''))))"

definition wal_handle_user_deleted :: "'r wal_redis \<Rightarrow> user_event \<Rightarrow> ('r, unit) wal_io" where
  "wal_handle_user_deleted api ev =
     idempotent api ''user_deleted_wallet'' ''user_deleted'' True (ue_id ev)
       (freeze_wallets (''wallet:user_deleted:'' @ ue_id ev) ev)"

definition open_wallet :: "string \<Rightarrow> user_event \<Rightarrow> ('r, outcome_result option) wal_io" where
  "open_wallet key ev =
     (if \<not> truthy_str (ue_user_id ev) then missing_fields key (ue_id ev)
      else bnd (create_wallet \<lparr>wc_user_id = the (ue_user_id ev), wc_type = FIAT, wc_initial_balance = 0, wc_currency = ''USD'',
                  wc_network = None, wc_address = None\<rparr>) (\<lambda>_.
        finish key (ue_id ev) ''created''))"

definition wal_handle_user_created :: "'r wal_redis \<Rightarrow> user_event \<Rightarrow> ('r, unit) wal_io" where
  "wal_handle_user_created api ev =
     idempotent api ''user_created'' ''user_created'' True (ue_id ev)
       (open_wallet (''wallet:user_created:'' @ ue_id ev) ev)"

text \<open>
  \<open>_process_billing_calculated\<close>. \<open>ConsumeRequest\<close> wants the record id as an integer; the \<open>data\<close> of a
  failure is \<open>None\<close>, on which \<open>.get\<close> raises.
\<close>

definition deduct_tokens :: "billing_data \<Rightarrow> ('r, string) wal_io" where
  "deduct_tokens d =
     bnd (gets (\<lambda>s. parse_int s (bd_billing_record_id d))) (\<lambda>usage.
       if usage = None \<or> \<not> valid_amount (bd_tokens d) then throw ValidationError
       else bnd (wal_consume_by_user (bd_user_id d) (bd_tokens d) usage []) (\<lambda>r.
         if wr_success r
         then bnd (publish (case (wr_transaction_id r, wr_tx r) of
                (Some tid, Some t) \<Rightarrow> Some (TokensDeducted (bd_user_id d) (bd_billing_record_id d) tid (bd_tokens d) (wt_before t) (wt_after t))
              | _ \<Rightarrow> None)) (\<lambda>_. ret ''deducted'')
         else (case wr_tx r of
                None \<Rightarrow> throw AttributeError
              | Some t \<Rightarrow> bnd (publish (Some (TokensInsufficient (bd_user_id d) (bd_billing_record_id d) (bd_tokens d)
                    (case wr_balance r of None \<Rightarrow> 0 | Some b \<Rightarrow> b)))) (\<lambda>_. ret ''insufficient''))))"

definition process_billing :: "string \<Rightarrow> billing_event \<Rightarrow> ('r, outcome_result option) wal_io" where
  "process_billing key ev =
     (case be_data ev of
        None \<Rightarrow> throw ValidationError
      | Some d \<Rightarrow>
          bnd (if bd_is_free_tier d then ret ''free_tier''
               else if bd_is_included d then ret ''subscription_included''
               else deduct_tokens d) (\<lambda>status.
          bnd (mark_completed key (be_id ev)) (\<lambda>_. ret (Some [(''status'', status)]))))"

definition wal_handle_billing_calculated :: "'r wal_redis \<Rightarrow> billing_event \<Rightarrow> ('r, unit) wal_io" where
  "wal_handle_billing_calculated api ev =
     idempotent api ''billing_calculated'' ''billing_calculated'' False (be_id ev)
       (process_billing (''wallet:billing_calculated:'' @ be_id ev) ev)"

subsection \<open>The process\<close>

text \<open>
  One operation: a validated request, an event, the passing of time (the clock of the database and
  the monotonic clock), or a restart, which forgets the processed events.
\<close>

datatype wal_op =
    Create_wallet wallet_create
  | Deposit string rat "string option" meta
  | Withdraw string rat "string option" meta
  | Consume string rat "int option" meta
  | Consume_by_user string rat "int option" meta
  | Refund string "rat option" string meta
  | Transfer string string rat meta
  | Wallet_queries string tx_filter
  | On_wal_payment_completed payment_event
  | On_wal_payment_refunded payment_event
  | On_wal_subscription_created subscription_event
  | On_wal_user_created user_event
  | On_wal_user_deleted user_event
  | On_wal_billing_calculated billing_event
  | Wal_clock datetime int
  | Wal_restart

definition if_valid :: "bool \<Rightarrow> ('r, 'a) wal_io \<Rightarrow> 'r wal_state \<Rightarrow> 'r wal_state" where
  "if_valid b m s = (if b then after m s else s)"

definition wal_step :: "'r wal_redis \<Rightarrow> wal_op \<Rightarrow> 'r wal_state \<Rightarrow> 'r wal_state" where
  "wal_step api op = (case op of
       Create_wallet d \<Rightarrow> if_valid (0 \<le> wc_initial_balance d \<and> decimals8 (wc_initial_balance d)) (create_wallet d)
     | Deposit wid a ref meta \<Rightarrow> if_valid (valid_amount a) (wal_deposit wid a ref meta)
     | Withdraw wid a dest meta \<Rightarrow> if_valid (valid_amount a) (wal_withdraw wid a dest meta)
     | Consume wid a usage meta \<Rightarrow> if_valid (valid_amount a) (wal_consume wid a usage meta)
     | Consume_by_user uid a usage meta \<Rightarrow> if_valid (valid_amount a) (wal_consume_by_user uid a usage meta)
     | Refund tid a reason meta \<Rightarrow> if_valid (opt_all a valid_amount) (wal_refund tid a reason meta)
     | Transfer src dst a meta \<Rightarrow> if_valid (valid_amount a) (wal_transfer src dst a meta)
     | Wallet_queries wid q \<Rightarrow> after (bnd (get_balance wid) (\<lambda>_. bnd (repo_get_transactions q) (\<lambda>_.
          bnd (repo_get_statistics wid None None) (\<lambda>_. sync_blockchain wid))))
     | On_wal_payment_completed ev \<Rightarrow> after (wal_handle_payment_completed api ev)
     | On_wal_payment_refunded ev \<Rightarrow> after (wal_handle_payment_refunded api ev)
     | On_wal_subscription_created ev \<Rightarrow> after (wal_handle_subscription_created api ev)
     | On_wal_user_created ev \<Rightarrow> after (wal_handle_user_created api ev)
     | On_wal_user_deleted ev \<Rightarrow> after (wal_handle_user_deleted api ev)
     | On_wal_billing_calculated ev \<Rightarrow> after (wal_handle_billing_calculated api ev)
     | Wal_clock d t \<Rightarrow> (\<lambda>s. s\<lparr>w_now := d, mono_us := t\<rparr>)
     | Wal_restart \<Rightarrow> (\<lambda>s. s\<lparr>processed := []\<rparr>))"

end
