(* ===== verification/WalletWrites.thy ===== *)
theory WalletWrites
  imports WalletService
begin

section \<open>Wallets: every operation is a sequence of atomic writes\<close>

text \<open>
  What the service can do to its tables is a handful of SQL statements. \<open>wal_write\<close> lists them, and
  every operation, whatever fails inside it, amounts to a sequence of them. An invariant of the tables
  is therefore shown once per statement (locale \<open>table_invariant\<close>).
\<close>

subsection \<open>Statements\<close>

type_synonym wal_tables = "wallet list \<times> wallet_tx list \<times> event_claim list"

definition meta_spares :: "string set \<Rightarrow> meta \<Rightarrow> bool" where
  "meta_spares bad m \<longleftrightarrow> (\<forall>e \<in> bad. (''event_id'', Some e) \<notin> set m)"

inductive wal_write :: "(rat \<Rightarrow> rat) \<Rightarrow> string set \<Rightarrow> wal_tables \<Rightarrow> wal_tables \<Rightarrow> bool" for F bad where
  write_balance: "wid \<in> wb_wallet_id ` set ws \<Longrightarrow> 0 \<le> F new \<Longrightarrow>
    wal_write F bad (ws, ts, cs)
      (update_where (\<lambda>w. wb_wallet_id w = wid) (\<lambda>w. w\<lparr>wb_balance := F new, wb_updated_at := now\<rparr>) ws, ts, cs)"
| write_wallet: "wallet_fits w \<Longrightarrow> wb_wallet_id w \<notin> wb_wallet_id ` set ws \<Longrightarrow>
    wal_write F bad (ws, ts, cs) (ws @ [w], ts, cs)"
| write_tx: "tx_fits t \<Longrightarrow> wt_id t \<notin> wt_id ` set ts \<Longrightarrow> wt_amount t = F a \<Longrightarrow> valid_amount a \<Longrightarrow> meta_spares bad (wt_meta t) \<Longrightarrow>
    wal_write F bad (ws, ts, cs) (ws, ts @ [t], cs)"
| write_claim: "claim_fits c \<Longrightarrow> ec_key c \<notin> ec_key ` set cs \<Longrightarrow> ec_status c = Processing \<Longrightarrow>
    wal_write F bad (ws, ts, cs) (ws, ts, cs @ [c])"
| write_reclaim: "length src \<le> 100 \<Longrightarrow> length pid \<le> 255 \<Longrightarrow>
    wal_write F bad (ws, ts, cs) (ws, ts, update_where (\<lambda>c. ec_key c = key \<and> ec_status c \<noteq> Completed
        \<and> (ec_status c = Failed \<or> ec_updated_at c < cutoff))
      (\<lambda>c. c\<lparr>ec_source := src, ec_status := Processing, ec_processor := pid, ec_claimed_at := now,
             ec_completed_at := None, ec_updated_at := now\<rparr>) cs)"
| write_completed: "length src \<le> 100 \<Longrightarrow>
    wal_write F bad (ws, ts, cs) (ws, ts, update_where (\<lambda>c. ec_key c = key)
      (\<lambda>c. c\<lparr>ec_source := src, ec_status := Completed, ec_completed_at := Some now, ec_updated_at := now\<rparr>) cs)"
| write_failed: "length src \<le> 100 \<Longrightarrow>
    wal_write F bad (ws, ts, cs) (ws, ts, update_where (\<lambda>c. ec_key c = key \<and> ec_status c \<noteq> Completed)
      (\<lambda>c. c\<lparr>ec_source := src, ec_status := Failed, ec_updated_at := now\<rparr>) cs)"

definition tables :: "'r wal_state \<Rightarrow> wal_tables" where
  "tables s = (wallets s, wal_txs s, claims s)"

definition reach :: "(rat \<Rightarrow> rat) \<Rightarrow> string set \<Rightarrow> wal_tables \<Rightarrow> 'r wal_state \<Rightarrow> bool" where
  "reach F bad T s \<longleftrightarrow> dbl s = F \<and> (wal_write F bad)\<^sup>*\<^sup>* T (tables s)"

lemma reach_refl: "reach (dbl s) bad (tables s) s"
  by (simp add: reach_def)

lemma reach_write: "reach F bad T s \<Longrightarrow> wal_write F bad (tables s) (tables s') \<Longrightarrow> dbl s' = dbl s \<Longrightarrow> reach F bad T s'"
  by (auto simp: reach_def)

locale table_invariant =
  fixes F :: "rat \<Rightarrow> rat" and bad :: "string set" and J :: "wal_tables \<Rightarrow> bool"
  assumes write_inv: "J T \<Longrightarrow> wal_write F bad T T' \<Longrightarrow> J T'"
begin

lemma reach_inv: "reach F bad T s \<Longrightarrow> J T \<Longrightarrow> J (tables s)"
proof -
  assume "reach F bad T s" and "J T"
  then have "(wal_write F bad)\<^sup>*\<^sup>* T (tables s)" and "J T" by (simp_all add: reach_def)
  then show "J (tables s)" by (induction rule: rtranclp_induct) (auto intro: write_inv)
qed

end

subsection \<open>What leaves the tables alone\<close>

text \<open>
  An invariant is \<open>world_free\<close> when it does not look at the world, at Redis or at the local variables
  of the handlers.
\<close>

definition world_free :: "('r wal_state \<Rightarrow> bool) \<Rightarrow> bool" where
  "world_free I \<longleftrightarrow> (\<forall>s. I s \<longrightarrow>
     (\<forall>sc. I (s\<lparr>w_script := sc\<rparr>)) \<and> (\<forall>k. I (s\<lparr>w_uuid_next := k\<rparr>)) \<and> (\<forall>r. I (s\<lparr>server := r\<rparr>))
   \<and> (\<forall>t. I (s\<lparr>mono_us := t\<rparr>)) \<and> (\<forall>ns. I (s\<lparr>neighbours := ns\<rparr>)) \<and> (\<forall>ob. I (s\<lparr>lock_obj := ob\<rparr>))
   \<and> (\<forall>ob. I (s\<lparr>cache_obj := ob\<rparr>)) \<and> (\<forall>p. I (s\<lparr>processed := p\<rparr>)) \<and> (\<forall>b. I (s\<lparr>h_claimed := b\<rparr>))
   \<and> (\<forall>b. I (s\<lparr>h_completed := b\<rparr>)) \<and> (\<forall>d. I (s\<lparr>w_now := d\<rparr>)))"

lemma tables_updates [simp]:
  "tables (s\<lparr>w_script := sc\<rparr>) = tables s" "tables (s\<lparr>w_uuid_next := k\<rparr>) = tables s" "tables (s\<lparr>server := r\<rparr>) = tables s"
  "tables (s\<lparr>mono_us := t\<rparr>) = tables s" "tables (s\<lparr>neighbours := ns\<rparr>) = tables s" "tables (s\<lparr>lock_obj := ob\<rparr>) = tables s"
  "tables (s\<lparr>cache_obj := ob\<rparr>) = tables s" "tables (s\<lparr>processed := p\<rparr>) = tables s" "tables (s\<lparr>h_claimed := b\<rparr>) = tables s"
  "tables (s\<lparr>h_completed := b\<rparr>) = tables s" "tables (s\<lparr>w_now := d\<rparr>) = tables s" "tables (s\<lparr>w_events := es\<rparr>) = tables s"
  by (simp_all add: tables_def)

lemma world_free_reach [simp]: "world_free (reach F bad T)"
  by (simp add: world_free_def reach_def)

lemma world_free_tables [simp]: "world_free (\<lambda>s. P (tables s))"
  by (simp add: world_free_def)

lemma world_free_local:
  assumes "world_free I"
  shows "preserves I (external e)" "preserves I (fresh_hex n)" "preserves I (on_lock f)" "preserves I (on_cache f)"
    "preserves I (mark_event_processed eid)"
    "preserves I (\<lambda>s. case cmd (mono_us s) (server s) of (a, r) \<Rightarrow> (Inr a, s\<lparr>server := r\<rparr>))"
  using assms by (auto simp: world_free_def preserves_external preserves_fresh_hex on_lock_def on_cache_def
      mark_event_processed_def Let_def preserves_def external_def fresh_hex_def split: prod.split list.splits outcome.splits)

lemma world_free_calls:
  assumes "world_free I"
  shows "preserves I (redis_call w)" "preserves I (redis_command falsy cmd)" "preserves I ping_server"
  unfolding redis_call_def redis_command_def ping_server_def
  by (intro preserve_rules world_free_local assms)+

lemma world_free_redis:
  assumes "world_free I"
  shows "preserves I (cache_get api key)" "preserves I (cache_set api key v ttl)"
    "preserves I (acquire api key ttl)" "preserves I (release_quietly api key token)"
  unfolding cache_get_def cache_set_def cache_ensure_client_def cache_ready_def cache_attempt_recovery_def
    cache_mark_unhealthy_def acquire_def release_quietly_def release_def lock_ensure_client_def lock_ensure_healthy_def
    lock_attempt_recovery_def lock_cmd_def lock_mark_unhealthy_def lock_unavailable_def Let_def
  by (intro preserve_rules world_free_calls world_free_local assms)+

lemma world_free_pause: "world_free I \<Longrightarrow> I s \<Longrightarrow> I (pause poll s)"
  unfolding pause_def world_free_def by (auto split: list.split)

lemma world_free_wait:
  assumes "world_free I"
  shows "I s \<Longrightarrow> I (snd (wait_for_lock api key ttl wc poll dl s))"
proof (induction api key ttl wc poll dl s rule: wait_for_lock.induct)
  case (1 api key ttl wc poll dl s)
  obtain x s1 where a: "acquire api key ttl s = (x, s1)" by fastforce
  with preservesD [OF world_free_redis(3) [OF assms] "1.prems", of api key ttl] have s1: "I s1" by simp
  obtain y s2 where c: "(if wc then cache_get api key s1 else (Inr None, s1)) = (y, s2)" by fastforce
  with s1 preservesD [OF world_free_redis(1) [OF assms] s1, of api key] have s2: "I s2" by (cases wc) auto
  show ?case
  proof (cases "x = Inr None \<and> y = Inr None \<and> \<not> dl \<le> mono_us s2")
    case True
    have "I (snd (wait_for_lock api key ttl wc poll dl (pause poll s2)))"
      by (rule "1.IH" [OF a [symmetric] _ _ c [symmetric]]) (use True s2 assms in \<open>simp_all add: world_free_pause\<close>)
    with a c True show ?thesis by (subst wait_for_lock.simps) simp
  next
    case False
    with a c s1 s2 show ?thesis
      by (subst wait_for_lock.simps) (auto split: sum.splits option.splits)
  qed
qed

lemma world_free_guard:
  assumes "world_free I" and "\<And>oc. preserves I (body oc)"
  shows "preserves I (guard api key ttl wc rttl w poll c body)"
proof -
  have wait: "preserves I (\<lambda>s. wait_for_lock api key ttl wc poll (mono_us s + max w 0) s)"
    by (intro preservesI world_free_wait [OF assms(1)])
  have cases1: "preserves I (case x of Got t \<Rightarrow> f t | Late v \<Rightarrow> g v | Gave_up \<Rightarrow> h)"
    if "\<And>t. preserves I (f t)" "\<And>v. preserves I (g v)" "preserves I h" for x f g h
    using that by (cases x) auto
  have cases2: "preserves I (case c of Raise_contended \<Rightarrow> f | Return_contended \<Rightarrow> g)"
    if "preserves I f" "preserves I g" for f g using that by (cases c) auto
  show ?thesis unfolding guard_def Let_def
    by (intro preserve_rules world_free_redis assms wait cases1 cases2)
qed

text \<open>The skeleton of the handlers: the work runs only after a won claim.\<close>

lemma preserves_set_flags:
  "world_free I \<Longrightarrow> preserves I (modify (\<lambda>s. s\<lparr>h_claimed := b\<rparr>))"
  "world_free I \<Longrightarrow> preserves I (modify (\<lambda>s. s\<lparr>h_completed := b\<rparr>))"
  "world_free I \<Longrightarrow> preserves I (modify (\<lambda>s. s\<lparr>h_claimed := b, h_completed := b'\<rparr>))"
  by (auto intro!: preserves_modify simp: world_free_def)

lemma world_free_claimed_work:
  assumes "world_free I" and "preserves I (claim_wallet_event ck eid)"
    and "(\<forall>s. I s \<longrightarrow> result (claim_wallet_event ck eid) s \<noteq> Inr True) \<or> preserves I work"
  shows "preserves I (claimed_work ck eid remembers work oc)"
proof -
  have "preserves I (bnd (claim_wallet_event ck eid) (\<lambda>claimed.
      bnd (modify (\<lambda>s. s\<lparr>h_claimed := claimed\<rparr>)) (\<lambda>_.
      if \<not> claimed then ret (Some [(''status'', ''skipped''), (''reason'', ''already_claimed'')]) else work)))"
    using assms(3)
  proof
    assume "preserves I work"
    then show ?thesis by (intro preserve_rules preserves_set_flags assms)
  next
    assume *: "\<forall>s. I s \<longrightarrow> result (claim_wallet_event ck eid) s \<noteq> Inr True"
    show ?thesis
    proof (rule preservesI)
      fix s assume "I s"
      then have "I (snd (claim_wallet_event ck eid s))" and "fst (claim_wallet_event ck eid s) \<noteq> Inr True"
        using preservesD [OF assms(2)] * by (simp_all add: result_def)
      then show "I (snd (bnd (claim_wallet_event ck eid) (\<lambda>claimed.
          bnd (modify (\<lambda>s. s\<lparr>h_claimed := claimed\<rparr>)) (\<lambda>_.
          if \<not> claimed then ret (Some [(''status'', ''skipped''), (''reason'', ''already_claimed'')]) else work)) s))"
        using assms(1) by (auto simp: bnd_apply world_free_def split: prod.split sum.split)
    qed
  qed
  then show ?thesis
    using world_free_local(5) [OF assms(1), of eid]
    by (cases oc) (simp_all add: claimed_work_def preserves_bnd preserves_ret preserves_if)
qed

lemma world_free_idempotent:
  assumes "world_free I" and "preserves I (claim_wallet_event (''wallet:'' @ cl @ '':'' @ eid) eid)"
    and "preserves I (mark_failed (''wallet:'' @ cl @ '':'' @ eid) eid)"
    and "(\<forall>s. I s \<longrightarrow> result (claim_wallet_event (''wallet:'' @ cl @ '':'' @ eid) eid) s \<noteq> Inr True) \<or> preserves I work"
  shows "preserves I (idempotent api ll cl remembers eid work)"
  unfolding idempotent_def Let_def
  by (intro preserve_rules preserves_set_flags world_free_guard world_free_claimed_work assms)

subsection \<open>The repository writes\<close>

lemma reach_world [simp]:
  "reach F bad T (s\<lparr>w_script := sc\<rparr>) = reach F bad T s" "reach F bad T (s\<lparr>w_uuid_next := k\<rparr>) = reach F bad T s"
  "reach F bad T (s\<lparr>w_events := es\<rparr>) = reach F bad T s" "reach F bad T (s\<lparr>w_now := d\<rparr>) = reach F bad T s"
  "reach F bad T (s\<lparr>mono_us := t\<rparr>) = reach F bad T s" "reach F bad T (s\<lparr>processed := p\<rparr>) = reach F bad T s"
  by (simp_all add: reach_def)

lemma reach_effects [preserve_rules]:
  "preserves (reach F bad T) (external e)" "preserves (reach F bad T) (fresh_hex n)"
  "preserves (reach F bad T) (publish ev)" "preserves (reach F bad T) (mark_event_processed eid)"
  by (simp_all add: preserves_external preserves_fresh_hex preserves_publish world_free_local)

lemma reach_flags [preserve_rules]:
  "preserves (reach F bad T) (modify (\<lambda>s. s\<lparr>h_completed := b\<rparr>))"
  by (simp add: preserves_set_flags)

lemma reach_dbl: "preserves (reach F bad T) (k F) \<Longrightarrow> preserves (reach F bad T) (bnd (gets dbl) k)"
  by (intro preserves_gets_bnd) (auto simp: preserves_def reach_def)

lemma reach_reads [preserve_rules]:
  "preserves (reach F bad T) (to_wallet w)" "preserves (reach F bad T) (to_tx t)"
  "preserves (reach F bad T) (repo_get_wallet wid)" "preserves (reach F bad T) (repo_get_user_wallets uid ty)"
  "preserves (reach F bad T) (get_primary_wallet uid)" "preserves (reach F bad T) (repo_get_transactions q)"
  "preserves (reach F bad T) (repo_get_statistics wid a b)"
  unfolding wal_repo_defs by (intro preserve_rules)+

lemma reach_write_balance [preserve_rules]: "preserves (reach F bad T) (write_balance wid new)"
  unfolding write_balance_def
proof (intro preserve_rules preservesI)
  fix now and ok and s :: "'a wal_state"
  assume "\<not> \<not> ok" and r: "reach F bad T s"
  then have F: "dbl s = F" by (simp add: reach_def)
  show "reach F bad T (snd (if wid \<notin> wb_wallet_id ` set (wallets s) then (Inr None, s)
            else if dbl s new < 0 then (Inl DbError, s)
            else (Inr (Some new), s\<lparr>wallets := update_where (\<lambda>w. wb_wallet_id w = wid)
                   (\<lambda>w. w\<lparr>wb_balance := dbl s new, wb_updated_at := now\<rparr>) (wallets s)\<rparr>)))"
    using r F write_balance [of wid "wallets s" F new bad "wal_txs s" "claims s" now]
    by (auto simp: tables_def intro: reach_write)
qed

lemma reach_update_balance [preserve_rules]: "preserves (reach F bad T) (update_balance wid a op)"
  unfolding update_balance_def by (intro preserve_rules)

lemma reach_insert_tx:
  assumes "wt_amount t = F a" and "valid_amount a" and "meta_spares bad (wt_meta t)"
  shows "preserves (reach F bad T) (insert_tx t)"
  unfolding insert_tx_def
proof (intro preserve_rules preservesI)
  fix ok and s :: "'a wal_state"
  assume "reach F bad T s"
  then show "reach F bad T (snd (if \<not> tx_fits t \<or> wt_id t \<in> wt_id ` set (wal_txs s) then (Inl DbError, s)
          else (Inr True, s\<lparr>wal_txs := wal_txs s @ [t]\<rparr>)))"
    using write_tx [of t "wal_txs s" F a bad "wallets s" "claims s"] assms
    by (auto simp: tables_def intro: reach_write)
qed

lemma reach_record_tx:
  assumes "meta_spares bad (tn_meta d)"
  shows "preserves (reach F bad T) (record_tx d before aft)"
proof (cases "valid_amount (tn_amount d)")
  case True
  then show ?thesis
    unfolding record_tx_def create_tx_def
    by (intro preserve_rules reach_dbl reach_insert_tx [where a = "tn_amount d"]) (use assms in simp_all)
qed (simp add: record_tx_def preserves_throw)

lemma reach_insert_wallet:
  "wid = wb_wallet_id row \<Longrightarrow> preserves (reach F bad T) (\<lambda>s. if \<not> wallet_fits row \<or> wid \<in> wb_wallet_id ` set (wallets s) then (Inl DbError, s)
                      else (Inr True, s\<lparr>wallets := wallets s @ [row]\<rparr>))"
  using write_wallet [of row _ F bad]
  by (auto simp: preserves_def tables_def intro: reach_write)

lemma meta_spares_simps [simp]:
  "meta_spares bad []"
  "meta_spares bad (x # m) \<longleftrightarrow> (\<forall>e \<in> bad. x \<noteq> (''event_id'', Some e)) \<and> meta_spares bad m"
  "meta_spares bad (m @ m') \<longleftrightarrow> meta_spares bad m \<and> meta_spares bad m'"
  by (auto simp: meta_spares_def)

lemma meta_spares_update: "meta_spares bad m \<Longrightarrow> meta_spares bad new \<Longrightarrow> meta_spares bad (meta_update m new)"
  by (auto simp: meta_spares_def meta_update_def)

lemma reach_create_wallet [preserve_rules]: "preserves (reach F bad T) (repo_create_wallet d)"
  unfolding repo_create_wallet_def Let_def
  by (intro preserve_rules reach_dbl reach_insert_wallet reach_record_tx) (simp_all add: new_wallet_def tx_data_def)

lemma reach_operations:
  assumes "meta_spares bad m"
  shows "preserves (reach F bad T) (repo_deposit wid a ref m)" "preserves (reach F bad T) (repo_withdraw wid a dest m)"
    "preserves (reach F bad T) (repo_consume wid a usage m)" "preserves (reach F bad T) (repo_transfer src dst a m)"
    "preserves (reach F bad T) (repo_refund tid amt reason m)"
  unfolding repo_deposit_def repo_withdraw_def repo_consume_def repo_transfer_def repo_refund_def transfer_meta_def Let_def
  by (intro preserve_rules reach_record_tx; simp add: tx_data_def assms meta_spares_update)+

lemma reach_claim [preserve_rules]: "preserves (reach F bad T) (claim_event_processing key src pid st)"
proof -
  have ins: "preserves (reach F bad T) (\<lambda>s. if \<not> claim_fits row then (Inl DbError, s)
      else if key \<in> ec_key ` set (claims s) then (Inr False, s) else (Inr True, s\<lparr>claims := claims s @ [row]\<rparr>))"
    if "ec_key row = key" "ec_status row = Processing" for row
    using that write_claim [of row _ F bad] by (auto simp: preserves_def tables_def intro: reach_write)
  have again: "preserves (reach F bad T) (\<lambda>s. if \<exists>c \<in> set (claims s). P c
      then (if claim_fits row then (Inr True, s\<lparr>claims := update_where P f (claims s)\<rparr>) else (Inl DbError, s)) else (Inr False, s))"
    if "P = (\<lambda>c. ec_key c = key \<and> ec_status c \<noteq> Completed \<and> (ec_status c = Failed \<or> ec_updated_at c < cutoff))"
      "f = (\<lambda>c. c\<lparr>ec_source := src, ec_status := Processing, ec_processor := pid, ec_claimed_at := now,
             ec_completed_at := None, ec_updated_at := now\<rparr>)" "ec_source row = src" "ec_processor row = pid" for row P f cutoff now
    using that write_reclaim [of src pid F bad] by (auto simp: preserves_def tables_def claim_fits_def intro: reach_write)
  show ?thesis unfolding claim_event_processing_def Let_def
    by (intro preserve_rules ins again refl) simp_all
qed

lemma reach_marks [preserve_rules]:
  "preserves (reach F bad T) (mark_event_processing_completed key src)"
  "preserves (reach F bad T) (mark_event_processing_failed key src)"
proof -
  have "preserves (reach F bad T) (\<lambda>s. if 100 < length src then (Inl DbError, s) else
            (Inr (), s\<lparr>claims := update_where (\<lambda>c. ec_key c = key)
              (\<lambda>c. c\<lparr>ec_source := src, ec_status := Completed, ec_completed_at := Some now, ec_updated_at := now\<rparr>) (claims s)\<rparr>))" for now
    using write_completed [of src F bad] by (auto simp: preserves_def tables_def intro: reach_write)
  then show "preserves (reach F bad T) (mark_event_processing_completed key src)"
    unfolding mark_event_processing_completed_def by (intro preserve_rules)
  have "preserves (reach F bad T) (\<lambda>s. if 100 < length src then (Inl DbError, s) else
            (Inr (), s\<lparr>claims := update_where (\<lambda>c. ec_key c = key \<and> ec_status c \<noteq> Completed)
              (\<lambda>c. c\<lparr>ec_source := src, ec_status := Failed, ec_updated_at := now\<rparr>) (claims s)\<rparr>))" for now
    using write_failed [of src F bad] by (auto simp: preserves_def tables_def intro: reach_write)
  then show "preserves (reach F bad T) (mark_event_processing_failed key src)"
    unfolding mark_event_processing_failed_def by (intro preserve_rules)
qed

lemma reach_claim_helpers [preserve_rules]:
  "preserves (reach F bad T) (claim_wallet_event key src)" "preserves (reach F bad T) (mark_completed key src)"
  "preserves (reach F bad T) (mark_failed key src)"
  unfolding claim_wallet_event_def mark_completed_def mark_failed_def by (intro preserve_rules)+

subsection \<open>The service writes\<close>

lemma reach_respond:
  "preserves (reach F bad T) m \<Longrightarrow> preserves (reach F bad T) (respond m ev wid)"
  unfolding respond_def by (intro preserve_rules)

lemma reach_service [preserve_rules]:
  "preserves (reach F bad T) (create_wallet d)" "preserves (reach F bad T) (get_balance wid)"
  "preserves (reach F bad T) (wal_user_statistics uid a b)" "preserves (reach F bad T) (sync_blockchain wid)"
  unfolding create_wallet_def get_balance_def wal_user_statistics_def sync_blockchain_def by (intro preserve_rules)+

lemma reach_service_ops:
  assumes "meta_spares bad m"
  shows "preserves (reach F bad T) (wal_deposit wid a ref m)" "preserves (reach F bad T) (wal_withdraw wid a dest m)"
    "preserves (reach F bad T) (wal_consume wid a usage m)" "preserves (reach F bad T) (wal_consume_by_user uid a usage m)"
    "preserves (reach F bad T) (wal_refund tid amt reason m)" "preserves (reach F bad T) (wal_transfer src dst a m)"
  unfolding wal_deposit_def wal_withdraw_def wal_consume_by_user_def wal_consume_def wal_refund_def wal_transfer_def
  by (intro preserve_rules reach_respond reach_operations assms)+

subsection \<open>The handlers write\<close>

lemma reach_work [preserve_rules]:
  "preserves (reach F bad T) (to_decimal a)" "preserves (reach F bad T) (skip_no_wallet key eid why)"
  "preserves (reach F bad T) (missing_fields key eid)" "preserves (reach F bad T) (finish key eid status)"
  "preserves (reach F bad T) (freeze_wallets key uev)" "preserves (reach F bad T) (open_wallet key uev)"
  "preserves (reach F bad T) (deduct_tokens bd)" "preserves (reach F bad T) (process_billing key bev)"
  unfolding skip_no_wallet_def missing_fields_def finish_def freeze_wallets_def open_wallet_def missing_method_def
    deduct_tokens_def process_billing_def
  by (cases a; simp add: to_decimal_def preserves_ret preserves_throw)
    (intro preserve_rules reach_service_ops meta_spares_simps(1))+

lemma reach_deposit_request:
  "meta_spares bad m \<Longrightarrow> preserves (reach F bad T) (deposit_request wid a ref m)"
  unfolding deposit_request_def by (intro preserve_rules reach_service_ops)

lemma reach_credit_payment:
  "pe_id ev \<notin> bad \<Longrightarrow> meta_spares bad extra \<Longrightarrow> preserves (reach F bad T) (credit_payment key ev ref extra status)"
  unfolding credit_payment_def by (intro preserve_rules reach_deposit_request) auto

lemma reach_allocate:
  "se_id ev \<notin> bad \<Longrightarrow> preserves (reach F bad T) (allocate_subscription key ev)"
  unfolding allocate_subscription_def by (intro preserve_rules reach_deposit_request) auto

text \<open>An operation spares a set of events when no transaction it writes carries one of them.\<close>

fun spares :: "string set \<Rightarrow> wal_op \<Rightarrow> bool" where
  "spares bad (Deposit wid a ref m) = meta_spares bad m"
| "spares bad (Withdraw wid a dest m) = meta_spares bad m"
| "spares bad (Consume wid a usage m) = meta_spares bad m"
| "spares bad (Consume_by_user uid a usage m) = meta_spares bad m"
| "spares bad (Refund tid a reason m) = meta_spares bad m"
| "spares bad (Transfer src dst a m) = meta_spares bad m"
| "spares bad (On_wal_payment_completed ev) = (pe_id ev \<notin> bad)"
| "spares bad (On_wal_payment_refunded ev) = (pe_id ev \<notin> bad)"
| "spares bad (On_wal_subscription_created ev) = (se_id ev \<notin> bad)"
| "spares bad _ = True"

lemma reach_idempotent:
  "preserves (reach F bad T) work \<Longrightarrow> preserves (reach F bad T) (idempotent api ll cl remembers eid work)"
  by (intro world_free_idempotent preserve_rules) simp_all

lemma reach_step:
  assumes "reach F bad T s" and "spares bad op"
  shows "reach F bad T (wal_step api op s)"
proof -
  note after_reach = preserves_after [of "reach F bad T", OF _ assms(1)]
  have valid: "reach F bad T (if_valid b m s)" if "preserves (reach F bad T) m" for b and m :: "(_, 'x) wal_io"
    using after_reach [OF that] assms(1) by (simp add: if_valid_def)
  show ?thesis
    using assms
    by (cases op)
      (auto simp: wal_step_def wal_handle_payment_completed_def wal_handle_payment_refunded_def
        wal_handle_subscription_created_def wal_handle_user_created_def wal_handle_user_deleted_def
        wal_handle_billing_calculated_def
        intro!: valid after_reach reach_service_ops reach_idempotent reach_credit_payment reach_allocate preserve_rules)
qed

lemma reach_run:
  "reach F bad T s \<Longrightarrow> list_all (spares bad) ops \<Longrightarrow> reach F bad T (fold (wal_step api) ops s)"
  by (induction ops arbitrary: s) (auto intro: reach_step)

lemma spares_empty: "spares {} op"
  by (cases op) (simp_all add: meta_spares_def)

lemma list_all_spares_empty: "list_all (spares {}) ops"
  by (simp add: list_all_iff spares_empty)


text \<open>Invariants of the tables hold in every history.\<close>

context table_invariant
begin

lemma run_inv:
  assumes "dbl s = F" and "J (tables s)" and "list_all (spares bad) ops"
  shows "J (tables (fold (wal_step api) ops s))"
  using reach_inv [OF reach_run [OF _ assms(3)] assms(2)] assms(1) reach_refl by metis

end

end
