(* ===== verification/WalletInvariants.thy ===== *)
theory WalletInvariants
  imports WalletWrites
begin

section \<open>Wallets: invariants of the tables and the claims on events\<close>

text \<open>
  Invariants of the tables under every history and every failure, each an interpretation of
  \<open>table_invariant\<close>; what the durable claims guarantee: one processor at a time, none after
  completion, and recovery of a claim that its processor abandoned.
\<close>

subsection \<open>Well-formed tables\<close>

definition tx_ok :: "(rat \<Rightarrow> rat) \<Rightarrow> wallet_tx \<Rightarrow> bool" where
  "tx_ok F t \<longleftrightarrow> tx_fits t \<and> (\<exists>a. wt_amount t = F a \<and> valid_amount a)"

fun well_formed :: "(rat \<Rightarrow> rat) \<Rightarrow> wal_tables \<Rightarrow> bool" where
  "well_formed F (ws, ts, cs) \<longleftrightarrow> unique_key wb_wallet_id ws \<and> (\<forall>w \<in> set ws. wallet_fits w)
     \<and> unique_key wt_id ts \<and> (\<forall>t \<in> set ts. tx_ok F t)
     \<and> unique_key ec_key cs \<and> (\<forall>c \<in> set cs. claim_fits c)"

lemma ball_update_where:
  "(\<forall>x \<in> set (update_where P f xs). Q x) \<longleftrightarrow> (\<forall>x \<in> set xs. if P x then Q (f x) else Q x)"
  by (auto simp: set_update_where)

lemma key_update_where: "(\<And>x. k (f x) = k x) \<Longrightarrow> k ` set (update_where P f xs) = k ` set xs"
  by (metis map_key_update_where set_map)

lemma well_formed_write: "well_formed F T \<Longrightarrow> wal_write F bad T T' \<Longrightarrow> well_formed F T'"
  by (cases rule: wal_write.cases)
    (auto simp: unique_key_append unique_key_update_where ball_update_where wallet_fits_def claim_fits_def tx_ok_def)

interpretation wal_types: table_invariant F bad "well_formed F" for F bad
  by unfold_locales (rule well_formed_write)

text \<open>
  C8. The tables stay well formed in every history, whatever fails: identifiers are unique, balances
  are not negative, strings fit their columns, and every transaction has a positive amount (up to the
  conversion to double precision).
\<close>
theorem wallet_tables_well_formed:
  assumes "well_formed (dbl s) (tables s)"
  shows "well_formed (dbl s) (tables (fold (wal_step api) ops s))"
  using wal_types.run_inv [OF refl assms list_all_spares_empty] .

subsection \<open>Completed claims are final\<close>

definition completed_in :: "string \<Rightarrow> event_claim list \<Rightarrow> bool" where
  "completed_in key cs \<longleftrightarrow> key \<in> ec_key ` set cs \<and> (\<forall>c \<in> set cs. ec_key c = key \<longrightarrow> ec_status c = Completed)"

lemma completed_in_write:
  "completed_in key (snd (snd T)) \<Longrightarrow> wal_write F bad T T' \<Longrightarrow> completed_in key (snd (snd T'))"
proof -
  assume c: "completed_in key (snd (snd T))" and w: "wal_write F bad T T'"
  from w c show ?thesis
    by (induction rule: wal_write.induct) (simp_all add: completed_in_def key_update_where ball_update_where image_iff, auto)
qed

interpretation wal_completed: table_invariant F bad "\<lambda>T. completed_in key (snd (snd T))" for F bad key
  by unfold_locales (rule completed_in_write)

lemma completed_claim_lost:
  assumes "completed_in key (claims s)"
  shows "result (claim_event_processing key src pid st) s \<noteq> Inr True"
proof -
  have *: "key \<in> ec_key ` set (claims s)"
    "\<not> (\<exists>c \<in> set (claims s). ec_key c = key \<and> ec_status c \<noteq> Completed \<and> P c)" for P
    using assms by (auto simp: completed_in_def)
  show ?thesis
    using * by (auto simp: result_def claim_event_processing_def Let_def bnd_apply external_def
        split: list.split outcome.split sum.split prod.split)
qed

lemma completed_never_claimed:
  "completed_in key (claims s) \<Longrightarrow> result (claim_wallet_event key src) s \<noteq> Inr True"
  using completed_claim_lost [of key s src processor_id 300]
  by (auto simp: claim_wallet_event_def result_def catch_apply split: prod.splits sum.splits)

text \<open>
  C9. A completed claim is final: whatever operations run and fail afterwards, no later attempt to
  claim the same event succeeds.
\<close>
theorem completed_claims_are_final:
  assumes "completed_in key (claims s)"
  shows "result (claim_wallet_event key src) (fold (wal_step api) ops s) \<noteq> Inr True"
proof -
  have "completed_in key (snd (snd (tables (fold (wal_step api) ops s))))"
    by (rule wal_completed.run_inv [OF refl _ list_all_spares_empty]) (use assms in \<open>simp add: tables_def\<close>)
  then show ?thesis by (intro completed_never_claimed) (simp add: tables_def)
qed

subsection \<open>One processor at a time\<close>

text \<open>
  The claims as several processes use them: each call is one statement of the database (two for a
  reclaim), so calls of different processes interleave call by call.
\<close>

datatype claim_op = Claim string string | Claim_completed string string | Claim_failed string string | Claim_clock datetime

definition claim_step :: "claim_op \<Rightarrow> 'r wal_state \<Rightarrow> 'r wal_state" where
  "claim_step op = (case op of
       Claim key src \<Rightarrow> after (claim_wallet_event key src)
     | Claim_completed key src \<Rightarrow> after (mark_completed key src)
     | Claim_failed key src \<Rightarrow> after (mark_failed key src)
     | Claim_clock d \<Rightarrow> (\<lambda>s. s\<lparr>w_now := d\<rparr>))"

text \<open>Nobody reports the event as failed, and the clock stays within the time a claim is respected.\<close>

fun in_lease :: "string \<Rightarrow> int \<Rightarrow> claim_op \<Rightarrow> bool" where
  "in_lease key limit (Claim_failed k src) = (k \<noteq> key)"
| "in_lease key limit (Claim_clock d) = (stamp d \<le> limit)"
| "in_lease key limit _ = True"

definition guarded_claim :: "string \<Rightarrow> int \<Rightarrow> 'r wal_state \<Rightarrow> bool" where
  "guarded_claim key since s \<longleftrightarrow> now_us s \<le> since + 300 * us_per_second
     \<and> key \<in> ec_key ` set (claims s)
     \<and> (\<forall>c \<in> set (claims s). ec_key c = key \<longrightarrow> ec_status c = Completed \<or> (ec_status c = Processing \<and> since \<le> ec_updated_at c))"

lemma now_us_updates [simp]:
  "now_us (s\<lparr>claims := cs\<rparr>) = now_us s" "now_us (s\<lparr>w_script := sc\<rparr>) = now_us s" "now_us (s\<lparr>h_completed := b\<rparr>) = now_us s"
  "now_us (s\<lparr>w_now := d\<rparr>) = stamp d"
  by (simp_all add: now_us_def)

lemma not_reclaimable:
  assumes "guarded_claim key since s" and "c \<in> set (claims s)" and "ec_key c = key"
  shows "\<not> (ec_status c \<noteq> Completed \<and> (ec_status c = Failed \<or> ec_updated_at c < now_us s - max 300 1 * us_per_second))"
  using assms by (auto simp: guarded_claim_def)

lemma claim_effect:
  fixes s :: "'r wal_state"
  assumes "claim_event_processing key src pid st s = (x, s')"
  shows "now_us s' = now_us s \<and> (claims s' = claims s
    \<or> (key \<notin> ec_key ` set (claims s) \<and> (\<exists>c. ec_key c = key \<and> ec_status c = Processing \<and> ec_updated_at c = now_us s \<and> claims s' = claims s @ [c]))
    \<or> (\<exists>f. claims s' = update_where (\<lambda>c. ec_key c = key \<and> ec_status c \<noteq> Completed
          \<and> (ec_status c = Failed \<or> ec_updated_at c < now_us s - max st 1 * us_per_second)) f (claims s)
        \<and> (\<forall>c. ec_key (f c) = ec_key c \<and> ec_status (f c) = Processing \<and> ec_updated_at (f c) = now_us s)))"
  using assms
  by (auto simp: claim_event_processing_def Let_def bnd_apply external_def
      split: list.splits outcome.splits sum.splits prod.splits if_splits)

lemma guarded_claim_same:
  "guarded_claim key since s \<Longrightarrow> now_us s' = now_us s \<Longrightarrow> claims s' = claims s \<Longrightarrow> guarded_claim key since s'"
  by (simp add: guarded_claim_def)

lemma completed_effect:
  fixes s :: "'r wal_state"
  assumes "mark_event_processing_completed k src s = (x, s')"
  shows "now_us s' = now_us s \<and> (claims s' = claims s \<or> claims s' = update_where (\<lambda>c. ec_key c = k)
    (\<lambda>c. c\<lparr>ec_source := src, ec_status := Completed, ec_completed_at := Some (now_us s), ec_updated_at := now_us s\<rparr>) (claims s))"
  using assms by (simp add: mark_event_processing_completed_def bnd_apply external_def
      split: list.splits outcome.splits if_splits) auto

lemma failed_effect:
  fixes s :: "'r wal_state"
  assumes "mark_event_processing_failed k src s = (x, s')"
  shows "now_us s' = now_us s \<and> (claims s' = claims s \<or> claims s' = update_where (\<lambda>c. ec_key c = k \<and> ec_status c \<noteq> Completed)
    (\<lambda>c. c\<lparr>ec_source := src, ec_status := Failed, ec_updated_at := now_us s\<rparr>) (claims s))"
  using assms by (simp add: mark_event_processing_failed_def bnd_apply external_def
      split: list.splits outcome.splits if_splits) auto

lemma guarded_claim_update:
  assumes "guarded_claim key since s" and "now_us s' = now_us s" and "claims s' = update_where P f (claims s)"
    and "\<And>c. ec_key (f c) = ec_key c" and "\<And>c. P c \<Longrightarrow> ec_key c = key \<Longrightarrow> ec_status (f c) = Completed"
  shows "guarded_claim key since s'"
  using assms by (simp add: guarded_claim_def key_update_where ball_update_where)

lemma guarded_claim_step:
  assumes "guarded_claim key since s" and "in_lease key (since + 300 * us_per_second) op"
  shows "guarded_claim key since (claim_step op s)"
proof (cases op)
  case (Claim k src)
  obtain x s' where run: "claim_event_processing k src processor_id 300 s = (x, s')" by fastforce
  then have after: "after (claim_wallet_event k src) s = s'"
    by (cases x) (simp_all add: claim_wallet_event_def after_def catch_apply)
  have "guarded_claim key since s'"
  proof (cases "k = key")
    case False
    note eff = claim_effect [OF run]
    then have now: "now_us s' = now_us s" by blast
    from eff show ?thesis
    proof (elim conjE disjE exE)
      assume "claims s' = claims s"
      with now show ?thesis by (rule guarded_claim_same [OF assms(1)])
    next
      fix c assume "ec_key c = k" and "claims s' = claims s @ [c]"
      with now assms(1) False show ?thesis by (auto simp: guarded_claim_def)
    next
      fix f assume upd: "claims s' = update_where (\<lambda>c. ec_key c = k \<and> ec_status c \<noteq> Completed
          \<and> (ec_status c = Failed \<or> ec_updated_at c < now_us s - max 300 1 * us_per_second)) f (claims s)"
        and "\<forall>c. ec_key (f c) = ec_key c \<and> ec_status (f c) = Processing \<and> ec_updated_at (f c) = now_us s"
      with False show ?thesis by (intro guarded_claim_update [OF assms(1) now upd]) auto
    qed
  next
    case True
    have "update_where (\<lambda>c. ec_key c = key \<and> ec_status c \<noteq> Completed
        \<and> (ec_status c = Failed \<or> ec_updated_at c < now_us s - max 300 1 * us_per_second)) f (claims s) = claims s" for f
      using not_reclaimable [OF assms(1)] by (intro update_where_none) blast
    with claim_effect [OF run] True assms(1) show ?thesis by (auto simp: guarded_claim_def)
  qed
  with after Claim show ?thesis by (simp add: claim_step_def)
next
  case (Claim_completed k src)
  obtain x s' where run: "mark_event_processing_completed k src s = (x, s')" by fastforce
  have "guarded_claim key since s'"
  proof (rule conjunct2 [OF completed_effect [OF run], THEN disjE])
    have now: "now_us s' = now_us s" using completed_effect [OF run] by blast
    { assume "claims s' = claims s"
      with now show ?thesis by (rule guarded_claim_same [OF assms(1)]) }
    { assume upd: "claims s' = update_where (\<lambda>c. ec_key c = k)
        (\<lambda>c. c\<lparr>ec_source := src, ec_status := Completed, ec_completed_at := Some (now_us s), ec_updated_at := now_us s\<rparr>) (claims s)"
      show ?thesis by (rule guarded_claim_update [OF assms(1) now upd]) simp_all }
  qed
  then have "guarded_claim key since (snd (mark_event_processing_completed k src s))" by (simp add: run)
  with Claim_completed show ?thesis
    by (auto simp: claim_step_def after_def mark_completed_def bnd_apply catch_apply guarded_claim_def
        split: prod.splits sum.splits)
next
  case (Claim_failed k src)
  with assms(2) have "k \<noteq> key" by simp
  obtain x s' where run: "mark_event_processing_failed k src s = (x, s')" by fastforce
  have "guarded_claim key since s'"
  proof (rule conjunct2 [OF failed_effect [OF run], THEN disjE])
    have now: "now_us s' = now_us s" using failed_effect [OF run] by blast
    { assume "claims s' = claims s"
      with now show ?thesis by (rule guarded_claim_same [OF assms(1)]) }
    { assume upd: "claims s' = update_where (\<lambda>c. ec_key c = k \<and> ec_status c \<noteq> Completed)
        (\<lambda>c. c\<lparr>ec_source := src, ec_status := Failed, ec_updated_at := now_us s\<rparr>) (claims s)"
      show ?thesis by (rule guarded_claim_update [OF assms(1) now upd]) (use \<open>k \<noteq> key\<close> in simp_all) }
  qed
  then have "guarded_claim key since (snd (mark_event_processing_failed k src s))" by (simp add: run)
  with Claim_failed show ?thesis
    by (auto simp: claim_step_def after_def mark_failed_def catch_apply split: prod.splits sum.splits)
next
  case (Claim_clock d)
  with assms show ?thesis by (simp add: claim_step_def guarded_claim_def)
qed

lemma claim_won:
  fixes s :: "'r wal_state"
  assumes "claim_event_processing key src pid st s = (Inr True, s')"
  shows "now_us s' = now_us s \<and> ((key \<notin> ec_key ` set (claims s)
      \<and> (\<exists>c. ec_key c = key \<and> ec_status c = Processing \<and> ec_updated_at c = now_us s \<and> claims s' = claims s @ [c]))
    \<or> (\<exists>c f. c \<in> set (claims s) \<and> ec_key c = key \<and> ec_status c \<noteq> Completed
        \<and> (ec_status c = Failed \<or> ec_updated_at c < now_us s - max st 1 * us_per_second)
        \<and> claims s' = update_where (\<lambda>c. ec_key c = key \<and> ec_status c \<noteq> Completed
          \<and> (ec_status c = Failed \<or> ec_updated_at c < now_us s - max st 1 * us_per_second)) f (claims s)
        \<and> (\<forall>c. ec_key (f c) = ec_key c \<and> ec_status (f c) = Processing \<and> ec_updated_at (f c) = now_us s)))"
  using assms
  by (simp add: claim_event_processing_def Let_def bnd_apply external_def
      split: list.splits outcome.splits sum.splits prod.splits if_splits) fastforce+

lemma won_claim_guards:
  assumes "claim_wallet_event key src s = (Inr True, s1)" and "unique_key ec_key (claims s)"
  shows "guarded_claim key (now_us s) s1"
proof -
  have "claim_event_processing key src processor_id 300 s = (Inr True, s1)"
    using assms(1) by (auto simp: claim_wallet_event_def catch_apply split: prod.splits sum.splits)
  note won = claim_won [OF this]
  then have now: "now_us s1 = now_us s" by blast
  let ?P = "\<lambda>c. ec_key c = key \<and> ec_status c \<noteq> Completed
      \<and> (ec_status c = Failed \<or> ec_updated_at c < now_us s - max 300 1 * us_per_second)"
  from won [THEN conjunct2] show ?thesis
  proof
    assume "key \<notin> ec_key ` set (claims s) \<and> (\<exists>c. ec_key c = key \<and> ec_status c = Processing
      \<and> ec_updated_at c = now_us s \<and> claims s1 = claims s @ [c])"
    then obtain c where c: "key \<notin> ec_key ` set (claims s)" "ec_key c = key" "ec_status c = Processing" "ec_updated_at c = now_us s"
        "claims s1 = claims s @ [c]" by blast
    moreover from c have "ec_key c' \<noteq> key" if "c' \<in> set (claims s)" for c' using that by blast
    ultimately show ?thesis using now by (auto simp: guarded_claim_def us_per_second_def)
  next
    assume "\<exists>c f. c \<in> set (claims s) \<and> ec_key c = key \<and> ec_status c \<noteq> Completed
        \<and> (ec_status c = Failed \<or> ec_updated_at c < now_us s - max 300 1 * us_per_second)
        \<and> claims s1 = update_where ?P f (claims s)
        \<and> (\<forall>c. ec_key (f c) = ec_key c \<and> ec_status (f c) = Processing \<and> ec_updated_at (f c) = now_us s)"
    then obtain c f where c: "c \<in> set (claims s)" "ec_key c = key" "ec_status c \<noteq> Completed"
        "ec_status c = Failed \<or> ec_updated_at c < now_us s - max 300 1 * us_per_second"
      and s1: "claims s1 = update_where ?P f (claims s)"
      and f: "\<forall>c. ec_key (f c) = ec_key c \<and> ec_status (f c) = Processing \<and> ec_updated_at (f c) = now_us s"
      by blast
    have "c' = c" if "c' \<in> set (claims s)" "ec_key c' = key" for c'
      using that c(1,2) assms(2) by (auto simp: unique_key_def distinct_map inj_on_def)
    with c(3,4) have "?P c'" if "c' \<in> set (claims s)" "ec_key c' = key" for c' using that by blast
    with c(1,2) f s1 now show ?thesis
      unfolding guarded_claim_def by (auto simp: key_update_where ball_update_where us_per_second_def)
  qed
qed

lemma guarded_claim_lost: "guarded_claim key since s \<Longrightarrow> result (claim_wallet_event key src) s \<noteq> Inr True"
proof
  assume g: "guarded_claim key since s" and "result (claim_wallet_event key src) s = Inr True"
  then obtain s1 where "claim_event_processing key src processor_id 300 s = (Inr True, s1)"
    by (auto simp: claim_wallet_event_def result_def catch_apply split: prod.splits sum.splits)
  from claim_won [OF this] not_reclaimable [OF g] g show False by (auto simp: guarded_claim_def)
qed

text \<open>
  C10. One processor at a time: when a process has claimed an event, no other process gets the claim
  within 300 seconds, however the calls of all processes interleave and fail, unless the event is
  reported as failed.
\<close>
theorem claim_is_exclusive:
  assumes "claim_wallet_event key src s = (Inr True, s1)" and "unique_key ec_key (claims s)"
    and "list_all (in_lease key (now_us s + 300 * us_per_second)) ops"
  shows "result (claim_wallet_event key src2) (fold claim_step ops s1) \<noteq> Inr True"
proof -
  have "guarded_claim key (now_us s) (fold claim_step ops t)" if "guarded_claim key (now_us s) t" for t
    using that assms(3) by (induction ops arbitrary: t) (auto intro: guarded_claim_step)
  then show ?thesis using guarded_claim_lost won_claim_guards [OF assms(1,2)] by blast
qed

text \<open>
  C11. An abandoned claim is recovered: when its processor has reported failure, or has not touched the
  claim for more than 300 seconds, the next process whose database works gets it and is its new owner.
\<close>
theorem abandoned_claim_is_recovered:
  assumes "w_script s = []" and "c \<in> set (claims s)" and "ec_key c = key" and "ec_status c \<noteq> Completed"
    and "ec_status c = Failed \<or> ec_updated_at c < now_us s - 300 * us_per_second"
    and "length key \<le> 255" and "length src \<le> 100"
  shows "result (claim_wallet_event key src) s = Inr True
    \<and> (\<exists>c' \<in> set (claims (after (claim_wallet_event key src) s)). ec_key c' = key \<and> ec_source c' = src
        \<and> ec_status c' = Processing \<and> ec_updated_at c' = now_us s)"
proof -
  let ?P = "\<lambda>c. ec_key c = key \<and> ec_status c \<noteq> Completed
      \<and> (ec_status c = Failed \<or> ec_updated_at c < now_us s - max 300 1 * us_per_second)"
  let ?f = "\<lambda>c. c\<lparr>ec_source := src, ec_status := Processing, ec_processor := processor_id, ec_claimed_at := now_us s,
      ec_completed_at := None, ec_updated_at := now_us s\<rparr>"
  have "?P c" using assms by simp
  then have ex: "\<exists>c \<in> set (claims s). ?P c" and "key \<in> ec_key ` set (claims s)" using assms(2) by blast+
  then have "claim_event_processing key src processor_id 300 s = (Inr True, s\<lparr>claims := update_where ?P ?f (claims s)\<rparr>)"
    using assms(1,6,7) by (simp add: claim_event_processing_def Let_def bnd_apply claim_fits_def processor_id_def)
  then have "claim_wallet_event key src s = (Inr True, s\<lparr>claims := update_where ?P ?f (claims s)\<rparr>)"
    by (simp add: claim_wallet_event_def catch_apply)
  moreover have "?f c \<in> set (update_where ?P ?f (claims s))"
    using \<open>?P c\<close> assms(2) unfolding set_update_where by (intro image_eqI [of _ _ c]) simp_all
  then have "\<exists>c' \<in> set (update_where ?P ?f (claims s)). ec_key c' = key \<and> ec_source c' = src
      \<and> ec_status c' = Processing \<and> ec_updated_at c' = now_us s"
    by (rule bexI [rotated]) (use assms(3) in simp)
  ultimately show ?thesis by (simp add: result_def after_def)
qed

end
