(* ===== verification/WalletCalm.thy ===== *)
theory WalletCalm
  imports WalletInvariants
begin

section \<open>Wallets: what the operations do when nothing fails\<close>

text \<open>
  The repository operations evaluated to their final states when no call fails. Amounts are exact as
  long as they have at most fifteen digits (\<open>exact_dbl\<close>): eight places and at most \<open>10 ^ 7\<close>.
\<close>

subsection \<open>Decimals\<close>

lemma decimals8_iff: "decimals8 x \<longleftrightarrow> (\<exists>k. x * 10 ^ 8 = of_int k)"
proof
  assume "decimals8 x"
  then obtain p where "quotient_of (x * 10 ^ 8) = (p, 1)"
    by (cases "quotient_of (x * 10 ^ 8)") (simp add: decimals8_def)
  then show "\<exists>k. x * 10 ^ 8 = of_int k" using quotient_of_div by fastforce
next
  assume "\<exists>k. x * 10 ^ 8 = of_int k"
  then show "decimals8 x" by (auto simp: decimals8_def)
qed

lemma decimals8_add: "decimals8 x \<Longrightarrow> decimals8 y \<Longrightarrow> decimals8 (x + y)"
  unfolding decimals8_iff by (metis distrib_right of_int_add)

lemma decimals8_diff: "decimals8 x \<Longrightarrow> decimals8 y \<Longrightarrow> decimals8 (x - y)"
  unfolding decimals8_iff by (metis left_diff_distrib of_int_diff)

lemma decimals8_0 [simp]: "decimals8 0"
  by (simp add: decimals8_def)

text \<open>
  IEEE double precision keeps fifteen decimal digits, and rounding is monotone.
\<close>

definition exact_dbl :: "(rat \<Rightarrow> rat) \<Rightarrow> bool" where
  "exact_dbl f \<longleftrightarrow> (\<forall>x. decimals8 x \<longrightarrow> 0 \<le> x \<longrightarrow> x \<le> 10 ^ 7 \<longrightarrow> f x = x) \<and> (\<forall>x y. x \<le> y \<longrightarrow> f x \<le> f y)"

lemma exact_dblD: "exact_dbl f \<Longrightarrow> decimals8 x \<Longrightarrow> 0 \<le> x \<Longrightarrow> x \<le> 10 ^ 7 \<Longrightarrow> f x = x"
  by (simp add: exact_dbl_def)

lemma exact_dbl_id: "exact_dbl (\<lambda>x. x)"
  by (simp add: exact_dbl_def)

lemma exact_dbl_large:
  assumes "exact_dbl f" and "10 ^ 7 \<le> x"
  shows "10 ^ 7 \<le> f x"
proof -
  have "decimals8 (10 ^ 7)" unfolding decimals8_iff by (rule exI [of _ "10 ^ 15"]) simp
  then have "f (10 ^ 7) = 10 ^ 7" using assms(1) by (intro exact_dblD) simp_all
  then show ?thesis using assms by (metis exact_dbl_def)
qed

subsection \<open>Reading and writing\<close>

definition set_balance :: "string \<Rightarrow> rat \<Rightarrow> int \<Rightarrow> wallet list \<Rightarrow> wallet list" where
  "set_balance wid b now ws = update_where (\<lambda>w. wb_wallet_id w = wid) (\<lambda>w. w\<lparr>wb_balance := b, wb_updated_at := now\<rparr>) ws"

definition tx_row :: "'r wal_state \<Rightarrow> tx_create \<Rightarrow> rat \<Rightarrow> rat \<Rightarrow> wallet_tx" where
  "tx_row s d before aft = \<lparr>wt_id = take 36 (w_uuid s (w_uuid_next s)), wt_wallet_id = tn_wallet_id d,
     wt_user_id = tn_user_id d, wt_type = tn_type d, wt_amount = dbl s (tn_amount d), wt_before = dbl s before,
     wt_after = dbl s aft, wt_reference_id = tn_reference_id d,
     wt_usage = (case tn_usage_record_id d of None \<Rightarrow> False | Some n \<Rightarrow> n \<noteq> 0),
     wt_to_wallet_id = tn_to_wallet_id d, wt_meta = tn_meta d, wt_created_at = now_us s\<rparr>"

definition with_tx :: "wallet_tx \<Rightarrow> 'r wal_state \<Rightarrow> 'r wal_state" where
  "with_tx t s = s\<lparr>w_uuid_next := Suc (w_uuid_next s), wal_txs := wal_txs s @ [t]\<rparr>"

lemma get_wallet_calm:
  "w_script s = [] \<Longrightarrow> row_by wb_wallet_id wid (wallets s) = Some w \<Longrightarrow> valid_wallet w \<Longrightarrow>
   repo_get_wallet wid s = (Inr (Some w), s)"
  by (simp add: repo_get_wallet_def to_wallet_def catch_apply bnd_apply)

lemma get_wallet_none: "w_script s = [] \<Longrightarrow> row_by wb_wallet_id wid (wallets s) = None \<Longrightarrow> repo_get_wallet wid s = (Inr None, s)"
  by (simp add: repo_get_wallet_def catch_apply bnd_apply)

lemma get_wallet_invalid:
  "w_script s = [] \<Longrightarrow> row_by wb_wallet_id wid (wallets s) = Some w \<Longrightarrow> \<not> valid_wallet w \<Longrightarrow>
   repo_get_wallet wid s = (Inr None, s)"
  by (simp add: repo_get_wallet_def to_wallet_def catch_apply bnd_apply)

lemma write_balance_calm:
  assumes "w_script s = []" and "row_by wb_wallet_id wid (wallets s) = Some w" and "0 \<le> dbl s new"
  shows "write_balance wid new s = (Inr (Some new), s\<lparr>wallets := set_balance wid (dbl s new) (now_us s) (wallets s)\<rparr>)"
proof -
  have "wid \<in> wb_wallet_id ` set (wallets s)" using row_by_Some [OF assms(2)] by auto
  with assms show ?thesis by (simp add: write_balance_def bnd_apply set_balance_def)
qed

lemma add_balance_calm:
  assumes "w_script s = []" and "row_by wb_wallet_id wid (wallets s) = Some w" and "valid_wallet w"
    and "0 \<le> dbl s (wb_balance w + a)"
  shows "update_balance wid a ''add'' s = (Inr (Some (wb_balance w + a)),
    s\<lparr>wallets := set_balance wid (dbl s (wb_balance w + a)) (now_us s) (wallets s)\<rparr>)"
  using assms by (simp add: update_balance_def catch_apply bnd_apply get_wallet_calm write_balance_calm)

lemma subtract_balance_calm:
  assumes "w_script s = []" and "row_by wb_wallet_id wid (wallets s) = Some w" and "valid_wallet w"
    and "a \<le> wb_balance w" and "0 \<le> dbl s (wb_balance w - a)"
  shows "update_balance wid a ''subtract'' s = (Inr (Some (wb_balance w - a)),
    s\<lparr>wallets := set_balance wid (dbl s (wb_balance w - a)) (now_us s) (wallets s)\<rparr>)"
  using assms by (simp add: update_balance_def catch_apply bnd_apply get_wallet_calm write_balance_calm)

text \<open>A transaction is recorded when its identifier is new, its strings fit and its amounts are decimals.\<close>

definition recordable :: "'r wal_state \<Rightarrow> tx_create \<Rightarrow> rat \<Rightarrow> rat \<Rightarrow> bool" where
  "recordable s d before aft \<longleftrightarrow> valid_amount (tn_amount d) \<and> tx_fits (tx_row s d before aft)
     \<and> valid_tx (tx_row s d before aft) \<and> take 36 (w_uuid s (w_uuid_next s)) \<notin> wt_id ` set (wal_txs s)"

lemma record_tx_calm:
  assumes "w_script s = []" and "recordable s d before aft"
  shows "record_tx d before aft s = (Inr (Some (tx_row s d before aft)), with_tx (tx_row s d before aft) s)"
proof -
  let ?t = "tx_row s d before aft"
  have id: "wt_id ?t = take 36 (w_uuid s (w_uuid_next s))" by (simp add: tx_row_def)
  have "row_by wt_id (take 36 (w_uuid s (w_uuid_next s))) (wal_txs s @ [?t]) = Some ?t"
    using row_by_append_new [of wt_id ?t "wal_txs s"] assms(2) by (simp add: recordable_def id)
  then show ?thesis
    using assms
    by (simp add: recordable_def record_tx_def create_tx_def insert_tx_def to_tx_def catch_apply bnd_apply fresh_hex_def
        tx_row_def with_tx_def now_us_def)
qed

subsection \<open>Operations\<close>

definition deposit_data :: "wallet \<Rightarrow> rat \<Rightarrow> string option \<Rightarrow> meta \<Rightarrow> tx_create" where
  "deposit_data w a ref m = (tx_data (wb_wallet_id w) (wb_user_id w) DEPOSIT a m)\<lparr>tn_reference_id := ref\<rparr>"

lemma row_by_wallet_id: "row_by wb_wallet_id wid ws = Some w \<Longrightarrow> wb_wallet_id w = wid"
  using row_by_Some by fastforce

lemma recordable_wallets [simp]: "recordable (s\<lparr>wallets := ws\<rparr>) d b a = recordable s d b a"
  by (simp add: recordable_def tx_row_def now_us_def)

lemma tx_row_wallets [simp]: "tx_row (s\<lparr>wallets := ws\<rparr>) d b a = tx_row s d b a"
  by (simp add: tx_row_def now_us_def)

lemma repo_deposit_calm:
  assumes "w_script s = []" and "row_by wb_wallet_id wid (wallets s) = Some w" and "valid_wallet w"
    and "0 \<le> dbl s (wb_balance w + a)" and "recordable s (deposit_data w a ref m) (wb_balance w) (wb_balance w + a)"
  shows "repo_deposit wid a ref m s = (Inr (Some (tx_row s (deposit_data w a ref m) (wb_balance w) (wb_balance w + a))),
    with_tx (tx_row s (deposit_data w a ref m) (wb_balance w) (wb_balance w + a))
      (s\<lparr>wallets := set_balance wid (dbl s (wb_balance w + a)) (now_us s) (wallets s)\<rparr>))"
  using assms row_by_wallet_id [OF assms(2)]
  by (simp add: repo_deposit_def catch_apply bnd_apply get_wallet_calm add_balance_calm record_tx_calm deposit_data_def)

definition refund_data :: "wallet \<Rightarrow> rat \<Rightarrow> string \<Rightarrow> string \<Rightarrow> meta \<Rightarrow> tx_create" where
  "refund_data w a original_id reason m = (tx_data (wb_wallet_id w) (wb_user_id w) REFUND a
     (meta_update m [(''original_transaction_id'', Some original_id), (''refund_reason'', Some reason)]))
     \<lparr>tn_reference_id := Some original_id\<rparr>"

lemma repo_refund_calm:
  assumes "w_script s = []" and "row_by wt_id tid (wal_txs s) = Some t"
    and "a = (if truthy_num amt then the amt else wt_amount t)" and "a \<le> wt_amount t"
    and "row_by wb_wallet_id (wt_wallet_id t) (wallets s) = Some w" and "valid_wallet w"
    and "0 \<le> dbl s (wb_balance w + a)" and "recordable s (refund_data w a tid reason m) (wb_balance w) (wb_balance w + a)"
  shows "repo_refund tid amt reason m s = (Inr (Some (tx_row s (refund_data w a tid reason m) (wb_balance w) (wb_balance w + a))),
    with_tx (tx_row s (refund_data w a tid reason m) (wb_balance w) (wb_balance w + a))
      (s\<lparr>wallets := set_balance (wb_wallet_id w) (dbl s (wb_balance w + a)) (now_us s) (wallets s)\<rparr>))"
  using assms row_by_wallet_id [OF assms(5)]
  by (simp add: repo_refund_def catch_apply bnd_apply get_wallet_calm add_balance_calm record_tx_calm refund_data_def
      Let_def split del: if_split)

subsection \<open>Handlers\<close>

lemma redis_up_wal [simp]:
  "redis_up (s\<lparr>wallets := ws\<rparr>) = redis_up s" "redis_up (s\<lparr>wal_txs := ts\<rparr>) = redis_up s" "redis_up (s\<lparr>claims := cs\<rparr>) = redis_up s"
  "redis_up (s\<lparr>w_events := es\<rparr>) = redis_up s" "redis_up (s\<lparr>processed := p\<rparr>) = redis_up s"
  "redis_up (s\<lparr>h_claimed := b\<rparr>) = redis_up s" "redis_up (s\<lparr>h_completed := b\<rparr>) = redis_up s"
  by (simp_all add: redis_up_def)

text \<open>An event that is new to Redis, to the process and to the table of claims.\<close>

definition fresh_event :: "'r wal_redis \<Rightarrow> string \<Rightarrow> string \<Rightarrow> string \<Rightarrow> 'r wal_state \<Rightarrow> bool" where
  "fresh_event api ll cl eid s \<longleftrightarrow> redis_up s \<and> lock_free api (ll @ '':'' @ eid) s \<and> cache_view api (ll @ '':'' @ eid) s = None
     \<and> eid \<notin> set (processed s) \<and> ''wallet:'' @ cl @ '':'' @ eid \<notin> ec_key ` set (claims s)
     \<and> length (''wallet:'' @ cl @ '':'' @ eid) \<le> 255 \<and> length eid \<le> 100"

definition claim_row :: "string \<Rightarrow> string \<Rightarrow> 'r wal_state \<Rightarrow> event_claim" where
  "claim_row key eid s = \<lparr>ec_key = key, ec_source = eid, ec_status = Processing, ec_processor = processor_id,
     ec_claimed_at = now_us s, ec_completed_at = None, ec_updated_at = now_us s\<rparr>"

text \<open>The state in which the work of a fresh event starts, and the state it must leave.\<close>

definition work_state :: "'r wal_redis \<Rightarrow> string \<Rightarrow> string \<Rightarrow> string \<Rightarrow> 'r wal_state \<Rightarrow> 'r wal_state" where
  "work_state api ll cl eid s = (let s1 = locked api (ll @ '':'' @ eid) 120 (s\<lparr>h_claimed := False, h_completed := False\<rparr>) in
     s1\<lparr>claims := claims s @ [claim_row (''wallet:'' @ cl @ '':'' @ eid) eid s], h_claimed := True\<rparr>)"

lemma locked_wal [simp]:
  "wallets (locked api k ttl s) = wallets s" "wal_txs (locked api k ttl s) = wal_txs s" "claims (locked api k ttl s) = claims s"
  "dbl (locked api k ttl s) = dbl s" "w_script (locked api k ttl s) = w_script s" "w_now (locked api k ttl s) = w_now s"
  "now_us (locked api k ttl s) = now_us s"
  "w_uuid (locked api k ttl s) = w_uuid s" "w_uuid_next (locked api k ttl s) = Suc (w_uuid_next s)"
  "processed (locked api k ttl s) = processed s" "set_order (locked api k ttl s) = set_order s" "w_bus (locked api k ttl s) = w_bus s"
  "w_events (locked api k ttl s) = w_events s" "parse_int (locked api k ttl s) = parse_int s"
  by (simp_all add: locked_def now_us_def)

lemma lock_free_flags [simp]:
  "lock_free api k (s\<lparr>h_claimed := a, h_completed := b\<rparr>) = lock_free api k s"
  "cache_view api k (s\<lparr>h_claimed := a, h_completed := b\<rparr>) = cache_view api k s"
  by (simp_all add: lock_free_def cache_view_def next_token_def)

lemma claim_fresh_calm:
  assumes "w_script s = []" and "key \<notin> ec_key ` set (claims s)" and "length key \<le> 255" and "length eid \<le> 100"
  shows "claim_wallet_event key eid s = (Inr True, s\<lparr>claims := claims s @ [claim_row key eid s]\<rparr>)"
  using assms by (simp add: claim_wallet_event_def claim_event_processing_def catch_apply bnd_apply Let_def claim_fits_def
      processor_id_def claim_row_def)

lemma idempotent_fresh:
  fixes s :: "'r wal_state" and api :: "'r wal_redis"
  assumes "redis_server api" and "fresh_event api ll cl eid s"
    and "work (work_state api ll cl eid s) = (Inr res, s2)" and "redis_up s2"
  shows "\<exists>r. idempotent api ll cl remembers eid work s = (Inr (), s2\<lparr>server := r\<rparr>)"
proof -
  let ?key = "''wallet:'' @ cl @ '':'' @ eid" and ?lk = "ll @ '':'' @ eid"
  let ?s0 = "s\<lparr>h_claimed := False, h_completed := False\<rparr>"
  let ?body = "claimed_work ?key eid remembers work"
  note fresh = assms(2) [unfolded fresh_event_def]
  have "next_token ?s0 \<noteq> []" using fresh by (simp add: lock_free_def next_token_def)
  then have body: "?body (Held (next_token ?s0)) (locked api ?lk 120 ?s0) = (Inr res, s2)"
    using claim_fresh_calm [of "locked api ?lk 120 ?s0" ?key eid] fresh assms(3)
    by (simp add: claimed_work_def bnd_apply redis_up_def work_state_def Let_def claim_row_def now_us_def)
  have "\<exists>r. guard api ?lk (Some 120) True None 500000 50000 Return_contended ?body ?s0 = (Inr (), s2\<lparr>server := r\<rparr>)"
    using redis_server.guard_held [OF assms(1), of ?s0 ?lk 120 ?body "Inr res" s2 500000 50000 Return_contended]
      fresh body assms(4) by simp
  then show ?thesis
    using fresh by (auto simp: idempotent_def Let_def bnd_apply catch_apply is_event_processed_def)
qed

lemma idempotent_raises:
  fixes s :: "'r wal_state" and api :: "'r wal_redis"
  assumes "redis_server api" and "fresh_event api ll cl eid s"
    and "work (work_state api ll cl eid s) = (Inl e, s2)" and "redis_up s2"
    and "e \<noteq> Custom DistributedLockError" and "e \<noteq> Custom LockContended" and "h_claimed s2 \<and> \<not> h_completed s2"
  shows "\<exists>r. idempotent api ll cl remembers eid work s = mark_failed (''wallet:'' @ cl @ '':'' @ eid) eid (s2\<lparr>server := r\<rparr>)"
proof -
  let ?key = "''wallet:'' @ cl @ '':'' @ eid" and ?lk = "ll @ '':'' @ eid"
  let ?s0 = "s\<lparr>h_claimed := False, h_completed := False\<rparr>"
  let ?body = "claimed_work ?key eid remembers work"
  note fresh = assms(2) [unfolded fresh_event_def]
  have "next_token ?s0 \<noteq> []" using fresh by (simp add: lock_free_def next_token_def)
  then have body: "?body (Held (next_token ?s0)) (locked api ?lk 120 ?s0) = (Inl e, s2)"
    using claim_fresh_calm [of "locked api ?lk 120 ?s0" ?key eid] fresh assms(3)
    by (simp add: claimed_work_def bnd_apply redis_up_def work_state_def Let_def claim_row_def now_us_def)
  have "\<exists>r. guard api ?lk (Some 120) True None 500000 50000 Return_contended ?body ?s0 = (Inl e, s2\<lparr>server := r\<rparr>)"
    using redis_server.guard_held [OF assms(1), of ?s0 ?lk 120 ?body "Inl e" s2 500000 50000 Return_contended]
      fresh body assms(4) by simp
  then show ?thesis
    using fresh assms(5-7) by (auto simp: idempotent_def Let_def bnd_apply catch_apply is_event_processed_def)
qed

lemma mark_completed_calm:
  "w_script s = [] \<Longrightarrow> length eid \<le> 100 \<Longrightarrow> mark_completed key eid s = (Inr (), s\<lparr>claims := update_where (\<lambda>c. ec_key c = key)
     (\<lambda>c. c\<lparr>ec_source := eid, ec_status := Completed, ec_completed_at := Some (now_us s), ec_updated_at := now_us s\<rparr>) (claims s),
     h_completed := True\<rparr>)"
  by (simp add: mark_completed_def mark_event_processing_completed_def catch_apply bnd_apply)

lemma update_last_claim:
  "key \<notin> ec_key ` set cs \<Longrightarrow> ec_key c = key \<Longrightarrow> update_where (\<lambda>c. ec_key c = key) f (cs @ [c]) = cs @ [f c]"
  by (auto simp: update_where_def image_iff intro!: map_idI)

end
