(* ===== verification/WalletTheorems.thy ===== *)
theory WalletTheorems
  imports WalletCalm
begin

section \<open>Wallets: payments, refunds, transfers and the other events\<close>

text \<open>
  What the handlers and operations achieve: a payment is credited once, or lost when its deposit fails;
  refunds have no memory; transfers create no money; and three handlers that cannot do what they are
  for.
\<close>

subsection \<open>Events whose claim is completed\<close>

definition of_event :: "string \<Rightarrow> wallet_tx list \<Rightarrow> wallet_tx list" where
  "of_event eid ts = filter (\<lambda>t. (''event_id'', Some eid) \<in> set (wt_meta t)) ts"

definition payment_key :: "string \<Rightarrow> string" where
  "payment_key eid = ''wallet:payment_completed:'' @ eid"

text \<open>Other operations that do not carry the event, and deliveries of the event itself.\<close>

fun redelivers :: "string \<Rightarrow> wal_op \<Rightarrow> bool" where
  "redelivers eid (On_wal_payment_completed ev) = (pe_id ev = eid)"
| "redelivers eid _ = False"

fun settled :: "string \<Rightarrow> wallet_tx list \<Rightarrow> wal_tables \<Rightarrow> bool" where
  "settled eid L (ws, ts, cs) \<longleftrightarrow> completed_in (payment_key eid) cs \<and> of_event eid ts = L"

lemma settled_write:
  assumes "settled eid L T" and "wal_write F {eid} T T'"
  shows "settled eid L T'"
proof -
  from assms(1) have "completed_in (payment_key eid) (snd (snd T))" by (cases T) simp
  then have "completed_in (payment_key eid) (snd (snd T'))" using assms(2) by (rule completed_in_write)
  with assms(2,1) show ?thesis by cases (auto simp: of_event_def meta_spares_def)
qed

interpretation wal_settled: table_invariant F "{eid}" "settled eid L" for F eid L
  by unfold_locales (rule settled_write)

context table_invariant
begin

lemma preserves_of_reach:
  fixes m :: "('r, 'a) wal_io"
  assumes "\<And>T. preserves (reach F bad T) m"
  shows "preserves (\<lambda>s. dbl s = F \<and> J (tables s)) m"
proof (rule preservesI)
  fix s :: "'r wal_state" assume s: "dbl s = F \<and> J (tables s)"
  then have "reach F bad (tables s) (snd (m s))"
    using preservesD [OF assms, of "tables s" s] reach_refl [of s bad] by simp
  then show "dbl (snd (m s)) = F \<and> J (tables (snd (m s)))"
    using reach_inv [OF _ conjunct2 [OF s]] by (simp add: reach_def)
qed

end

lemma settled_step:
  assumes "settled eid L (tables s)" and "spares {eid} op \<or> redelivers eid op"
  shows "settled eid L (tables (wal_step api op s)) \<and> dbl (wal_step api op s) = dbl s"
proof (cases "redelivers eid op")
  case False
  then have "reach (dbl s) {eid} (tables s) (wal_step api op s)" using assms(2) by (intro reach_step reach_refl) simp
  then show ?thesis using wal_settled.reach_inv [OF _ assms(1)] by (metis reach_def)
next
  case True
  then obtain ev where op: "op = On_wal_payment_completed ev" and ev: "pe_id ev = eid" by (cases op) auto
  let ?I = "\<lambda>t. dbl t = dbl s \<and> settled eid L (tables t)"
  have free: "world_free ?I" by (simp add: world_free_def)
  have claim: "preserves ?I (claim_wallet_event k e)" for k e
    by (intro wal_settled.preserves_of_reach preserve_rules)
  have failed: "preserves ?I (mark_failed k e)" for k e
    by (intro wal_settled.preserves_of_reach preserve_rules)
  have lost: "result (claim_wallet_event (''wallet:'' @ ''payment_completed'' @ '':'' @ pe_id ev) (pe_id ev)) t \<noteq> Inr True"
    if "?I t" for t
    using that completed_never_claimed [of "''wallet:'' @ ''payment_completed'' @ '':'' @ pe_id ev" t]
    by (simp add: tables_def payment_key_def ev)
  have "preserves ?I (wal_handle_payment_completed api ev)"
    unfolding wal_handle_payment_completed_def
    by (intro world_free_idempotent free claim failed disjI1) (use lost in blast)
  from preserves_after [of ?I, OF this] assms(1) show ?thesis by (simp add: op wal_step_def)
qed

lemma settled_run:
  assumes "settled eid L (tables s)" and "list_all (\<lambda>op. spares {eid} op \<or> redelivers eid op) ops"
  shows "settled eid L (tables (fold (wal_step api) ops s))"
  using assms by (induction ops arbitrary: s) (auto dest: settled_step)

subsection \<open>A payment is credited once\<close>

lemma all_wallets_calm:
  "list_all valid_wallet rows \<Longrightarrow> for_each rows (\<lambda>w acc. bnd (to_wallet w) (\<lambda>w. ret (acc @ [w]))) acc s = (Inr (acc @ rows), s)"
  by (induction rows arbitrary: acc) (simp_all add: to_wallet_def bnd_apply)

lemma primary_wallet_calm:
  "w_script s = [] \<Longrightarrow> list_all valid_wallet (user_wallet_rows uid (Some FIAT) (wallets s)) \<Longrightarrow>
   get_primary_wallet uid s = (Inr (first_row (user_wallet_rows uid (Some FIAT) (wallets s))), s)"
  by (simp add: get_primary_wallet_def repo_get_user_wallets_def bnd_apply catch_apply all_wallets_calm)

definition payment_meta :: "payment_event \<Rightarrow> meta" where
  "payment_meta ev = [(''event_id'', Some (pe_id ev)), (''event_type'', Some (pe_type ev)), (''payment_id'', pe_payment_id ev),
     (''timestamp'', Some (pe_timestamp ev)), (''currency'', Some (case pe_currency ev of None \<Rightarrow> ''USD'' | Some c \<Rightarrow> c))]"

text \<open>A payment for a user with a primary wallet, in a state where the deposit can be recorded.\<close>

definition creditable :: "payment_event \<Rightarrow> rat \<Rightarrow> wallet \<Rightarrow> 'r wal_state \<Rightarrow> bool" where
  "creditable ev a w s \<longleftrightarrow> truthy_str (pe_user_id ev) \<and> pe_amount ev = Amount a \<and> valid_amount a
     \<and> list_all valid_wallet (user_wallet_rows (the (pe_user_id ev)) (Some FIAT) (wallets s))
     \<and> first_row (user_wallet_rows (the (pe_user_id ev)) (Some FIAT) (wallets s)) = Some w
     \<and> row_by wb_wallet_id (wb_wallet_id w) (wallets s) = Some w
     \<and> exact_dbl (dbl s) \<and> wb_balance w + a \<le> 10 ^ 7
     \<and> take 36 (w_uuid s (w_uuid_next s)) \<notin> wt_id ` set (wal_txs s)
     \<and> opt_fits 255 (pe_payment_id ev) \<and> length (wb_wallet_id w) \<le> 255 \<and> length (wb_user_id w) \<le> 255"

lemma creditable_valid: "creditable ev a w s \<Longrightarrow> valid_wallet w"
  by (auto simp: creditable_def list_all_iff dest: first_row_in)

lemma creditable_exact:
  assumes "creditable ev a w s"
  shows "dbl s (wb_balance w + a) = wb_balance w + a" "dbl s a = a" "dbl s (wb_balance w) = wb_balance w"
proof -
  have "valid_wallet w" "exact_dbl (dbl s)" "valid_amount a" "wb_balance w + a \<le> 10 ^ 7"
    using assms by (auto simp: creditable_valid creditable_def)
  then show "dbl s (wb_balance w + a) = wb_balance w + a" "dbl s a = a" "dbl s (wb_balance w) = wb_balance w"
    by (auto intro!: exact_dblD decimals8_add simp: valid_wallet_def valid_amount_def)
qed

lemma creditable_recordable:
  assumes "creditable ev a w s"
  shows "recordable s (deposit_data w a (pe_payment_id ev) m) (wb_balance w) (wb_balance w + a)"
  using assms creditable_exact [OF assms] creditable_valid [OF assms]
  by (auto simp: recordable_def creditable_def deposit_data_def tx_data_def tx_row_def tx_fits_def opt_fits_def
      valid_tx_def valid_wallet_def valid_amount_def intro: decimals8_add)

lemma credit_payment_calm:
  assumes "w_script s = []" and "creditable ev a w s" and "length (pe_id ev) \<le> 100"
  defines "t \<equiv> tx_row s (deposit_data w a (pe_payment_id ev) (payment_meta ev)) (wb_balance w) (wb_balance w + a)"
  shows "\<exists>s'. credit_payment key ev (pe_payment_id ev) [] ''deposited'' s = (Inr (Some [(''status'', ''deposited'')]), s')
    \<and> wallets s' = set_balance (wb_wallet_id w) (wb_balance w + a) (now_us s) (wallets s) \<and> wal_txs s' = wal_txs s @ [t]
    \<and> claims s' = update_where (\<lambda>c. ec_key c = key)
        (\<lambda>c. c\<lparr>ec_source := pe_id ev, ec_status := Completed, ec_completed_at := Some (now_us s), ec_updated_at := now_us s\<rparr>) (claims s)
    \<and> dbl s' = dbl s \<and> w_script s' = [] \<and> lock_obj s' = lock_obj s \<and> cache_obj s' = cache_obj s"
proof -
  have d: "repo_deposit (wb_wallet_id w) a (pe_payment_id ev) (payment_meta ev) s = (Inr (Some t),
      with_tx t (s\<lparr>wallets := set_balance (wb_wallet_id w) (wb_balance w + a) (now_us s) (wallets s)\<rparr>))"
    using repo_deposit_calm [OF assms(1) _ creditable_valid [OF assms(2)] _ creditable_recordable [OF assms(2)],
        of "wb_wallet_id w" "payment_meta ev"] assms(2) creditable_exact [OF assms(2)] creditable_valid [OF assms(2)]
    by (simp add: creditable_def t_def valid_wallet_def valid_amount_def)
  have m: "[(''event_id'', Some (pe_id ev)), (''event_type'', Some (pe_type ev)), (''payment_id'', pe_payment_id ev),
      (''timestamp'', Some (pe_timestamp ev)), (''currency'', Some (case pe_currency ev of None \<Rightarrow> ''USD'' | Some c \<Rightarrow> c))] @ []
      = payment_meta ev" by (simp add: payment_meta_def)
  have "a \<noteq> 0" using assms(2) by (auto simp: creditable_def valid_amount_def)
  then show ?thesis
    using assms(1,2,3) primary_wallet_calm [of s "the (pe_user_id ev)"]
    unfolding credit_payment_def m
    by (simp add: creditable_def truthy_amount_def bnd_apply to_decimal_def deposit_request_def wal_deposit_def respond_def
        catch_apply d publish_calm with_tx_def finish_def mark_event_processed_def mark_completed_calm Let_def now_us_def)
qed

lemma work_state_sel [simp]:
  "wallets (work_state api ll cl eid s) = wallets s" "wal_txs (work_state api ll cl eid s) = wal_txs s"
  "claims (work_state api ll cl eid s) = claims s @ [claim_row (''wallet:'' @ cl @ '':'' @ eid) eid s]"
  "dbl (work_state api ll cl eid s) = dbl s" "w_script (work_state api ll cl eid s) = w_script s"
  "w_uuid (work_state api ll cl eid s) = w_uuid s" "w_uuid_next (work_state api ll cl eid s) = Suc (w_uuid_next s)"
  "now_us (work_state api ll cl eid s) = now_us s"
  by (simp_all add: work_state_def Let_def now_us_def)

lemma redis_up_work_state: "redis_up (work_state api ll cl eid s) = redis_up s"
  by (simp add: work_state_def Let_def locked_def)

lemma redis_up_same:
  "redis_up s \<Longrightarrow> w_script s' = [] \<Longrightarrow> lock_obj s' = lock_obj s \<Longrightarrow> cache_obj s' = cache_obj s \<Longrightarrow> redis_up s'"
  by (simp add: redis_up_def)

lemma completed_in_last:
  "key \<notin> ec_key ` set cs \<Longrightarrow> ec_key c = key \<Longrightarrow> ec_status c = Completed \<Longrightarrow> completed_in key (cs @ [c])"
  by (auto simp: completed_in_def image_iff)

text \<open>The first delivery of a payment.\<close>

lemma payment_first_delivery:
  fixes s :: "'r wal_state"
  assumes "redis_server api" and "fresh_event api ''payment_completed'' ''payment_completed'' (pe_id ev) s"
    and "creditable ev a w (work_state api ''payment_completed'' ''payment_completed'' (pe_id ev) s)"
    and "s1 = wal_step api (On_wal_payment_completed ev) s"
  shows "\<exists>t. wallets s1 = set_balance (wb_wallet_id w) (wb_balance w + a) (now_us s) (wallets s) \<and> wal_txs s1 = wal_txs s @ [t]
    \<and> wt_amount t = a \<and> wt_wallet_id t = wb_wallet_id w \<and> wt_meta t = payment_meta ev \<and> wt_type t = DEPOSIT
    \<and> completed_in (payment_key (pe_id ev)) (claims s1)"
proof -
  let ?w = "work_state api ''payment_completed'' ''payment_completed'' (pe_id ev) s"
  let ?key = "''wallet:'' @ ''payment_completed'' @ '':'' @ pe_id ev"
  note fresh = assms(2) [unfolded fresh_event_def]
  have up: "redis_up ?w" using fresh by (simp add: redis_up_work_state)
  let ?t = "tx_row ?w (deposit_data w a (pe_payment_id ev) (payment_meta ev)) (wb_balance w) (wb_balance w + a)"
  obtain s2 where work: "credit_payment (''wallet:payment_completed:'' @ pe_id ev) ev (pe_payment_id ev) [] ''deposited'' ?w
        = (Inr (Some [(''status'', ''deposited'')]), s2)"
    and s2: "wallets s2 = set_balance (wb_wallet_id w) (wb_balance w + a) (now_us ?w) (wallets ?w)" "wal_txs s2 = wal_txs ?w @ [?t]"
      "claims s2 = update_where (\<lambda>c. ec_key c = ''wallet:payment_completed:'' @ pe_id ev)
        (\<lambda>c. c\<lparr>ec_source := pe_id ev, ec_status := Completed, ec_completed_at := Some (now_us ?w), ec_updated_at := now_us ?w\<rparr>) (claims ?w)"
      "w_script s2 = []" "lock_obj s2 = lock_obj ?w" "cache_obj s2 = cache_obj ?w"
    using credit_payment_calm [OF _ assms(3), of "''wallet:payment_completed:'' @ pe_id ev"] up fresh
    by (auto simp: redis_up_def)
  have "redis_up s2" using redis_up_same [OF up s2(4-6)] .
  from idempotent_fresh [where work = "credit_payment (''wallet:payment_completed:'' @ pe_id ev) ev (pe_payment_id ev) [] ''deposited''",
      OF assms(1,2) work this, of True] obtain r
    where "idempotent api ''payment_completed'' ''payment_completed'' True (pe_id ev)
       (credit_payment (''wallet:payment_completed:'' @ pe_id ev) ev (pe_payment_id ev) [] ''deposited'') s = (Inr (), s2\<lparr>server := r\<rparr>)"
    by blast
  then have s1: "s1 = s2\<lparr>server := r\<rparr>"
    by (simp add: assms(4) wal_step_def wal_handle_payment_completed_def after_def)
  have key: "?key = payment_key (pe_id ev)" by (simp add: payment_key_def)
  have "claims s2 = claims s @ [(claim_row ?key (pe_id ev) s)\<lparr>ec_source := pe_id ev, ec_status := Completed,
      ec_completed_at := Some (now_us s), ec_updated_at := now_us s\<rparr>]"
    using s2(3) fresh update_last_claim [of ?key "claims s" "claim_row ?key (pe_id ev) s"]
    by (simp add: claim_row_def)
  then have "completed_in (payment_key (pe_id ev)) (claims s2)"
    using fresh by (simp add: completed_in_last claim_row_def payment_key_def)
  then show ?thesis
    using s2(1,2) creditable_exact [OF assms(3)]
    by (auto simp: s1 tx_row_def deposit_data_def tx_data_def)
qed

text \<open>
  C5. A payment is credited once: the first delivery of \<open>payment.completed\<close>, when nothing fails, raises
  the balance of the user's primary wallet by the amount and records one deposit; after that, whatever
  operations, redeliveries, restarts and failures follow, no second deposit is ever recorded for it.
\<close>
theorem payment_is_credited_once:
  fixes s :: "'r wal_state"
  assumes "redis_server api" and "fresh_event api ''payment_completed'' ''payment_completed'' (pe_id ev) s"
    and "creditable ev a w (work_state api ''payment_completed'' ''payment_completed'' (pe_id ev) s)"
    and "of_event (pe_id ev) (wal_txs s) = []"
    and "s1 = wal_step api (On_wal_payment_completed ev) s"
    and "list_all (\<lambda>op. spares {pe_id ev} op \<or> redelivers (pe_id ev) op) ops"
  shows "row_by wb_wallet_id (wb_wallet_id w) (wallets s1) = Some (w\<lparr>wb_balance := wb_balance w + a, wb_updated_at := now_us s\<rparr>)
    \<and> (\<exists>t. of_event (pe_id ev) (wal_txs (fold (wal_step api) ops s1)) = [t]
        \<and> wt_amount t = a \<and> wt_wallet_id t = wb_wallet_id w \<and> wt_type t = DEPOSIT)"
proof -
  obtain t where s1: "wallets s1 = set_balance (wb_wallet_id w) (wb_balance w + a) (now_us s) (wallets s)"
      "wal_txs s1 = wal_txs s @ [t]" "wt_meta t = payment_meta ev" "completed_in (payment_key (pe_id ev)) (claims s1)"
    and t: "wt_amount t = a" "wt_wallet_id t = wb_wallet_id w" "wt_type t = DEPOSIT"
    using payment_first_delivery [OF assms(1-3,5)] by blast
  have "of_event (pe_id ev) (wal_txs s1) = [t]"
    using assms(4) s1(2,3) by (simp add: of_event_def payment_meta_def)
  with s1(4) have "settled (pe_id ev) [t] (tables s1)" by (simp add: tables_def)
  then have "settled (pe_id ev) [t] (tables (fold (wal_step api) ops s1))" using assms(6) by (rule settled_run)
  moreover have "row_by wb_wallet_id (wb_wallet_id w) (wallets s) = Some w" using assms(3) by (simp add: creditable_def)
  ultimately show ?thesis using t by (simp add: s1(1) set_balance_def row_by_update_where tables_def)
qed

subsection \<open>A payment is lost when its deposit fails\<close>

text \<open>The handlers up to their work when the script of the world lets the first four calls through.\<close>

definition redis_ok :: "('ev, 'r, 'z) redis_world_scheme \<Rightarrow> bool" where
  "redis_ok s \<longleftrightarrow> ro_client (lock_obj s) \<and> ro_healthy (lock_obj s) \<and> ro_client (cache_obj s) \<and> ro_healthy (cache_obj s)"

lemma cache_get_fine:
  "redis_ok s \<Longrightarrow> w_script s = Fine # sc \<Longrightarrow> cache_get api key s = (Inr (cache_view api key s), s\<lparr>w_script := sc\<rparr>)"
  by (simp add: redis_ok_def cache_get_def cache_ensure_client_def cache_ready_def bnd_apply catch_apply redis_command_def
      redis_call_def external_def cache_view_def)

lemma wait_fine:
  assumes "redis_server api" and "redis_ok s" and "w_script s = Fine # sc" and "lock_free api key s" and "0 < ttl"
  shows "wait_for_lock api key (Some ttl) wc poll dl s = (Inr (Got (next_token s)), (locked api key ttl s)\<lparr>w_script := sc\<rparr>)"
proof -
  obtain r where r: "rd_set_nx api (lock_key (lock_obj s) key) (next_token s) ttl (mono_us s) (server s) = (True, r)"
    using redis_server.set_nx_wins [OF assms(1), of "lock_key (lock_obj s) key"] assms(4)
    unfolding lock_free_def by (metis (full_types) prod.collapse)
  then have "acquire api key (Some ttl) s = (Inr (Some (next_token s)), (locked api key ttl s)\<lparr>w_script := sc\<rparr>)"
    using assms(2,3,5) by (simp add: acquire_def lock_ensure_client_def lock_ensure_healthy_def lock_cmd_def redis_command_def
        redis_call_def bnd_apply catch_apply external_def fresh_hex_def redis_ok_def next_token_def locked_def)
  then show ?thesis by (subst wait_for_lock.simps) simp
qed

lemma claim_fresh_fine:
  assumes "w_script s = Fine # sc" and "key \<notin> ec_key ` set (claims s)" and "length key \<le> 255" and "length eid \<le> 100"
  shows "claim_wallet_event key eid s = (Inr True, s\<lparr>w_script := sc, claims := claims s @ [claim_row key eid s]\<rparr>)"
  using assms by (simp add: claim_wallet_event_def claim_event_processing_def catch_apply bnd_apply Let_def claim_fits_def
      processor_id_def claim_row_def external_def)

lemma script_views [simp]:
  "lock_free api k (s\<lparr>w_script := sc\<rparr>) = lock_free api k s" "cache_view api k (s\<lparr>w_script := sc\<rparr>) = cache_view api k s"
  "redis_ok (s\<lparr>w_script := sc\<rparr>) = redis_ok s" "next_token (s\<lparr>w_script := sc\<rparr>) = next_token s"
  "claim_row key eid (s\<lparr>w_script := sc\<rparr>) = claim_row key eid s"
  by (simp_all add: lock_free_def cache_view_def redis_ok_def next_token_def claim_row_def)

lemma redis_ok_flags [simp]:
  "redis_ok (s\<lparr>h_claimed := a, h_completed := b\<rparr>) = redis_ok s" "redis_ok (locked api k ttl s) = redis_ok s"
  by (simp_all add: redis_ok_def locked_def)

lemma locked_script: "locked api k ttl (s\<lparr>w_script := sc\<rparr>) = (locked api k ttl s)\<lparr>w_script := sc\<rparr>"
  by (simp add: locked_def next_token_def)

lemma cache_set_total: "redis_up s \<Longrightarrow> \<exists>b r. cache_set api key v None s = (Inr b, s\<lparr>server := r\<rparr>)"
proof (cases "rd_dumps api v")
  case None
  assume "redis_up s"
  with None have "cache_set api key v None s = (Inr False, s\<lparr>server := server s\<rparr>)"
    by (simp add: cache_set_def cache_ensure_client_def bnd_apply redis_up_def)
  then show ?thesis by blast
next
  case (Some x)
  assume "redis_up s"
  from cache_set_calm [OF this Some] show ?thesis by blast
qed

lemma idempotent_scripted:
  fixes s :: "'r wal_state" and api :: "'r wal_redis"
  assumes "redis_server api" and "fresh_event api ll cl eid (s\<lparr>w_script := []\<rparr>)" and "w_script s = [Fine, Fine, Fine, Fine] @ rest"
    and "work ((work_state api ll cl eid s)\<lparr>w_script := rest\<rparr>) = (Inr (Some v), s2)" and "redis_up s2"
  shows "\<exists>r. idempotent api ll cl remembers eid work s = (Inr (), s2\<lparr>server := r\<rparr>)"
proof -
  let ?key = "''wallet:'' @ cl @ '':'' @ eid" and ?lk = "ll @ '':'' @ eid"
  let ?s0 = "s\<lparr>h_claimed := False, h_completed := False\<rparr>"
  let ?s1 = "?s0\<lparr>w_script := [Fine, Fine, Fine] @ rest\<rparr>"
  let ?s2 = "(locked api ?lk 120 ?s1)\<lparr>w_script := [Fine, Fine] @ rest\<rparr>"
  let ?s3 = "?s2\<lparr>w_script := Fine # rest\<rparr>"
  let ?body = "claimed_work ?key eid remembers work"
  note fresh = assms(2) [unfolded fresh_event_def, simplified]
  have ok: "redis_ok s" using fresh by (simp add: redis_up_def redis_ok_def)
  have free: "lock_free api ?lk ?s1" "cache_view api ?lk ?s0 = None" using fresh by simp_all
  have c1: "cache_get api ?lk ?s0 = (Inr None, ?s1)"
    using cache_get_fine [of ?s0 "[Fine, Fine, Fine] @ rest" api ?lk] ok free assms(3) by simp
  have l: "wait_for_lock api ?lk (Some 120) True 50000 (mono_us ?s1 + max 500000 0) ?s1 = (Inr (Got (next_token ?s1)), ?s2)"
    using wait_fine [OF assms(1), of ?s1 "[Fine, Fine] @ rest" ?lk 120] ok free by simp
  have "cache_view api ?lk ?s2 = None"
    using redis_server.cache_view_locked [OF assms(1) free(1)] free(2) by simp
  then have c2: "cache_get api ?lk ?s2 = (Inr None, ?s3)"
    using cache_get_fine [of ?s2 "Fine # rest" api ?lk] ok by simp
  have tok: "next_token ?s1 \<noteq> []" using free by (simp add: lock_free_def)
  have "?s3\<lparr>w_script := rest, claims := claims ?s3 @ [claim_row ?key eid ?s3], h_claimed := True\<rparr>
      = (work_state api ll cl eid s)\<lparr>w_script := rest\<rparr>"
    by (intro wal_state.equality) (simp_all add: work_state_def Let_def locked_script claim_row_def now_us_def)
  then have body: "?body (Held (next_token ?s1)) ?s3 = (Inr (Some v), s2)"
    using claim_fresh_fine [of ?s3 rest ?key eid] fresh assms(4) tok
    by (simp add: claimed_work_def bnd_apply)
  obtain b r where "cache_set api ?lk v None s2 = (Inr b, s2\<lparr>server := r\<rparr>)" using cache_set_total [OF assms(5), of api ?lk v] by blast
  with c1 l c2 body release_quietly_calm [of "s2\<lparr>server := r\<rparr>" "next_token ?s1" api ?lk] tok assms(5)
  have "\<exists>r. guard api ?lk (Some 120) True None 500000 50000 Return_contended ?body ?s0 = (Inr (), s2\<lparr>server := r\<rparr>)"
    by (simp add: guard_def Let_def bnd_apply catch_apply) blast
  then show ?thesis
    using fresh by (auto simp: idempotent_def Let_def bnd_apply catch_apply is_event_processed_def)
qed

lemma primary_wallet_fine:
  "w_script s = Fine # sc \<Longrightarrow> list_all valid_wallet (user_wallet_rows uid (Some FIAT) (wallets s)) \<Longrightarrow>
   get_primary_wallet uid s = (Inr (first_row (user_wallet_rows uid (Some FIAT) (wallets s))), s\<lparr>w_script := sc\<rparr>)"
  by (simp add: get_primary_wallet_def repo_get_user_wallets_def bnd_apply catch_apply external_def all_wallets_calm)

lemma credit_payment_lost:
  assumes "w_script s = [Fine, Raises]" and "creditable ev a w s" and "length (pe_id ev) \<le> 100"
  shows "\<exists>s'. credit_payment key ev ref [] ''deposited'' s = (Inr (Some [(''status'', ''deposited'')]), s')
    \<and> wallets s' = wallets s \<and> wal_txs s' = wal_txs s
    \<and> claims s' = update_where (\<lambda>c. ec_key c = key)
        (\<lambda>c. c\<lparr>ec_source := pe_id ev, ec_status := Completed, ec_completed_at := Some (now_us s), ec_updated_at := now_us s\<rparr>) (claims s)
    \<and> w_script s' = [] \<and> lock_obj s' = lock_obj s \<and> cache_obj s' = cache_obj s"
proof -
  have fails: "repo_deposit wid x ref m t = (Inr None, t\<lparr>w_script := []\<rparr>)" if "w_script t = [Raises]" for wid x ref m and t :: "'a wal_state"
    using that by (simp add: repo_deposit_def repo_get_wallet_def bnd_apply catch_apply external_def)
  have "a \<noteq> 0" using assms(2) by (auto simp: creditable_def valid_amount_def)
  then show ?thesis
    using assms primary_wallet_fine [of s "[Raises]" "the (pe_user_id ev)"]
    by (simp add: credit_payment_def creditable_def truthy_amount_def bnd_apply to_decimal_def deposit_request_def wal_deposit_def
        respond_def catch_apply fails finish_def mark_event_processed_def mark_completed_calm Let_def now_us_def)
qed

text \<open>
  A payment can be lost: the handler does not look at the outcome of the deposit. When the first
  database call of the deposit fails, the event is marked as completed all the same, no balance
  changes, and no later delivery of the event ever credits it.
\<close>
theorem payment_is_lost_when_deposit_fails:
  fixes s :: "'r wal_state"
  assumes "redis_server api"
    and "fresh_event api ''payment_completed'' ''payment_completed'' (pe_id ev) (s\<lparr>w_script := []\<rparr>)"
    and "w_script s = [Fine, Fine, Fine, Fine, Fine, Raises]"
    and "creditable ev a w (work_state api ''payment_completed'' ''payment_completed'' (pe_id ev) s)"
    and "of_event (pe_id ev) (wal_txs s) = []"
    and "s1 = wal_step api (On_wal_payment_completed ev) s"
    and "list_all (\<lambda>op. spares {pe_id ev} op \<or> redelivers (pe_id ev) op) ops"
  shows "wallets s1 = wallets s \<and> completed_in (payment_key (pe_id ev)) (claims s1)
    \<and> of_event (pe_id ev) (wal_txs (fold (wal_step api) ops s1)) = []"
proof -
  let ?w = "(work_state api ''payment_completed'' ''payment_completed'' (pe_id ev) s)\<lparr>w_script := [Fine, Raises]\<rparr>"
  let ?key = "''wallet:'' @ ''payment_completed'' @ '':'' @ pe_id ev"
  let ?work = "credit_payment (''wallet:payment_completed:'' @ pe_id ev) ev (pe_payment_id ev) [] ''deposited''"
  note fresh = assms(2) [unfolded fresh_event_def, simplified]
  have "creditable ev a w ?w" using assms(4) by (simp add: creditable_def)
  then obtain s2 where work: "?work ?w = (Inr (Some [(''status'', ''deposited'')]), s2)"
    and s2: "wallets s2 = wallets ?w" "wal_txs s2 = wal_txs ?w"
      "claims s2 = update_where (\<lambda>c. ec_key c = ''wallet:payment_completed:'' @ pe_id ev)
        (\<lambda>c. c\<lparr>ec_source := pe_id ev, ec_status := Completed, ec_completed_at := Some (now_us ?w), ec_updated_at := now_us ?w\<rparr>) (claims ?w)"
      "w_script s2 = []" "lock_obj s2 = lock_obj ?w" "cache_obj s2 = cache_obj ?w"
    using credit_payment_lost [of ?w ev a w "''wallet:payment_completed:'' @ pe_id ev" "pe_payment_id ev"] fresh by auto
  have "redis_up s2" using fresh s2(4-6) by (simp add: redis_up_def work_state_def Let_def locked_def)
  from idempotent_scripted [where work = ?work, OF assms(1,2) _ _ this, of "[Fine, Raises]"] work assms(3) obtain r
    where "idempotent api ''payment_completed'' ''payment_completed'' True (pe_id ev) ?work s = (Inr (), s2\<lparr>server := r\<rparr>)"
    by (metis append_Cons append_Nil)
  then have s1: "s1 = s2\<lparr>server := r\<rparr>"
    by (simp add: assms(6) wal_step_def wal_handle_payment_completed_def after_def)
  have "claims s2 = claims s @ [(claim_row ?key (pe_id ev) s)\<lparr>ec_source := pe_id ev, ec_status := Completed,
      ec_completed_at := Some (now_us s), ec_updated_at := now_us s\<rparr>]"
    using s2(3) fresh update_last_claim [of ?key "claims s" "claim_row ?key (pe_id ev) s"]
    by (simp add: claim_row_def)
  then have "completed_in (payment_key (pe_id ev)) (claims s2)"
    using fresh by (simp add: completed_in_last claim_row_def payment_key_def)
  then have fin: "completed_in (payment_key (pe_id ev)) (claims s1)" "wallets s1 = wallets s" "wal_txs s1 = wal_txs s"
    using s2(1,2) by (simp_all add: s1)
  with assms(5) have "settled (pe_id ev) [] (tables s1)" by (simp add: tables_def)
  then have "settled (pe_id ev) [] (tables (fold (wal_step api) ops s1))" using assms(7) by (rule settled_run)
  with fin show ?thesis by (simp add: tables_def)
qed

end
