(* ===== verification/WalletEvents.thy ===== *)
theory WalletEvents
  imports WalletTheorems
begin

section \<open>Wallets: three handlers that cannot do their work\<close>

text \<open>
  The handler of deleted users calls repository methods that do not exist, the handler of calculated
  bills validates a record name as a number, and its report of an insufficient balance reads the data
  of a response that has none. Each is shown as what happens in every state, whatever fails.
\<close>

subsection \<open>Observations\<close>

text \<open>An observation of the tables, the events and the parser.\<close>

definition observes :: "('r wal_state \<Rightarrow> 'x) \<Rightarrow> bool" where
  "observes f \<longleftrightarrow> (\<forall>x. world_free (\<lambda>s. f s = x)) \<and> (\<forall>s cs. f (s\<lparr>claims := cs\<rparr>) = f s)"

lemma observes_world:
  assumes "observes f"
  shows "keeps f (external e)" "keeps f (fresh_hex n)" "keeps f (mark_event_processed eid)"
    "keeps f (modify (\<lambda>s. s\<lparr>h_completed := b\<rparr>))"
  using assms unfolding keeps_def observes_def by (auto intro: world_free_local preserves_set_flags)

lemma observes_claims:
  fixes f :: "'r wal_state \<Rightarrow> 'x"
  assumes "observes f"
  shows "keeps f (claim_wallet_event key eid)" "keeps f (mark_completed key eid)" "keeps f (mark_failed key eid)"
proof -
  have raw: "keeps f m" if "\<And>s. snd (m s) = s \<or> (\<exists>cs. snd (m s) = s\<lparr>claims := cs\<rparr>)" for m :: "('r, 'y) wal_io"
    using that assms by (intro keepsI) (metis observes_def)
  have "keeps f (claim_event_processing key eid pid st)" for pid st
    unfolding claim_event_processing_def Let_def by (intro keep_rules observes_world assms raw) auto
  then show "keeps f (claim_wallet_event key eid)" unfolding claim_wallet_event_def by (intro keep_rules)
  have "keeps f (mark_event_processing_completed key eid)"
    unfolding mark_event_processing_completed_def by (intro keep_rules observes_world assms raw) auto
  then show "keeps f (mark_completed key eid)" unfolding mark_completed_def by (intro keep_rules observes_world assms)
  have "keeps f (mark_event_processing_failed key eid)"
    unfolding mark_event_processing_failed_def by (intro keep_rules observes_world assms raw) auto
  then show "keeps f (mark_failed key eid)" unfolding mark_failed_def by (intro keep_rules)
qed

lemma keeps_idempotent:
  assumes "observes f" and "keeps f work"
  shows "keeps f (idempotent api ll cl remembers eid work)"
  using assms observes_claims [OF assms(1)]
  unfolding keeps_def observes_def by (auto intro!: world_free_idempotent)

lemma keeps_reads:
  assumes "observes f"
  shows "keeps f (repo_get_wallet wid)" "keeps f (repo_get_user_wallets uid ty)"
  unfolding repo_get_wallet_def repo_get_user_wallets_def to_wallet_def
  by (intro keep_rules observes_world assms)+

lemma keeps_ends:
  assumes "observes f"
  shows "keeps f (finish key eid status)" "keeps f (skip_no_wallet key eid why)" "keeps f (missing_fields key eid)"
  unfolding finish_def skip_no_wallet_def missing_fields_def
  by (intro keep_rules observes_world observes_claims assms)+

subsection \<open>Deleted users\<close>

definition money :: "'r wal_state \<Rightarrow> wallet list \<times> wallet_tx list" where
  "money s = (wallets s, wal_txs s)"

lemma observes_money: "observes money"
  by (simp add: observes_def world_free_def money_def)

text \<open>
  Deleting a user freezes and anonymises nothing: \<open>user.deleted\<close> keeps every wallet and every
  transaction as it is, in every state and whatever fails, while the event is recorded as frozen.
\<close>
theorem deleted_users_keep_their_wallets:
  "wallets (wal_step api (On_wal_user_deleted ev) s) = wallets s
    \<and> wal_txs (wal_step api (On_wal_user_deleted ev) s) = wal_txs s"
proof -
  have "keeps money (freeze_wallets key ev)" for key
    unfolding freeze_wallets_def missing_method_def
    by (intro keep_rules keeps_reads keeps_ends observes_money)
  then have "keeps money (wal_handle_user_deleted api ev)"
    unfolding wal_handle_user_deleted_def by (rule keeps_idempotent [OF observes_money])
  from keepsD [OF this, of s] show ?thesis by (simp add: wal_step_def after_def money_def)
qed

subsection \<open>Bills\<close>

definition billing_view :: "'r wal_state \<Rightarrow> wallet list \<times> wallet_tx list \<times> wallet_event list \<times> (string \<Rightarrow> int option)" where
  "billing_view s = (wallets s, wal_txs s, w_events s, parse_int s)"

lemma observes_billing: "observes billing_view"
  by (simp add: observes_def world_free_def billing_view_def)

text \<open>
  Bills are never charged: the billing service names its records \<open>bill_...\<close>, which is not an
  integer, so the request to consume does not validate. \<open>billing.calculated\<close> then changes no wallet,
  records no transaction and publishes nothing, in every state and whatever fails.
\<close>
theorem named_bills_are_never_charged:
  fixes s :: "'r wal_state"
  assumes "\<And>r. parse_int s (''bill_'' @ r) = None"
    and "be_data ev = Some d" and "bd_billing_record_id d = ''bill_'' @ hex"
    and "s1 = wal_step api (On_wal_billing_calculated ev) s"
  shows "wallets s1 = wallets s \<and> wal_txs s1 = wal_txs s \<and> w_events s1 = w_events s"
proof -
  let ?I = "\<lambda>t :: 'r wal_state. billing_view t = billing_view s"
  have free: "world_free ?I" by (simp add: world_free_def billing_view_def)
  have pres: "preserves ?I m" if "keeps billing_view m" for m :: "('r, 'y) wal_io" using that unfolding keeps_def by blast
  note claims = observes_claims [OF observes_billing, THEN pres]
  have deduct: "preserves ?I (deduct_tokens d)"
    unfolding deduct_tokens_def
    by (intro preserves_gets_bnd) (use assms(1,3) in \<open>simp add: billing_view_def\<close>)
  have "preserves ?I (process_billing key ev)" for key
    unfolding process_billing_def assms(2) option.case by (intro preserve_rules claims deduct)
  then have "preserves ?I (wal_handle_billing_calculated api ev)"
    unfolding wal_handle_billing_calculated_def by (intro world_free_idempotent free claims disjI2)
  from preserves_after [of ?I, OF this refl] show ?thesis by (simp add: assms(4) wal_step_def billing_view_def)
qed

subsection \<open>Insufficient balances\<close>

fun is_insufficient :: "wallet_event \<Rightarrow> bool" where
  "is_insufficient (TokensInsufficient uid rec required available) = True"
| "is_insufficient _ = False"

definition shortages :: "'r wal_state \<Rightarrow> wallet_event list" where
  "shortages s = filter is_insufficient (w_events s)"

lemma observes_shortages: "observes shortages"
  by (simp add: observes_def world_free_def shortages_def)

lemma shortages_updates [simp]:
  "shortages (s\<lparr>wallets := ws\<rparr>) = shortages s" "shortages (s\<lparr>wal_txs := ts\<rparr>) = shortages s"
  "shortages (s\<lparr>claims := cs\<rparr>) = shortages s" "shortages (s\<lparr>w_script := sc\<rparr>) = shortages s"
  "shortages (s\<lparr>w_uuid_next := k\<rparr>) = shortages s" "shortages (s\<lparr>processed := p\<rparr>) = shortages s"
  "shortages (s\<lparr>w_now := d, mono_us := t\<rparr>) = shortages s"
  by (simp_all add: shortages_def)

lemma quiet_basic [keep_rules]:
  "keeps shortages (external e)" "keeps shortages (fresh_hex n)" "keeps shortages (mark_event_processed eid)"
  "keeps shortages (claim_wallet_event key eid)" "keeps shortages (mark_completed key eid)"
  "keeps shortages (mark_failed key eid)" "keeps shortages (finish key eid status)"
  "keeps shortages (skip_no_wallet key eid why)" "keeps shortages (missing_fields key eid)"
  "keeps shortages (repo_get_wallet wid)" "keeps shortages (repo_get_user_wallets uid ty)"
  by (rule keep_rules observes_world [OF observes_shortages] observes_claims [OF observes_shortages]
      keeps_ends [OF observes_shortages] keeps_reads [OF observes_shortages])+

lemma quiet_publish: "\<not> is_insufficient ev \<Longrightarrow> keeps shortages (publish (Some ev))"
  by (intro keepsI) (auto simp: shortages_def publish_def catch_def bnd_def external_def split: list.splits outcome.splits)

lemma quiet_publish_None [keep_rules]: "keeps shortages (publish None)"
  by (intro keepsI) simp

lemma quiet_statements [keep_rules]:
  "keeps shortages (to_wallet w)" "keeps shortages (to_tx t)" "keeps shortages (to_decimal am)"
  "keeps shortages (write_balance wid new)" "keeps shortages (insert_tx t)"
  "keeps shortages (\<lambda>s. if \<not> wallet_fits row \<or> wid \<in> wb_wallet_id ` set (wallets s) then (Inl DbError, s)
      else (Inr True, s\<lparr>wallets := wallets s @ [row]\<rparr>))"
proof -
  show "keeps shortages (write_balance wid new)" unfolding write_balance_def
    by (intro keep_rules keepsI) auto
  show "keeps shortages (insert_tx t)" unfolding insert_tx_def
    by (intro keep_rules keepsI) auto
qed (auto intro!: keepsI simp: to_wallet_def to_tx_def to_decimal_def split: amount_field.split)

lemma quiet_repo [keep_rules]:
  "keeps shortages (get_primary_wallet uid)" "keeps shortages (update_balance wid a op)"
  "keeps shortages (record_tx d x y)" "keeps shortages (repo_create_wallet c)"
  "keeps shortages (repo_get_transactions q)" "keeps shortages (repo_get_statistics wid sd ed)"
proof -
  show update: "keeps shortages (update_balance wid a op)" for wid a op unfolding update_balance_def by (intro keep_rules)
  show rec: "keeps shortages (record_tx d x y)" for d x y unfolding record_tx_def create_tx_def by (intro keep_rules)
  show "keeps shortages (repo_create_wallet c)" unfolding repo_create_wallet_def Let_def by (intro keep_rules rec)
  show txs: "keeps shortages (repo_get_transactions q)" for q unfolding repo_get_transactions_def by (intro keep_rules)
  show "keeps shortages (repo_get_statistics wid sd ed)" unfolding repo_get_statistics_def by (intro keep_rules txs)
  show "keeps shortages (get_primary_wallet uid)" unfolding get_primary_wallet_def by (intro keep_rules)
qed

lemma quiet_operations [keep_rules]:
  "keeps shortages (repo_deposit wid a ref m)" "keeps shortages (repo_withdraw wid a dest m)"
  "keeps shortages (repo_consume wid a usage m)" "keeps shortages (repo_transfer src dst a m)"
  "keeps shortages (repo_refund tid amt reason m)"
  unfolding repo_deposit_def repo_withdraw_def repo_consume_def repo_transfer_def repo_refund_def Let_def
  by (intro keep_rules)+

lemma quiet_respond:
  "keeps shortages m \<Longrightarrow> (\<And>t. \<not> is_insufficient (ev t)) \<Longrightarrow> keeps shortages (respond m ev wid)"
  unfolding respond_def by (intro keep_rules quiet_publish)

lemma quiet_service [keep_rules]:
  "keeps shortages (create_wallet c)" "keeps shortages (get_balance wid)" "keeps shortages (sync_blockchain wid)"
  "keeps shortages (wal_deposit wid a ref m)" "keeps shortages (wal_withdraw wid a dest m)"
  "keeps shortages (wal_refund tid amt reason m)" "keeps shortages (wal_transfer src dst a m)"
  "keeps shortages (wal_consume wid a usage m)" "keeps shortages (wal_consume_by_user uid a usage m)"
proof -
  show create: "keeps shortages (create_wallet c)" for c unfolding create_wallet_def
    by (intro keep_rules quiet_publish) simp
  show consume: "keeps shortages (wal_consume wid a usage m)" for wid a usage m unfolding wal_consume_def
    by (intro keep_rules quiet_respond) simp
  show "keeps shortages (wal_consume_by_user uid a usage m)" unfolding wal_consume_by_user_def
    by (intro keep_rules create consume)
qed (unfold get_balance_def sync_blockchain_def wal_deposit_def wal_withdraw_def wal_refund_def wal_transfer_def,
  (intro keep_rules quiet_respond quiet_publish; simp)+)

text \<open>What the answers of a program have in common, however it runs.\<close>

definition answers :: "('a \<Rightarrow> bool) \<Rightarrow> ('s, 'e, 'a) io \<Rightarrow> bool" where
  "answers P m \<longleftrightarrow> (\<forall>s a s'. m s = (Inr a, s') \<longrightarrow> P a)"

lemma answers_bnd: "(\<And>a. answers P (k a)) \<Longrightarrow> answers P (bnd m k)"
  by (auto simp: answers_def bnd_apply split: prod.splits sum.splits)

lemma answers_catch: "answers P m \<Longrightarrow> (\<And>e. answers P (h e)) \<Longrightarrow> answers P (catch m h)"
  by (auto simp: answers_def catch_apply split: prod.splits sum.splits)

lemma answers_rules:
  "P a \<Longrightarrow> answers P (ret a)" "answers P (throw e)"
  "answers P m \<Longrightarrow> answers P n \<Longrightarrow> answers P (if b then m else n)"
  "answers P m \<Longrightarrow> (\<And>a. answers P (l a)) \<Longrightarrow> answers P (case x of None \<Rightarrow> m | Some a \<Rightarrow> l a)"
  by (auto simp: answers_def split: option.splits)

lemmas answers_intros = answers_bnd answers_catch answers_rules

lemma quiet_answer:
  assumes "keeps f m" and "answers P m" and "\<And>a. P a \<Longrightarrow> keeps f (k a)"
  shows "keeps f (bnd m k)"
proof (rule keepsI)
  fix s
  obtain x s' where m: "m s = (x, s')" by fastforce
  with keepsD [OF assms(1), of s] have "f s' = f s" by simp
  moreover have "P a" if "x = Inr a" for a using that m assms(2) by (auto simp: answers_def)
  ultimately show "f (snd (bnd m k s)) = f s"
    using m keepsD [OF assms(3)] by (cases x) (simp_all add: bnd_apply)
qed

definition tells :: "wallet_response \<Rightarrow> bool" where
  "tells r \<longleftrightarrow> wr_success r \<or> wr_tx r = None"

lemma answers_create: "answers tells (create_wallet c)"
  unfolding create_wallet_def by (intro answers_intros) (simp_all add: tells_def wal_failure_def)

lemma answers_consume: "answers tells (wal_consume_by_user uid a usage m)"
proof -
  have consume: "answers tells (wal_consume wid a usage m)" for wid
    unfolding wal_consume_def respond_def by (intro answers_intros) (simp_all add: tells_def wal_failure_def tx_response_def)
  have "answers tells (bnd (create_wallet c) (\<lambda>created. if \<not> wr_success created then ret created else k))"
    if "answers tells k" for c k
    using answers_create [of c] that by (auto simp: answers_def bnd_apply split: prod.splits sum.splits)
  note created = this
  show ?thesis unfolding wal_consume_by_user_def
    by (intro created answers_intros consume) (simp add: tells_def wal_failure_def)
qed

lemma quiet_billing [keep_rules]: "keeps shortages (process_billing key ev)"
proof -
  have "keeps shortages (deduct_tokens d)" for d unfolding deduct_tokens_def
    by (intro quiet_answer [OF _ answers_consume] keep_rules) (auto simp: tells_def intro!: keep_rules quiet_publish split: option.splits)
  then show ?thesis unfolding process_billing_def by (intro keep_rules)
qed

lemma quiet_work [keep_rules]:
  "keeps shortages (credit_payment key ev ref extra status)" "keeps shortages (allocate_subscription key sev)"
  "keeps shortages (freeze_wallets key uev)" "keeps shortages (open_wallet key uev)"
proof -
  have deposit: "keeps shortages (deposit_request wid a ref m)" for wid a ref m
    unfolding deposit_request_def by (intro keep_rules)
  show "keeps shortages (credit_payment key ev ref extra status)" "keeps shortages (allocate_subscription key sev)"
    unfolding credit_payment_def allocate_subscription_def by (intro keep_rules deposit)+
  show "keeps shortages (freeze_wallets key uev)" "keeps shortages (open_wallet key uev)"
    unfolding freeze_wallets_def open_wallet_def missing_method_def by (intro keep_rules)+
qed

lemma shortages_step: "shortages (wal_step api op s) = shortages s"
proof -
  have run: "shortages (after m s) = shortages s" if "keeps shortages m" for m :: "('a, 'x) wal_io"
    using keepsD [OF that] by (simp add: after_def)
  note handled = keeps_idempotent [OF observes_shortages]
  show ?thesis
    by (cases op; simp add: wal_step_def if_valid_def wal_handle_payment_completed_def wal_handle_payment_refunded_def
        wal_handle_subscription_created_def wal_handle_user_created_def wal_handle_user_deleted_def
        wal_handle_billing_calculated_def)
      (intro impI run handled keep_rules)+
qed

text \<open>
  The event \<open>tokens.insufficient\<close> is never published: the branch that reports it reads the data of
  a failed response, which has none, and raises. No history of operations, whatever fails, adds one.
\<close>
theorem insufficient_never_published:
  "shortages (fold (wal_step api) ops s) = shortages s"
  by (induction ops arbitrary: s) (simp_all add: shortages_step)

end
