(* ===== verification/WalletMoney.thy ===== *)
theory WalletMoney
  imports WalletEvents
begin

section \<open>Wallets: transfers and refunds\<close>

text \<open>
  A transfer is two updates and, when the second fails, a compensating third; it never creates money,
  whatever fails. A refund looks only at the original transaction, never at earlier refunds of it.
\<close>

subsection \<open>Updates of a balance, whatever fails\<close>

definition total_balance :: "wallet list \<Rightarrow> rat" where
  "total_balance ws = (\<Sum>w\<leftarrow>ws. wb_balance w)"

definition unchanged :: "'r wal_state \<Rightarrow> 'r wal_state \<Rightarrow> bool" where
  "unchanged s s' \<longleftrightarrow> wallets s' = wallets s \<and> dbl s' = dbl s"

lemma unchanged_refl [simp]: "unchanged s s"
  by (simp add: unchanged_def)

lemma get_wallet_effect:
  assumes "repo_get_wallet wid s = (x, s')"
  shows "unchanged s s' \<and> (x = Inr None \<or> (\<exists>w. x = Inr (Some w) \<and> row_by wb_wallet_id wid (wallets s) = Some w \<and> valid_wallet w))"
  using assms by (auto simp: repo_get_wallet_def to_wallet_def unchanged_def catch_apply bnd_apply external_def
      split: list.splits outcome.splits option.splits if_splits)

text \<open>An update either writes the new balance of the row it has read, or changes nothing and says so.\<close>

definition balance_updated :: "string \<Rightarrow> rat \<Rightarrow> rat \<Rightarrow> 'r wal_state \<Rightarrow> 'r wal_state \<Rightarrow> bool" where
  "balance_updated wid old new s s' \<longleftrightarrow> dbl s' = dbl s \<and> (\<exists>now. wallets s' = set_balance wid (dbl s new) now (wallets s))
     \<and> (\<exists>w. row_by wb_wallet_id wid (wallets s) = Some w \<and> valid_wallet w \<and> wb_balance w = old)"

lemma write_balance_effect:
  assumes "write_balance wid new s = (x, s')"
  shows "(x \<noteq> Inr (Some new) \<and> (\<forall>b. x \<noteq> Inr (Some b)) \<and> unchanged s s')
    \<or> (x = Inr (Some new) \<and> dbl s' = dbl s \<and> (\<exists>now. wallets s' = set_balance wid (dbl s new) now (wallets s)))"
  using assms by (auto simp: write_balance_def set_balance_def unchanged_def bnd_apply external_def
      split: list.splits outcome.splits if_splits)

lemma update_balance_effect:
  assumes "update_balance wid a op s = (x, s')" and "op = ''add'' \<or> op = ''subtract''"
  defines "change \<equiv> (if op = ''add'' then a else - a)"
  shows "(x = Inr None \<and> unchanged s s') \<or> (\<exists>b. x = Inr (Some (b + change)) \<and> balance_updated wid b (b + change) s s'
    \<and> (op = ''subtract'' \<longrightarrow> a \<le> b))"
proof -
  obtain y s1 where get: "repo_get_wallet wid s = (y, s1)" by fastforce
  note got = get_wallet_effect [OF get]
  show ?thesis
  proof (cases "y = Inr None")
    case True
    with assms(1) got get show ?thesis by (auto simp: update_balance_def catch_apply bnd_apply)
  next
    case False
    with got obtain w where w: "y = Inr (Some w)" "row_by wb_wallet_id wid (wallets s) = Some w" "valid_wallet w"
      and same: "wallets s1 = wallets s" "dbl s1 = dbl s" by (auto simp: unchanged_def)
    obtain z s2 where put: "write_balance wid (wb_balance w + change) s1 = (z, s2)" by fastforce
    from write_balance_effect [OF this] show ?thesis
      using assms(1,2) get w same put
      by (auto simp: update_balance_def catch_apply bnd_apply balance_updated_def unchanged_def change_def split: if_splits sum.splits)
  qed
qed

subsection \<open>Transfers\<close>

text \<open>Wallets whose amounts fit double precision exactly.\<close>

definition small_wallets :: "'r wal_state \<Rightarrow> bool" where
  "small_wallets s \<longleftrightarrow> exact_dbl (dbl s) \<and> unique_key wb_wallet_id (wallets s) \<and> (\<forall>w \<in> set (wallets s). 0 \<le> wb_balance w)"

lemma balance_le_total: "\<forall>w \<in> set ws. 0 \<le> wb_balance w \<Longrightarrow> w \<in> set ws \<Longrightarrow> wb_balance w \<le> total_balance ws"
  unfolding total_balance_def by (rule member_le_sum_list) auto

lemma total_set_balance:
  assumes "unique_key wb_wallet_id ws" and "row_by wb_wallet_id wid ws = Some w"
  shows "total_balance (set_balance wid b now ws) = total_balance ws + (b - wb_balance w)"
  using sum_update_where [where 'n = rat, OF assms(1), of w "\<lambda>w. wb_wallet_id w = wid"] row_by_Some [OF assms(2)]
  by (simp add: total_balance_def set_balance_def)

lemma small_update:
  assumes "small_wallets s" and "balance_updated wid b (b + c) s s'" and "decimals8 c" and "0 \<le> b + c"
    and "total_balance (wallets s) + max c 0 \<le> 10 ^ 7"
  shows "small_wallets s' \<and> total_balance (wallets s') = total_balance (wallets s) + c"
proof -
  obtain w now where w: "row_by wb_wallet_id wid (wallets s) = Some w" "valid_wallet w" "wb_balance w = b"
    and s': "wallets s' = set_balance wid (dbl s (b + c)) now (wallets s)" "dbl s' = dbl s"
    using assms(2) by (auto simp: balance_updated_def)
  have s: "exact_dbl (dbl s)" "unique_key wb_wallet_id (wallets s)" "\<forall>w \<in> set (wallets s). 0 \<le> wb_balance w"
    using assms(1) by (simp_all add: small_wallets_def)
  have "b \<le> total_balance (wallets s)" using balance_le_total [OF s(3)] row_by_Some [OF w(1)] w(3) by blast
  then have "b + c \<le> 10 ^ 7" using assms(5) by (simp add: max_def split: if_splits)
  moreover have "decimals8 (b + c)" using w(2,3) assms(3) by (auto simp: valid_wallet_def intro: decimals8_add)
  ultimately have "dbl s (b + c) = b + c" using exact_dblD [OF s(1)] assms(4) by blast
  with s w s' total_set_balance [OF s(2) w(1), of "b + c" now] assms(4) show ?thesis
    by (simp add: small_wallets_def set_balance_def unique_key_update_where ball_update_where)
qed

lemma record_tx_wallets: "record_tx d x y s = (r, s') \<Longrightarrow> wallets s' = wallets s"
proof -
  assume "record_tx d x y s = (r, s')"
  moreover have "preserves (\<lambda>t. wallets t = wallets s) (record_tx d x y)"
    unfolding record_tx_def create_tx_def insert_tx_def to_tx_def
    by (intro preserve_rules preserves_external preserves_fresh_hex preservesI) auto
  ultimately show ?thesis using preservesD [of "\<lambda>t. wallets t = wallets s" _ s] by fastforce
qed

definition worth :: "rat \<Rightarrow> 'r wal_state \<Rightarrow> bool" where
  "worth T s \<longleftrightarrow> small_wallets s \<and> total_balance (wallets s) = T"

lemma worth_unchanged: "worth T s \<Longrightarrow> unchanged s s' \<Longrightarrow> worth T s'"
  by (simp add: worth_def small_wallets_def unchanged_def)

lemma worth_updated:
  "worth T s \<Longrightarrow> balance_updated wid b (b + c) s s' \<Longrightarrow> decimals8 c \<Longrightarrow> 0 \<le> b + c \<Longrightarrow> T + max c 0 \<le> 10 ^ 7 \<Longrightarrow> worth (T + c) s'"
  using small_update [of s wid b c s'] by (simp add: worth_def)

lemma ends_get_wallet: "ends (worth T) (repo_get_wallet wid) (case_sum (\<lambda>e s. worth T s) (\<lambda>w s. worth T s))"
proof (rule endsI)
  fix s x and s' :: "'r wal_state" assume w: "worth T s" and "repo_get_wallet wid s = (x, s')"
  then have "worth T s'" using get_wallet_effect worth_unchanged by metis
  then show "case_sum (\<lambda>e s. worth T s) (\<lambda>w s. worth T s) x s'" by (simp split: sum.split)
qed

lemma ends_subtract:
  assumes "valid_amount a" and "T \<le> 10 ^ 7"
  shows "ends (worth T) (update_balance wid a ''subtract'')
    (case_sum (\<lambda>e s. False) (\<lambda>b s. case b of None \<Rightarrow> worth T s | Some _ \<Rightarrow> worth (T - a) s))"
proof (rule endsI)
  fix s x and s' :: "'r wal_state" assume w: "worth T s" and u: "update_balance wid a ''subtract'' s = (x, s')"
  have "decimals8 (- a)" using decimals8_diff [OF decimals8_0] assms(1) by (simp add: valid_amount_def)
  with update_balance_effect [OF u] w assms worth_updated [of T s wid _ "- a" s'] worth_unchanged [OF w]
  show "case_sum (\<lambda>e s. False) (\<lambda>b s. case b of None \<Rightarrow> worth T s | Some _ \<Rightarrow> worth (T - a) s) x s'"
    by (auto simp: valid_amount_def)
qed

lemma ends_add:
  assumes "valid_amount a" and "T + a \<le> 10 ^ 7"
  shows "ends (worth T) (update_balance wid a ''add'')
    (case_sum (\<lambda>e s. False) (\<lambda>b s. case b of None \<Rightarrow> worth T s | Some _ \<Rightarrow> worth (T + a) s))"
proof (rule endsI)
  fix s x and s' :: "'r wal_state" assume w: "worth T s" and u: "update_balance wid a ''add'' s = (x, s')"
  have "0 \<le> b + a" if "balance_updated wid b (b + a) s s'" for b
    using that assms(1) by (auto simp: balance_updated_def valid_wallet_def valid_amount_def)
  with update_balance_effect [OF u] w assms worth_updated [of T s wid _ a s'] worth_unchanged [OF w]
  show "case_sum (\<lambda>e s. False) (\<lambda>b s. case b of None \<Rightarrow> worth T s | Some _ \<Rightarrow> worth (T + a) s) x s'"
    by (auto simp: valid_amount_def)
qed

lemma preserves_worth:
  "preserves (worth T) (record_tx d x y)" "preserves (worth T) (publish ev)"
  unfolding record_tx_def create_tx_def insert_tx_def to_tx_def
  by (intro preserve_rules preserves_publish preserves_external preserves_fresh_hex preservesI; simp add: worth_def small_wallets_def)+

lemma ends_transfer:
  assumes "valid_amount a" and "T + a \<le> 10 ^ 7"
  shows "ends (worth T) (repo_transfer src dst a m) (\<lambda>_ s. worth T s \<or> worth (T - a) s)"
proof -
  let ?E = "\<lambda>s :: 'r wal_state. worth T s \<or> worth (T - a) s"
  let ?Q = "\<lambda>_. ?E"
  have bounds: "T \<le> 10 ^ 7" "T - a + a \<le> 10 ^ 7" using assms by (simp_all add: valid_amount_def)
  have stays: "ends (worth T) p ?Q" if "preserves (worth T) p" for p :: "('r, 'x) wal_io"
    using ends_preserved [OF that] by (rule ends_weaken) simp
  have compensate: "ends (worth (T - a)) (bnd (update_balance src a ''add'') (\<lambda>_. ret None)) ?Q"
    by (rule ends_bnd [where J = "\<lambda>_. ?E"], rule ends_weaken [OF ends_add [OF assms(1) bounds(2)]])
      (auto intro: ends_ret split: sum.splits option.splits)
  let ?noted = "\<lambda>fw tw x y. bnd (record_tx ((tx_data src (wb_user_id fw) TRANSFER a (transfer_meta m dst))\<lparr>tn_to_wallet_id := Some dst\<rparr>)
        (wb_balance fw) x) (\<lambda>p. bnd (record_tx (tx_data dst (wb_user_id tw) TRANSFER a (transfer_meta m src)) (wb_balance tw) y)
        (\<lambda>q. ret (case p of None \<Rightarrow> None | Some a \<Rightarrow> case q of None \<Rightarrow> None | Some b \<Rightarrow> Some (a, b))))"
  have record_it: "ends (worth T) (?noted fw tw x y) ?Q" for fw tw x y
    by (intro stays preserve_rules preserves_worth)
  have second: "ends (worth (T - a)) (bnd (update_balance dst a ''add'') (\<lambda>tb. case tb of
        None \<Rightarrow> bnd (update_balance src a ''add'') (\<lambda>_. ret None) | Some y \<Rightarrow> ?noted fw tw x y)) ?Q" for fw tw x
  proof (rule ends_bnd [where J = "\<lambda>tb s. case tb of None \<Rightarrow> worth (T - a) s | Some _ \<Rightarrow> worth T s"])
    show "ends (worth (T - a)) (update_balance dst a ''add'')
        (case_sum (\<lambda>_. ?E) (\<lambda>tb s. case tb of None \<Rightarrow> worth (T - a) s | Some _ \<Rightarrow> worth T s))"
      by (rule ends_weaken [OF ends_add [OF assms(1) bounds(2)]]) (auto split: sum.splits option.splits)
  qed (auto intro: compensate record_it split: option.split)
  have first: "ends (worth T) (bnd (update_balance src a ''subtract'') (\<lambda>fb. case fb of None \<Rightarrow> ret None | Some x \<Rightarrow>
      bnd (update_balance dst a ''add'') (\<lambda>tb. case tb of
        None \<Rightarrow> bnd (update_balance src a ''add'') (\<lambda>_. ret None) | Some y \<Rightarrow> ?noted fw tw x y))) ?Q" for fw tw
  proof (rule ends_bnd [where J = "\<lambda>fb s. case fb of None \<Rightarrow> worth T s | Some _ \<Rightarrow> worth (T - a) s"])
    show "ends (worth T) (update_balance src a ''subtract'')
        (case_sum (\<lambda>_. ?E) (\<lambda>fb s. case fb of None \<Rightarrow> worth T s | Some _ \<Rightarrow> worth (T - a) s))"
      by (rule ends_weaken [OF ends_subtract [OF assms(1) bounds(1)]]) (auto split: sum.splits)
  qed (auto intro: second ends_ret split: option.split)
  have get: "ends (worth T) (repo_get_wallet wid) (case_sum (\<lambda>_. ?E) (\<lambda>_. worth T))" for wid
    by (rule ends_weaken [OF ends_get_wallet]) (auto split: sum.splits)
  show ?thesis
    unfolding repo_transfer_def
    by (rule ends_catch [where J = "\<lambda>_. ?E"], rule ends_weaken [where Q' = ?Q])
      (auto intro!: ends_bnd [OF get] ends_option ends_if first ends_ret split: sum.splits)
qed


subsection \<open>Refunds\<close>

definition refunds_of :: "string \<Rightarrow> wallet_tx list \<Rightarrow> wallet_tx list" where
  "refunds_of tid ts = filter (\<lambda>t. wt_type t = REFUND \<and> wt_reference_id t = Some tid) ts"

text \<open>The identifiers of the next \<open>n\<close> transactions are new.\<close>

definition new_ids :: "nat \<Rightarrow> 'r wal_state \<Rightarrow> bool" where
  "new_ids n s \<longleftrightarrow> inj_on (\<lambda>k. take 36 (w_uuid s k)) {w_uuid_next s ..< w_uuid_next s + n}
     \<and> (\<forall>k \<in> {w_uuid_next s ..< w_uuid_next s + n}. take 36 (w_uuid s k) \<notin> wt_id ` set (wal_txs s))"

definition refundable :: "string \<Rightarrow> wallet_tx \<Rightarrow> wallet \<Rightarrow> nat \<Rightarrow> 'r wal_state \<Rightarrow> bool" where
  "refundable tid t w n s \<longleftrightarrow> w_script s = [] \<and> exact_dbl (dbl s) \<and> new_ids n s
     \<and> row_by wt_id tid (wal_txs s) = Some t \<and> valid_amount (wt_amount t) \<and> length tid \<le> 255
     \<and> row_by wb_wallet_id (wt_wallet_id t) (wallets s) = Some w \<and> valid_wallet w \<and> wallet_fits w
     \<and> wb_balance w + of_nat n * wt_amount t \<le> 10 ^ 7"

lemma new_ids_Suc:
  assumes "new_ids (Suc n) s" and "wt_id t = take 36 (w_uuid s (w_uuid_next s))"
    and "w_uuid s' = w_uuid s" "w_uuid_next s' = Suc (w_uuid_next s)" "wal_txs s' = wal_txs s @ [t]"
  shows "new_ids n s' \<and> wt_id t \<notin> wt_id ` set (wal_txs s)"
proof -
  let ?next = "w_uuid_next s"
  have "?next \<in> {?next ..< ?next + Suc n}" by simp
  moreover have "{Suc ?next ..< Suc ?next + n} \<subseteq> {?next ..< ?next + Suc n} - {?next}" by auto
  ultimately show ?thesis
    using assms unfolding new_ids_def
    by (auto intro: inj_on_subset dest: inj_on_contraD)
qed

lemma refund_step:
  fixes s :: "'r wal_state"
  assumes "refundable tid t w (Suc n) s" and s'_def: "s' = wal_step api (Refund tid None reason m) s"
  shows "refundable tid t (w\<lparr>wb_balance := wb_balance w + wt_amount t, wb_updated_at := now_us s\<rparr>) n s'
    \<and> length (refunds_of tid (wal_txs s')) = Suc (length (refunds_of tid (wal_txs s)))"
proof -
  note r = assms(1) [unfolded refundable_def]
  let ?a = "wt_amount t" and ?w = "w\<lparr>wb_balance := wb_balance w + wt_amount t, wb_updated_at := now_us s\<rparr>"
  let ?row = "tx_row s (refund_data w ?a tid reason m) (wb_balance w) (wb_balance w + ?a)"
  have wid: "wb_wallet_id w = wt_wallet_id t" using row_by_wallet_id r by blast
  have a: "0 < ?a" "decimals8 ?a" and b: "0 \<le> wb_balance w" "decimals8 (wb_balance w)"
    using r by (auto simp: valid_amount_def valid_wallet_def)
  have "wb_balance w + ?a \<le> wb_balance w + of_nat (Suc n) * ?a" using a(1) by (simp add: algebra_simps)
  then have "wb_balance w + ?a \<le> 10 ^ 7" using r by linarith
  then have exact: "dbl s (wb_balance w + ?a) = wb_balance w + ?a" "dbl s ?a = ?a" "dbl s (wb_balance w) = wb_balance w"
    using a b r by (auto intro!: exact_dblD decimals8_add)
  have "w_uuid_next s \<in> {w_uuid_next s ..< w_uuid_next s + Suc n}" by simp
  then have "take 36 (w_uuid s (w_uuid_next s)) \<notin> wt_id ` set (wal_txs s)"
    using r unfolding new_ids_def by blast
  then have rec_ok: "recordable s (refund_data w ?a tid reason m) (wb_balance w) (wb_balance w + ?a)"
    using r a b exact by (simp add: recordable_def tx_row_def refund_data_def tx_data_def valid_amount_def tx_fits_def valid_tx_def
        wallet_fits_def opt_fits_def decimals8_add)
  have "repo_refund tid None reason m s = (Inr (Some ?row),
      with_tx ?row (s\<lparr>wallets := set_balance (wb_wallet_id w) (wb_balance w + ?a) (now_us s) (wallets s)\<rparr>))"
    using repo_refund_calm [of s tid t ?a None w reason m] r a b exact rec_ok by (simp add: truthy_num_def)
  then have s': "wallets s' = set_balance (wb_wallet_id w) (wb_balance w + ?a) (now_us s) (wallets s)"
    "wal_txs s' = wal_txs s @ [?row]" "w_script s' = []" "dbl s' = dbl s" "w_uuid s' = w_uuid s" "w_uuid_next s' = Suc (w_uuid_next s)"
    using r by (simp_all add: s'_def wal_step_def if_valid_def opt_all_def after_def wal_refund_def respond_def
        catch_apply bnd_apply publish_calm with_tx_def)
  have id: "wt_id ?row = take 36 (w_uuid s (w_uuid_next s))" by (simp add: tx_row_def)
  have ids: "new_ids n s'" "wt_id ?row \<notin> wt_id ` set (wal_txs s)"
    using new_ids_Suc [of n s ?row s'] r id s' by blast+
  then have "wt_id ?row \<noteq> tid" using r row_by_Some by (metis image_eqI)
  then have "row_by wt_id tid (wal_txs s') = Some t" using r by (simp add: s'(2) row_by_append_old)
  moreover have "row_by wb_wallet_id (wt_wallet_id t) (wallets s') = Some ?w"
    using r by (simp add: s'(1) wid set_balance_def row_by_update_where)
  moreover have "valid_wallet ?w" "wallet_fits ?w"
    using r a b by (auto simp: valid_wallet_def wallet_fits_def wb_available_def intro: decimals8_add)
      (metis add.commute add_diff_eq decimals8_add)
  moreover have "length (refunds_of tid [?row]) = 1"
    by (simp add: refunds_of_def tx_row_def refund_data_def tx_data_def)
  ultimately show ?thesis
    using r ids s' by (simp add: refundable_def algebra_simps refunds_of_def)
qed

text \<open>
  Refunds have no memory: the whole amount of one transaction can be refunded any number of times.
  As long as nothing fails, \<open>n\<close> requests to refund it raise the balance of its wallet by \<open>n\<close> times its
  amount, whatever type the transaction has.
\<close>
theorem refunds_can_repeat:
  assumes "refundable tid t w n s" and "sn = (wal_step api (Refund tid None reason m) ^^ n) s"
  shows "map_option wb_balance (row_by wb_wallet_id (wt_wallet_id t) (wallets sn)) = Some (wb_balance w + of_nat n * wt_amount t)
    \<and> length (refunds_of tid (wal_txs sn)) = length (refunds_of tid (wal_txs s)) + n"
  unfolding assms(2) using assms(1)
proof (induction n arbitrary: s w)
  case 0
  then show ?case by (simp add: refundable_def)
next
  case (Suc n)
  from refund_step [OF Suc.prems refl, of api reason m] Suc.IH show ?case
    by (force simp: funpow_swap1 [symmetric] funpow_Suc_right algebra_simps simp del: funpow.simps)
qed

end
