(* ===== verification/WalletExamples.thy ===== *)
theory WalletExamples
  imports WalletMoney
begin

section \<open>Wallets: the properties at a concrete state\<close>

text \<open>
  A small database, a Redis table as the server, and each property of the wallet service that has
  hypotheses at an input that meets them.
\<close>

subsection \<open>A database\<close>

text \<open>The results of the handlers as Redis keeps them: their status.\<close>

definition wallet_redis :: "(redis_table, outcome_result) redis_api" where
  "wallet_redis = \<lparr>
     rd_get = rd_get map_redis, rd_set_nx = rd_set_nx map_redis, rd_set = rd_set map_redis, rd_del = rd_del map_redis,
     rd_pexpire = rd_pexpire map_redis, rd_scan = rd_scan map_redis,
     rd_dumps = (\<lambda>v. map_of v ''status''),
     rd_loads = (\<lambda>t. Inr (Some [(''status'', t)]))\<rparr>"

interpretation wallet_redis: redis_server wallet_redis
  unfolding wallet_redis_def by (unfold_locales; simp add: map_redis.get_gone map_redis.set_nx_wins map_redis.set_nx_loses
    map_redis.set_nx_get map_redis.set_nx_other map_redis.set_get map_redis.set_other map_redis.del_wins map_redis.del_get
    map_redis.del_other map_redis.pexpire_wins map_redis.pexpire_get map_redis.pexpire_other)

definition noon :: datetime where
  "noon = \<lparr>dt_year = 2026, dt_month = 2, dt_day = 4, dt_us = 43200000000\<rparr>"

definition a_wallet :: "string \<Rightarrow> string \<Rightarrow> rat \<Rightarrow> wallet" where
  "a_wallet wid uid b = \<lparr>wb_wallet_id = wid, wb_user_id = uid, wb_balance = b, wb_locked = 0, wb_currency = ''USD'', wb_type = FIAT,
     wb_address = None, wb_network = None, wb_active = True, wb_created_at = 0, wb_updated_at = 0\<rparr>"

definition a_purchase :: wallet_tx where
  "a_purchase = \<lparr>wt_id = ''t0'', wt_wallet_id = ''w1'', wt_user_id = ''u1'', wt_type = CONSUME, wt_amount = 5, wt_before = 105,
     wt_after = 100, wt_reference_id = None, wt_usage = True, wt_to_wallet_id = None, wt_meta = [], wt_created_at = 0\<rparr>"

definition a_claim :: "claim_status \<Rightarrow> event_claim" where
  "a_claim st = \<lparr>ec_key = ''wallet:user_created:e0'', ec_source = ''e0'', ec_status = st, ec_processor = processor_id,
     ec_claimed_at = 0, ec_completed_at = None, ec_updated_at = 0\<rparr>"

definition purse :: "outcome list \<Rightarrow> event_claim list \<Rightarrow> redis_table wal_state" where
  "purse sc cs = \<lparr>w_now = noon, w_uuid = (\<lambda>k. CHR ''i'' # replicate k (CHR ''x'')), w_uuid_next = 0, w_script = sc,
     w_bus = True, w_events = [], server = [], mono_us = 0, neighbours = [],
     lock_obj = redis_obj_init ''wallet'' True False 60 None, cache_obj = redis_obj_init ''wallet'' True False 300 None,
     wallets = [a_wallet ''w1'' ''u1'' 100, a_wallet ''w2'' ''u2'' 50], wal_txs = [a_purchase], claims = cs,
     dbl = (\<lambda>x. x), parse_int = (\<lambda>t. if t = ''42'' then Some 42 else None), set_order = (\<lambda>p. p),
     processed = [], h_claimed = False, h_completed = False\<rparr>"

definition a_payment :: payment_event where
  "a_payment = \<lparr>pe_id = ''e1'', pe_type = ''payment.completed'', pe_timestamp = ''now'', pe_user_id = Some ''u1'', pe_amount = Amount 10,
     pe_currency = None, pe_payment_id = Some ''p1'', pe_refund_id = None, pe_reason = None\<rparr>"

definition a_bill :: billing_event where
  "a_bill = \<lparr>be_id = ''e2'', be_data = Some \<lparr>bd_user_id = ''u1'', bd_billing_record_id = ''bill_0af3'', bd_tokens = 3,
     bd_is_free_tier = False, bd_is_included = False\<rparr>\<rparr>"

lemmas purse_simps = purse_def a_wallet_def a_purchase_def a_claim_def processor_id_def

lemma purse_views [simp]:
  "w_script (purse sc cs) = sc" "claims (purse sc cs) = cs" "dbl (purse sc cs) = (\<lambda>x. x)" "wal_txs (purse sc cs) = [a_purchase]"
  "wallets (purse sc cs) = [a_wallet ''w1'' ''u1'' 100, a_wallet ''w2'' ''u2'' 50]"
  by (simp_all add: purse_def)

lemma purse_calm [simp]: "(purse sc cs)\<lparr>w_script := []\<rparr> = purse [] cs"
  by (simp add: purse_def)

lemma purse_wallets: "valid_wallet (a_wallet wid uid b) \<longleftrightarrow> 0 \<le> b \<and> decimals8 b"
  by (auto simp: valid_wallet_def a_wallet_def wb_available_def)

subsection \<open>Tables and claims\<close>

lemma decimals8_numeral [simp]: "decimals8 (numeral n)"
  unfolding decimals8_iff by (rule exI [of _ "numeral n * 10 ^ 8"]) simp

lemma purse_well_formed: "well_formed (\<lambda>x. x) (tables (purse sc [a_claim st]))"
  by (simp add: tables_def unique_key_def wallet_fits_def claim_fits_def tx_ok_def tx_fits_def valid_amount_def opt_fits_def
      a_wallet_def a_purchase_def a_claim_def processor_id_def)

theorem wallet_tables_well_formed_witness:
  "well_formed (\<lambda>x. x) (tables (fold (wal_step wallet_redis)
     [On_wal_payment_completed a_payment, Transfer ''w1'' ''w2'' 7 [], Refund ''t0'' None ''again'' []]
     (purse [Fine, Raises, Refuses] [a_claim Processing])))"
  using wallet_tables_well_formed [of "purse [Fine, Raises, Refuses] [a_claim Processing]" wallet_redis
      "[On_wal_payment_completed a_payment, Transfer ''w1'' ''w2'' 7 [], Refund ''t0'' None ''again'' []]"]
    purse_well_formed by simp

theorem completed_claims_are_final_witness:
  "result (claim_wallet_event ''wallet:user_created:e0'' ''e0'')
     (fold (wal_step wallet_redis) [Wal_restart, On_wal_user_created \<lparr>ue_id = ''e0'', ue_user_id = Some ''u9''\<rparr>]
       (purse [] [a_claim Completed])) \<noteq> Inr True"
  by (rule completed_claims_are_final) (simp add: completed_in_def a_claim_def)

theorem claim_is_exclusive_witness:
  "result (claim_wallet_event ''k'' ''e8'') (fold claim_step
     [Claim ''k'' ''e8'', Claim_failed ''other'' ''e9'', Claim_clock (noon\<lparr>dt_us := 43500000000\<rparr>), Claim_completed ''k'' ''e7'']
     ((purse [] [])\<lparr>claims := [claim_row ''k'' ''e7'' (purse [] [])]\<rparr>)) \<noteq> Inr True"
  by (rule claim_is_exclusive [where s = "purse [] []" and key = "''k''" and src = "''e7''"])
    (simp_all add: claim_fresh_calm unique_key_def, simp add: now_us_def purse_def noon_def stamp_def ordinal_def us_per_second_def)

theorem abandoned_claim_is_recovered_witness:
  "result (claim_wallet_event ''wallet:user_created:e0'' ''e5'') (purse [] [a_claim Failed]) = Inr True"
  using abandoned_claim_is_recovered [of "purse [] [a_claim Failed]" "a_claim Failed" "''wallet:user_created:e0''" "''e5''"]
  by (simp add: a_claim_def)

subsection \<open>Transfers and refunds\<close>


theorem refunds_can_repeat_witness:
  "map_option wb_balance (row_by wb_wallet_id ''w1'' (wallets ((wal_step wallet_redis (Refund ''t0'' None ''again'' []) ^^ 3)
     (purse [] [])))) = Some 115"
proof -
  have "new_ids 3 (purse [] [])"
    by (simp add: new_ids_def purse_def a_purchase_def inj_on_def atLeastLessThan_nat_numeral numeral_3_eq_3)
  then have "refundable ''t0'' a_purchase (a_wallet ''w1'' ''u1'' 100) 3 (purse [] [])"
    by (simp add: refundable_def exact_dbl_id row_by_def a_purchase_def purse_wallets valid_amount_def, simp add: a_wallet_def wallet_fits_def opt_fits_def)
  from refunds_can_repeat [OF this refl, of wallet_redis "''again''" "[]"] show ?thesis
    by (simp add: a_purchase_def a_wallet_def)
qed

subsection \<open>Events\<close>

lemma purse_fresh: "fresh_event wallet_redis ll cl eid (purse [] [])"
  if "length ll \<le> 30" "length cl \<le> 30" "length eid \<le> 30"
  using that by (simp add: fresh_event_def lock_world_defs cache_view_def wallet_redis_def purse_def)

lemma purse_creditable: "creditable a_payment 10 (a_wallet ''w1'' ''u1'' 100) (work_state wallet_redis ll cl eid (purse sc []))"
proof -
  have "user_wallet_rows ''u1'' (Some FIAT) [a_wallet ''w1'' ''u1'' 100, a_wallet ''w2'' ''u2'' 50] = [a_wallet ''w1'' ''u1'' 100]"
    by (simp add: user_wallet_rows_def a_wallet_def order_desc_def)
  then show ?thesis
    by (simp add: creditable_def work_state_def Let_def a_payment_def valid_amount_def purse_wallets first_row_def row_by_def exact_dbl_id
        opt_fits_def, simp add: a_wallet_def purse_def a_purchase_def)
qed

theorem payment_is_credited_once_witness:
  "\<exists>t. of_event ''e1'' (wal_txs (fold (wal_step wallet_redis)
       [On_wal_payment_completed a_payment, Wal_restart, On_wal_payment_completed a_payment, Refund ''t0'' None ''again'' []]
       (wal_step wallet_redis (On_wal_payment_completed a_payment) (purse [] [])))) = [t]
     \<and> wt_amount t = 10 \<and> wt_wallet_id t = ''w1'' \<and> wt_type t = DEPOSIT"
  using payment_is_credited_once [OF wallet_redis.redis_server_axioms, of a_payment "purse [] []" 10 "a_wallet ''w1'' ''u1'' 100" _
      "[On_wal_payment_completed a_payment, Wal_restart, On_wal_payment_completed a_payment, Refund ''t0'' None ''again'' []]",
      OF _ purse_creditable _ refl] purse_fresh [of "''payment_completed''" "''payment_completed''" "''e1''"]
  by (simp add: of_event_def a_purchase_def a_payment_def a_wallet_def)

theorem payment_is_lost_when_deposit_fails_witness:
  "completed_in (payment_key ''e1'') (claims (wal_step wallet_redis (On_wal_payment_completed a_payment)
     (purse [Fine, Fine, Fine, Fine, Fine, Raises] [])))"
  using payment_is_lost_when_deposit_fails [OF wallet_redis.redis_server_axioms, of a_payment
      "purse [Fine, Fine, Fine, Fine, Fine, Raises] []" 10 "a_wallet ''w1'' ''u1'' 100" _ "[]", OF _ _ purse_creditable _ refl]
    purse_fresh [of "''payment_completed''" "''payment_completed''" "''e1''"]
  by (simp add: of_event_def a_purchase_def a_payment_def purse_def)

theorem named_bills_are_never_charged_witness:
  "wallets (wal_step wallet_redis (On_wal_billing_calculated a_bill) (purse [] [])) = wallets (purse [] [])"
  using named_bills_are_never_charged [of "purse [] []" a_bill _ "''0af3''" _ wallet_redis, OF _ _ _ refl]
  by (simp add: a_bill_def purse_def)

end
