(* ===== verification/OrderRepo.thy ===== *)
theory OrderRepo
  imports Systems
begin

section \<open>Orders: data and repository\<close>

text \<open>
  \<open>microservices/order_service\<close>: \<open>models.py\<close> and \<open>order_repository.py\<close>. An order is one row; its
  statuses are set by whoever asks. The columns \<open>subtotal_amount\<close> and \<open>shipping_amount\<close> are never
  written and keep their default 0. \<open>o_dbl\<close> is what a decimal becomes in a column of double
  precision. The text search over orders is not modelled.
\<close>

subsection \<open>Data\<close>

datatype order_status = Ord_pending | Ord_processing | Ord_completed | Ord_failed | Ord_cancelled | Ord_refunded

datatype order_type = Purchase | Subscription | Credit_purchase | Premium_upgrade

datatype payment_status = Pay_pending | Pay_processing | Pay_completed | Pay_failed | Pay_refunded

datatype fulfillment_status = Ful_pending | Ful_allocated | Ful_shipped | Ful_delivered | Ful_failed

datatype fulfillment_type = Digital | Ship

record order_item =
  li_product_id :: string
  li_sku_id :: "string option"
  li_title :: "string option"
  li_quantity :: int
  li_unit_price :: rat
  li_subtotal :: rat
  li_tax :: rat
  li_discount :: rat
  li_total :: rat
  li_fulfillment_type :: fulfillment_type
  li_metadata :: "meta option"

record order_row =
  od_id :: string
  od_user_id :: string
  od_type :: order_type
  od_status :: order_status
  od_total :: rat
  od_currency :: string
  od_payment_status :: payment_status
  od_payment_intent :: "string option"
  od_subscription :: "string option"
  od_wallet :: "string option"
  od_items :: "order_item list"
  od_subtotal :: rat
  od_tax :: rat
  od_shipping :: rat
  od_discount :: rat
  od_final :: rat
  od_fulfillment :: fulfillment_status
  od_tracking :: "string option"
  od_shipping_address :: "address option"
  od_billing_address :: "address option"
  od_meta :: meta
  od_created_at :: int
  od_updated_at :: int
  od_completed_at :: "int option"
  od_expires_at :: "int option"

text \<open>The arguments of the repository's \<open>create_order\<close> that reach the row, and of its \<open>update_order\<close>.\<close>

record order_create =
  cr_user_id :: string
  cr_type :: order_type
  cr_total :: rat
  cr_currency :: string
  cr_payment_intent :: "string option"
  cr_subscription :: "string option"
  cr_wallet :: "string option"
  cr_items :: "order_item list"
  cr_meta :: "meta option"
  cr_tax :: "rat option"
  cr_discount :: rat
  cr_final :: rat
  cr_shipping_address :: "address option"
  cr_expires_at :: "int option"

record order_update =
  up_status :: "order_status option"
  up_payment_status :: "payment_status option"
  up_payment_intent :: "string option"
  up_meta :: "meta option"
  up_completed_at :: "int option"
  up_fulfillment :: "fulfillment_status option"
  up_tracking :: "string option"
  up_shipping_address :: "address option"
  up_billing_address :: "address option"

definition no_update :: order_update where
  "no_update = \<lparr>up_status = None, up_payment_status = None, up_payment_intent = None, up_meta = None, up_completed_at = None,
     up_fulfillment = None, up_tracking = None, up_shipping_address = None, up_billing_address = None\<rparr>"

datatype ord_event =
    Order_created_event string string order_type rat string "string option" "order_item list"
  | Order_updated_event string string
  | Order_canceled_event string string order_type rat string "string option" "rat option"
  | Order_completed_event string string order_type rat string "string option" "rat option"
  | Order_expired_event string string order_type rat

text \<open>
  The other services as their clients see them: which clients are configured, and what they answer
  when a call goes through. A client catches its exceptions and answers \<open>None\<close> or \<open>False\<close>.
\<close>

record order_clients =
  has_account :: bool
  has_inventory :: bool
  has_tax :: bool
  has_payment :: bool
  has_fulfillment :: bool
  answer_tax :: "order_item list \<Rightarrow> address \<Rightarrow> string \<Rightarrow> rat option"
  answer_reserve :: "string \<Rightarrow> order_item list \<Rightarrow> bool"
  answer_intent :: "string \<Rightarrow> rat \<Rightarrow> string option"
  answer_shipment :: "string \<Rightarrow> order_item list \<Rightarrow> address \<Rightarrow> string option"

datatype client_call =
    Quote_tax "order_item list"
  | Reserve_stock string "order_item list"
  | Create_intent string rat
  | Commit_stock string
  | Release_stock string
  | Request_shipment string "order_item list"
  | Wallet_deposit string rat string

record ord_state = "ord_event world" +
  orders :: "order_row list"
  o_dbl :: "rat \<Rightarrow> rat"
  o_processed :: "string list"
  o_set_order :: "string list \<Rightarrow> string list"
  o_iso :: "datetime \<Rightarrow> string"
  o_clients :: order_clients
  o_calls :: "client_call list"

datatype ord_err = OrderValidationError string | OrderServiceError

type_synonym 'a ord_io = "(ord_state, ord_err exn, 'a) io"

subsection \<open>Validation\<close>

definition valid_item :: "order_item \<Rightarrow> bool" where
  "valid_item i \<longleftrightarrow> 0 < li_quantity i \<and> 0 \<le> li_unit_price i \<and> 0 \<le> li_subtotal i \<and> 0 \<le> li_tax i
     \<and> 0 \<le> li_discount i \<and> 0 \<le> li_total i"

definition valid_order :: "order_row \<Rightarrow> bool" where
  "valid_order r \<longleftrightarrow> list_all valid_item (od_items r) \<and> 0 \<le> od_subtotal r \<and> 0 \<le> od_tax r \<and> 0 \<le> od_shipping r
     \<and> 0 \<le> od_discount r \<and> 0 \<le> od_final r"

definition order_fits :: "order_row \<Rightarrow> bool" where
  "order_fits r \<longleftrightarrow> length (od_id r) \<le> 255 \<and> length (od_user_id r) \<le> 255 \<and> length (od_currency r) \<le> 10
     \<and> opt_fits 255 (od_payment_intent r) \<and> opt_fits 255 (od_subscription r) \<and> opt_fits 255 (od_wallet r)
     \<and> opt_fits 255 (od_tracking r)"

subsection \<open>Reading\<close>

definition to_order :: "order_row \<Rightarrow> order_row ord_io" where
  "to_order r = (if valid_order r then ret r else throw ValidationError)"

definition to_orders :: "order_row list \<Rightarrow> order_row list ord_io" where
  "to_orders rows = for_each rows (\<lambda>r acc. bnd (to_order r) (\<lambda>x. ret (acc @ [x]))) []"

definition repo_get_order :: "string \<Rightarrow> order_row option ord_io" where
  "repo_get_order oid =
     bnd (external DbError) (\<lambda>ok. if \<not> ok then ret None else
     bnd (gets (\<lambda>s. row_by od_id oid (orders s))) (\<lambda>row.
     case row of None \<Rightarrow> ret None | Some r \<Rightarrow> bnd (to_order r) (\<lambda>x. ret (Some x))))"

record order_filter =
  of_user_id :: "string option"
  of_type :: "order_type option"
  of_status :: "order_status option"
  of_payment_status :: "payment_status option"
  of_limit :: int
  of_offset :: int

definition order_matches :: "order_filter \<Rightarrow> order_row \<Rightarrow> bool" where
  "order_matches q r \<longleftrightarrow> (truthy_str (of_user_id q) \<longrightarrow> of_user_id q = Some (od_user_id r))
     \<and> opt_all (of_type q) (\<lambda>ty. od_type r = ty) \<and> opt_all (of_status q) (\<lambda>st. od_status r = st)
     \<and> opt_all (of_payment_status q) (\<lambda>st. od_payment_status r = st)"

definition repo_list_orders :: "order_filter \<Rightarrow> order_row list ord_io" where
  "repo_list_orders q =
     bnd (external DbError) (\<lambda>ok. if \<not> ok then ret []
     else if of_limit q < 0 \<or> of_offset q < 0 then throw DbError
     else bnd (gets (\<lambda>s. take (nat (of_limit q)) (drop (nat (of_offset q))
            (order_desc od_created_at (filter (order_matches q) (orders s)))))) to_orders)"

definition repo_get_user_orders :: "string \<Rightarrow> int \<Rightarrow> int \<Rightarrow> order_row list ord_io" where
  "repo_get_user_orders uid limit offset = repo_list_orders \<lparr>of_user_id = Some uid, of_type = None, of_status = None,
     of_payment_status = None, of_limit = limit, of_offset = offset\<rparr>"

definition get_orders_by_payment_intent :: "string \<Rightarrow> order_row list ord_io" where
  "get_orders_by_payment_intent pid =
     bnd (external DbError) (\<lambda>ok. if \<not> ok then ret [] else
     bnd (gets (\<lambda>s. filter (\<lambda>r. od_payment_intent r = Some pid) (orders s))) to_orders)"

definition get_order_by_payment_intent :: "string \<Rightarrow> order_row option ord_io" where
  "get_order_by_payment_intent pid = bnd (get_orders_by_payment_intent pid) (\<lambda>rs. ret (first_row rs))"

definition get_orders_by_subscription :: "string \<Rightarrow> order_row list ord_io" where
  "get_orders_by_subscription sid =
     bnd (external DbError) (\<lambda>ok. if \<not> ok then ret [] else
     bnd (gets (\<lambda>s. filter (\<lambda>r. od_subscription r = Some sid) (orders s))) to_orders)"

subsection \<open>Writing\<close>

definition new_order :: "string \<Rightarrow> int \<Rightarrow> (rat \<Rightarrow> rat) \<Rightarrow> order_create \<Rightarrow> order_row" where
  "new_order oid now f d =
     \<lparr>od_id = oid, od_user_id = cr_user_id d, od_type = cr_type d, od_status = Ord_pending, od_total = f (cr_total d),
      od_currency = cr_currency d, od_payment_status = Pay_pending, od_payment_intent = cr_payment_intent d,
      od_subscription = cr_subscription d, od_wallet = cr_wallet d, od_items = cr_items d, od_subtotal = 0,
      od_tax = (case cr_tax d of None \<Rightarrow> 0 | Some t \<Rightarrow> f t), od_shipping = 0, od_discount = f (cr_discount d),
      od_final = f (cr_final d), od_fulfillment = Ful_pending, od_tracking = None,
      od_shipping_address = cr_shipping_address d, od_billing_address = None,
      od_meta = (case cr_meta d of None \<Rightarrow> [] | Some m \<Rightarrow> m), od_created_at = now, od_updated_at = now,
      od_completed_at = None, od_expires_at = cr_expires_at d\<rparr>"

definition repo_create_order :: "order_create \<Rightarrow> order_row option ord_io" where
  "repo_create_order d =
     bnd (fresh_hex 12) (\<lambda>hex. bnd (gets now_us) (\<lambda>now. bnd (gets o_dbl) (\<lambda>f.
     let oid = ''order_'' @ hex; row = new_order oid now f d in
     bnd (external DbError) (\<lambda>ok.
     bnd (if \<not> ok then ret False else
          (\<lambda>s. if \<not> order_fits row \<or> oid \<in> od_id ` set (orders s) then (Inl DbError, s)
               else (Inr True, s\<lparr>orders := orders s @ [row]\<rparr>))) (\<lambda>inserted.
     if inserted then repo_get_order oid
     else bnd (repo_get_order oid) (\<lambda>r. case r of None \<Rightarrow> throw (Generic ''Failed to create order'') | Some x \<Rightarrow> ret (Some x)))))))"

text \<open>\<open>UPDATE ... SET\<close> with the fields that are truthy.\<close>

definition apply_update :: "int \<Rightarrow> order_update \<Rightarrow> order_row \<Rightarrow> order_row" where
  "apply_update now u r = r\<lparr>
     od_status := (case up_status u of None \<Rightarrow> od_status r | Some x \<Rightarrow> x),
     od_payment_status := (case up_payment_status u of None \<Rightarrow> od_payment_status r | Some x \<Rightarrow> x),
     od_payment_intent := (if truthy_str (up_payment_intent u) then up_payment_intent u else od_payment_intent r),
     od_meta := (case up_meta u of None \<Rightarrow> od_meta r | Some m \<Rightarrow> if m = [] then od_meta r else m),
     od_completed_at := (case up_completed_at u of None \<Rightarrow> od_completed_at r | Some x \<Rightarrow> Some x),
     od_fulfillment := (case up_fulfillment u of None \<Rightarrow> od_fulfillment r | Some x \<Rightarrow> x),
     od_tracking := (if truthy_str (up_tracking u) then up_tracking u else od_tracking r),
     od_shipping_address := (case up_shipping_address u of None \<Rightarrow> od_shipping_address r | Some a \<Rightarrow> if a = [] then od_shipping_address r else Some a),
     od_billing_address := (case up_billing_address u of None \<Rightarrow> od_billing_address r | Some a \<Rightarrow> if a = [] then od_billing_address r else Some a),
     od_updated_at := now\<rparr>"

definition update_fits :: "order_update \<Rightarrow> bool" where
  "update_fits u \<longleftrightarrow> opt_fits 255 (up_payment_intent u) \<and> opt_fits 255 (up_tracking u)"

definition repo_update_order :: "string \<Rightarrow> order_update \<Rightarrow> order_row option ord_io" where
  "repo_update_order oid u =
     bnd (gets now_us) (\<lambda>now. bnd (external DbError) (\<lambda>ok.
     bnd (if \<not> ok then ret False else
          (\<lambda>s. if oid \<notin> od_id ` set (orders s) then (Inr False, s)
               else if \<not> update_fits u then (Inl DbError, s)
               else (Inr True, s\<lparr>orders := update_where (\<lambda>r. od_id r = oid) (apply_update now u) (orders s)\<rparr>))) (\<lambda>hit.
     if hit then repo_get_order oid else ret None)))"

definition update_order_status :: "string \<Rightarrow> order_status \<Rightarrow> payment_status option \<Rightarrow> order_row option ord_io" where
  "update_order_status oid st pst = repo_update_order oid (no_update\<lparr>up_status := Some st, up_payment_status := pst\<rparr>)"

definition update_order_metadata :: "string \<Rightarrow> meta \<Rightarrow> order_row option ord_io" where
  "update_order_metadata oid m = repo_update_order oid (no_update\<lparr>up_meta := Some m\<rparr>)"

definition repo_cancel_order :: "string \<Rightarrow> string option \<Rightarrow> bool ord_io" where
  "repo_cancel_order oid reason =
     bnd (repo_update_order oid (no_update\<lparr>up_status := Some Ord_cancelled,
            up_meta := Some (if truthy_str reason then [(''cancellation_reason'', reason)] else [])\<rparr>))
         (\<lambda>r. ret (r \<noteq> None))"

definition repo_complete_order :: "string \<Rightarrow> string option \<Rightarrow> bool ord_io" where
  "repo_complete_order oid payment_intent =
     bnd (gets now_us) (\<lambda>now.
     bnd (repo_update_order oid (no_update\<lparr>up_status := Some Ord_completed, up_payment_status := Some Pay_completed,
            up_payment_intent := payment_intent, up_completed_at := Some now\<rparr>))
         (\<lambda>r. ret (r \<noteq> None)))"

subsection \<open>Statistics\<close>

definition all_statuses :: "order_status list" where
  "all_statuses = [Ord_pending, Ord_processing, Ord_completed, Ord_failed, Ord_cancelled, Ord_refunded]"

definition all_types :: "order_type list" where
  "all_types = [Purchase, Subscription, Credit_purchase, Premium_upgrade]"

record order_stats =
  st_total :: nat
  st_by_status :: "(order_status \<times> nat) list"
  st_by_type :: "(order_type \<times> nat) list"
  st_revenue :: rat
  st_by_currency :: "(string \<times> rat) list"
  st_average :: rat
  st_recent :: "nat \<times> nat \<times> nat"

definition count_rows :: "(order_row \<Rightarrow> bool) \<Rightarrow> nat ord_io" where
  "count_rows P = bnd (external DbError) (\<lambda>ok. if ok then gets (\<lambda>s. length (filter P (orders s))) else ret 0)"

definition count_each :: "('k \<Rightarrow> order_row \<Rightarrow> bool) \<Rightarrow> 'k list \<Rightarrow> ('k \<times> nat) list ord_io" where
  "count_each P ks = for_each ks (\<lambda>k acc. bnd (count_rows (P k)) (\<lambda>n. ret (acc @ [(k, n)]))) []"

definition revenue_of :: "order_row list \<Rightarrow> rat" where
  "revenue_of rs = (\<Sum>r\<leftarrow>rs. od_total r)"

definition currencies_of :: "order_row list \<Rightarrow> string list" where
  "currencies_of rs = rev (remdups (rev (map od_currency rs)))"

definition repo_get_order_statistics :: "order_stats ord_io" where
  "repo_get_order_statistics =
     bnd (count_rows (\<lambda>_. True)) (\<lambda>total_orders.
     bnd (count_each (\<lambda>st r. od_status r = st) all_statuses) (\<lambda>by_status.
     bnd (count_each (\<lambda>ty r. od_type r = ty) all_types) (\<lambda>by_type.
     bnd (bnd (external DbError) (\<lambda>ok. if ok then gets (\<lambda>s. filter (\<lambda>r. od_status r = Ord_completed) (orders s)) else ret [])) (\<lambda>paid.
     bnd (gets o_dbl) (\<lambda>f.
     ret \<lparr>st_total = total_orders, st_by_status = by_status, st_by_type = by_type, st_revenue = f (revenue_of paid),
          st_by_currency = map (\<lambda>c. (c, f (revenue_of (filter (\<lambda>r. od_currency r = c) paid)))) (currencies_of paid),
          st_average = f (revenue_of paid / of_nat (max total_orders 1)),
          st_recent = (min total_orders 10, min total_orders 50, min total_orders 200)\<rparr>)))))"

lemmas order_read_defs = to_order_def to_orders_def repo_get_order_def repo_list_orders_def repo_get_user_orders_def
  get_orders_by_payment_intent_def get_order_by_payment_intent_def get_orders_by_subscription_def
  count_rows_def count_each_def repo_get_order_statistics_def

lemmas order_write_defs = update_order_status_def update_order_metadata_def repo_cancel_order_def repo_complete_order_def

end
