(* ===== verification/OrderService.thy ===== *)
theory OrderService
  imports OrderRepo
begin

section \<open>Orders: service and event handlers\<close>

text \<open>
  \<open>order_service.py\<close>, \<open>clients\<close>, \<open>events/publishers.py\<close> and \<open>events/handlers.py\<close>. Every operation of
  the service turns an exception into a response; every handler swallows it. Where the code calls a
  method that does not exist, or passes an argument that the callee does not take, Python raises; the
  model raises there too.
\<close>

subsection \<open>The other services\<close>

definition call :: "client_call \<Rightarrow> 'a \<Rightarrow> 'a \<Rightarrow> 'a ord_io" where
  "call c failed answer =
     catch (bnd (external (ClientError :: ord_err exn)) (\<lambda>ok. if \<not> ok then ret failed
            else bnd (modify (\<lambda>s. s\<lparr>o_calls := o_calls s @ [c]\<rparr>)) (\<lambda>_. ret answer)))
           (\<lambda>_. ret failed)"

text \<open>The account service is asked, and its answer makes no difference.\<close>

definition ask_account :: "unit ord_io" where
  "ask_account = bnd (gets (\<lambda>s. has_account (o_clients s))) (\<lambda>b.
     if b then catch (bnd (external (ClientError :: ord_err exn)) (\<lambda>_. ret ())) (\<lambda>_. ret ()) else ret ())"

definition missing :: "'a ord_io" where
  "missing = throw AttributeError"

text \<open>
  \<open>_add_credits_to_wallet\<close> and \<open>_process_refund\<close> look up the address of the wallet service with
  \<open>_get_service_url\<close>, which the class does not have.
\<close>

definition get_service_url :: "string ord_io" where
  "get_service_url = missing"

definition post_deposit :: "string \<Rightarrow> rat \<Rightarrow> string \<Rightarrow> bool ord_io" where
  "post_deposit wallet amount oid = catch (bnd get_service_url (\<lambda>_. call (Wallet_deposit wallet amount oid) False True)) (\<lambda>_. ret False)"

definition add_credits_to_wallet :: "string \<Rightarrow> rat \<Rightarrow> string \<Rightarrow> bool ord_io" where
  "add_credits_to_wallet wallet amount oid = post_deposit wallet amount oid"

definition process_refund :: "order_row \<Rightarrow> rat \<Rightarrow> bool ord_io" where
  "process_refund r amount =
     (if truthy_str (od_wallet r) then post_deposit (the (od_wallet r)) amount (od_id r) else ret True)"

subsection \<open>Publishers\<close>

text \<open>\<open>publish_order_canceled\<close> has no parameter \<open>reason\<close>, which the service passes: a \<open>TypeError\<close>.\<close>

definition publish_order_canceled :: "order_row \<Rightarrow> string option \<Rightarrow> rat option \<Rightarrow> unit ord_io" where
  "publish_order_canceled r reason refund = throw TypeError"

definition with_bus :: "unit ord_io \<Rightarrow> unit ord_io" where
  "with_bus m = bnd (gets w_bus) (\<lambda>b. if b then catch m (\<lambda>_. ret ()) else ret ())"

subsection \<open>Requests\<close>

record order_request =
  rq_user_id :: string
  rq_type :: order_type
  rq_total :: rat
  rq_currency :: string
  rq_payment_intent :: "string option"
  rq_subscription :: "string option"
  rq_wallet :: "string option"
  rq_items :: "order_item list"
  rq_subtotal :: "rat option"
  rq_tax :: "rat option"
  rq_shipping :: "rat option"
  rq_discount :: "rat option"
  rq_final :: "rat option"
  rq_shipping_address :: "address option"
  rq_billing_address :: "address option"
  rq_meta :: "meta option"
  rq_expires_in_minutes :: "int option"

record complete_request =
  cq_confirmed :: bool
  cq_transaction :: "string option"
  cq_credits :: "rat option"

record order_response =
  orr_success :: bool
  orr_order :: "order_row option"
  orr_error :: "string option"

definition order_failure :: "string \<Rightarrow> order_response" where
  "order_failure code = \<lparr>orr_success = False, orr_order = None, orr_error = Some code\<rparr>"

definition order_success :: "order_row option \<Rightarrow> order_response" where
  "order_success r = \<lparr>orr_success = True, orr_order = r, orr_error = None\<rparr>"

definition opt_ge0 :: "rat option \<Rightarrow> bool" where
  "opt_ge0 x \<longleftrightarrow> opt_all x (\<lambda>q. 0 \<le> q)"

text \<open>The model \<open>OrderCreateRequest\<close>.\<close>

definition valid_request :: "order_request \<Rightarrow> bool" where
  "valid_request q \<longleftrightarrow> 0 < rq_total q \<and> list_all valid_item (rq_items q) \<and> opt_ge0 (rq_subtotal q) \<and> opt_ge0 (rq_tax q)
     \<and> opt_ge0 (rq_shipping q) \<and> opt_ge0 (rq_discount q) \<and> opt_ge0 (rq_final q)"

subsection \<open>The service\<close>

definition calculate_totals :: "order_item list \<Rightarrow> rat \<times> rat" where
  "calculate_totals items = (let subtotal = (\<Sum>i\<leftarrow>items. of_int (li_quantity i) * li_unit_price i) in (subtotal, subtotal))"

definition needs_shipping :: "order_item list \<Rightarrow> bool" where
  "needs_shipping items \<longleftrightarrow> list_ex (\<lambda>i. li_fulfillment_type i = Ship) items"

definition validate_order_create_request :: "order_request \<Rightarrow> unit ord_io" where
  "validate_order_create_request q =
     (if list_all is_space (rq_user_id q) then throw (Custom (OrderValidationError ''user_id is required''))
      else if rq_total q \<le> 0 then throw (Custom (OrderValidationError ''total_amount must be positive''))
      else if rq_type q = Credit_purchase \<and> \<not> truthy_str (rq_wallet q)
        then throw (Custom (OrderValidationError ''wallet_id is required for credit purchases''))
      else if rq_type q = Subscription \<and> \<not> truthy_str (rq_subscription q)
        then throw (Custom (OrderValidationError ''subscription_id is required for subscription orders''))
      else if needs_shipping (rq_items q) \<and> rq_shipping_address q = None
        then throw (Custom (OrderValidationError ''shipping_address is required for shippable items''))
      else ret ())"

definition shippable :: "order_item list \<Rightarrow> order_item list" where
  "shippable items = filter (\<lambda>i. li_fulfillment_type i = Ship) items"

text \<open>The amount before tax, shipping and discount, and the tax: given or worked out.\<close>

definition base_amount :: "order_request \<Rightarrow> rat" where
  "base_amount q = (case rq_final q of Some x \<Rightarrow> x | None \<Rightarrow> snd (calculate_totals (rq_items q)))"

definition tax_amount :: "order_request \<Rightarrow> rat option ord_io" where
  "tax_amount q = (case (rq_tax q, rq_shipping_address q) of
       (None, Some a) \<Rightarrow> bnd (gets o_clients) (\<lambda>c. if \<not> has_tax c then ret None
          else call (Quote_tax (rq_items q)) None (answer_tax c (rq_items q) a (rq_currency q)))
     | _ \<Rightarrow> ret (rq_tax q))"

definition or_zero :: "rat option \<Rightarrow> rat" where
  "or_zero x = (case x of None \<Rightarrow> 0 | Some q \<Rightarrow> q)"

definition order_create_of :: "order_request \<Rightarrow> rat option \<Rightarrow> int option \<Rightarrow> order_create" where
  "order_create_of q tax expires =
     \<lparr>cr_user_id = rq_user_id q, cr_type = rq_type q, cr_total = rq_total q, cr_currency = rq_currency q,
      cr_payment_intent = rq_payment_intent q, cr_subscription = rq_subscription q, cr_wallet = rq_wallet q,
      cr_items = rq_items q, cr_meta = rq_meta q, cr_tax = tax, cr_discount = or_zero (rq_discount q),
      cr_final = base_amount q + or_zero tax + or_zero (rq_shipping q) - or_zero (rq_discount q),
      cr_shipping_address = rq_shipping_address q, cr_expires_at = expires\<rparr>"

text \<open>\<open>True\<close> unless the stock service refuses the items to ship.\<close>

definition reserve_stock :: "string \<Rightarrow> order_item list \<Rightarrow> bool ord_io" where
  "reserve_stock oid items =
     bnd (gets o_clients) (\<lambda>c. if \<not> has_inventory c \<or> shippable items = [] then ret True
       else call (Reserve_stock oid (shippable items)) False (answer_reserve c oid (shippable items)))"

definition attach_intent :: "order_row \<Rightarrow> rat \<Rightarrow> string option ord_io" where
  "attach_intent r amount =
     bnd (gets o_clients) (\<lambda>c. if \<not> has_payment c then ret (od_payment_intent r) else
     bnd (call (Create_intent (od_id r) amount) None (answer_intent c (od_id r) amount)) (\<lambda>intent.
     if truthy_str intent
     then bnd (repo_update_order (od_id r) (no_update\<lparr>up_payment_intent := intent\<rparr>)) (\<lambda>_. ret intent)
     else ret (od_payment_intent r)))"

definition failed_with :: "string \<Rightarrow> ord_err exn \<Rightarrow> order_response ord_io" where
  "failed_with code e = ret (order_failure (case e of Custom (OrderValidationError _) \<Rightarrow> ''VALIDATION_ERROR'' | _ \<Rightarrow> code))"

definition create_order :: "order_request \<Rightarrow> order_response ord_io" where
  "create_order q =
     catch (bnd (validate_order_create_request q) (\<lambda>_. bnd ask_account (\<lambda>_. bnd (gets now_us) (\<lambda>now.
            let expires = (case rq_expires_in_minutes q of None \<Rightarrow> None | Some m \<Rightarrow> if m = 0 then None else Some (now + m * us_per_minute)) in
            bnd (tax_amount q) (\<lambda>tax.
            bnd (repo_create_order (order_create_of q tax expires)) (\<lambda>created.
            case created of None \<Rightarrow> missing | Some r \<Rightarrow>
            bnd (reserve_stock (od_id r) (rq_items q)) (\<lambda>reserved.
            if \<not> reserved
            then bnd (update_order_status (od_id r) Ord_failed None) (\<lambda>_. ret (order_failure ''INVENTORY_RESERVATION_FAILED''))
            else
            bnd (attach_intent r (cr_final (order_create_of q tax expires))) (\<lambda>intent.
            bnd (with_bus (bnd (publish (Some (Order_created_event (od_id r) (rq_user_id q) (rq_type q) (od_total r) (rq_currency q)
                   intent (rq_items q)))) (\<lambda>_. ret ()))) (\<lambda>_.
            ret (order_success (Some r)))))))))))
          (failed_with ''CREATE_ERROR'')"

definition ord_get_order :: "string \<Rightarrow> order_row option ord_io" where
  "ord_get_order oid = catch (repo_get_order oid) (\<lambda>_. throw (Custom OrderServiceError))"

text \<open>The body of \<open>OrderUpdateRequest\<close> has no \<open>completed_at\<close>.\<close>

definition update_order :: "string \<Rightarrow> order_update \<Rightarrow> order_response ord_io" where
  "update_order oid u =
     catch (bnd (repo_get_order oid) (\<lambda>r. case r of None \<Rightarrow> ret (order_failure ''ORDER_NOT_FOUND'') | Some _ \<Rightarrow>
            bnd (repo_update_order oid (u\<lparr>up_completed_at := None\<rparr>)) (\<lambda>r'. ret (case r' of
              None \<Rightarrow> order_failure ''UPDATE_ERROR'' | Some x \<Rightarrow> order_success (Some x)))))
          (\<lambda>_. ret (order_failure ''UPDATE_ERROR''))"

definition cancel_order :: "string \<Rightarrow> string option \<Rightarrow> rat option \<Rightarrow> order_response ord_io" where
  "cancel_order oid reason refund =
     catch (bnd (repo_get_order oid) (\<lambda>r. case r of None \<Rightarrow> ret (order_failure ''ORDER_NOT_FOUND'') | Some r \<Rightarrow>
            if od_status r \<in> {Ord_completed, Ord_cancelled, Ord_refunded} then ret (order_failure ''INVALID_STATUS'')
            else bnd (repo_cancel_order oid reason) (\<lambda>ok.
            if \<not> ok then ret (order_failure ''CANCEL_ERROR'')
            else bnd (case refund of None \<Rightarrow> ret True | Some a \<Rightarrow> if 0 < a then process_refund r a else ret True) (\<lambda>_.
            bnd (with_bus (publish_order_canceled r reason refund)) (\<lambda>_.
            ret (order_success None))))))
          (\<lambda>_. ret (order_failure ''CANCEL_ERROR''))"

definition complete_order :: "string \<Rightarrow> complete_request \<Rightarrow> order_response ord_io" where
  "complete_order oid q =
     catch (bnd (repo_get_order oid) (\<lambda>r. case r of None \<Rightarrow> ret (order_failure ''ORDER_NOT_FOUND'') | Some r \<Rightarrow>
            if \<not> cq_confirmed q then ret (order_failure ''PAYMENT_NOT_CONFIRMED'')
            else bnd (repo_complete_order oid (cq_transaction q)) (\<lambda>ok.
            if \<not> ok then ret (order_failure ''COMPLETE_ERROR'')
            else bnd (if od_type r = Credit_purchase \<and> truthy_str (od_wallet r) \<and> truthy_num (cq_credits q)
                      then add_credits_to_wallet (the (od_wallet r)) (the (cq_credits q)) oid else ret False) (\<lambda>_.
            bnd (with_bus (bnd (publish (Some (Order_completed_event oid (od_user_id r) (od_type r) (od_total r) (od_currency r)
                   (cq_transaction q) (Some (if truthy_num (cq_credits q) then the (cq_credits q) else 0))))) (\<lambda>_. ret ()))) (\<lambda>_.
            ret (order_success None))))))
          (\<lambda>_. ret (order_failure ''COMPLETE_ERROR''))"

record order_page =
  pg_orders :: "order_row list"
  pg_total_count :: nat
  pg_page :: int
  pg_page_size :: int
  pg_has_next :: bool

text \<open>\<open>offset // limit\<close> raises for a limit of 0.\<close>

definition ord_list_orders :: "order_filter \<Rightarrow> order_page ord_io" where
  "ord_list_orders q =
     catch (bnd (repo_list_orders q) (\<lambda>rs. if of_limit q = 0 then throw (Generic ''ZeroDivisionError'')
            else ret \<lparr>pg_orders = rs, pg_total_count = length rs, pg_page = of_offset q div of_limit q + 1,
                      pg_page_size = of_limit q, pg_has_next = (int (length rs) = of_limit q)\<rparr>))
          (\<lambda>_. throw (Custom OrderServiceError))"

definition ord_get_user_orders :: "string \<Rightarrow> int \<Rightarrow> int \<Rightarrow> order_row list ord_io" where
  "ord_get_user_orders uid limit offset = catch (repo_get_user_orders uid limit offset) (\<lambda>_. throw (Custom OrderServiceError))"

definition get_order_statistics :: "order_stats ord_io" where
  "get_order_statistics = catch repo_get_order_statistics (\<lambda>_. throw (Custom OrderServiceError))"

definition order_health_check :: "bool ord_io" where
  "order_health_check = catch (bnd repo_get_order_statistics (\<lambda>_. ret True)) (\<lambda>_. ret False)"

subsection \<open>Event handlers\<close>

text \<open>The identifier of an event may be missing, then nothing is remembered.\<close>

definition ord_seen :: "string option \<Rightarrow> ord_state \<Rightarrow> bool" where
  "ord_seen eid s \<longleftrightarrow> truthy_str eid \<and> the eid \<in> set (o_processed s)"

definition ord_mark :: "string option \<Rightarrow> unit ord_io" where
  "ord_mark eid = (if \<not> truthy_str eid then ret () else modify (\<lambda>s.
     let p = (if the eid \<in> set (o_processed s) then o_processed s else o_processed s @ [the eid]) in
     s\<lparr>o_processed := (if 10000 < length p then drop 5000 (o_set_order s p) else p)\<rparr>))"

definition handling :: "string option \<Rightarrow> unit ord_io \<Rightarrow> unit ord_io" where
  "handling eid m = catch (bnd (gets (ord_seen eid)) (\<lambda>seen. if seen then ret () else m)) (\<lambda>_. ret ())"

record payment_data =
  pd_payment_intent :: "string option"
  pd_payment_id :: "string option"
  pd_transaction_id :: "string option"
  pd_order_id :: "string option"
  pd_user_id :: "string option"
  pd_amount :: amount_field
  pd_amount_text :: string

record ord_subscription_data =
  sd_subscription_id :: "string option"
  sd_user_id :: "string option"
  sd_plan_id :: "string option"
  sd_amount :: amount_field

text \<open>\<open>Decimal(str(x)) if x else None\<close>\<close>

definition decimal_or_none :: "amount_field \<Rightarrow> rat option ord_io" where
  "decimal_or_none a = (if \<not> truthy_amount a then ret None else case a of Amount q \<Rightarrow> ret (Some q) | _ \<Rightarrow> throw (ValueError ''decimal''))"

definition ship_paid_order :: "order_row \<Rightarrow> unit ord_io" where
  "ship_paid_order r =
     bnd (gets o_clients) (\<lambda>c.
     if \<not> (has_inventory c \<and> has_fulfillment c) \<or> shippable (od_items r) = [] then ret ()
     else case od_shipping_address r of None \<Rightarrow> ret () | Some a \<Rightarrow>
       bnd (call (Commit_stock (od_id r)) False True) (\<lambda>_.
       bnd (call (Request_shipment (od_id r) (shippable (od_items r))) None (answer_shipment c (od_id r) (shippable (od_items r)) a)) (\<lambda>tracking.
       if truthy_str tracking
       then bnd (repo_update_order (od_id r) (no_update\<lparr>up_fulfillment := Some Ful_shipped, up_tracking := tracking\<rparr>)) (\<lambda>_. ret ())
       else ret ())))"

definition ord_handle_payment_completed :: "payment_data \<Rightarrow> string option \<Rightarrow> unit ord_io" where
  "ord_handle_payment_completed d eid = handling eid
     (if \<not> truthy_str (pd_payment_intent d) then ret ()
      else bnd (get_order_by_payment_intent (the (pd_payment_intent d))) (\<lambda>r. case r of
        None \<Rightarrow> ord_mark eid
      | Some r \<Rightarrow>
          bnd (decimal_or_none (pd_amount d)) (\<lambda>credits.
          bnd (complete_order (od_id r) \<lparr>cq_confirmed = True, cq_transaction = or_str (pd_payment_id d) (pd_transaction_id d),
                 cq_credits = credits\<rparr>) (\<lambda>_.
          bnd (ship_paid_order r) (\<lambda>_. ord_mark eid)))))"

definition ord_handle_payment_failed :: "payment_data \<Rightarrow> string option \<Rightarrow> unit ord_io" where
  "ord_handle_payment_failed d eid = handling eid
     (if \<not> truthy_str (pd_payment_intent d) then ret ()
      else bnd (get_order_by_payment_intent (the (pd_payment_intent d))) (\<lambda>r. case r of
        None \<Rightarrow> ord_mark eid
      | Some r \<Rightarrow>
          bnd (update_order_status (od_id r) Ord_failed (Some Pay_failed)) (\<lambda>_.
          bnd (bnd (gets o_clients) (\<lambda>c. if has_inventory c then call (Release_stock (od_id r)) False True else ret True)) (\<lambda>_.
          ord_mark eid))))"

definition ord_handle_payment_initiated :: "payment_data \<Rightarrow> string option \<Rightarrow> unit ord_io" where
  "ord_handle_payment_initiated d eid = handling eid
     (if \<not> truthy_str (pd_order_id d) \<or> \<not> truthy_str (pd_payment_intent d) then ret ()
      else bnd (repo_update_order (the (pd_order_id d)) (no_update\<lparr>up_payment_intent := pd_payment_intent d\<rparr>)) (\<lambda>_. ord_mark eid))"

text \<open>\<open>get_order_by_transaction_id\<close> is not a method of the repository.\<close>

definition get_order_by_transaction_id :: "string \<Rightarrow> order_row option ord_io" where
  "get_order_by_transaction_id tid = missing"

text \<open>\<open>str(refund_amount)\<close> is \<open>pd_amount_text\<close>, \<open>utcnow().isoformat()\<close> the text \<open>o_iso\<close> of the clock.\<close>

definition refund_meta :: "payment_data \<Rightarrow> string \<Rightarrow> meta" where
  "refund_meta d now = [(''refund_amount'', Some (pd_amount_text d)), (''refund_payment_id'', pd_payment_id d), (''refunded_at'', Some now)]"

definition ord_handle_payment_refunded :: "payment_data \<Rightarrow> string option \<Rightarrow> unit ord_io" where
  "ord_handle_payment_refunded d eid = handling eid
     (if \<not> truthy_str (pd_payment_id d) \<and> \<not> truthy_str (pd_payment_intent d) then ret ()
      else bnd (if truthy_str (pd_payment_intent d) then get_order_by_payment_intent (the (pd_payment_intent d)) else ret None) (\<lambda>r.
      bnd (if r = None \<and> truthy_str (pd_payment_id d) then get_order_by_transaction_id (the (pd_payment_id d)) else ret r) (\<lambda>r.
      case r of None \<Rightarrow> ord_mark eid | Some r \<Rightarrow>
        bnd (update_order_status (od_id r) Ord_refunded (Some Pay_refunded)) (\<lambda>_.
        bnd (gets (\<lambda>s. o_iso s (w_now s))) (\<lambda>now.
        bnd (update_order_metadata (od_id r) (refund_meta d now)) (\<lambda>_. ord_mark eid))))))"

text \<open>\<open>get_pending_orders_by_user\<close> and \<open>get_orders_by_metadata\<close> are not methods of the repository either.\<close>

definition ord_handle_wallet_credits_added :: "string option \<Rightarrow> string option \<Rightarrow> unit ord_io" where
  "ord_handle_wallet_credits_added uid eid = handling eid (if \<not> truthy_str uid then ret () else missing)"

definition ord_handle_subscription_canceled :: "ord_subscription_data \<Rightarrow> string option \<Rightarrow> unit ord_io" where
  "ord_handle_subscription_canceled d eid = handling eid (if \<not> truthy_str (sd_subscription_id d) then ret () else missing)"

text \<open>
  The request of \<open>handle_subscription_created\<close> has no \<open>subscription_id\<close>; \<open>create_order\<close> answers with a
  response, of which the handler reads \<open>order_id\<close>, an attribute that it does not have.
\<close>

definition subscription_request :: "ord_subscription_data \<Rightarrow> rat \<Rightarrow> string option \<Rightarrow> order_request" where
  "subscription_request d amount eid =
     \<lparr>rq_user_id = the (sd_user_id d), rq_type = Subscription, rq_total = amount, rq_currency = ''USD'', rq_payment_intent = None,
      rq_subscription = None, rq_wallet = None,
      rq_items = [\<lparr>li_product_id = (if truthy_str (sd_plan_id d) then the (sd_plan_id d) else ''subscription''), li_sku_id = None,
        li_title = None, li_quantity = 1, li_unit_price = amount, li_subtotal = 0, li_tax = 0, li_discount = 0, li_total = 0,
        li_fulfillment_type = Digital, li_metadata = None\<rparr>],
      rq_subtotal = None, rq_tax = None, rq_shipping = None, rq_discount = None, rq_final = None, rq_shipping_address = None,
      rq_billing_address = None,
      rq_meta = Some [(''subscription_id'', sd_subscription_id d), (''plan_id'', sd_plan_id d), (''is_recurring'', Some ''True''),
        (''event_id'', eid)],
      rq_expires_in_minutes = Some 30\<rparr>"

definition ord_handle_subscription_created :: "ord_subscription_data \<Rightarrow> string option \<Rightarrow> unit ord_io" where
  "ord_handle_subscription_created d eid = handling eid
     (if \<not> truthy_str (sd_subscription_id d) \<or> \<not> truthy_str (sd_user_id d) then ret ()
      else bnd (decimal_or_none (sd_amount d)) (\<lambda>amount.
        let q = subscription_request d (or_zero amount) eid in
        if \<not> valid_request q then throw ValidationError
        else bnd (create_order q) (\<lambda>_. missing)))"

definition deleted_meta :: "string \<Rightarrow> string \<Rightarrow> meta" where
  "deleted_meta uid now = [(''user_deleted'', Some ''True''), (''user_deleted_at'', Some now), (''original_user_id'', Some uid)]"

text \<open>\<open>anonymize_order_pii\<close> is not a method of the repository; each order has its own \<open>try\<close>.\<close>

definition forget_order :: "string \<Rightarrow> order_row \<Rightarrow> unit ord_io" where
  "forget_order uid r =
     catch (bnd (if od_status r \<in> {Ord_pending, Ord_processing}
                 then bnd (update_order_status (od_id r) Ord_cancelled None) (\<lambda>_. ret ()) else ret ()) (\<lambda>_.
            bnd (gets (\<lambda>s. o_iso s (w_now s))) (\<lambda>now.
            bnd (update_order_metadata (od_id r) (deleted_meta uid now)) (\<lambda>_. missing))))
          (\<lambda>_. ret ())"

definition ord_handle_user_deleted :: "string option \<Rightarrow> string option \<Rightarrow> unit ord_io" where
  "ord_handle_user_deleted uid eid = handling eid
     (if \<not> truthy_str uid then ret ()
      else bnd (repo_get_user_orders (the uid) 1000 0) (\<lambda>rs.
        bnd (for_each rs (\<lambda>r _. forget_order (the uid) r) ()) (\<lambda>_. ord_mark eid)))"

subsection \<open>The process\<close>

datatype ord_op =
    Create_order order_request
  | Update_order string order_update
  | Cancel_order string "string option" "rat option"
  | Complete_order string complete_request
  | Order_queries order_filter
  | Ord_payment_initiated payment_data "string option"
  | Ord_payment_completed payment_data "string option"
  | Ord_payment_failed payment_data "string option"
  | Ord_payment_refunded payment_data "string option"
  | Ord_credits_added "string option" "string option"
  | Ord_subscription_created ord_subscription_data "string option"
  | Ord_subscription_canceled ord_subscription_data "string option"
  | Ord_user_deleted "string option" "string option"
  | Ord_clock datetime
  | Ord_restart

definition ord_step :: "ord_op \<Rightarrow> ord_state \<Rightarrow> ord_state" where
  "ord_step op = (case op of
       Create_order q \<Rightarrow> (\<lambda>s. if valid_request q then after (create_order q) s else s)
     | Update_order oid u \<Rightarrow> after (update_order oid u)
     | Cancel_order oid reason refund \<Rightarrow> after (cancel_order oid reason refund)
     | Complete_order oid q \<Rightarrow> after (complete_order oid q)
     | Order_queries q \<Rightarrow> after (bnd (catch (bnd (ord_list_orders q) (\<lambda>_. ret ())) (\<lambda>_. ret ())) (\<lambda>_. order_health_check))
     | Ord_payment_initiated d eid \<Rightarrow> after (ord_handle_payment_initiated d eid)
     | Ord_payment_completed d eid \<Rightarrow> after (ord_handle_payment_completed d eid)
     | Ord_payment_failed d eid \<Rightarrow> after (ord_handle_payment_failed d eid)
     | Ord_payment_refunded d eid \<Rightarrow> after (ord_handle_payment_refunded d eid)
     | Ord_credits_added uid eid \<Rightarrow> after (ord_handle_wallet_credits_added uid eid)
     | Ord_subscription_created d eid \<Rightarrow> after (ord_handle_subscription_created d eid)
     | Ord_subscription_canceled d eid \<Rightarrow> after (ord_handle_subscription_canceled d eid)
     | Ord_user_deleted uid eid \<Rightarrow> after (ord_handle_user_deleted uid eid)
     | Ord_clock d \<Rightarrow> (\<lambda>s. s\<lparr>w_now := d\<rparr>)
     | Ord_restart \<Rightarrow> (\<lambda>s. s\<lparr>o_processed := []\<rparr>))"

lemmas order_handler_defs = ord_handle_payment_completed_def ord_handle_payment_failed_def ord_handle_payment_initiated_def
  ord_handle_payment_refunded_def ord_handle_wallet_credits_added_def ord_handle_subscription_created_def
  ord_handle_subscription_canceled_def ord_handle_user_deleted_def

end
