(* ===== verification/OrderTheorems.thy ===== *)
theory OrderTheorems
  imports OrderService InventoryTheorems
begin

section \<open>Orders: properties\<close>

text \<open>
  What every history of the order service does to its rows, and what it tells, or fails to tell, the
  other services.
\<close>

subsection \<open>Invariants of the table\<close>

lemma refund_without_intent:
  "\<not> truthy_str (pd_payment_intent d) \<Longrightarrow> snd (ord_handle_payment_refunded d eid s) = s"
  by (simp add: ord_handle_payment_refunded_def handling_def get_order_by_transaction_id_def missing_def catch_apply)

text \<open>The operations whose updates are among \<open>ok\<close>.\<close>

definition refunded_update :: order_update where
  "refunded_update = no_update\<lparr>up_status := Some Ord_refunded, up_payment_status := Some Pay_refunded\<rparr>"

definition plain_op :: "(order_update \<Rightarrow> bool) \<Rightarrow> ord_op \<Rightarrow> bool" where
  "plain_op ok op \<longleftrightarrow> (case op of
       Update_order _ u \<Rightarrow> ok (u\<lparr>up_completed_at := None\<rparr>)
     | Ord_payment_refunded d _ \<Rightarrow> truthy_str (pd_payment_intent d) \<longrightarrow>
         ok refunded_update
     | _ \<Rightarrow> True)"

text \<open>
  An invariant of the orders that new pending orders keep, and all updates that the code may ask for:
  \<open>ok\<close> says which, at least those that set no order to refunded.
\<close>

locale order_tables =
  fixes I :: "ord_state \<Rightarrow> bool" and ok :: "order_update \<Rightarrow> bool"
  assumes outside: "I s \<Longrightarrow> I (s\<lparr>w_script := sc\<rparr>)" "I s \<Longrightarrow> I (s\<lparr>w_uuid_next := k\<rparr>)" "I s \<Longrightarrow> I (s\<lparr>w_events := es\<rparr>)"
      "I s \<Longrightarrow> I (s\<lparr>w_now := d\<rparr>)" "I s \<Longrightarrow> I (s\<lparr>o_calls := cs\<rparr>)" "I s \<Longrightarrow> I (s\<lparr>o_processed := p\<rparr>)"
    and inserted: "I s \<Longrightarrow> od_id r \<notin> od_id ` set (orders s) \<Longrightarrow> od_status r = Ord_pending \<Longrightarrow> I (s\<lparr>orders := orders s @ [r]\<rparr>)"
    and updated: "I s \<Longrightarrow> ok u \<Longrightarrow> I (s\<lparr>orders := update_where (\<lambda>r. od_id r = oid) (apply_update now u) (orders s)\<rparr>)"
    and ok_status: "up_status u \<noteq> Some Ord_refunded \<Longrightarrow> ok u"
begin

lemma effects [preserve_rules]:
  "preserves I (external e)" "preserves I (fresh_hex n)" "preserves I (publish ev)"
  "preserves I (modify (\<lambda>s. s\<lparr>o_calls := o_calls s @ [c]\<rparr>))" "preserves I (ord_mark eid)"
  by (simp_all add: preserves_external preserves_fresh_hex preserves_publish preserves_modify ord_mark_def preserves_ret Let_def outside)

lemma reads [preserve_rules]:
  "preserves I (to_orders rows)" "preserves I (repo_get_order oid)" "preserves I (repo_list_orders q)"
  "preserves I (repo_get_user_orders uid limit offset)" "preserves I (get_order_by_payment_intent pid)"
  "preserves I repo_get_order_statistics"
  unfolding order_read_defs by (intro preserve_rules)+

lemma creates [preserve_rules]: "preserves I (repo_create_order d)"
proof -
  have ins: "preserves I (\<lambda>s. if \<not> order_fits row \<or> oid \<in> od_id ` set (orders s) then (Inl DbError, s)
      else (Inr True, s\<lparr>orders := orders s @ [row]\<rparr>))" if "od_id row = oid \<and> od_status row = Ord_pending" for row oid
    using that by (intro preservesI) (auto intro: inserted)
  show ?thesis
    unfolding repo_create_order_def Let_def by (intro preserve_rules ins) (simp add: new_order_def)
qed

lemma updates: "ok u \<Longrightarrow> preserves I (repo_update_order oid u)"
proof -
  assume "ok u"
  then have "preserves I (\<lambda>s. if oid \<notin> od_id ` set (orders s) then (Inr False, s)
      else if \<not> update_fits u then (Inl DbError, s)
      else (Inr True, s\<lparr>orders := update_where (\<lambda>r. od_id r = oid) (apply_update now u) (orders s)\<rparr>))" for now
    by (intro preservesI) (simp add: updated)
  then show ?thesis unfolding repo_update_order_def by (intro preserve_rules)
qed

lemma status_updates [preserve_rules]:
  "st \<noteq> Ord_refunded \<Longrightarrow> preserves I (update_order_status oid st pst)" "preserves I (update_order_metadata oid m)"
  "preserves I (repo_cancel_order oid reason)" "preserves I (repo_complete_order oid pid)"
  "preserves I (repo_update_order oid (no_update\<lparr>up_payment_intent := pid\<rparr>))"
  "preserves I (repo_update_order oid (no_update\<lparr>up_fulfillment := ful, up_tracking := pid\<rparr>))"
  unfolding order_write_defs by (intro preserve_rules updates ok_status; simp add: no_update_def)+

lemma clients [preserve_rules]:
  "preserves I (call c f a)" "preserves I ask_account" "preserves I (tax_amount q)"
  "preserves I (reserve_stock oid items)" "preserves I (attach_intent r amount)"
  "preserves I (validate_order_create_request q)"
  unfolding call_def ask_account_def tax_amount_def reserve_stock_def attach_intent_def validate_order_create_request_def
  by (intro preserve_rules; simp split: option.split; intro conjI allI impI preserve_rules)+

lemma service [preserve_rules]:
  "preserves I (create_order q)" "preserves I (cancel_order oid reason refund)" "preserves I (complete_order oid cq)"
  "preserves I (ord_list_orders flt)" "preserves I order_health_check"
  unfolding create_order_def cancel_order_def complete_order_def ord_list_orders_def order_health_check_def
    failed_with_def missing_def process_refund_def add_credits_to_wallet_def post_deposit_def get_service_url_def
    with_bus_def publish_order_canceled_def Let_def
  by (intro preserve_rules; simp)+

lemma handlers [preserve_rules]:
  "preserves I (ord_handle_payment_completed d eid)" "preserves I (ord_handle_payment_failed d eid)"
  "preserves I (ord_handle_payment_initiated d eid)"
  "preserves I (ord_handle_wallet_credits_added uid eid)" "preserves I (ord_handle_subscription_created sd eid)"
  "preserves I (ord_handle_subscription_canceled sd eid)" "preserves I (ord_handle_user_deleted uid eid)"
proof -
  have decimal: "preserves I (decimal_or_none a)" for a
    by (auto simp: decimal_or_none_def intro!: preserve_rules split: amount_field.split)
  note rules = preserve_rules decimal
  show "preserves I (ord_handle_payment_completed d eid)" "preserves I (ord_handle_payment_failed d eid)"
    "preserves I (ord_handle_payment_initiated d eid)"
    "preserves I (ord_handle_wallet_credits_added uid eid)" "preserves I (ord_handle_subscription_created sd eid)"
    "preserves I (ord_handle_subscription_canceled sd eid)" "preserves I (ord_handle_user_deleted uid eid)"
    unfolding order_handler_defs handling_def missing_def ship_paid_order_def forget_order_def Let_def
    by (intro rules; simp)+
qed

lemma refund_handler:
  assumes "truthy_str (pd_payment_intent d) \<Longrightarrow> ok refunded_update"
  shows "preserves I (ord_handle_payment_refunded d eid)"
proof (cases "truthy_str (pd_payment_intent d)")
  case True
  then show ?thesis
    unfolding ord_handle_payment_refunded_def handling_def missing_def get_order_by_transaction_id_def update_order_status_def
    by (intro preserve_rules updates assms [unfolded refunded_update_def])
next
  case False
  then show ?thesis
    by (intro preservesI) (simp add: refund_without_intent)
qed

lemma step:
  assumes "plain_op ok op" and s: "I s"
  shows "I (ord_step op s)"
proof -
  have upd: "preserves I (update_order oid u)" if "ok (u\<lparr>up_completed_at := None\<rparr>)" for oid u
    unfolding update_order_def by (intro preserve_rules updates that)
  note run = preserves_after [of I, OF _ s]
  show ?thesis using s assms(1)
    by (cases op) (auto simp: ord_step_def plain_op_def outside intro!: run upd refund_handler preserve_rules)
qed

lemma history: "list_all (plain_op ok) ops \<Longrightarrow> I s \<Longrightarrow> I (fold ord_step ops s)"
  by (induction ops arbitrary: s) (simp_all add: step)

end

subsection \<open>Orders keep their content\<close>

text \<open>Everything of an order that its creator wrote, but not its statuses, addresses and metadata.\<close>

definition order_content :: "order_row \<Rightarrow> string \<times> string \<times> order_type \<times> rat \<times> string \<times> string option \<times> string option
    \<times> order_item list \<times> rat \<times> rat \<times> rat \<times> int \<times> int option" where
  "order_content r = (od_id r, od_user_id r, od_type r, od_total r, od_currency r, od_subscription r, od_wallet r, od_items r,
     od_tax r, od_discount r, od_final r, od_created_at r, od_expires_at r)"

definition ord_le :: "ord_state \<Rightarrow> ord_state \<Rightarrow> bool" where
  "ord_le s s' \<longleftrightarrow> (\<exists>new. map order_content (orders s') = map order_content (orders s) @ map order_content new)
     \<and> (unique_key od_id (orders s) \<longrightarrow> unique_key od_id (orders s'))"

lemma ord_le_refl: "ord_le s s"
  by (auto simp: ord_le_def intro: exI [of _ "[]"])

lemma order_content_update [simp]:
  "order_content (apply_update now u r) = order_content r" "od_id (apply_update now u r) = od_id r"
  by (simp_all add: order_content_def apply_update_def)

lemma ord_le_updated:
  assumes "ord_le s0 s"
  shows "ord_le s0 (s\<lparr>orders := update_where P (apply_update now u) (orders s)\<rparr>)"
proof -
  have "map order_content (update_where P (apply_update now u) rows) = map order_content rows" for rows
    by (simp add: update_where_def)
  then show ?thesis using assms by (simp add: ord_le_def unique_key_update_where)
qed

lemma ord_le_inserted:
  assumes "ord_le s0 s" and "od_id r \<notin> od_id ` set (orders s)"
  shows "ord_le s0 (s\<lparr>orders := orders s @ [r]\<rparr>)"
proof -
  obtain new where "map order_content (orders s) = map order_content (orders s0) @ map order_content new"
    using assms(1) by (auto simp: ord_le_def)
  then have "\<exists>new. map order_content (orders s @ [r]) = map order_content (orders s0) @ map order_content new"
    by (intro exI [of _ "new @ [r]"]) simp
  then show ?thesis using assms by (simp add: ord_le_def unique_key_append)
qed

interpretation content: order_tables "ord_le s0" "\<lambda>_. True" for s0
  by unfold_locales (auto simp: ord_le_updated ord_le_inserted, simp_all add: ord_le_def)

interpretation ord: monotone_system ord_step ord_le
proof unfold_locales
  fix op s0 s assume "ord_le s0 s"
  moreover have "plain_op (\<lambda>_. True) op" by (simp add: plain_op_def split: ord_op.split)
  ultimately show "ord_le s0 (ord_step op s)" by (rule content.step [rotated])
qed (rule ord_le_refl)

lemma orders_stay_unique: "unique_key od_id (orders s) \<Longrightarrow> unique_key od_id (orders (fold ord_step ops s))"
  using ord.run_le [of s ops] by (simp only: ord_le_def)

text \<open>
  C12. An order keeps its content: in every history and under every failure no order disappears or
  changes its identifier, owner, type, amounts, items, wallet, subscription or deadline, and new orders
  are added at the end.
\<close>
theorem orders_keep_their_content:
  "take (length (orders s)) (map order_content (orders (fold ord_step ops s))) = map order_content (orders s)"
proof -
  obtain new where "map order_content (orders (fold ord_step ops s)) = map order_content (orders s) @ map order_content new"
    using ord.run_le [of s ops] unfolding ord_le_def by blast
  then show ?thesis by simp
qed

subsection \<open>What the other services never hear\<close>

text \<open>The cancellations on the bus and the deposits asked of the wallet service.\<close>

definition canceled_events :: "ord_event list \<Rightarrow> ord_event list" where
  "canceled_events es = filter (\<lambda>e. case e of Order_canceled_event _ _ _ _ _ _ _ \<Rightarrow> True | _ \<Rightarrow> False) es"

definition wallet_deposits :: "client_call list \<Rightarrow> client_call list" where
  "wallet_deposits cs = filter (\<lambda>c. case c of Wallet_deposit _ _ _ \<Rightarrow> True | _ \<Rightarrow> False) cs"

definition told :: "ord_state \<Rightarrow> ord_event list \<times> client_call list" where
  "told s = (canceled_events (w_events s), wallet_deposits (o_calls s))"

lemma told_simps [simp]:
  "told (s\<lparr>orders := rs\<rparr>) = told s" "told (s\<lparr>w_script := sc\<rparr>) = told s" "told (s\<lparr>w_uuid_next := k\<rparr>) = told s"
  "told (s\<lparr>o_processed := p\<rparr>) = told s" "told (s\<lparr>w_now := d\<rparr>) = told s"
  by (simp_all add: told_def)

lemma told_external [keep_rules]: "keeps told (external e)"
  by (rule keepsI) (simp add: external_def split: list.split outcome.split)

lemma told_publish:
  assumes "canceled_events [ev] = []"
  shows "keeps told (publish (Some ev))"
proof (rule keepsI)
  fix s :: ord_state
  show "told (snd (publish (Some ev) s)) = told s"
    using assms by (auto simp: publish_def catch_def bnd_def external_def told_def canceled_events_def split: list.splits outcome.splits)
qed

lemma told_events [keep_rules]:
  "keeps told (publish (Some (Order_created_event a b c d e f g)))"
  "keeps told (publish (Some (Order_completed_event a b c d e f h)))"
  by (simp_all add: told_publish canceled_events_def)

lemma told_call [keep_rules]:
  assumes "wallet_deposits [c] = []"
  shows "keeps told (call c failed answer)"
proof -
  have "keeps told (modify (\<lambda>s. s\<lparr>o_calls := o_calls s @ [c]\<rparr>))"
    using assms by (intro keepsI) (simp add: told_def wallet_deposits_def)
  then show ?thesis unfolding call_def by (intro keep_rules)
qed

lemma told_repo [keep_rules]:
  "keeps told (repo_create_order d)" "keeps told (repo_update_order oid u)" "keeps told (repo_get_order oid)"
  "keeps told (repo_list_orders q)" "keeps told (repo_get_user_orders uid limit offset)"
  "keeps told (get_order_by_payment_intent pid)" "keeps told repo_get_order_statistics" "keeps told (ord_mark eid)"
proof -
  have hex: "keeps told (fresh_hex n)" for n by (rule keepsI) (simp add: fresh_hex_def)
  have ins: "keeps told (\<lambda>s. if \<not> order_fits row \<or> oid \<in> od_id ` set (orders s) then (Inl DbError, s)
      else (Inr True, s\<lparr>orders := orders s @ [row]\<rparr>))" for row oid by (rule keepsI) simp
  have upd: "keeps told (\<lambda>s. if oid \<notin> od_id ` set (orders s) then (Inr False, s)
      else if \<not> update_fits u then (Inl DbError, s)
      else (Inr True, s\<lparr>orders := update_where (\<lambda>r. od_id r = oid) (apply_update now u) (orders s)\<rparr>))" for now
    by (rule keepsI) simp
  have mark: "keeps told (modify (\<lambda>s. s\<lparr>o_processed := g s\<rparr>))" for g :: "ord_state \<Rightarrow> string list" by (rule keepsI) simp
  show "keeps told (repo_get_order oid)" "keeps told (repo_list_orders q)" "keeps told (repo_get_user_orders uid limit offset)"
    "keeps told (get_order_by_payment_intent pid)" "keeps told repo_get_order_statistics"
    unfolding order_read_defs by (intro keep_rules)+
  show "keeps told (repo_create_order d)" "keeps told (repo_update_order oid u)" "keeps told (ord_mark eid)"
    unfolding repo_create_order_def repo_update_order_def order_read_defs ord_mark_def Let_def
    by (intro keep_rules hex ins upd mark)+
qed

lemma told_service [keep_rules]:
  "keeps told (create_order q)" "keeps told (update_order oid u)" "keeps told (cancel_order oid reason refund)"
  "keeps told (complete_order oid cq)" "keeps told (ord_list_orders flt)" "keeps told order_health_check"
proof -
  have deposit: "keeps told (post_deposit wallet amount oid)" for wallet amount oid
    unfolding post_deposit_def get_service_url_def missing_def by (rule keepsI) (simp add: catch_apply)
  note defs = create_order_def update_order_def cancel_order_def complete_order_def ord_list_orders_def order_health_check_def
    failed_with_def missing_def order_write_defs process_refund_def add_credits_to_wallet_def with_bus_def publish_order_canceled_def
    validate_order_create_request_def ask_account_def tax_amount_def reserve_stock_def attach_intent_def Let_def
  show "keeps told (create_order q)"
    unfolding defs
    by (cases "rq_tax q"; cases "rq_shipping_address q"; simp only: prod.case option.case;
        intro keep_rules deposit; simp add: wallet_deposits_def)
  show "keeps told (update_order oid u)" "keeps told (cancel_order oid reason refund)" "keeps told (complete_order oid cq)"
    "keeps told (ord_list_orders flt)" "keeps told order_health_check"
    unfolding defs by (intro keep_rules deposit)+
qed

lemma told_handlers [keep_rules]:
  "keeps told (ord_handle_payment_completed d eid)" "keeps told (ord_handle_payment_failed d eid)"
  "keeps told (ord_handle_payment_initiated d eid)" "keeps told (ord_handle_payment_refunded d eid)"
  "keeps told (ord_handle_wallet_credits_added uid eid)" "keeps told (ord_handle_subscription_created sd eid)"
  "keeps told (ord_handle_subscription_canceled sd eid)" "keeps told (ord_handle_user_deleted uid eid)"
proof -
  have decimal: "keeps told (decimal_or_none a)" for a
    by (auto simp: decimal_or_none_def intro!: keep_rules split: amount_field.split)
  have stock: "keeps told (call (Commit_stock oid) f x)" "keeps told (call (Request_shipment oid items) g y)"
    "keeps told (call (Release_stock oid) h z)" for oid items f x g y h z
    by (simp_all add: told_call wallet_deposits_def)
  note rules = stock keep_rules decimal
  show "keeps told (ord_handle_payment_completed d eid)" "keeps told (ord_handle_payment_failed d eid)"
    "keeps told (ord_handle_payment_initiated d eid)" "keeps told (ord_handle_payment_refunded d eid)"
    "keeps told (ord_handle_wallet_credits_added uid eid)" "keeps told (ord_handle_subscription_created sd eid)"
    "keeps told (ord_handle_subscription_canceled sd eid)" "keeps told (ord_handle_user_deleted uid eid)"
    unfolding order_handler_defs handling_def missing_def ship_paid_order_def get_order_by_transaction_id_def forget_order_def
      order_write_defs Let_def
    by (intro rules)+
qed

lemma told_step: "told (ord_step op s) = told s"
  by (cases op) (auto simp: ord_step_def intro!: keeps_after keep_rules)

text \<open>
  C13. Whatever is done with orders, in every history and under every failure: no cancellation is ever
  published and no deposit is ever asked of the wallet service. Inventory and fulfillment never learn
  of a cancelled order, a refund is never paid and bought credits are never added.
\<close>
theorem cancellations_and_deposits_never_leave:
  "canceled_events (w_events (fold ord_step ops s)) = canceled_events (w_events s)
   \<and> wallet_deposits (o_calls (fold ord_step ops s)) = wallet_deposits (o_calls s)"
proof -
  have "told (fold ord_step ops s) = told s"
    by (induction ops arbitrary: s) (simp_all add: told_step)
  then show ?thesis by (simp add: told_def)
qed

end
