(* ===== verification/OrderFlows.thy ===== *)
theory OrderFlows
  imports OrderTheorems
begin

section \<open>Orders: what the operations achieve\<close>

text \<open>
  The operations of the order service when nothing fails, evaluated to their final state, and what
  the stock makes of the calls and events it gets from them.
\<close>

subsection \<open>The repository when nothing fails\<close>

lemma valid_order_update [simp]: "valid_order (apply_update now u r) = valid_order r"
  by (simp add: valid_order_def apply_update_def)

lemma repo_get_order_calm:
  assumes "w_script s = []" and "row_by od_id oid (orders s) = Some r" and "valid_order r"
  shows "repo_get_order oid s = (Inr (Some r), s)"
  using assms by (simp add: repo_get_order_def bnd_apply to_order_def)

text \<open>The table after an \<open>UPDATE\<close> of one order.\<close>

definition set_order :: "string \<Rightarrow> int \<Rightarrow> order_update \<Rightarrow> order_row list \<Rightarrow> order_row list" where
  "set_order oid now u rows = update_where (\<lambda>r. od_id r = oid) (apply_update now u) rows"

lemma row_by_set_order:
  "row_by od_id oid rows = Some r \<Longrightarrow> row_by od_id oid (set_order oid now u rows) = Some (apply_update now u r)"
  unfolding set_order_def by (subst row_by_update_where) (auto dest: row_by_Some)

lemma repo_update_order_calm:
  assumes "w_script s = []" and "row_by od_id oid (orders s) = Some r" and "valid_order r" and "update_fits u"
  shows "repo_update_order oid u s =
    (Inr (Some (apply_update (now_us s) u r)), s\<lparr>orders := set_order oid (now_us s) u (orders s)\<rparr>)"
proof -
  have "oid \<in> od_id ` set (orders s)" using row_by_None [of od_id oid "orders s"] assms(2) by fastforce
  then show ?thesis using assms row_by_set_order [OF assms(2), of "now_us s" u]
    by (simp add: repo_update_order_def bnd_apply repo_get_order_calm set_order_def)
qed

lemma row_by_new_order: "oid \<notin> od_id ` set rows \<Longrightarrow> row_by od_id oid (rows @ [new_order oid now f d]) = Some (new_order oid now f d)"
  using row_by_append_new [of od_id "new_order oid now f d" rows] by (simp add: new_order_def)

lemma repo_create_order_calm:
  assumes "w_script s = []" and oid: "oid = ''order_'' @ take 12 (w_uuid s (w_uuid_next s))"
    and row: "row = new_order oid (now_us s) (o_dbl s) d"
    and "order_fits row" and "valid_order row" and "oid \<notin> od_id ` set (orders s)"
  shows "repo_create_order d s =
    (Inr (Some row), s\<lparr>orders := orders s @ [row], w_uuid_next := Suc (w_uuid_next s)\<rparr>)"
  using assms
  by (simp add: repo_create_order_def bnd_apply fresh_hex_def Let_def repo_get_order_calm row_by_new_order now_us_def)

lemma call_calm: "w_script s = [] \<Longrightarrow> call c failed answer s = (Inr answer, s\<lparr>o_calls := o_calls s @ [c]\<rparr>)"
  by (simp add: call_def catch_apply bnd_apply)

lemma with_bus_publish_calm:
  "w_script s = [] \<Longrightarrow> with_bus (bnd (publish (Some ev)) (\<lambda>_. ret ())) s =
     (Inr (), s\<lparr>w_events := w_events s @ published (w_bus s) (Some ev)\<rparr>)"
  by (simp add: with_bus_def catch_apply bnd_apply publish_calm)

lemma with_bus_canceled: "with_bus (publish_order_canceled r reason refund) s = (Inr (), s)"
  by (simp add: with_bus_def publish_order_canceled_def catch_apply)

subsection \<open>Completion\<close>

definition completion :: "int \<Rightarrow> string option \<Rightarrow> order_update" where
  "completion now tid = no_update\<lparr>up_status := Some Ord_completed, up_payment_status := Some Pay_completed,
     up_payment_intent := tid, up_completed_at := Some now\<rparr>"

definition completed_event :: "order_row \<Rightarrow> complete_request \<Rightarrow> ord_event" where
  "completed_event r q = Order_completed_event (od_id r) (od_user_id r) (od_type r) (od_total r) (od_currency r)
     (cq_transaction q) (Some (if truthy_num (cq_credits q) then the (cq_credits q) else 0))"

lemma add_credits_fails: "add_credits_to_wallet wallet amount oid s = (Inr False, s)"
  by (simp add: add_credits_to_wallet_def post_deposit_def get_service_url_def missing_def catch_apply)

lemma process_refund_calm: "process_refund r amount s = (Inr (\<not> truthy_str (od_wallet r)), s)"
  by (simp add: process_refund_def post_deposit_def get_service_url_def missing_def catch_apply)

lemma complete_order_calm:
  assumes "w_script s = []" and "row_by od_id oid (orders s) = Some r" and "valid_order r"
    and "cq_confirmed q" and "opt_fits 255 (cq_transaction q)"
  shows "complete_order oid q s = (Inr (order_success None),
    s\<lparr>orders := set_order oid (now_us s) (completion (now_us s) (cq_transaction q)) (orders s),
      w_events := w_events s @ published (w_bus s) (Some (completed_event r q))\<rparr>)"
proof -
  have fits: "update_fits (completion now (cq_transaction q))" for now
    using assms(5) by (simp add: update_fits_def completion_def no_update_def opt_fits_def)
  have id: "od_id r = oid" using row_by_Some [OF assms(2)] by simp
  note upd = repo_update_order_calm [OF assms(1-3) fits]
  have complete: "repo_complete_order oid (cq_transaction q) s =
      (Inr True, s\<lparr>orders := set_order oid (now_us s) (completion (now_us s) (cq_transaction q)) (orders s)\<rparr>)"
    using upd by (simp add: repo_complete_order_def bnd_apply completion_def)
  show ?thesis using assms id
    by (simp add: complete_order_def catch_apply bnd_apply repo_get_order_calm complete add_credits_fails
        with_bus_publish_calm completed_event_def)
qed

subsection \<open>A payment\<close>

definition paid_intent :: "payment_data \<Rightarrow> string option" where
  "paid_intent d = or_str (pd_payment_id d) (pd_transaction_id d)"

text \<open>The calls that ship a paid order.\<close>

definition shipping_calls :: "order_clients \<Rightarrow> order_row \<Rightarrow> client_call list" where
  "shipping_calls c r = (if has_inventory c \<and> has_fulfillment c \<and> shippable (od_items r) \<noteq> [] \<and> od_shipping_address r \<noteq> None
     then [Commit_stock (od_id r), Request_shipment (od_id r) (shippable (od_items r))] else [])"

definition shipped_update :: "string option \<Rightarrow> order_update" where
  "shipped_update tracking = no_update\<lparr>up_fulfillment := Some Ful_shipped, up_tracking := tracking\<rparr>"

definition tracking_of :: "order_clients \<Rightarrow> order_row \<Rightarrow> string option" where
  "tracking_of c r = (if shipping_calls c r = [] then None
     else answer_shipment c (od_id r) (shippable (od_items r)) (the (od_shipping_address r)))"

definition after_shipping :: "order_clients \<Rightarrow> order_row \<Rightarrow> int \<Rightarrow> order_row list \<Rightarrow> order_row list" where
  "after_shipping c r now rows = (if truthy_str (tracking_of c r)
     then set_order (od_id r) now (shipped_update (tracking_of c r)) rows else rows)"

lemma ship_paid_order_calm:
  assumes "w_script s = []" and "row_by od_id (od_id r) (orders s) = Some r'" and "valid_order r'"
    and "opt_fits 255 (tracking_of (o_clients s) r)"
  shows "ship_paid_order r s = (Inr (), s\<lparr>orders := after_shipping (o_clients s) r (now_us s) (orders s),
      o_calls := o_calls s @ shipping_calls (o_clients s) r\<rparr>)"
proof (cases "shipping_calls (o_clients s) r = []")
  case True
  then have off: "\<not> (has_inventory (o_clients s) \<and> has_fulfillment (o_clients s)) \<or> shippable (od_items r) = [] \<or> od_shipping_address r = None"
    by (auto simp: shipping_calls_def split: if_splits)
  have "ship_paid_order r s = (Inr (), s)"
    using off by (cases "od_shipping_address r") (auto simp: ship_paid_order_def)
  moreover have "after_shipping (o_clients s) r (now_us s) (orders s) = orders s"
    using True by (simp add: after_shipping_def tracking_of_def)
  ultimately show ?thesis using True by simp
next
  case False
  then obtain a where on: "has_inventory (o_clients s)" "has_fulfillment (o_clients s)" "shippable (od_items r) \<noteq> []"
      "od_shipping_address r = Some a"
    by (auto simp: shipping_calls_def split: if_splits)
  let ?t = "answer_shipment (o_clients s) (od_id r) (shippable (od_items r)) a"
  have t: "tracking_of (o_clients s) r = ?t" using False on by (simp add: tracking_of_def)
  let ?s = "s\<lparr>o_calls := o_calls s @ [Commit_stock (od_id r), Request_shipment (od_id r) (shippable (od_items r))]\<rparr>"
  have "update_fits (shipped_update ?t)"
    using assms(4) t by (simp add: update_fits_def shipped_update_def no_update_def opt_fits_def)
  then have "repo_update_order (od_id r) (shipped_update ?t) ?s =
      (Inr (Some (apply_update (now_us ?s) (shipped_update ?t) r')), ?s\<lparr>orders := set_order (od_id r) (now_us ?s) (shipped_update ?t) (orders ?s)\<rparr>)"
    using assms(1-3) by (intro repo_update_order_calm) simp_all
  then show ?thesis using assms(1) on
    by (simp add: ship_paid_order_def bnd_apply call_calm shipping_calls_def after_shipping_def t now_us_def shipped_update_def)
qed

definition readable_amount :: "amount_field \<Rightarrow> bool" where
  "readable_amount a \<longleftrightarrow> \<not> truthy_amount a \<or> (\<exists>q. a = Amount q)"

definition paid_request :: "payment_data \<Rightarrow> complete_request" where
  "paid_request d = \<lparr>cq_confirmed = True, cq_transaction = paid_intent d,
     cq_credits = (case pd_amount d of Amount q \<Rightarrow> if truthy_amount (pd_amount d) then Some q else None | _ \<Rightarrow> None)\<rparr>"

lemma decimal_or_none_calm: "readable_amount (pd_amount d) \<Longrightarrow> decimal_or_none (pd_amount d) s = (Inr (cq_credits (paid_request d)), s)"
  by (auto simp: decimal_or_none_def readable_amount_def paid_request_def truthy_amount_def split: amount_field.split)

lemma order_by_intent_calm:
  assumes "w_script s = []" and "filter (\<lambda>r. od_payment_intent r = Some pid) (orders s) = [r]" and "valid_order r"
  shows "get_order_by_payment_intent pid s = (Inr (Some r), s)"
  using assms
  by (simp add: get_order_by_payment_intent_def get_orders_by_payment_intent_def to_orders_def to_order_def bnd_apply first_row_def)

lemma order_by_intent_row:
  assumes "unique_key od_id rows" and "filter P rows = [r]"
  shows "row_by od_id (od_id r) rows = Some r"
proof -
  have "r \<in> set (filter P rows)" using assms(2) by simp
  then show ?thesis using assms(1) by (auto intro: row_by_unique)
qed

text \<open>What \<open>ord_mark\<close> does to the events remembered.\<close>

lemma ord_mark_run:
  obtains p where "ord_mark eid s = (Inr (), s\<lparr>o_processed := p\<rparr>)"
proof
  show "ord_mark eid s = (Inr (), s\<lparr>o_processed := o_processed (snd (ord_mark eid s))\<rparr>)"
    by (simp add: ord_mark_def Let_def)
qed

lemma payment_completed_calm:
  fixes s defines "c \<equiv> o_clients s" and "now \<equiv> now_us s"
  assumes calm: "w_script s = []" and "unique_key od_id (orders s)"
    and found: "filter (\<lambda>r. od_payment_intent r = Some pid) (orders s) = [r]" "valid_order r"
    and d: "pd_payment_intent d = Some pid" "pid \<noteq> []" "readable_amount (pd_amount d)" "opt_fits 255 (paid_intent d)"
    and fits: "opt_fits 255 (tracking_of c r)" and new: "\<not> ord_seen eid s"
  shows "\<exists>p. after (ord_handle_payment_completed d eid) s =
    s\<lparr>orders := after_shipping c r now (set_order (od_id r) now (completion now (paid_intent d)) (orders s)),
      w_events := w_events s @ published (w_bus s) (Some (completed_event r (paid_request d))),
      o_calls := o_calls s @ shipping_calls c r, o_processed := p\<rparr>"
proof -
  have row: "row_by od_id (od_id r) (orders s) = Some r" using order_by_intent_row assms(4) found(1) by blast
  let ?s1 = "s\<lparr>orders := set_order (od_id r) now (completion now (paid_intent d)) (orders s),
      w_events := w_events s @ published (w_bus s) (Some (completed_event r (paid_request d)))\<rparr>"
  have q: "paid_request d = \<lparr>cq_confirmed = True, cq_transaction = paid_intent d, cq_credits = cq_credits (paid_request d)\<rparr>"
    by (simp add: paid_request_def)
  have completes: "complete_order (od_id r) (paid_request d) s = (Inr (order_success None), ?s1)"
    using complete_order_calm [OF calm row found(2), of "paid_request d"] d(4) by (simp add: paid_request_def now_def)
  let ?s2 = "?s1\<lparr>orders := after_shipping c r now (orders ?s1), o_calls := o_calls s @ shipping_calls c r\<rparr>"
  have ships: "ship_paid_order r ?s1 = (Inr (), ?s2)"
    using ship_paid_order_calm [of ?s1 r "apply_update now (completion now (paid_intent d)) r"] calm row found(2) fits
    by (simp add: row_by_set_order c_def now_def now_us_def)
  obtain p where mark: "ord_mark eid ?s2 = (Inr (), ?s2\<lparr>o_processed := p\<rparr>)" by (rule ord_mark_run)
  have "get_order_by_payment_intent pid s = (Inr (Some r), s)" using calm found by (rule order_by_intent_calm)
  then have "ord_handle_payment_completed d eid s = (Inr (), ?s2\<lparr>o_processed := p\<rparr>)"
    using d new ships mark completes
    by (simp add: ord_handle_payment_completed_def handling_def catch_apply bnd_apply decimal_or_none_calm
        paid_intent_def [symmetric] q [symmetric])
  then show ?thesis by (intro exI [of _ p]) (simp add: after_def)
qed


subsection \<open>A refund\<close>

definition refunded :: "order_row list \<Rightarrow> string set" where
  "refunded rows = od_id ` {r \<in> set rows. od_status r = Ord_refunded}"

lemma refunded_simps [simp]:
  "refunded [] = {}" "refunded (r # rows) = (if od_status r = Ord_refunded then {od_id r} else {}) \<union> refunded rows"
  "refunded (rows @ rows') = refunded rows \<union> refunded rows'"
  by (auto simp: refunded_def)

lemma refunded_update: "up_status u \<noteq> Some Ord_refunded \<Longrightarrow> refunded (update_where P (apply_update now u) rows) \<subseteq> refunded rows"
  by (induction rows) (auto simp: update_where_def apply_update_def split: option.splits)

interpretation refunds: order_tables "\<lambda>s. refunded (orders s) \<subseteq> R" "\<lambda>u. up_status u \<noteq> Some Ord_refunded" for R
  by unfold_locales (simp_all add: subset_trans [OF refunded_update])

text \<open>
  No order is ever refunded by an event: the event \<open>payment.refunded\<close> names a payment and no
  intent, and the method that would find the order of a payment does not exist. Whatever else
  happens, unless an API call sets the status, no order becomes refunded.
\<close>
theorem published_refunds_change_no_order:
  assumes "list_all (plain_op (\<lambda>u. up_status u \<noteq> Some Ord_refunded)) ops"
  shows "refunded (orders (fold ord_step ops s)) \<subseteq> refunded (orders s)"
  by (rule refunds.history [OF assms]) simp

subsection \<open>A new order\<close>

definition quoted_tax :: "order_clients \<Rightarrow> order_request \<Rightarrow> rat option" where
  "quoted_tax c q = (case (rq_tax q, rq_shipping_address q) of
       (None, Some a) \<Rightarrow> if has_tax c then answer_tax c (rq_items q) a (rq_currency q) else None
     | _ \<Rightarrow> rq_tax q)"

definition tax_calls :: "order_clients \<Rightarrow> order_request \<Rightarrow> client_call list" where
  "tax_calls c q = (if rq_tax q = None \<and> rq_shipping_address q \<noteq> None \<and> has_tax c then [Quote_tax (rq_items q)] else [])"

definition stock_calls :: "order_clients \<Rightarrow> order_row \<Rightarrow> client_call list" where
  "stock_calls c r = (if has_inventory c \<and> shippable (od_items r) \<noteq> [] then [Reserve_stock (od_id r) (shippable (od_items r))] else [])"

definition expiry_of :: "order_request \<Rightarrow> int \<Rightarrow> int option" where
  "expiry_of q now = (case rq_expires_in_minutes q of None \<Rightarrow> None | Some m \<Rightarrow> if m = 0 then None else Some (now + m * us_per_minute))"

definition order_of :: "ord_state \<Rightarrow> order_request \<Rightarrow> order_row" where
  "order_of s q = new_order (''order_'' @ take 12 (w_uuid s (w_uuid_next s))) (now_us s) (o_dbl s)
     (order_create_of q (quoted_tax (o_clients s) q) (expiry_of q (now_us s)))"

text \<open>The request passes the checks, and the row can be inserted.\<close>

definition acceptable :: "ord_state \<Rightarrow> order_request \<Rightarrow> bool" where
  "acceptable s q \<longleftrightarrow> \<not> list_all is_space (rq_user_id q) \<and> 0 < rq_total q
     \<and> (rq_type q = Credit_purchase \<longrightarrow> truthy_str (rq_wallet q)) \<and> (rq_type q = Subscription \<longrightarrow> truthy_str (rq_subscription q))
     \<and> (needs_shipping (rq_items q) \<longrightarrow> rq_shipping_address q \<noteq> None)
     \<and> order_fits (order_of s q) \<and> valid_order (order_of s q) \<and> od_id (order_of s q) \<notin> od_id ` set (orders s)"

lemma order_of_items [simp]: "od_items (order_of s q) = rq_items q"
  by (simp add: order_of_def new_order_def order_create_of_def)

lemma validate_calm: "acceptable s q \<Longrightarrow> validate_order_create_request q t = (Inr (), t)"
  by (auto simp: acceptable_def validate_order_create_request_def)

lemma ask_account_calm: "w_script s = [] \<Longrightarrow> ask_account s = (Inr (), s)"
  by (simp add: ask_account_def catch_apply bnd_apply)

lemma tax_amount_calm:
  "w_script s = [] \<Longrightarrow> tax_amount q s = (Inr (quoted_tax (o_clients s) q), s\<lparr>o_calls := o_calls s @ tax_calls (o_clients s) q\<rparr>)"
  by (cases "rq_tax q"; cases "rq_shipping_address q") (simp_all add: tax_amount_def quoted_tax_def tax_calls_def call_calm)

lemma reserve_stock_calm:
  "w_script s = [] \<Longrightarrow> reserve_stock (od_id r) (od_items r) s =
     (Inr (stock_calls (o_clients s) r = [] \<or> answer_reserve (o_clients s) (od_id r) (shippable (od_items r))),
      s\<lparr>o_calls := o_calls s @ stock_calls (o_clients s) r\<rparr>)"
  by (auto simp: reserve_stock_def stock_calls_def call_calm)

definition intent_of :: "order_clients \<Rightarrow> order_row \<Rightarrow> rat \<Rightarrow> string option" where
  "intent_of c r amount = (if has_payment c \<and> truthy_str (answer_intent c (od_id r) amount)
     then answer_intent c (od_id r) amount else od_payment_intent r)"

definition intent_calls :: "order_clients \<Rightarrow> order_row \<Rightarrow> rat \<Rightarrow> client_call list" where
  "intent_calls c r amount = (if has_payment c then [Create_intent (od_id r) amount] else [])"

definition with_intent :: "int \<Rightarrow> string option \<Rightarrow> order_row \<Rightarrow> order_row" where
  "with_intent now intent r = r\<lparr>od_payment_intent := intent, od_updated_at := now\<rparr>"

lemma attach_intent_calm:
  assumes "w_script s = []" and "orders s = rows @ [r]" and "od_id r \<notin> od_id ` set rows" and "valid_order r"
    and "opt_fits 255 (intent_of (o_clients s) r amount)" and "od_updated_at r = now_us s"
  shows "attach_intent r amount s = (Inr (intent_of (o_clients s) r amount),
    s\<lparr>orders := rows @ [with_intent (now_us s) (intent_of (o_clients s) r amount) r],
      o_calls := o_calls s @ intent_calls (o_clients s) r amount\<rparr>)"
proof -
  have same: "with_intent (now_us s) (od_payment_intent r) r = r" using assms(6) by (simp add: with_intent_def)
  let ?i = "answer_intent (o_clients s) (od_id r) amount"
  show ?thesis
  proof (cases "has_payment (o_clients s) \<and> truthy_str ?i")
    case True
    let ?s = "s\<lparr>o_calls := o_calls s @ [Create_intent (od_id r) amount]\<rparr>"
    have "row_by od_id (od_id r) (orders ?s) = Some r" using row_by_append_new [OF assms(3)] assms(2) by simp
    moreover have "update_fits (no_update\<lparr>up_payment_intent := ?i\<rparr>)"
      using assms(5) True by (simp add: update_fits_def no_update_def intent_of_def opt_fits_def)
    ultimately have "repo_update_order (od_id r) (no_update\<lparr>up_payment_intent := ?i\<rparr>) ?s =
        (Inr (Some (apply_update (now_us ?s) (no_update\<lparr>up_payment_intent := ?i\<rparr>) r)),
         ?s\<lparr>orders := set_order (od_id r) (now_us ?s) (no_update\<lparr>up_payment_intent := ?i\<rparr>) (orders ?s)\<rparr>)"
      using assms(1,4) by (intro repo_update_order_calm) simp_all
    moreover have "set_order (od_id r) (now_us s) (no_update\<lparr>up_payment_intent := ?i\<rparr>) (rows @ [r]) = rows @ [with_intent (now_us s) ?i r]"
      using assms(3) True by (auto simp: set_order_def update_where_def with_intent_def apply_update_def no_update_def image_iff intro!: map_idI)
    ultimately show ?thesis using True assms(1,2)
      by (simp add: attach_intent_def bnd_apply call_calm intent_of_def intent_calls_def now_us_def)
  next
    case False
    then show ?thesis using assms(1,2) same
      by (auto simp: attach_intent_def bnd_apply call_calm intent_of_def intent_calls_def)
  qed
qed

lemma create_order_calm:
  fixes s q defines "r \<equiv> order_of s q" and "c \<equiv> o_clients s"
  defines "amount \<equiv> base_amount q + or_zero (quoted_tax c q) + or_zero (rq_shipping q) - or_zero (rq_discount q)"
  assumes "w_script s = []" and "acceptable s q"
    and "stock_calls c r = [] \<or> answer_reserve c (od_id r) (shippable (rq_items q))"
    and "opt_fits 255 (intent_of c r amount)"
  shows "create_order q s = (Inr (order_success (Some r)),
    s\<lparr>orders := orders s @ [with_intent (now_us s) (intent_of c r amount) r], w_uuid_next := Suc (w_uuid_next s),
      o_calls := o_calls s @ tax_calls c q @ stock_calls c r @ intent_calls c r amount,
      w_events := w_events s @ published (w_bus s) (Some (Order_created_event (od_id r) (rq_user_id q)
        (rq_type q) (od_total r) (rq_currency q) (intent_of c r amount) (rq_items q)))\<rparr>)"
proof -
  have fields: "od_status r = Ord_pending" "od_total r = o_dbl s (rq_total q)" "od_final r = o_dbl s amount" "od_subtotal r = 0"
    "od_shipping r = 0" "od_updated_at r = now_us s" "od_items r = rq_items q"
    by (simp_all add: r_def order_of_def new_order_def order_create_of_def amount_def c_def)
  have final: "cr_final (order_create_of q (quoted_tax c q) e) = amount" for e by (simp add: order_create_of_def amount_def)
  let ?s1 = "s\<lparr>o_calls := o_calls s @ tax_calls c q\<rparr>"
  let ?s2 = "?s1\<lparr>orders := orders s @ [r], w_uuid_next := Suc (w_uuid_next s)\<rparr>"
  let ?s3 = "?s2\<lparr>o_calls := o_calls ?s2 @ stock_calls c r\<rparr>"
  have ok: "order_fits r" "valid_order r" "od_id r \<notin> od_id ` set (orders s)" using assms(5) by (simp_all add: acceptable_def r_def)
  have tax: "tax_amount q s = (Inr (quoted_tax c q), ?s1)" using assms(4) by (simp add: tax_amount_calm c_def)
  have create: "repo_create_order (order_create_of q (quoted_tax c q) (expiry_of q (now_us s))) ?s1 = (Inr (Some r), ?s2)"
    using repo_create_order_calm [of ?s1 "od_id r" r "order_create_of q (quoted_tax c q) (expiry_of q (now_us s))"] assms(4) ok
    by (simp add: r_def order_of_def c_def now_us_def) (simp add: new_order_def)
  have stock: "reserve_stock (od_id r) (rq_items q) ?s2 = (Inr True, ?s3)"
    using reserve_stock_calm [of ?s2 r] assms(4,6) by (auto simp: fields c_def)
  have intent: "attach_intent r amount ?s3 = (Inr (intent_of c r amount),
      ?s3\<lparr>orders := orders s @ [with_intent (now_us s) (intent_of c r amount) r], o_calls := o_calls ?s3 @ intent_calls c r amount\<rparr>)"
    using attach_intent_calm [of ?s3 "orders s" r amount] assms(4,7) ok fields by (simp add: c_def now_us_def)
  show ?thesis
    using assms(4) tax create stock intent validate_calm [OF assms(5)] fields
    by (simp add: create_order_def catch_apply bnd_apply ask_account_calm final Let_def with_bus_publish_calm
        expiry_of_def [symmetric])
qed

text \<open>
  C15. A request that is accepted, and whose stock the inventory service reserves, becomes one pending order at the
  end of the table, under the intent of the payment service, and is announced once on the bus. The
  final amount adds tax and shipping to the amount before, also where the request already gave the
  final amount; the columns for subtotal and shipping stay 0.
\<close>
theorem create_order_effect:
  fixes s q defines "r \<equiv> order_of s q" and "c \<equiv> o_clients s"
  defines "amount \<equiv> base_amount q + or_zero (quoted_tax c q) + or_zero (rq_shipping q) - or_zero (rq_discount q)"
  assumes "w_script s = []" and "acceptable s q"
    and "stock_calls c r = [] \<or> answer_reserve c (od_id r) (shippable (rq_items q))"
    and "opt_fits 255 (intent_of c r amount)"
  shows "fst (create_order q s) = Inr (order_success (Some r))
    \<and> orders (snd (create_order q s)) = orders s @ [with_intent (now_us s) (intent_of c r amount) r]
    \<and> od_status r = Ord_pending \<and> od_total r = o_dbl s (rq_total q) \<and> od_final r = o_dbl s amount
    \<and> od_subtotal r = 0 \<and> od_shipping r = 0
    \<and> o_calls (snd (create_order q s)) = o_calls s @ tax_calls c q @ stock_calls c r @ intent_calls c r amount
    \<and> w_events (snd (create_order q s)) = w_events s @ published (w_bus s) (Some (Order_created_event (od_id r) (rq_user_id q)
        (rq_type q) (od_total r) (rq_currency q) (intent_of c r amount) (rq_items q)))"
  using create_order_calm [OF assms(4,5,6,7)[unfolded r_def c_def amount_def]]
  unfolding r_def c_def amount_def
  by (simp add: order_of_def new_order_def order_create_of_def)

subsection \<open>Cancelling\<close>

lemma cancel_order_calm:
  assumes "w_script s = []" and "row_by od_id oid (orders s) = Some r" and "valid_order r"
    and "od_status r \<notin> {Ord_completed, Ord_cancelled, Ord_refunded}"
  shows "cancel_order oid reason refund s = (Inr (order_success None),
    s\<lparr>orders := set_order oid (now_us s) (no_update\<lparr>up_status := Some Ord_cancelled,
       up_meta := Some (if truthy_str reason then [(''cancellation_reason'', reason)] else [])\<rparr>) (orders s)\<rparr>)"
proof -
  let ?u = "no_update\<lparr>up_status := Some Ord_cancelled, up_meta := Some (if truthy_str reason then [(''cancellation_reason'', reason)] else [])\<rparr>"
  have "update_fits ?u" by (simp add: update_fits_def no_update_def opt_fits_def)
  note upd = repo_update_order_calm [OF assms(1-3) this]
  have "repo_cancel_order oid reason s = (Inr True, s\<lparr>orders := set_order oid (now_us s) ?u (orders s)\<rparr>)"
    using upd by (simp add: repo_cancel_order_def bnd_apply)
  then show ?thesis using assms
    by (simp add: cancel_order_def catch_apply bnd_apply repo_get_order_calm process_refund_calm with_bus_canceled split: option.split)
qed

end
