(* ===== verification/OrderStock.thy ===== *)
theory OrderStock
  imports OrderFlows OrderSaga
begin

section \<open>Orders and their stock\<close>

text \<open>
  The inventory service hears of an order twice: the order service calls its HTTP API (\<open>inventory_client.py\<close>,
  which sends neither user nor reservation), and publishes \<open>order.created\<close>, to which inventory subscribes.
\<close>

text \<open>An item of an order as JSON; the price is stored with the reservation and decides nothing.\<close>

definition sent_item :: "order_item \<Rightarrow> raw_item" where
  "sent_item i = \<lparr>it_sku_id = li_sku_id i, it_product_id = Some (li_product_id i), it_id = None,
     it_quantity = Some (li_quantity i), it_unit_price = Some (li_unit_price i), it_price = None, it_weight_grams = None\<rparr>"

definition inventory_call :: "client_call \<Rightarrow> inv_op option" where
  "inventory_call c = (case c of
       Reserve_stock oid items \<Rightarrow> Some (Reserve oid (map sent_item items) ''unknown'')
     | Commit_stock oid \<Rightarrow> Some (Commit oid None)
     | Release_stock oid \<Rightarrow> Some (Release oid None ''manual_release'')
     | _ \<Rightarrow> None)"

definition inventory_event :: "ord_event \<Rightarrow> inv_op option" where
  "inventory_event e = (case e of
       Order_created_event oid uid ty amount currency intent items \<Rightarrow>
         Some (On_order_created \<lparr>oc_order_id = Some oid, oc_user_id = Some uid, oc_items = map sent_item items\<rparr>)
     | Order_canceled_event oid uid ty amount currency reason refund \<Rightarrow>
         Some (On_order_canceled \<lparr>ox_order_id = Some oid, ox_user_id = Some uid, ox_cancellation_reason = reason\<rparr>)
     | _ \<Rightarrow> None)"

text \<open>What the order service tells inventory between two of its states: its calls, then the events.\<close>

definition stock_ops :: "ord_state \<Rightarrow> ord_state \<Rightarrow> inv_op list" where
  "stock_ops s s' = List.map_filter inventory_call (drop (length (o_calls s)) (o_calls s'))
     @ List.map_filter inventory_event (new_events s s')"

definition named_item :: "order_item \<Rightarrow> bool" where
  "named_item i \<longleftrightarrow> truthy_str (li_sku_id i) \<or> li_product_id i \<noteq> []"

lemma sent_items_reserved:
  assumes "items \<noteq> []" and "list_all named_item items"
  shows "build_reserved_items (map sent_item items) \<noteq> []"
proof -
  obtain x xs where x: "items = x # xs" "named_item x" using assms by (cases items) auto
  have "item_sku (sent_item x) = Some (if truthy_str (li_sku_id x) then the (li_sku_id x) else li_product_id x)"
      "(if truthy_str (li_sku_id x) then the (li_sku_id x) else li_product_id x) \<noteq> []"
    using x(2) by (cases "li_sku_id x"; simp add: named_item_def sent_item_def item_sku_def or_str_def truthy_str_def)+
  then have "build_reserved_item (sent_item x) \<noteq> None" by (simp add: build_reserved_item_def)
  then show ?thesis using x(1) by (auto simp: build_reserved_items_def map_filter_simps)
qed

text \<open>A reservation over HTTP, then the event.\<close>

lemma reserve_inventory_calm:
  assumes "w_script s = []" and "oid \<noteq> []" and "items \<noteq> []"
    and "rv_id (new_row s oid (Some uid) items) \<notin> rv_id ` set (reservations s)"
  shows "\<exists>es. after (reserve_inventory oid items uid) s =
    s\<lparr>reservations := reservations s @ [new_row s oid (Some uid) items], w_uuid_next := Suc (w_uuid_next s), w_events := es\<rparr>"
proof (cases "build_reserved_items items = []")
  case True
  then show ?thesis using assms
    by (intro exI [of _ "w_events s"]) (simp add: reserve_inventory_def after_def bnd_apply create_reservation_calm Let_def)
next
  case False
  then show ?thesis using assms
    by (intro exI [of _ "w_events s @ published (w_bus s) (Some (StockReserved oid (rv_id (new_row s oid (Some uid) items)) uid
          (build_reserved_items items) (rv_expires_at (new_row s oid (Some uid) items)) None))"])
      (simp add: reserve_inventory_def after_def bnd_apply create_reservation_calm publish_calm Let_def)
qed

lemma reserved_by_call_and_event:
  assumes "w_script i = []" and "oid \<noteq> []" and "items1 \<noteq> []"
    and "oc_order_id d = Some oid" and "build_reserved_items (oc_items d) \<noteq> []"
    and fresh: "hex1 = take 12 (w_uuid i (w_uuid_next i))" "hex2 = take 12 (w_uuid i (Suc (w_uuid_next i)))" "hex1 \<noteq> hex2"
      "''res_'' @ hex1 \<notin> rv_id ` set (reservations i)" "''res_'' @ hex2 \<notin> rv_id ` set (reservations i)"
    and i': "i' = fold inv_step [Reserve oid items1 uid, On_order_created d] i"
  shows "length (active_for oid (reservations i')) = length (active_for oid (reservations i)) + 2"
proof -
  let ?r1 = "new_row i oid (Some uid) items1"
  have "rv_id ?r1 \<notin> rv_id ` set (reservations i)" using fresh by (simp add: new_row_def)
  then obtain es where one: "after (reserve_inventory oid items1 uid) i =
      i\<lparr>reservations := reservations i @ [?r1], w_uuid_next := Suc (w_uuid_next i), w_events := es\<rparr>"
    using reserve_inventory_calm [OF assms(1-3), of uid] by blast
  let ?i1 = "after (reserve_inventory oid items1 uid) i"
  let ?r2 = "new_row ?i1 oid (oc_user_id d) (map db_item (build_reserved_items (oc_items d)))"
  have new: "rv_id ?r2 \<notin> rv_id ` set (reservations ?i1)" and sc: "w_script ?i1 = []" using fresh assms(1) by (simp_all add: one new_row_def)
  have "reservations (after (inv_handle_order_created d) ?i1) = reservations ?i1 @ [?r2]"
    by (subst inv_handle_order_created_calm [OF sc assms(4,2) refl assms(5) refl new]) simp
  then show ?thesis by (simp add: i' inv_step_def one active_for_def new_row_def)
qed

text \<open>
  C14. A created and then cancelled order keeps its stock, twice: when an accepted order with goods to
  ship is created, inventory makes a reservation for the call and another one for the event; when the
  order is cancelled right after that, nothing reaches inventory, and both stay active.
\<close>
theorem cancelled_order_keeps_two_reservations:
  fixes s q i defines "r \<equiv> order_of s q" and "c \<equiv> o_clients s"
  defines "amount \<equiv> base_amount q + or_zero (quoted_tax c q) + or_zero (rq_shipping q) - or_zero (rq_discount q)"
  assumes "w_script s = []" and "w_bus s" and "acceptable s q" and "unique_key od_id (orders s)"
    and "has_inventory c" and "answer_reserve c (od_id r) (shippable (rq_items q))"
    and "shippable (rq_items q) \<noteq> []" and "list_all named_item (rq_items q)" and "opt_fits 255 (intent_of c r amount)"
    and "w_script i = []" and "hex1 = take 12 (w_uuid i (w_uuid_next i))" and "hex2 = take 12 (w_uuid i (Suc (w_uuid_next i)))"
    and "hex1 \<noteq> hex2" and "''res_'' @ hex1 \<notin> rv_id ` set (reservations i)" and "''res_'' @ hex2 \<notin> rv_id ` set (reservations i)"
    and s': "s' = after (cancel_order (od_id r) reason refund) (after (create_order q) s)"
    and i': "i' = fold inv_step (stock_ops s s') i"
  shows "map_option od_status (row_by od_id (od_id r) (orders s')) = Some Ord_cancelled
    \<and> length (active_for (od_id r) (reservations i')) = length (active_for (od_id r) (reservations i)) + 2"
proof -
  let ?r = "with_intent (now_us s) (intent_of c r amount) r"
  have r: "od_id r \<noteq> []" "od_status r = Ord_pending" "od_id ?r = od_id r" "od_items r = rq_items q" "valid_order ?r"
    and new: "od_id r \<notin> od_id ` set (orders s)"
    using assms(6) by (simp_all add: r_def order_of_def new_order_def order_create_of_def with_intent_def acceptable_def valid_order_def)
  let ?s1 = "after (create_order q) s"
  have s1: "w_script ?s1 = []" "orders ?s1 = orders s @ [?r]"
      "o_calls ?s1 = o_calls s @ tax_calls c q @ stock_calls c r @ intent_calls c r amount"
      "w_events ?s1 = w_events s @ [Order_created_event (od_id r) (rq_user_id q) (rq_type q) (od_total r) (rq_currency q)
        (intent_of c r amount) (rq_items q)]"
    using create_order_calm [OF assms(4,6), folded r_def c_def amount_def] assms(4,5,9,12) by (simp_all add: after_def amount_def c_def r_def)
  have row: "row_by od_id (od_id r) (orders ?s1) = Some ?r" using row_by_append_new [of od_id ?r "orders s"] new r(3) s1(2) by simp
  have cancel: "s' = ?s1\<lparr>orders := set_order (od_id r) (now_us ?s1) (no_update\<lparr>up_status := Some Ord_cancelled,
       up_meta := Some (if truthy_str reason then [(''cancellation_reason'', reason)] else [])\<rparr>) (orders ?s1)\<rparr>"
    using cancel_order_calm [OF s1(1) row r(5), of reason refund] r(2) by (simp add: s' after_def with_intent_def)
  have status: "map_option od_status (row_by od_id (od_id r) (orders s')) = Some Ord_cancelled"
    using row_by_set_order [OF row] by (simp add: cancel) (simp add: apply_update_def no_update_def)
  let ?d = "\<lparr>oc_order_id = Some (od_id r), oc_user_id = Some (rq_user_id q), oc_items = map sent_item (rq_items q)\<rparr>"
  have "List.map_filter inventory_call (tax_calls c q) = []" "List.map_filter inventory_call (intent_calls c r amount) = []"
    by (simp_all add: tax_calls_def intent_calls_def inventory_call_def map_filter_simps)
  moreover have "stock_calls c r = [Reserve_stock (od_id r) (shippable (rq_items q))]"
    using assms(8,10) r(4) by (simp add: stock_calls_def)
  ultimately have ops: "stock_ops s s' = [Reserve (od_id r) (map sent_item (shippable (rq_items q))) ''unknown'', On_order_created ?d]"
    using s1 by (simp add: stock_ops_def cancel new_events_def map_filter_def inventory_call_def inventory_event_def)
  have ne: "rq_items q \<noteq> []" using assms(10) by (auto simp: shippable_def)
  have "length (active_for (od_id r) (reservations i')) = length (active_for (od_id r) (reservations i)) + 2"
    using reserved_by_call_and_event [OF assms(13) r(1) _ _ _ assms(14-18) i' [unfolded ops]] assms(10) sent_items_reserved [OF ne assms(11)]
    by simp
  with status show ?thesis by simp
qed

end
