(* ===== verification/OrderExamples.thy ===== *)
theory OrderExamples
  imports OrderStock
begin

section \<open>Orders: the properties at a concrete state\<close>

definition shop_clients :: order_clients where
  "shop_clients = \<lparr>has_account = False, has_inventory = True, has_tax = True, has_payment = True, has_fulfillment = True,
     answer_tax = (\<lambda>_ _ _. Some 2), answer_reserve = (\<lambda>_ _. True), answer_intent = (\<lambda>_ _. Some ''pi_1''),
     answer_shipment = (\<lambda>_ _ _. Some ''TRK1'')\<rparr>"

text \<open>The \<open>k\<close>-th identifier is \<open>k\<close> digits \<open>a\<close>.\<close>

definition shop :: ord_state where
  "shop = \<lparr>w_now = \<lparr>dt_year = 2026, dt_month = 2, dt_day = 3, dt_us = 0\<rparr>, w_uuid = (\<lambda>k. replicate k CHR ''a''), w_uuid_next = 0,
     w_script = [], w_bus = True, w_events = [], orders = [], o_dbl = id, o_processed = [], o_set_order = id,
     o_iso = (\<lambda>_. ''now''), o_clients = shop_clients, o_calls = []\<rparr>"

definition boots :: order_item where
  "boots = \<lparr>li_product_id = ''boots'', li_sku_id = None, li_title = None, li_quantity = 1, li_unit_price = 20, li_subtotal = 20,
     li_tax = 0, li_discount = 0, li_total = 20, li_fulfillment_type = Ship, li_metadata = None\<rparr>"

definition buy_boots :: order_request where
  "buy_boots = \<lparr>rq_user_id = ''u1'', rq_type = Purchase, rq_total = 20, rq_currency = ''USD'', rq_payment_intent = None,
     rq_subscription = None, rq_wallet = None, rq_items = [boots], rq_subtotal = None, rq_tax = None, rq_shipping = Some 5,
     rq_discount = None, rq_final = Some 27, rq_shipping_address = Some [(''city'', ''Oslo'')], rq_billing_address = None,
     rq_meta = None, rq_expires_in_minutes = Some 30\<rparr>"

lemma shop_simps [simp]: "w_script shop = []" "w_bus shop" "orders shop = []" "o_clients shop = shop_clients" "o_dbl shop = id"
  "o_processed shop = []"
  by (simp_all add: shop_def)

lemma acceptable_boots: "acceptable shop buy_boots"
  by (simp add: acceptable_def buy_boots_def is_space_def needs_shipping_def boots_def order_of_def order_fits_def valid_order_def valid_item_def
      new_order_def order_create_of_def opt_fits_def base_amount_def or_zero_def quoted_tax_def shop_def shop_clients_def)

lemma boots_views:
  "shippable (rq_items buy_boots) = [boots]" "list_all named_item (rq_items buy_boots)"
  "intent_of shop_clients r amount = Some ''pi_1''" "opt_fits 255 (intent_of shop_clients r amount)" "has_inventory shop_clients"
  "answer_reserve shop_clients x y"
  by (simp_all add: buy_boots_def boots_def shippable_def named_item_def intent_of_def shop_clients_def truthy_str_def opt_fits_def)

theorem create_order_effect_witness:
  "map od_final (orders (snd (create_order buy_boots shop))) = [34]
   \<and> map od_payment_intent (orders (snd (create_order buy_boots shop))) = [Some ''pi_1'']"
proof -
  have "base_amount buy_boots + or_zero (quoted_tax (o_clients shop) buy_boots) + or_zero (rq_shipping buy_boots) - or_zero (rq_discount buy_boots) = 34"
    by (simp add: base_amount_def buy_boots_def or_zero_def quoted_tax_def shop_clients_def)
  then show ?thesis
    using create_order_effect [of shop buy_boots] acceptable_boots
    by (simp add: boots_views with_intent_def opt_fits_def)
qed

theorem cancelled_order_keeps_two_reservations_witness:
  "length (active_for ''order_'' (reservations (fold inv_step
     (stock_ops shop (after (cancel_order ''order_'' None None) (after (create_order buy_boots) shop))) inv_empty))) = 2"
proof -
  have "od_id (order_of shop buy_boots) = ''order_''" by (simp add: order_of_def new_order_def shop_def)
  then show ?thesis
    using cancelled_order_keeps_two_reservations [of shop buy_boots inv_empty _ _ _ None None, OF _ _ acceptable_boots _ _ _ _ _ _ _ refl refl _ _ _ refl refl]
    by (simp add: boots_views unique_key_def inv_empty_def hex_of_def active_for_def opt_fits_def)
qed

definition cancelled_boots :: order_row where
  "cancelled_boots = (order_of shop buy_boots)\<lparr>od_status := Ord_cancelled, od_payment_intent := Some ''pi_1''\<rparr>"

definition pay_boots :: payment_data where
  "pay_boots = \<lparr>pd_payment_intent = Some ''pi_1'', pd_payment_id = Some ''pay_9'', pd_transaction_id = None, pd_order_id = None,
     pd_user_id = Some ''u1'', pd_amount = Amount 34, pd_amount_text = ''34''\<rparr>"

lemma cancelled_boots_simps [simp]:
  "od_id cancelled_boots = ''order_''" "od_status cancelled_boots = Ord_cancelled" "od_payment_intent cancelled_boots = Some ''pi_1''"
  "valid_order cancelled_boots" "od_items cancelled_boots = [boots]" "od_shipping_address cancelled_boots = Some [(''city'', ''Oslo'')]"
  using acceptable_boots
  by (simp_all add: cancelled_boots_def order_of_def new_order_def order_create_of_def acceptable_def valid_order_def buy_boots_def)
    (simp add: shop_def)


theorem published_refunds_change_no_order_witness:
  "refunded (orders (fold ord_step [Create_order buy_boots, Ord_payment_completed pay_boots None,
     Ord_payment_refunded (pay_boots\<lparr>pd_payment_intent := None\<rparr>) None] shop)) = {}"
  using published_refunds_change_no_order [of "[Create_order buy_boots, Ord_payment_completed pay_boots None,
     Ord_payment_refunded (pay_boots\<lparr>pd_payment_intent := None\<rparr>) None]" shop]
  by (simp add: plain_op_def truthy_str_def)

end
