(* ===== verification/MemberRepo.thy ===== *)
theory MemberRepo
  imports Systems
begin

section \<open>Memberships: data and repository\<close>

text \<open>
  \<open>microservices/membership_service\<close>: \<open>models.py\<close> and \<open>membership_repository.py\<close>. A membership is one
  row with its points; what happened to it is a list of history rows, which also count the uses of a
  benefit. Descriptions and metadata are left out; the database client is taken to decode JSON
  columns. The cache of tier definitions, which the service never reads, is not modelled.
\<close>

subsection \<open>Tiers\<close>

datatype member_tier = Bronze | Silver | Gold | Platinum | Diamond

definition tier_threshold :: "member_tier \<Rightarrow> int" where
  "tier_threshold t = (case t of Bronze \<Rightarrow> 0 | Silver \<Rightarrow> 5000 | Gold \<Rightarrow> 20000 | Platinum \<Rightarrow> 50000 | Diamond \<Rightarrow> 100000)"

definition tier_multiplier :: "member_tier \<Rightarrow> rat" where
  "tier_multiplier t = (case t of Bronze \<Rightarrow> 1 | Silver \<Rightarrow> 5 / 4 | Gold \<Rightarrow> 3 / 2 | Platinum \<Rightarrow> 2 | Diamond \<Rightarrow> 3)"

definition tier_order :: "member_tier list" where
  "tier_order = [Bronze, Silver, Gold, Platinum, Diamond]"

subsection \<open>Rows\<close>

datatype member_status = Mb_pending | Mb_active | Mb_suspended | Mb_expired | Mb_canceled

datatype point_action = Act_enrolled | Act_earned | Act_redeemed | Act_points_expired | Act_adjusted | Act_upgraded | Act_downgraded
  | Act_benefit_used | Act_suspended | Act_reactivated | Act_renewed | Act_expired | Act_canceled

datatype initiated_by = By_user | By_system | By_admin | By_service

record member_row =
  mb_id :: string
  mb_user_id :: string
  mb_org :: "string option"
  mb_tier :: member_tier
  mb_status :: member_status
  mb_balance :: int
  mb_tier_points :: int
  mb_lifetime :: int
  mb_pending_points :: int
  mb_enrolled_at :: int
  mb_expiration :: int
  mb_last_activity :: int
  mb_auto_renew :: bool
  mb_source :: string
  mb_promo :: "string option"
  mb_created_at :: int
  mb_updated_at :: int

record history_row =
  hs_id :: string
  hs_member :: string
  hs_action :: point_action
  hs_change :: int
  hs_balance_after :: "int option"
  hs_previous_tier :: "member_tier option"
  hs_new_tier :: "member_tier option"
  hs_source :: "string option"
  hs_reference :: "string option"
  hs_reward :: "string option"
  hs_benefit :: "string option"
  hs_by :: initiated_by
  hs_created_at :: int

record tier_benefit =
  bn_tier :: member_tier
  bn_code :: string
  bn_limit :: "int option"
  bn_unlimited :: bool
  bn_active :: bool

datatype mem_event =
    Member_enrolled string string member_tier int
  | Member_earned string string int rat string int "member_tier option"
  | Member_redeemed string string int string int
  | Member_canceled string string "string option" int
  | Member_suspended string string string "int option"
  | Member_reactivated string string
  | Member_upgraded string string member_tier member_tier int
  | Member_benefit_used string string string

text \<open>
  \<open>m_hundredfold q\<close> is \<open>int(float(q) * 100)\<close>, and \<open>m_percent\<close> what a float becomes as a decimal with two
  digits.
\<close>

record mem_state = "mem_event world" +
  members :: "member_row list"
  mem_history :: "history_row list"
  tier_benefits :: "tier_benefit list"
  m_hundredfold :: "rat \<Rightarrow> int"
  m_percent :: "rat \<Rightarrow> rat"

type_synonym 'a mem_io = "(mem_state, unit exn, 'a) io"

subsection \<open>Constraints\<close>

definition member_fits :: "member_row \<Rightarrow> bool" where
  "member_fits r \<longleftrightarrow> length (mb_id r) \<le> 50 \<and> length (mb_user_id r) \<le> 50 \<and> opt_fits 50 (mb_org r) \<and> length (mb_source r) \<le> 50
     \<and> opt_fits 50 (mb_promo r) \<and> int8 (mb_balance r) \<and> int8 (mb_tier_points r) \<and> int8 (mb_lifetime r) \<and> int8 (mb_pending_points r)"

definition history_fits :: "history_row \<Rightarrow> bool" where
  "history_fits h \<longleftrightarrow> length (hs_id h) \<le> 50 \<and> length (hs_member h) \<le> 50 \<and> int8 (hs_change h) \<and> opt_all (hs_balance_after h) int8
     \<and> opt_fits 50 (hs_source h) \<and> opt_fits 100 (hs_reference h) \<and> opt_fits 50 (hs_reward h) \<and> opt_fits 50 (hs_benefit h)"

text \<open>
  The partial unique index on user and organization; \<open>NULL\<close> organizations are never equal to each other.
\<close>

definition indexed :: "member_row \<Rightarrow> bool" where
  "indexed r \<longleftrightarrow> mb_status r \<in> {Mb_active, Mb_pending} \<and> mb_org r \<noteq> None"

definition active_index :: "member_row list \<Rightarrow> bool" where
  "active_index rows \<longleftrightarrow> distinct (map (\<lambda>r. (mb_user_id r, mb_org r)) (filter indexed rows))"

definition valid_member :: "member_row \<Rightarrow> bool" where
  "valid_member r \<longleftrightarrow> 0 \<le> mb_balance r \<and> 0 \<le> mb_tier_points r \<and> 0 \<le> mb_lifetime r \<and> 0 \<le> mb_pending_points r"

subsection \<open>Reading\<close>

definition to_member :: "member_row \<Rightarrow> member_row mem_io" where
  "to_member r = (if valid_member r then ret r else throw ValidationError)"

definition one_member :: "(mem_state \<Rightarrow> member_row option) \<Rightarrow> member_row option mem_io" where
  "one_member f =
     bnd (external DbError) (\<lambda>ok. if \<not> ok then ret None else
     bnd (gets f) (\<lambda>r. case r of None \<Rightarrow> ret None | Some r \<Rightarrow> bnd (to_member r) (\<lambda>x. ret (Some x))))"

definition repo_get_membership :: "string \<Rightarrow> member_row option mem_io" where
  "repo_get_membership mid = one_member (\<lambda>s. row_by mb_id mid (members s))"

definition of_user :: "string \<Rightarrow> string option \<Rightarrow> bool \<Rightarrow> member_row \<Rightarrow> bool" where
  "of_user uid org active_only r \<longleftrightarrow> mb_user_id r = uid \<and> mb_org r = (if truthy_str org then org else None)
     \<and> (active_only \<longrightarrow> mb_status r \<in> {Mb_active, Mb_pending})"

definition repo_membership_by_user :: "string \<Rightarrow> string option \<Rightarrow> bool \<Rightarrow> member_row option mem_io" where
  "repo_membership_by_user uid org active_only =
     one_member (\<lambda>s. first_row (order_desc mb_created_at (filter (of_user uid org active_only) (members s))))"

record member_filter =
  mf_user :: "string option"
  mf_org :: "string option"
  mf_status :: "member_status option"
  mf_tier :: "member_tier option"

definition member_matches :: "member_filter \<Rightarrow> member_row \<Rightarrow> bool" where
  "member_matches q r \<longleftrightarrow> (truthy_str (mf_user q) \<longrightarrow> mf_user q = Some (mb_user_id r))
     \<and> (truthy_str (mf_org q) \<longrightarrow> mf_org q = mb_org r) \<and> opt_all (mf_status q) (\<lambda>st. mb_status r = st)
     \<and> opt_all (mf_tier q) (\<lambda>t. mb_tier r = t)"

definition repo_list_memberships :: "member_filter \<Rightarrow> int \<Rightarrow> int \<Rightarrow> member_row list mem_io" where
  "repo_list_memberships q limit offset =
     bnd (external DbError) (\<lambda>ok. if \<not> ok then ret []
     else if limit < 0 \<or> offset < 0 then throw DbError
     else bnd (gets (\<lambda>s. take (nat limit) (drop (nat offset) (order_desc mb_created_at (filter (member_matches q) (members s))))))
       (\<lambda>rows. for_each rows (\<lambda>r acc. bnd (to_member r) (\<lambda>x. ret (acc @ [x]))) []))"

text \<open>A count that answers 0 when the database fails.\<close>

definition count_or_zero :: "(mem_state \<Rightarrow> nat) \<Rightarrow> nat mem_io" where
  "count_or_zero f = catch (bnd (external (DbError :: unit exn)) (\<lambda>ok. if ok then gets f else ret 0)) (\<lambda>_. ret 0)"

definition repo_count_memberships :: "member_filter \<Rightarrow> nat mem_io" where
  "repo_count_memberships q = count_or_zero (\<lambda>s. length (filter (member_matches q) (members s)))"

subsection \<open>Writing a membership\<close>

definition new_member :: "string \<Rightarrow> datetime \<Rightarrow> string \<Rightarrow> member_tier \<Rightarrow> int \<Rightarrow> string option \<Rightarrow> string \<Rightarrow> string option \<Rightarrow> member_row" where
  "new_member mid d uid tier points org src promo =
     \<lparr>mb_id = mid, mb_user_id = uid, mb_org = org, mb_tier = tier, mb_status = Mb_active, mb_balance = points, mb_tier_points = 0,
      mb_lifetime = points, mb_pending_points = 0, mb_enrolled_at = stamp d, mb_expiration = stamp d + 365 * us_per_day,
      mb_last_activity = stamp d, mb_auto_renew = True, mb_source = src, mb_promo = promo, mb_created_at = stamp d, mb_updated_at = stamp d\<rparr>"

definition repo_create_membership ::
  "string \<Rightarrow> member_tier \<Rightarrow> int \<Rightarrow> string option \<Rightarrow> string \<Rightarrow> string option \<Rightarrow> member_row mem_io" where
  "repo_create_membership uid tier points org src promo =
     bnd (fresh_hex 16) (\<lambda>hex. bnd (gets w_now) (\<lambda>d.
     let r = new_member (''mem_'' @ hex) d uid tier points org src promo in
     bnd (external DbError) (\<lambda>ok. if \<not> ok then throw (Generic ''Failed to create membership'') else
     bnd (\<lambda>s. if \<not> member_fits r \<or> mb_id r \<in> mb_id ` set (members s) \<or> \<not> active_index (members s @ [r]) then (Inl DbError, s)
              else (Inr (), s\<lparr>members := members s @ [r]\<rparr>)) (\<lambda>_. to_member r))))"

text \<open>\<open>UPDATE ... WHERE membership_id = $ AND ... RETURNING *\<close>\<close>

definition update_member :: "string \<Rightarrow> (member_row \<Rightarrow> bool) \<Rightarrow> (member_row \<Rightarrow> member_row) \<Rightarrow> member_row mem_io" where
  "update_member mid P f =
     bnd (external DbError) (\<lambda>ok. if \<not> ok then throw (Generic ''Membership not found'') else
     bnd (\<lambda>s. case row_by mb_id mid (members s) of
            None \<Rightarrow> (Inl (Generic ''Membership not found''), s)
          | Some r \<Rightarrow>
              if \<not> P r then (Inl (Generic ''Membership not found''), s)
              else let rows = update_where (\<lambda>r. mb_id r = mid) f (members s) in
                if \<not> member_fits (f r) \<or> \<not> active_index rows then (Inl DbError, s)
                else (Inr (f r), s\<lparr>members := rows\<rparr>)) to_member)"

definition repo_add_points :: "string \<Rightarrow> int \<Rightarrow> int \<Rightarrow> member_row mem_io" where
  "repo_add_points mid points tier_points =
     bnd (gets now_us) (\<lambda>now. update_member mid (\<lambda>_. True) (\<lambda>r. r\<lparr>mb_balance := mb_balance r + points,
       mb_tier_points := mb_tier_points r + tier_points, mb_lifetime := mb_lifetime r + points, mb_last_activity := now,
       mb_updated_at := now\<rparr>))"

definition repo_deduct_points :: "string \<Rightarrow> int \<Rightarrow> member_row mem_io" where
  "repo_deduct_points mid points =
     bnd (gets now_us) (\<lambda>now. bnd (repo_get_membership mid) (\<lambda>m. case m of
       None \<Rightarrow> throw (Generic ''Membership not found'')
     | Some m \<Rightarrow> if mb_balance m < points then throw (Generic ''Insufficient points'')
         else update_member mid (\<lambda>r. points \<le> mb_balance r) (\<lambda>r. r\<lparr>mb_balance := mb_balance r - points, mb_last_activity := now,
           mb_updated_at := now\<rparr>)))"

definition repo_update_tier :: "string \<Rightarrow> member_tier \<Rightarrow> member_row mem_io" where
  "repo_update_tier mid tier =
     bnd (gets now_us) (\<lambda>now. update_member mid (\<lambda>_. True) (\<lambda>r. r\<lparr>mb_tier := tier, mb_updated_at := now\<rparr>))"

definition repo_update_status :: "string \<Rightarrow> member_status \<Rightarrow> member_row mem_io" where
  "repo_update_status mid st =
     bnd (gets now_us) (\<lambda>now. update_member mid (\<lambda>_. True) (\<lambda>r. r\<lparr>mb_status := st, mb_updated_at := now\<rparr>))"

subsection \<open>History and benefits\<close>

definition hist :: "string \<Rightarrow> point_action \<Rightarrow> int \<Rightarrow> initiated_by \<Rightarrow> history_row" where
  "hist mid action change by_whom = \<lparr>hs_id = [], hs_member = mid, hs_action = action, hs_change = change, hs_balance_after = None,
     hs_previous_tier = None, hs_new_tier = None, hs_source = None, hs_reference = None, hs_reward = None, hs_benefit = None,
     hs_by = by_whom, hs_created_at = 0\<rparr>"

definition add_history :: "history_row \<Rightarrow> history_row mem_io" where
  "add_history h =
     bnd (fresh_hex 16) (\<lambda>hex. bnd (gets now_us) (\<lambda>now.
     let h = h\<lparr>hs_id := ''hist_'' @ hex, hs_created_at := now\<rparr> in
     bnd (external DbError) (\<lambda>ok. if \<not> ok then throw (Generic ''Failed to add history'') else
     (\<lambda>s. if \<not> history_fits h \<or> hs_id h \<in> hs_id ` set (mem_history s) then (Inl DbError, s)
          else (Inr h, s\<lparr>mem_history := mem_history s @ [h]\<rparr>)))))"

definition history_matches :: "string \<Rightarrow> point_action option \<Rightarrow> history_row \<Rightarrow> bool" where
  "history_matches mid action h \<longleftrightarrow> hs_member h = mid \<and> opt_all action (\<lambda>a. hs_action h = a)"

definition repo_get_history :: "string \<Rightarrow> point_action option \<Rightarrow> int \<Rightarrow> int \<Rightarrow> history_row list mem_io" where
  "repo_get_history mid action limit offset =
     catch (bnd (external (DbError :: unit exn)) (\<lambda>ok. if \<not> ok then ret []
            else if limit < 0 \<or> offset < 0 then throw DbError
            else gets (\<lambda>s. take (nat limit) (drop (nat offset) (order_desc hs_created_at (filter (history_matches mid action) (mem_history s)))))))
          (\<lambda>_. ret [])"

definition repo_count_history :: "string \<Rightarrow> point_action option \<Rightarrow> nat mem_io" where
  "repo_count_history mid action = count_or_zero (\<lambda>s. length (filter (history_matches mid action) (mem_history s)))"

definition get_tier_benefits :: "member_tier \<Rightarrow> tier_benefit list mem_io" where
  "get_tier_benefits tier =
     catch (bnd (external (DbError :: unit exn)) (\<lambda>ok. if ok then gets (\<lambda>s. filter (\<lambda>b. bn_tier b = tier \<and> bn_active b) (tier_benefits s)) else ret []))
           (\<lambda>_. ret [])"

definition uses_of :: "string \<Rightarrow> string \<Rightarrow> history_row list \<Rightarrow> history_row list" where
  "uses_of mid code hs = filter (\<lambda>h. hs_member h = mid \<and> hs_benefit h = Some code \<and> hs_action h = Act_benefit_used) hs"

definition get_benefit_usage :: "string \<Rightarrow> string \<Rightarrow> nat mem_io" where
  "get_benefit_usage mid code = count_or_zero (\<lambda>s. length (uses_of mid code (mem_history s)))"

definition record_benefit_usage :: "string \<Rightarrow> string \<Rightarrow> unit mem_io" where
  "record_benefit_usage mid code =
     bnd (add_history ((hist mid Act_benefit_used 0 By_user)\<lparr>hs_benefit := Some code\<rparr>)) (\<lambda>_. ret ())"

subsection \<open>Erasure and statistics\<close>

text \<open>\<open>list_memberships\<close> is called without a limit, whose default is 50.\<close>

definition erase_rows :: "(mem_state \<Rightarrow> mem_state) \<Rightarrow> unit mem_io" where
  "erase_rows f = bnd (external DbError) (\<lambda>ok. if ok then modify f else ret ())"

definition repo_delete_user_data :: "string \<Rightarrow> nat mem_io" where
  "repo_delete_user_data uid =
     catch (bnd (repo_list_memberships \<lparr>mf_user = Some uid, mf_org = None, mf_status = None, mf_tier = None\<rparr> 50 0) (\<lambda>ms.
            bnd (for_each (map mb_id ms) (\<lambda>mid _. erase_rows (\<lambda>s. s\<lparr>mem_history := filter (\<lambda>h. hs_member h \<noteq> mid) (mem_history s)\<rparr>)) ()) (\<lambda>_.
            bnd (erase_rows (\<lambda>s. s\<lparr>members := filter (\<lambda>r. mb_user_id r \<noteq> uid) (members s)\<rparr>)) (\<lambda>_. ret (length ms)))))
          (\<lambda>_. ret 0)"

record member_stats =
  ms_total :: nat
  ms_active :: nat
  ms_suspended :: nat
  ms_expired :: nat
  ms_canceled :: nat
  ms_issued :: int
  ms_redeemed :: int
  ms_tiers :: "(member_tier \<times> nat) list"

definition stats_of :: "member_row list \<Rightarrow> member_stats" where
  "stats_of rows = (let n = (\<lambda>st. length (filter (\<lambda>r. mb_status r = st) rows)); active = filter (\<lambda>r. mb_status r = Mb_active) rows in
     \<lparr>ms_total = length rows, ms_active = n Mb_active, ms_suspended = n Mb_suspended, ms_expired = n Mb_expired, ms_canceled = n Mb_canceled,
      ms_issued = (\<Sum>r\<leftarrow>rows. mb_lifetime r), ms_redeemed = (\<Sum>r\<leftarrow>rows. mb_lifetime r - mb_balance r),
      ms_tiers = map (\<lambda>t. (t, length (filter (\<lambda>r. mb_tier r = t) active))) (filter (\<lambda>t. t \<in> mb_tier ` set active) tier_order)\<rparr>)"

text \<open>Without a row for the totals they are 0, without rows the distribution is empty; any exception gives \<open>None\<close>.\<close>

definition repo_get_stats :: "member_stats option mem_io" where
  "repo_get_stats =
     catch (bnd (external (DbError :: unit exn)) (\<lambda>ok1. bnd (gets (\<lambda>s. stats_of (if ok1 then members s else []))) (\<lambda>st.
            bnd (external DbError) (\<lambda>ok2. bnd (gets (\<lambda>s. ms_tiers (stats_of (if ok2 then members s else [])))) (\<lambda>tiers.
            ret (Some (st\<lparr>ms_tiers := tiers\<rparr>)))))))
          (\<lambda>_. ret None)"

lemmas member_read_defs = one_member_def to_member_def repo_get_membership_def repo_membership_by_user_def repo_list_memberships_def
  count_or_zero_def repo_count_memberships_def repo_get_history_def repo_count_history_def get_tier_benefits_def get_benefit_usage_def
  repo_get_stats_def

lemmas member_update_defs = repo_add_points_def repo_deduct_points_def repo_update_tier_def repo_update_status_def

end
