(* ===== verification/MemberService.thy ===== *)
theory MemberService
  imports MemberRepo
begin

section \<open>Memberships: service and event handlers\<close>

text \<open>
  \<open>membership_service.py\<close> and \<open>events/__init__.py\<close>. Every method catches its exceptions and answers with
  \<open>success=False\<close> and a message (\<open>Refused\<close>).
\<close>

definition guarded :: "string \<Rightarrow> 'a answer mem_io \<Rightarrow> 'a answer mem_io" where
  "guarded msg m = catch m (\<lambda>_. ret (Refused msg))"

subsection \<open>Pure helpers\<close>

definition calculate_enrollment_bonus :: "string option \<Rightarrow> int" where
  "calculate_enrollment_bonus promo =
     (if \<not> truthy_str promo then 0 else
      let code = map upper_char (the promo) in
      if code = ''WELCOME100'' then 100 else if code = ''WELCOME500'' then 500 else if code = ''VIP1000'' then 1000 else 0)"

definition calculate_tier :: "int \<Rightarrow> member_tier" where
  "calculate_tier points =
     (case find (\<lambda>t. tier_threshold t \<le> points) (rev tier_order) of None \<Rightarrow> Bronze | Some t \<Rightarrow> t)"

text \<open>\<open>int(Decimal(points) * multiplier)\<close> cuts off towards zero.\<close>

definition final_points :: "int \<Rightarrow> member_tier \<Rightarrow> int" where
  "final_points points tier = (let q = of_int points * tier_multiplier tier in if 0 \<le> q then \<lfloor>q\<rfloor> else \<lceil>q\<rceil>)"

record tier_progress =
  tp_points :: int
  tp_next_threshold :: int
  tp_missing :: int
  tp_percent :: rat

definition valid_progress :: "tier_progress \<Rightarrow> bool" where
  "valid_progress p \<longleftrightarrow> 0 \<le> tp_points p \<and> 0 \<le> tp_next_threshold p \<and> 0 \<le> tp_missing p \<and> 0 \<le> tp_percent p \<and> tp_percent p \<le> 100"

definition next_tier :: "member_tier \<Rightarrow> member_tier option" where
  "next_tier t = (case t of Bronze \<Rightarrow> Some Silver | Silver \<Rightarrow> Some Gold | Gold \<Rightarrow> Some Platinum | Platinum \<Rightarrow> Some Diamond | Diamond \<Rightarrow> None)"

definition calculate_tier_progress :: "member_row \<Rightarrow> tier_progress mem_io" where
  "calculate_tier_progress m = bnd (gets m_percent) (\<lambda>pct.
     let p = (case next_tier (mb_tier m) of
         None \<Rightarrow> \<lparr>tp_points = mb_tier_points m, tp_next_threshold = tier_threshold (mb_tier m), tp_missing = 0, tp_percent = 100\<rparr>
       | Some t \<Rightarrow>
           \<lparr>tp_points = mb_tier_points m, tp_next_threshold = tier_threshold t, tp_missing = max 0 (tier_threshold t - mb_tier_points m),
            tp_percent = pct (min 100 (of_int (mb_tier_points m - tier_threshold (mb_tier m))
              / of_int (tier_threshold t - tier_threshold (mb_tier m)) * 100))\<rparr>)
     in if valid_progress p then ret p else throw ValidationError)"

subsection \<open>Enrollment and points\<close>

definition enroll_membership :: "string \<Rightarrow> string option \<Rightarrow> string option \<Rightarrow> string option \<Rightarrow> (member_row \<times> int) answer mem_io" where
  "enroll_membership uid org src promo = guarded ''Error enrolling membership''
     (bnd (repo_membership_by_user uid org True) (\<lambda>existing.
      if existing \<noteq> None then ret (Refused ''User already has active membership'')
      else let bonus = calculate_enrollment_bonus promo; src = (if truthy_str src then the src else ''api'') in
        bnd (repo_create_membership uid Bronze bonus org src promo) (\<lambda>m.
        bnd (add_history ((hist (mb_id m) Act_enrolled bonus By_user)\<lparr>hs_balance_after := Some bonus, hs_source := Some src\<rparr>)) (\<lambda>_.
        bnd (tell (Member_enrolled (mb_id m) uid (mb_tier m) bonus)) (\<lambda>_.
        ret (Done (m, bonus)))))))"

text \<open>What both point operations refuse.\<close>

definition inactive_message :: "member_row option \<Rightarrow> string option" where
  "inactive_message m = (case m of
       None \<Rightarrow> Some ''No membership found''
     | Some m \<Rightarrow> if mb_status m = Mb_suspended then Some ''Membership is suspended''
                 else if mb_status m = Mb_expired then Some ''Membership is expired'' else None)"

definition upgrade_tier :: "member_row \<Rightarrow> member_tier \<Rightarrow> member_tier \<Rightarrow> unit mem_io" where
  "upgrade_tier m old new =
     bnd (repo_update_tier (mb_id m) new) (\<lambda>_.
     bnd (add_history ((hist (mb_id m) Act_upgraded 0 By_system)\<lparr>hs_previous_tier := Some old, hs_new_tier := Some new\<rparr>)) (\<lambda>_.
     tell (Member_upgraded (mb_id m) (mb_user_id m) old new (mb_tier_points m))))"

record earned_points =
  ep_points :: int
  ep_multiplier :: rat
  ep_balance :: int
  ep_tier_points :: int
  ep_new_tier :: "member_tier option"

definition earn_points :: "string \<Rightarrow> int \<Rightarrow> string \<Rightarrow> string option \<Rightarrow> string option \<Rightarrow> earned_points answer mem_io" where
  "earn_points uid points src org ref = guarded ''Error earning points''
     (bnd (repo_membership_by_user uid org False) (\<lambda>found.
      case inactive_message found of Some msg \<Rightarrow> ret (Refused msg) | None \<Rightarrow>
      let m = the found; old = mb_tier m; gained = final_points points old in
      bnd (repo_add_points (mb_id m) gained points) (\<lambda>u.
      bnd (add_history ((hist (mb_id m) Act_earned gained By_system)\<lparr>hs_balance_after := Some (mb_balance u), hs_source := Some src,
             hs_reference := ref\<rparr>)) (\<lambda>_.
      let new = calculate_tier (mb_tier_points u); up = (if new \<noteq> old then Some new else None) in
      bnd (if new \<noteq> old then upgrade_tier u old new else ret ()) (\<lambda>_.
      bnd (tell (Member_earned (mb_id m) uid gained (tier_multiplier old) src (mb_balance u) up)) (\<lambda>_.
      ret (Done \<lparr>ep_points = gained, ep_multiplier = tier_multiplier old, ep_balance = mb_balance u,
                 ep_tier_points = mb_tier_points u, ep_new_tier = up\<rparr>)))))))"

definition redeem_points :: "string \<Rightarrow> int \<Rightarrow> string \<Rightarrow> string option \<Rightarrow> (int \<times> int) answer mem_io" where
  "redeem_points uid points reward org = guarded ''Error redeeming points''
     (bnd (repo_membership_by_user uid org False) (\<lambda>found.
      case inactive_message found of Some msg \<Rightarrow> ret (Refused msg) | None \<Rightarrow>
      let m = the found in
      if mb_balance m < points then ret (Refused ''Insufficient points'')
      else bnd (repo_deduct_points (mb_id m) points) (\<lambda>u.
      bnd (add_history ((hist (mb_id m) Act_redeemed (- points) By_user)\<lparr>hs_balance_after := Some (mb_balance u), hs_reward := Some reward\<rparr>)) (\<lambda>_.
      bnd (tell (Member_redeemed (mb_id m) uid points reward (mb_balance u))) (\<lambda>_.
      ret (Done (points, mb_balance u)))))))"

definition get_points_balance :: "string \<Rightarrow> string option \<Rightarrow> member_row answer mem_io" where
  "get_points_balance uid org = guarded ''Error getting points balance''
     (bnd (repo_membership_by_user uid org True) (\<lambda>m. ret (case m of None \<Rightarrow> Refused ''No active membership found'' | Some m \<Rightarrow> Done m)))"

subsection \<open>Lifecycle\<close>

definition with_member :: "string \<Rightarrow> string \<Rightarrow> (member_row \<Rightarrow> 'a answer mem_io) \<Rightarrow> 'a answer mem_io" where
  "with_member msg mid k = guarded msg
     (bnd (repo_get_membership mid) (\<lambda>m. case m of None \<Rightarrow> ret (Refused ''Membership not found'') | Some m \<Rightarrow> k m))"

definition mem_get_membership :: "string \<Rightarrow> member_row answer mem_io" where
  "mem_get_membership mid = with_member ''Error getting membership'' mid (\<lambda>m. ret (Done m))"

definition mem_membership_by_user :: "string \<Rightarrow> string option \<Rightarrow> member_row answer mem_io" where
  "mem_membership_by_user uid org = guarded ''Error getting membership''
     (bnd (repo_membership_by_user uid org False) (\<lambda>m. ret (case m of None \<Rightarrow> Refused ''Membership not found'' | Some m \<Rightarrow> Done m)))"

definition mem_list_memberships :: "member_filter \<Rightarrow> int \<Rightarrow> int \<Rightarrow> (member_row list \<times> nat) answer mem_io" where
  "mem_list_memberships q page page_size = guarded ''Error listing memberships''
     (bnd (repo_list_memberships q page_size ((page - 1) * page_size)) (\<lambda>ms. bnd (repo_count_memberships q) (\<lambda>n. ret (Done (ms, n)))))"

definition cancel_membership :: "string \<Rightarrow> string option \<Rightarrow> bool \<Rightarrow> member_row answer mem_io" where
  "cancel_membership mid reason forfeit = with_member ''Error canceling membership'' mid (\<lambda>m.
     if mb_status m = Mb_canceled then ret (Refused ''Membership already canceled'')
     else bnd (repo_update_status mid Mb_canceled) (\<lambda>u.
     bnd (add_history ((hist mid Act_canceled (if forfeit then - mb_balance m else 0) By_user)
            \<lparr>hs_balance_after := Some (if forfeit then 0 else mb_balance m)\<rparr>)) (\<lambda>_.
     bnd (tell (Member_canceled mid (mb_user_id m) reason (if forfeit then mb_balance m else 0))) (\<lambda>_.
     ret (Done u)))))"

definition suspend_membership :: "string \<Rightarrow> string \<Rightarrow> int option \<Rightarrow> member_row answer mem_io" where
  "suspend_membership mid reason days = with_member ''Error suspending membership'' mid (\<lambda>m.
     if mb_status m \<noteq> Mb_active then ret (Refused ''Cannot suspend membership'')
     else bnd (repo_update_status mid Mb_suspended) (\<lambda>u.
     bnd (add_history (hist mid Act_suspended 0 By_admin)) (\<lambda>_.
     bnd (tell (Member_suspended mid (mb_user_id m) reason days)) (\<lambda>_. ret (Done u)))))"

definition reactivate_membership :: "string \<Rightarrow> member_row answer mem_io" where
  "reactivate_membership mid = with_member ''Error reactivating membership'' mid (\<lambda>m.
     if mb_status m \<noteq> Mb_suspended then ret (Refused ''Cannot reactivate membership'')
     else bnd (repo_update_status mid Mb_active) (\<lambda>u.
     bnd (add_history (hist mid Act_reactivated 0 By_admin)) (\<lambda>_.
     bnd (tell (Member_reactivated mid (mb_user_id m))) (\<lambda>_. ret (Done u)))))"

subsection \<open>Benefits\<close>

definition limit_of :: "tier_benefit \<Rightarrow> int option" where
  "limit_of b = (case bn_limit b of None \<Rightarrow> None | Some l \<Rightarrow> if bn_unlimited b \<or> l = 0 then None else Some l)"

record benefit_usage =
  bu_code :: string
  bu_used :: nat
  bu_remaining :: "int option"
  bu_available :: bool

definition get_membership_benefits :: "member_row \<Rightarrow> benefit_usage list mem_io" where
  "get_membership_benefits m =
     bnd (get_tier_benefits (mb_tier m)) (\<lambda>bs. for_each bs (\<lambda>b acc. bnd (get_benefit_usage (mb_id m) (bn_code b)) (\<lambda>n.
       let remaining = map_option (\<lambda>l. max 0 (l - int n)) (limit_of b) in
       ret (acc @ [\<lparr>bu_code = bn_code b, bu_used = n, bu_remaining = remaining,
         bu_available = (bn_unlimited b \<or> (case remaining of None \<Rightarrow> False | Some k \<Rightarrow> 0 < k))\<rparr>]))) [])"

definition get_benefits :: "string \<Rightarrow> benefit_usage list answer mem_io" where
  "get_benefits mid = with_member ''Error getting benefits'' mid (\<lambda>m. bnd (get_membership_benefits m) (\<lambda>bs. ret (Done bs)))"

definition get_tier_status :: "string \<Rightarrow> (tier_progress \<times> benefit_usage list) answer mem_io" where
  "get_tier_status mid = with_member ''Error getting tier status'' mid (\<lambda>m.
     bnd (calculate_tier_progress m) (\<lambda>p. bnd (get_membership_benefits m) (\<lambda>bs. ret (Done (p, bs)))))"

definition use_benefit :: "string \<Rightarrow> string \<Rightarrow> int option answer mem_io" where
  "use_benefit mid code = with_member ''Error using benefit'' mid (\<lambda>m.
     if mb_status m \<noteq> Mb_active then ret (Refused ''Cannot use benefit'')
     else bnd (get_tier_benefits (mb_tier m)) (\<lambda>bs.
       case find (\<lambda>b. bn_code b = code) bs of None \<Rightarrow> ret (Refused ''Benefit not available at your tier'') | Some b \<Rightarrow>
       bnd (case limit_of b of None \<Rightarrow> ret False | Some l \<Rightarrow> bnd (get_benefit_usage mid code) (\<lambda>n. ret (l \<le> int n))) (\<lambda>exceeded.
       if exceeded then ret (Refused ''Benefit usage limit exceeded'')
       else bnd (record_benefit_usage mid code) (\<lambda>_.
       bnd (case limit_of b of None \<Rightarrow> ret None | Some l \<Rightarrow> bnd (get_benefit_usage mid code) (\<lambda>n. ret (Some (max 0 (l - int n))))) (\<lambda>remaining.
       bnd (tell (Member_benefit_used mid (mb_user_id m) code)) (\<lambda>_.
       ret (Done remaining)))))))"

subsection \<open>Queries\<close>

definition mem_get_history :: "string \<Rightarrow> point_action option \<Rightarrow> int \<Rightarrow> int \<Rightarrow> (history_row list \<times> nat) answer mem_io" where
  "mem_get_history mid action page page_size = guarded ''Error getting history''
     (bnd (repo_get_history mid action page_size ((page - 1) * page_size)) (\<lambda>hs. bnd (repo_count_history mid action) (\<lambda>n. ret (Done (hs, n)))))"

definition mem_get_stats :: "member_stats mem_io" where
  "mem_get_stats = bnd repo_get_stats (\<lambda>st. ret (case st of None \<Rightarrow> stats_of [] | Some x \<Rightarrow> x))"

subsection \<open>Event handlers\<close>

text \<open>The fields of \<open>paid_order\<close> are what \<open>get\<close> finds in the dictionary or in its field \<open>data\<close>.\<close>

record paid_order =
  po_user_id :: "string option"
  po_total :: amount_field
  po_order_id :: "string option"

definition handle_order_completed :: "paid_order bus_message \<Rightarrow> unit mem_io" where
  "handle_order_completed msg =
     catch (bnd (read_message msg) (\<lambda>d.
            if \<not> truthy_str (po_user_id d) then ret () else
            case po_total d of
              Amount_missing \<Rightarrow> ret ()
            | Amount_bad \<Rightarrow> throw TypeError
            | Amount q \<Rightarrow> if q \<le> 0 then ret () else
                bnd (gets (\<lambda>s. m_hundredfold s q)) (\<lambda>points.
                bnd (earn_points (the (po_user_id d)) points ''order_completed'' None (po_order_id d)) (\<lambda>_. ret ()))))
          (\<lambda>_. ret ())"

definition mem_handle_user_deleted :: "string option bus_message \<Rightarrow> unit mem_io" where
  "mem_handle_user_deleted msg =
     catch (bnd (read_message msg) (\<lambda>uid. if \<not> truthy_str uid then ret () else bnd (repo_delete_user_data (the uid)) (\<lambda>_. ret ())))
           (\<lambda>_. ret ())"

definition handle_subscription_renewed :: "(string option \<times> string option) bus_message \<Rightarrow> unit mem_io" where
  "handle_subscription_renewed msg =
     catch (bnd (read_message msg) (\<lambda>(uid, tier).
            if truthy_str uid \<and> truthy_str tier then bnd (repo_membership_by_user (the uid) None True) (\<lambda>_. ret ()) else ret ()))
           (\<lambda>_. ret ())"

subsection \<open>The process\<close>

datatype mem_op =
    Enroll string "string option" "string option" "string option"
  | Earn string int string "string option" "string option"
  | Redeem string int string "string option"
  | Cancel_membership string "string option" bool
  | Suspend_membership string string "int option"
  | Reactivate_membership string
  | Use_benefit string string
  | Member_queries string
  | On_order_completed "paid_order bus_message"
  | On_member_deleted "string option bus_message"
  | On_subscription_renewed "(string option \<times> string option) bus_message"
  | Member_clock datetime

text \<open>The request models: names are not empty, and 1 to ten million points.\<close>

definition valid_points :: "string \<Rightarrow> int \<Rightarrow> bool" where
  "valid_points uid points \<longleftrightarrow> uid \<noteq> [] \<and> 0 < points \<and> points \<le> 10000000"

definition mem_step :: "mem_op \<Rightarrow> mem_state \<Rightarrow> mem_state" where
  "mem_step op = (case op of
       Enroll uid org src promo \<Rightarrow> (\<lambda>s. if uid \<noteq> [] \<and> opt_fits 50 src \<and> opt_fits 50 promo then after (enroll_membership uid org src promo) s else s)
     | Earn uid points src org ref \<Rightarrow> (\<lambda>s. if valid_points uid points \<and> src \<noteq> [] \<and> length src \<le> 50 \<and> opt_fits 100 ref
         then after (earn_points uid points src org ref) s else s)
     | Redeem uid points reward org \<Rightarrow> (\<lambda>s. if valid_points uid points \<and> reward \<noteq> [] \<and> length reward \<le> 50
         then after (redeem_points uid points reward org) s else s)
     | Cancel_membership mid reason forfeit \<Rightarrow> after (cancel_membership mid reason forfeit)
     | Suspend_membership mid reason days \<Rightarrow> after (suspend_membership mid reason days)
     | Reactivate_membership mid \<Rightarrow> after (reactivate_membership mid)
     | Use_benefit mid code \<Rightarrow> (\<lambda>s. if code \<noteq> [] \<and> length code \<le> 50 then after (use_benefit mid code) s else s)
     | Member_queries mid \<Rightarrow> after (bnd (get_tier_status mid) (\<lambda>_. bnd (get_benefits mid) (\<lambda>_. bnd (mem_get_history mid None 1 50) (\<lambda>_. mem_get_stats))))
     | On_order_completed msg \<Rightarrow> after (handle_order_completed msg)
     | On_member_deleted msg \<Rightarrow> after (mem_handle_user_deleted msg)
     | On_subscription_renewed msg \<Rightarrow> after (handle_subscription_renewed msg)
     | Member_clock d \<Rightarrow> (\<lambda>s. s\<lparr>w_now := d\<rparr>))"

end
