(* ===== verification/MemberInvariants.thy ===== *)
theory MemberInvariants
  imports MemberService
begin

section \<open>Memberships: invariants of the tables\<close>

text \<open>
  \<open>mem_inv J\<close> is an invariant \<open>J\<close> of the memberships together with unique history rows; all reads and
  all writes of history keep it, whatever \<open>J\<close> is, so that only updates of memberships are left to look at.
  Amounts that are positive stay non-negative when they become points.
\<close>

definition mem_inv :: "(member_row list \<Rightarrow> bool) \<Rightarrow> mem_state \<Rightarrow> bool" where
  "mem_inv J s \<longleftrightarrow> J (members s) \<and> unique_key hs_id (mem_history s) \<and> (\<forall>q. 0 < q \<longrightarrow> 0 \<le> m_hundredfold s q)"

lemma mem_inv_world [simp]:
  "mem_inv J (s\<lparr>w_script := sc\<rparr>) = mem_inv J s" "mem_inv J (s\<lparr>w_uuid_next := k\<rparr>) = mem_inv J s"
  "mem_inv J (s\<lparr>w_events := es\<rparr>) = mem_inv J s" "mem_inv J (s\<lparr>w_now := d\<rparr>) = mem_inv J s"
  by (simp_all add: mem_inv_def)

lemma mem_inv_effects [preserve_rules]:
  "preserves (mem_inv J) (external e)" "preserves (mem_inv J) (fresh_hex n)" "preserves (mem_inv J) (tell ev)"
  unfolding tell_def
  by (intro preserve_rules preserves_external preserves_fresh_hex preserves_publish; simp)+

lemma mem_inv_history [preserve_rules]: "preserves (mem_inv J) (add_history h)"
proof -
  have "preserves (mem_inv J) (\<lambda>s. if \<not> history_fits h \<or> hs_id h \<in> hs_id ` set (mem_history s) then (Inl DbError, s)
      else (Inr h, s\<lparr>mem_history := mem_history s @ [h]\<rparr>))" for h
    by (intro preservesI) (auto simp: mem_inv_def unique_key_append)
  then show ?thesis unfolding add_history_def Let_def by (intro preserve_rules)
qed

lemma mem_inv_reads [preserve_rules]:
  "preserves (mem_inv J) (repo_get_membership mid)" "preserves (mem_inv J) (repo_membership_by_user uid org act)"
  "preserves (mem_inv J) (repo_list_memberships q limit offset)" "preserves (mem_inv J) (repo_count_memberships q)"
  "preserves (mem_inv J) (repo_get_history mid action limit offset)" "preserves (mem_inv J) (repo_count_history mid action)"
  "preserves (mem_inv J) (get_tier_benefits tier)" "preserves (mem_inv J) (get_benefit_usage mid code)"
  "preserves (mem_inv J) repo_get_stats" "preserves (mem_inv J) (record_benefit_usage mid code)"
  unfolding member_read_defs record_benefit_usage_def by (intro preserve_rules)+

lemma mem_inv_update:
  assumes "\<And>rows r. J rows \<Longrightarrow> r \<in> set rows \<Longrightarrow> mb_id r = mid \<Longrightarrow> P r \<Longrightarrow> member_fits (f r)
      \<Longrightarrow> active_index (update_where (\<lambda>r. mb_id r = mid) f rows) \<Longrightarrow> J (update_where (\<lambda>r. mb_id r = mid) f rows)"
  shows "preserves (mem_inv J) (update_member mid P f)"
proof -
  have "preserves (mem_inv J) (\<lambda>s. case row_by mb_id mid (members s) of
            None \<Rightarrow> (Inl (Generic ''Membership not found''), s)
          | Some r \<Rightarrow>
              if \<not> P r then (Inl (Generic ''Membership not found''), s)
              else let rows = update_where (\<lambda>r. mb_id r = mid) f (members s) in
                if \<not> member_fits (f r) \<or> \<not> active_index rows then (Inl DbError, s)
                else (Inr (f r), s\<lparr>members := rows\<rparr>))"
    using assms by (intro preservesI) (auto simp: mem_inv_def Let_def dest: row_by_Some split: option.split)
  then show ?thesis unfolding update_member_def to_member_def by (intro preserve_rules)
qed

subsection \<open>Well-formed memberships\<close>

definition member_ok :: "member_row \<Rightarrow> bool" where
  "member_ok r \<longleftrightarrow> member_fits r \<and> 0 \<le> mb_balance r \<and> mb_balance r \<le> mb_lifetime r \<and> 0 \<le> mb_pending_points r
     \<and> tier_threshold (mb_tier r) \<le> mb_tier_points r"

definition members_ok :: "member_row list \<Rightarrow> bool" where
  "members_ok rows \<longleftrightarrow> unique_key mb_id rows \<and> active_index rows \<and> list_all member_ok rows"

text \<open>Moreover, one membership has collected exactly \<open>n\<close> tier points.\<close>

definition collected :: "string \<Rightarrow> int \<Rightarrow> member_row list \<Rightarrow> bool" where
  "collected mid n rows \<longleftrightarrow> members_ok rows \<and> (\<forall>r \<in> set rows. mb_id r = mid \<longrightarrow> mb_tier_points r = n)"

lemma tier_threshold_nonneg: "0 \<le> tier_threshold t"
  by (simp add: tier_threshold_def split: member_tier.split)

lemma members_ok_update:
  assumes "members_ok rows" and "r \<in> set rows" and "mb_id r = mid" and "member_ok (f r)" and "\<And>r. mb_id (f r) = mb_id r"
    and "active_index (update_where (\<lambda>r. mb_id r = mid) f rows)"
  shows "members_ok (update_where (\<lambda>r. mb_id r = mid) f rows)"
proof -
  have only: "x = r" if "x \<in> set rows" "mb_id x = mid" for x
    using row_by_unique [of mb_id rows] that assms(1,2,3) by (metis members_ok_def option.inject)
  have ok: "member_ok x" if "x \<in> set rows" for x using assms(1) that by (simp add: members_ok_def list_all_iff)
  have "member_ok (if mb_id x = mid then f x else x)" if "x \<in> set rows" for x
  proof (cases "mb_id x = mid")
    case True
    then show ?thesis using only [OF that] assms(4) by simp
  next
    case False
    then show ?thesis using ok [OF that] by simp
  qed
  then have "list_all member_ok (update_where (\<lambda>r. mb_id r = mid) f rows)" unfolding update_where_def list.pred_map
    by (simp add: list_all_iff)
  moreover have "unique_key mb_id (update_where (\<lambda>r. mb_id r = mid) f rows)"
    using assms(1,5) unique_key_update_where [of mb_id f] by (simp add: members_ok_def)
  ultimately show ?thesis using assms(6) by (simp add: members_ok_def)
qed

lemma mem_ok_update:
  assumes "\<And>r. member_ok r \<Longrightarrow> P r \<Longrightarrow> member_fits (f r) \<Longrightarrow> member_ok (f r)" and "\<And>r. mb_id (f r) = mb_id r"
  shows "preserves (mem_inv members_ok) (update_member mid P f)"
proof (rule mem_inv_update)
  fix rows r
  assume rows: "members_ok rows" and r: "r \<in> set rows" "mb_id r = mid" "P r" "member_fits (f r)"
    and index: "active_index (update_where (\<lambda>r. mb_id r = mid) f rows)"
  have "member_ok r" using rows r(1) by (simp add: members_ok_def list_all_iff)
  then have "member_ok (f r)" using r by (intro assms(1))
  then show "members_ok (update_where (\<lambda>r. mb_id r = mid) f rows)"
    using rows r(1,2) index assms(2) by (intro members_ok_update)
qed

lemma calculate_tier_reached: "0 \<le> n \<Longrightarrow> tier_threshold (calculate_tier n) \<le> n"
  by (simp add: calculate_tier_def tier_order_def tier_threshold_def)

lemma tier_multiplier_pos: "1 \<le> tier_multiplier t"
  by (simp add: tier_multiplier_def split: member_tier.split)

lemma final_points_nonneg: "0 \<le> p \<Longrightarrow> 0 \<le> final_points p t"
  using tier_multiplier_pos [of t] by (simp add: final_points_def Let_def)

lemma mem_ok_create [preserve_rules]:
  "0 \<le> points \<Longrightarrow> preserves (mem_inv members_ok) (repo_create_membership uid Bronze points org src promo)"
proof -
  assume p: "0 \<le> points"
  have ins: "preserves (mem_inv members_ok) (\<lambda>s. if \<not> member_fits r \<or> mb_id r \<in> mb_id ` set (members s) \<or> \<not> active_index (members s @ [r])
      then (Inl DbError, s) else (Inr (), s\<lparr>members := members s @ [r]\<rparr>))" if "member_fits r \<Longrightarrow> member_ok r" for r
    using that by (intro preservesI) (auto simp: mem_inv_def members_ok_def unique_key_append)
  show ?thesis
    unfolding repo_create_membership_def to_member_def Let_def
    by (intro preserve_rules ins) (simp add: member_ok_def new_member_def tier_threshold_def p)
qed

lemma mem_ok_updates [preserve_rules]:
  "preserves (mem_inv members_ok) (repo_update_status mid st)" "0 \<le> points \<Longrightarrow> preserves (mem_inv members_ok) (repo_deduct_points mid points)"
  unfolding member_update_defs
  by (intro preserve_rules mem_ok_update; simp add: member_ok_def)+

lemma collected_tier:
  assumes "tier_threshold t \<le> n"
  shows "preserves (mem_inv (collected mid n)) (repo_update_tier mid t)"
  unfolding repo_update_tier_def
proof (intro preserve_rules mem_inv_update)
  fix rows r now
  let ?f = "\<lambda>r. r\<lparr>mb_tier := t, mb_updated_at := now\<rparr>"
  assume c: "collected mid n rows" and r: "r \<in> set rows" "mb_id r = mid" and fits: "member_fits (?f r)"
    and index: "active_index (update_where (\<lambda>r. mb_id r = mid) ?f rows)"
  have "member_ok r" "mb_tier_points r = n" using c r by (auto simp: collected_def members_ok_def list_all_iff)
  then have "member_ok (?f r)" using assms fits by (simp add: member_ok_def)
  with c r index have "members_ok (update_where (\<lambda>r. mb_id r = mid) ?f rows)"
    by (intro members_ok_update [where r = r]) (simp_all add: collected_def)
  moreover have "mb_tier_points x = n" if x: "x \<in> set (update_where (\<lambda>r. mb_id r = mid) ?f rows)" "mb_id x = mid" for x
  proof -
    obtain y where y: "y \<in> set rows" "x = (if mb_id y = mid then ?f y else y)" using x(1) unfolding set_update_where by blast
    then have "mb_id y = mid" using x(2) by (cases "mb_id y = mid") simp_all
    then show ?thesis using y c by (simp add: collected_def)
  qed
  ultimately show "collected mid n (update_where (\<lambda>r. mb_id r = mid) ?f rows)" by (simp add: collected_def)
qed

text \<open>Adding points leaves a state in which the membership has collected what the row says.\<close>

lemma ends_add_points:
  assumes "0 \<le> gained" and "0 \<le> points"
  shows "ends (mem_inv members_ok) (repo_add_points mid gained points)
    (case_sum (\<lambda>e s. mem_inv members_ok s) (\<lambda>u s. 0 \<le> mb_tier_points u \<and> mem_inv (collected (mb_id u) (mb_tier_points u)) s))"
proof (rule endsI)
  fix s x s'
  let ?f = "\<lambda>now r. r\<lparr>mb_balance := mb_balance r + gained, mb_tier_points := mb_tier_points r + points, mb_lifetime := mb_lifetime r + gained,
      mb_last_activity := now, mb_updated_at := now\<rparr>"
  assume ok: "mem_inv members_ok s" and run: "repo_add_points mid gained points s = (x, s')"
  have keep: "preserves (mem_inv members_ok) (update_member mid (\<lambda>_. True) (?f now))" for now
    using assms by (intro mem_ok_update) (simp_all add: member_ok_def)
  then have add: "preserves (mem_inv members_ok) (repo_add_points mid gained points)"
    unfolding repo_add_points_def by (intro preserve_rules)
  have after_ok: "mem_inv members_ok s'" using preservesD [OF add ok] run by simp
  show "case_sum (\<lambda>e s. mem_inv members_ok s) (\<lambda>u s. 0 \<le> mb_tier_points u \<and> mem_inv (collected (mb_id u) (mb_tier_points u)) s) x s'"
  proof (cases x)
    case (Inl e)
    then show ?thesis using after_ok by simp
  next
    case (Inr u)
    obtain r where r: "row_by mb_id mid (members s) = Some r" "u = ?f (now_us s) r"
        "members s' = update_where (\<lambda>r. mb_id r = mid) (?f (now_us s)) (members s)"
      using run unfolding Inr repo_add_points_def update_member_def
      by (auto simp: bnd_eq_Inr to_member_def external_def Let_def
          split: list.splits outcome.splits option.splits if_splits)
    have uniq: "unique_key mb_id (members s')" using after_ok by (simp add: mem_inv_def members_ok_def)
    have "u \<in> set (members s')" using r row_by_Some [OF r(1)] by (auto simp: set_update_where)
    then have "x = u" if "x \<in> set (members s')" "mb_id x = mb_id u" for x
      using row_by_unique [OF uniq] that by (metis option.inject)
    moreover have "member_ok u" using after_ok \<open>u \<in> set (members s')\<close> by (simp add: mem_inv_def members_ok_def list_all_iff)
    ultimately show ?thesis
      using after_ok Inr tier_threshold_nonneg [of "mb_tier u"] by (auto simp: mem_inv_def collected_def member_ok_def)
  qed
qed

lemma collected_ok: "mem_inv (collected mid n) s \<Longrightarrow> mem_inv members_ok s"
  by (simp add: mem_inv_def collected_def)

lemma mem_ok_earn [preserve_rules]:
  assumes "0 \<le> points"
  shows "preserves (mem_inv members_ok) (earn_points uid points src org ref)"
proof -
  have upgrade: "preserves (mem_inv (collected (mb_id u) (mb_tier_points u))) (upgrade_tier u old (calculate_tier (mb_tier_points u)))"
    if "0 \<le> mb_tier_points u" for u old
    unfolding upgrade_tier_def by (intro preserve_rules collected_tier calculate_tier_reached that)
  have rest: "preserves (mem_inv members_ok) (bnd (repo_add_points mid gained points) k)"
    if "0 \<le> gained" and k: "\<And>u. 0 \<le> mb_tier_points u \<Longrightarrow> preserves (mem_inv (collected (mb_id u) (mb_tier_points u))) (k u)"
    for mid gained and k :: "member_row \<Rightarrow> earned_points answer mem_io"
  proof -
    have "ends (mem_inv members_ok) (bnd (repo_add_points mid gained points) k) (\<lambda>_ s. mem_inv members_ok s)"
    proof (rule ends_bnd, rule ends_weaken [OF ends_add_points [OF that(1) assms]])
      fix x s
      assume "case_sum (\<lambda>e s. mem_inv members_ok s) (\<lambda>u s. 0 \<le> mb_tier_points u \<and> mem_inv (collected (mb_id u) (mb_tier_points u)) s) x s"
      then show "case_sum (\<lambda>e s. mem_inv members_ok s) (\<lambda>u s. 0 \<le> mb_tier_points u \<and> mem_inv (collected (mb_id u) (mb_tier_points u)) s) x s"
        by simp
    next
      fix u
      show "ends (\<lambda>s. 0 \<le> mb_tier_points u \<and> mem_inv (collected (mb_id u) (mb_tier_points u)) s) (k u) (\<lambda>_ s. mem_inv members_ok s)"
        using preservesD [OF k] collected_ok by (intro endsI) fastforce
    qed
    then show ?thesis unfolding ends_def preserves_def by (metis prod.collapse)
  qed
  show ?thesis
    unfolding earn_points_def guarded_def Let_def
    by (intro preserve_rules rest upgrade final_points_nonneg assms)
qed

lemma bonus_nonneg: "0 \<le> calculate_enrollment_bonus promo"
  by (simp add: calculate_enrollment_bonus_def Let_def)

lemma mem_ok_service [preserve_rules]:
  "preserves (mem_inv members_ok) (enroll_membership uid org src promo)"
  "0 \<le> points \<Longrightarrow> preserves (mem_inv members_ok) (redeem_points uid points reward org)"
  "preserves (mem_inv members_ok) (cancel_membership mid reason forfeit)"
  "preserves (mem_inv members_ok) (suspend_membership mid why days)"
  "preserves (mem_inv members_ok) (reactivate_membership mid)"
  unfolding enroll_membership_def redeem_points_def cancel_membership_def suspend_membership_def reactivate_membership_def
    with_member_def guarded_def Let_def
  by (intro preserve_rules bonus_nonneg; assumption?)+

lemma mem_inv_benefits [preserve_rules]:
  "preserves (mem_inv J) (use_benefit mid code)" "preserves (mem_inv J) (get_benefits mid)" "preserves (mem_inv J) (get_tier_status mid)"
  "preserves (mem_inv J) (mem_get_history mid action page n)" "preserves (mem_inv J) mem_get_stats"
  unfolding use_benefit_def get_benefits_def get_tier_status_def get_membership_benefits_def calculate_tier_progress_def
    mem_get_history_def mem_get_stats_def with_member_def guarded_def Let_def
  by (intro preserve_rules)+

lemma active_index_filter: "active_index rows \<Longrightarrow> active_index (filter P rows)"
proof -
  assume "active_index rows"
  then have "distinct (map (\<lambda>r. (mb_user_id r, mb_org r)) (filter P (filter indexed rows)))"
    unfolding active_index_def by (rule distinct_map_filter)
  then show "active_index (filter P rows)" by (simp add: active_index_def conj_commute)
qed

lemma mem_ok_erase [preserve_rules]: "preserves (mem_inv members_ok) (repo_delete_user_data uid)"
  unfolding repo_delete_user_data_def erase_rows_def
  by (intro preserve_rules preserves_modify)
    (auto simp: mem_inv_def members_ok_def unique_key_def distinct_map_filter active_index_filter list_all_iff)

lemma mem_ok_step: "mem_inv members_ok s \<Longrightarrow> mem_inv members_ok (mem_step op s)"
proof -
  assume s: "mem_inv members_ok s"
  note run = preserves_after [of "mem_inv members_ok", OF _ s]
  have completed: "preserves (mem_inv members_ok) (handle_order_completed msg)" for msg
  proof (rule preservesI)
    fix s assume ok: "mem_inv members_ok s"
    have earn: "mem_inv members_ok (snd (earn_points uid (m_hundredfold s q) src None ref s))" if "0 < q" for uid q src ref
      using preservesD [OF mem_ok_earn ok, of "m_hundredfold s q"] ok that by (simp add: mem_inv_def)
    show "mem_inv members_ok (snd (handle_order_completed msg s))"
      using ok earn
      by (auto simp: handle_order_completed_def read_message_def catch_apply bnd_apply split: bus_message.split amount_field.split prod.split sum.split;
          metis snd_conv not_le)
  qed
  have others: "preserves (mem_inv members_ok) (mem_handle_user_deleted m1)" "preserves (mem_inv members_ok) (handle_subscription_renewed m2)" for m1 m2
    unfolding mem_handle_user_deleted_def handle_subscription_renewed_def read_message_def
    by (intro preserve_rules; simp split: bus_message.split; intro conjI allI impI preserve_rules)+
  show ?thesis using s
    by (cases op) (auto simp: mem_step_def valid_points_def intro!: run completed others preserve_rules)
qed

interpretation members: invariant_system mem_step "mem_inv members_ok"
  by unfold_locales (rule mem_ok_step)

text \<open>
  C24. Memberships stay well formed in every history and under every failure: identifiers are unique, no
  organization has two active memberships of one user, no balance is negative or above the points ever
  earned, and no tier is above the points collected for it.
\<close>
theorem memberships_stay_well_formed:
  assumes "mem_inv members_ok s"
  shows "mem_inv members_ok (fold mem_step ops s)"
  using assms by (rule members.run_inv)

end
