(* ===== verification/MemberTheorems.thy ===== *)
theory MemberTheorems
  imports MemberInvariants
begin

section \<open>Memberships: what the operations achieve\<close>

subsection \<open>Operations when nothing fails\<close>

lemma by_user_calm:
  assumes "w_script s = []" and "first_row (order_desc mb_created_at (filter (of_user uid org act) (members s))) = Some m" and "valid_member m"
  shows "repo_membership_by_user uid org act s = (Inr (Some m), s)"
  using assms by (simp add: repo_membership_by_user_def one_member_def to_member_def bnd_apply)

lemma by_user_none_calm:
  assumes "w_script s = []" and "filter (of_user uid org act) (members s) = []"
  shows "repo_membership_by_user uid org act s = (Inr None, s)"
  using assms by (simp add: repo_membership_by_user_def one_member_def bnd_apply first_row_def order_desc_def)

lemma get_membership_calm:
  assumes "w_script s = []" and "row_by mb_id mid (members s) = Some m" and "valid_member m"
  shows "repo_get_membership mid s = (Inr (Some m), s)"
  using assms by (simp add: repo_get_membership_def one_member_def to_member_def bnd_apply)

lemma active_index_update:
  assumes "\<And>r. mb_user_id (f r) = mb_user_id r \<and> mb_org (f r) = mb_org r \<and> mb_status (f r) = mb_status r"
  shows "active_index (update_where P f rows) = active_index rows"
proof -
  have "indexed (f r) = indexed r" for r using assms by (simp add: indexed_def)
  then have "map (\<lambda>r. (mb_user_id r, mb_org r)) (filter indexed (update_where P f rows)) = map (\<lambda>r. (mb_user_id r, mb_org r)) (filter indexed rows)"
    using assms by (induction rows) (simp_all add: update_where_def)
  then show ?thesis by (simp add: active_index_def)
qed

lemma update_member_calm:
  assumes "w_script s = []" and "row_by mb_id mid (members s) = Some r" and "P r" and "member_fits (f r)" and "valid_member (f r)"
    and "active_index (update_where (\<lambda>r. mb_id r = mid) f (members s))"
  shows "update_member mid P f s = (Inr (f r), s\<lparr>members := update_where (\<lambda>r. mb_id r = mid) f (members s)\<rparr>)"
  using assms by (simp add: update_member_def to_member_def bnd_apply Let_def)

text \<open>A history row as it is written in a state.\<close>

definition hist_at :: "nat \<Rightarrow> mem_state \<Rightarrow> history_row \<Rightarrow> history_row" where
  "hist_at k s h = h\<lparr>hs_id := ''hist_'' @ take 16 (w_uuid s (w_uuid_next s + k)), hs_created_at := now_us s\<rparr>"

definition writable :: "nat \<Rightarrow> mem_state \<Rightarrow> history_row \<Rightarrow> bool" where
  "writable k s h \<longleftrightarrow> history_fits (hist_at k s h) \<and> hs_id (hist_at k s h) \<notin> hs_id ` set (mem_history s)"

lemma add_history_calm:
  assumes "w_script s = []" and "writable 0 s h"
  shows "add_history h s = (Inr (hist_at 0 s h), s\<lparr>mem_history := mem_history s @ [hist_at 0 s h], w_uuid_next := Suc (w_uuid_next s)\<rparr>)"
  using assms by (simp add: add_history_def bnd_apply fresh_hex_def Let_def writable_def hist_at_def now_us_def)

lemma update_where_twice:
  assumes "\<And>r. mb_id (f r) = mb_id r"
  shows "update_where (\<lambda>r. mb_id r = mid) g (update_where (\<lambda>r. mb_id r = mid) f rows) = update_where (\<lambda>r. mb_id r = mid) (\<lambda>r. g (f r)) rows"
  using assms by (simp add: update_where_def)

subsection \<open>Tiers\<close>

text \<open>
  The tier of a number of points is the highest whose threshold they reach.
\<close>
theorem tier_is_highest_reached:
  assumes "0 \<le> n"
  shows "tier_threshold (calculate_tier n) \<le> n \<and> (\<forall>t. tier_threshold t \<le> n \<longrightarrow> tier_threshold t \<le> tier_threshold (calculate_tier n))"
proof -
  have "tier_threshold t \<le> tier_threshold (calculate_tier n)" if "tier_threshold t \<le> n" for t
    using that by (cases t) (simp_all add: calculate_tier_def tier_order_def tier_threshold_def)
  then show ?thesis using calculate_tier_reached [OF assms] by blast
qed

theorem tier_is_highest_reached_witness: "tier_threshold (calculate_tier 49999) = 20000 \<and> calculate_tier 49999 = Gold"
proof -
  have "calculate_tier 49999 = Gold" by (simp add: calculate_tier_def tier_order_def tier_threshold_def)
  then show ?thesis using tier_is_highest_reached [of 49999] by (simp add: tier_threshold_def)
qed

subsection \<open>Earning\<close>

definition earned_row :: "int \<Rightarrow> int \<Rightarrow> member_row \<Rightarrow> member_row" where
  "earned_row now points r = (let gained = final_points points (mb_tier r) in r\<lparr>mb_balance := mb_balance r + gained,
     mb_tier_points := mb_tier_points r + points, mb_lifetime := mb_lifetime r + gained, mb_last_activity := now, mb_updated_at := now\<rparr>)"

definition earned_history :: "member_row \<Rightarrow> int \<Rightarrow> string \<Rightarrow> string option \<Rightarrow> history_row" where
  "earned_history m points src ref = (let gained = final_points points (mb_tier m) in
     (hist (mb_id m) Act_earned gained By_system)\<lparr>hs_balance_after := Some (mb_balance m + gained), hs_source := Some src, hs_reference := ref\<rparr>)"

definition upgrade_history :: "string \<Rightarrow> member_tier \<Rightarrow> member_tier \<Rightarrow> history_row" where
  "upgrade_history mid old new = (hist mid Act_upgraded 0 By_system)\<lparr>hs_previous_tier := Some old, hs_new_tier := Some new\<rparr>"

lemma upgrade_tier_calm:
  assumes "w_script s = []" and "row_by mb_id (mb_id u) (members s) = Some u" and "member_fits u" and "valid_member u"
    and "active_index (members s)" and "writable 0 s (upgrade_history (mb_id u) old new)"
  shows "upgrade_tier u old new s = (Inr (), s\<lparr>
    members := update_where (\<lambda>r. mb_id r = mb_id u) (\<lambda>r. r\<lparr>mb_tier := new, mb_updated_at := now_us s\<rparr>) (members s),
    mem_history := mem_history s @ [hist_at 0 s (upgrade_history (mb_id u) old new)], w_uuid_next := Suc (w_uuid_next s),
    w_events := w_events s @ published (w_bus s) (Some (Member_upgraded (mb_id u) (mb_user_id u) old new (mb_tier_points u)))\<rparr>)"
proof -
  let ?f = "\<lambda>r. r\<lparr>mb_tier := new, mb_updated_at := now_us s\<rparr>"
  let ?s1 = "s\<lparr>members := update_where (\<lambda>r. mb_id r = mb_id u) ?f (members s)\<rparr>"
  have "update_member (mb_id u) (\<lambda>_. True) ?f s = (Inr (?f u), ?s1)"
    using assms(1-5) by (intro update_member_calm) (simp_all add: member_fits_def valid_member_def active_index_update)
  moreover have "writable 0 ?s1 (upgrade_history (mb_id u) old new)" using assms(6) by (simp add: writable_def hist_at_def now_us_def)
  ultimately show ?thesis using assms(1)
    by (simp add: upgrade_tier_def repo_update_tier_def bnd_apply add_history_calm tell_calm upgrade_history_def)
      (simp add: hist_at_def now_us_def)
qed

text \<open>
  C25. A membership that is neither suspended nor expired (a canceled one too) earns the points times the multiplier of
  its tier, cut off, and collects the points themselves for its tier, which becomes the highest tier
  reached. The history and the bus get the gain and, when the tier changes, the change.
\<close>
theorem earn_points_effect:
  fixes s m points defines "gained \<equiv> final_points points (mb_tier m)" and "new \<equiv> calculate_tier (mb_tier_points m + points)"
  assumes "w_script s = []" and "mem_inv members_ok s" and "0 < points"
    and found: "first_row (order_desc mb_created_at (filter (of_user uid org False) (members s))) = Some m"
    and "mb_status m \<notin> {Mb_suspended, Mb_expired}" and "member_fits (earned_row (now_us s) points m)"
    and "writable 0 s (earned_history m points src ref)" and "writable 1 s (upgrade_history (mb_id m) (mb_tier m) new)"
    and "take 16 (w_uuid s (w_uuid_next s)) \<noteq> take 16 (w_uuid s (Suc (w_uuid_next s)))"
    and s': "s' = after (earn_points uid points src org ref) s"
  shows "row_by mb_id (mb_id m) (members s') = Some ((earned_row (now_us s) points m)\<lparr>mb_tier := new\<rparr>)
    \<and> filter (\<lambda>r. mb_id r \<noteq> mb_id m) (members s') = filter (\<lambda>r. mb_id r \<noteq> mb_id m) (members s)
    \<and> mem_history s' = mem_history s @ hist_at 0 s (earned_history m points src ref)
        # (if new = mb_tier m then [] else [hist_at 1 s (upgrade_history (mb_id m) (mb_tier m) new)])
    \<and> w_events s' = w_events s
        @ (if new = mb_tier m then [] else published (w_bus s) (Some (Member_upgraded (mb_id m) (mb_user_id m) (mb_tier m) new (mb_tier_points m + points))))
        @ published (w_bus s) (Some (Member_earned (mb_id m) uid gained (tier_multiplier (mb_tier m)) src (mb_balance m + gained)
            (if new = mb_tier m then None else Some new)))"
proof -
  have m: "m \<in> set (members s)" using first_row_in [OF found] by simp
  have ok: "member_ok m" "unique_key mb_id (members s)" "active_index (members s)"
    using assms(4) m by (simp_all add: mem_inv_def members_ok_def list_all_iff)
  have row: "row_by mb_id (mb_id m) (members s) = Some m" using row_by_unique [OF ok(2) m] .
  have valid: "valid_member m" "0 \<le> gained" "valid_member (earned_row (now_us s) points m)"
    using ok(1) tier_threshold_nonneg [of "mb_tier m"] final_points_nonneg [of points "mb_tier m"] assms(5)
    by (simp_all add: member_ok_def valid_member_def gained_def earned_row_def Let_def)
  let ?f = "\<lambda>r. r\<lparr>mb_balance := mb_balance r + gained, mb_tier_points := mb_tier_points r + points, mb_lifetime := mb_lifetime r + gained,
      mb_last_activity := now_us s, mb_updated_at := now_us s\<rparr>"
  let ?u = "earned_row (now_us s) points m"
  have u: "?f m = ?u" by (simp add: earned_row_def gained_def Let_def)
  let ?rows = "update_where (\<lambda>r. mb_id r = mb_id m) ?f (members s)"
  let ?s1 = "s\<lparr>members := ?rows\<rparr>"
  have index: "active_index ?rows" using ok(3) by (simp add: active_index_update)
  have "update_member (mb_id m) (\<lambda>_. True) ?f s = (Inr (?f m), ?s1)"
    using assms(3,8) row valid index by (intro update_member_calm) (simp_all only: u)
  then have add: "repo_add_points (mb_id m) gained points s = (Inr ?u, ?s1)" by (simp add: repo_add_points_def u)
  let ?h = "(hist (mb_id m) Act_earned gained By_system)\<lparr>hs_balance_after := Some (mb_balance ?u), hs_source := Some src, hs_reference := ref\<rparr>"
  have h: "?h = earned_history m points src ref" by (simp add: earned_history_def earned_row_def gained_def Let_def)
  let ?s2 = "?s1\<lparr>mem_history := mem_history s @ [hist_at 0 s ?h], w_uuid_next := Suc (w_uuid_next s)\<rparr>"
  have "writable 0 ?s1 ?h" using assms(9) h by (simp add: writable_def hist_at_def now_us_def)
  from add_history_calm [OF _ this] have hist: "add_history ?h ?s1 = (Inr (hist_at 0 s ?h), ?s2)"
    using assms(3) by (simp add: hist_at_def now_us_def)
  have urow: "row_by mb_id (mb_id m) ?rows = Some ?u" using row u by (subst row_by_update_where) simp_all
  have sel: "mb_id ?u = mb_id m" "mb_user_id ?u = mb_user_id m" "mb_tier_points ?u = mb_tier_points m + points"
    "mb_balance ?u = mb_balance m + gained" "mb_tier ?u = mb_tier m"
    by (simp_all add: earned_row_def gained_def Let_def)
  have find: "repo_membership_by_user uid org False s = (Inr (Some m), s)" using by_user_calm [OF assms(3) found valid(1)] .
  have active: "inactive_message (Some m) = None" using assms(7) by (simp add: inactive_message_def)
  have others: "filter (\<lambda>r. mb_id r \<noteq> mb_id m) (update_where (\<lambda>r. mb_id r = mb_id m) g rows) = filter (\<lambda>r. mb_id r \<noteq> mb_id m) rows"
    if "\<And>r. mb_id (g r) = mb_id r" for g rows using that by (induction rows) (simp_all add: update_where_def)
  show ?thesis
  proof (cases "new = mb_tier m")
    case True
    have "?u\<lparr>mb_tier := new\<rparr> = ?u" using True sel(5) by simp
    then show ?thesis
      using assms(3) find active add hist True urow others [of ?f "members s"] sel h
      by (simp add: s' after_def earn_points_def guarded_def catch_apply bnd_apply gained_def [symmetric] new_def [symmetric] Let_def tell_calm)
  next
    case False
    have w: "writable 0 ?s2 (upgrade_history (mb_id ?u) (mb_tier m) new)"
      using assms(10,11) sel by (simp add: writable_def hist_at_def now_us_def)
    have up: "upgrade_tier ?u (mb_tier m) new ?s2 = (Inr (), ?s2\<lparr>
        members := update_where (\<lambda>r. mb_id r = mb_id m) (\<lambda>r. r\<lparr>mb_tier := new, mb_updated_at := now_us s\<rparr>) ?rows,
        mem_history := mem_history ?s2 @ [hist_at 1 s (upgrade_history (mb_id m) (mb_tier m) new)], w_uuid_next := Suc (Suc (w_uuid_next s)),
        w_events := w_events s @ published (w_bus s) (Some (Member_upgraded (mb_id m) (mb_user_id m) (mb_tier m) new (mb_tier_points m + points)))\<rparr>)"
      using upgrade_tier_calm [OF _ _ _ _ _ w] assms(3,8) urow valid index sel by (simp add: hist_at_def now_us_def)
    have final: "row_by mb_id (mb_id m) (update_where (\<lambda>r. mb_id r = mb_id m) (\<lambda>r. r\<lparr>mb_tier := new, mb_updated_at := now_us s\<rparr>) ?rows)
        = Some (?u\<lparr>mb_tier := new\<rparr>)"
      using urow by (subst row_by_update_where) (simp_all add: earned_row_def Let_def)
    show ?thesis
      using assms(3) find active add hist False up final others [of ?f "members s"]
        others [of "\<lambda>r. r\<lparr>mb_tier := new, mb_updated_at := now_us s\<rparr>" ?rows] sel h
      by (simp add: s' after_def earn_points_def guarded_def catch_apply bnd_apply gained_def [symmetric] new_def [symmetric] Let_def tell_calm)
  qed
qed

subsection \<open>Cancelling and redeeming\<close>

definition with_status :: "member_status \<Rightarrow> int \<Rightarrow> member_row \<Rightarrow> member_row" where
  "with_status st now r = r\<lparr>mb_status := st, mb_updated_at := now\<rparr>"

lemma with_status_simps [simp]:
  "mb_id (with_status st now r) = mb_id r" "mb_user_id (with_status st now r) = mb_user_id r" "mb_org (with_status st now r) = mb_org r"
  "mb_status (with_status st now r) = st" "mb_balance (with_status st now r) = mb_balance r" "mb_created_at (with_status st now r) = mb_created_at r"
  "member_fits (with_status st now r) = member_fits r" "valid_member (with_status st now r) = valid_member r"
  "member_ok (with_status st now r) = member_ok r"
  by (simp_all add: with_status_def member_fits_def valid_member_def member_ok_def)

definition put_status :: "string \<Rightarrow> member_status \<Rightarrow> int \<Rightarrow> member_row list \<Rightarrow> member_row list" where
  "put_status mid st now rows = update_where (\<lambda>r. mb_id r = mid) (with_status st now) rows"

lemma update_status_calm:
  assumes "w_script s = []" and "row_by mb_id mid (members s) = Some r" and "member_ok r"
    and "active_index (put_status mid st (now_us s) (members s))"
  shows "repo_update_status mid st s = (Inr (with_status st (now_us s) r), s\<lparr>members := put_status mid st (now_us s) (members s)\<rparr>)"
proof -
  have "valid_member r" using assms(3) tier_threshold_nonneg [of "mb_tier r"] by (simp add: member_ok_def valid_member_def)
  then have "update_member mid (\<lambda>_. True) (with_status st (now_us s)) s = (Inr (with_status st (now_us s) r),
      s\<lparr>members := put_status mid st (now_us s) (members s)\<rparr>)"
    using assms unfolding put_status_def by (intro update_member_calm) (simp_all add: member_ok_def)
  moreover have "with_status st now = (\<lambda>r. r\<lparr>mb_status := st, mb_updated_at := now\<rparr>)" for now by (simp add: fun_eq_iff with_status_def)
  ultimately show ?thesis by (simp add: repo_update_status_def)
qed

lemma row_by_put_status: "row_by mb_id mid rows = Some r \<Longrightarrow> row_by mb_id mid (put_status mid st now rows) = Some (with_status st now r)"
  unfolding put_status_def by (subst row_by_update_where) (auto dest: row_by_Some)

text \<open>The order by creation does not see what does not change it.\<close>

lemma newest_map:
  assumes "\<And>r. r \<in> set rows \<Longrightarrow> mb_created_at (f r) = mb_created_at r"
  shows "first_row (order_desc mb_created_at (map f rows)) = map_option f (first_row (order_desc mb_created_at rows))"
proof -
  have ins: "insort_key (\<lambda>r. - mb_created_at r) (f x) (map f ys) = map f (insort_key (\<lambda>r. - mb_created_at r) x ys)"
    if "mb_created_at (f x) = mb_created_at x" "\<And>y. y \<in> set ys \<Longrightarrow> mb_created_at (f y) = mb_created_at y" for x ys
    using that by (induction ys) auto
  have "order_desc mb_created_at (map f rows) = map f (order_desc mb_created_at rows)"
    using assms
  proof (induction rows)
    case Nil
    then show ?case by (simp add: order_desc_def)
  next
    case (Cons a rows)
    then show ?case using ins [of a "sort_key (\<lambda>r. - mb_created_at r) rows"] by (simp add: order_desc_def)
  qed
  moreover have "first_row (map f xs) = map_option f (first_row xs)" for xs by (cases xs) (simp_all add: first_row_def)
  ultimately show ?thesis by simp
qed

lemma newest_update:
  assumes "\<And>r. of_user uid org act (f r) = of_user uid org act r" and "\<And>r. mb_created_at (f r) = mb_created_at r"
    and "first_row (order_desc mb_created_at (filter (of_user uid org act) rows)) = Some m"
  shows "first_row (order_desc mb_created_at (filter (of_user uid org act) (update_where P f rows))) = Some (if P m then f m else m)"
proof -
  let ?g = "\<lambda>r. if P r then f r else r"
  have "filter (of_user uid org act) (update_where P f rows) = map ?g (filter (of_user uid org act) rows)"
    using assms(1) by (induction rows) (simp_all add: update_where_def)
  then show ?thesis using newest_map [of "filter (of_user uid org act) rows" ?g] assms(2,3) by simp
qed

definition cancel_history :: "member_row \<Rightarrow> bool \<Rightarrow> history_row" where
  "cancel_history m forfeit = (hist (mb_id m) Act_canceled (if forfeit then - mb_balance m else 0) By_user)
     \<lparr>hs_balance_after := Some (if forfeit then 0 else mb_balance m)\<rparr>"

lemma put_status_index:
  assumes "active_index rows" and "st \<notin> {Mb_active, Mb_pending}"
  shows "active_index (put_status mid st now rows)"
proof -
  have "map (\<lambda>r. (mb_user_id r, mb_org r)) (filter indexed (put_status mid st now rows))
      = map (\<lambda>r. (mb_user_id r, mb_org r)) (filter (\<lambda>r. mb_id r \<noteq> mid) (filter indexed rows))"
  proof (induction rows)
    case (Cons r rows)
    have "\<not> indexed (with_status st now r)" using assms(2) by (simp add: indexed_def)
    with Cons.IH show ?case by (cases "mb_id r = mid") (simp_all add: put_status_def update_where_def)
  qed (simp add: put_status_def update_where_def)
  moreover have "distinct (map (\<lambda>r. (mb_user_id r, mb_org r)) (filter (\<lambda>r. mb_id r \<noteq> mid) (filter indexed rows)))"
    using assms(1) unfolding active_index_def by (rule distinct_map_filter)
  ultimately show ?thesis by (simp add: active_index_def)
qed

lemma cancel_membership_calm:
  assumes "w_script s = []" and "row_by mb_id mid (members s) = Some m" and "member_ok m" and "active_index (members s)"
    and "mb_status m \<noteq> Mb_canceled" and "writable 0 s (cancel_history m forfeit)"
  shows "cancel_membership mid reason forfeit s = (Inr (Done (with_status Mb_canceled (now_us s) m)),
    s\<lparr>members := put_status mid Mb_canceled (now_us s) (members s), mem_history := mem_history s @ [hist_at 0 s (cancel_history m forfeit)],
      w_uuid_next := Suc (w_uuid_next s),
      w_events := w_events s @ published (w_bus s) (Some (Member_canceled mid (mb_user_id m) reason (if forfeit then mb_balance m else 0)))\<rparr>)"
proof -
  have valid: "valid_member m" using assms(3) tier_threshold_nonneg [of "mb_tier m"] by (simp add: member_ok_def valid_member_def)
  have id: "mb_id m = mid" using row_by_Some [OF assms(2)] by simp
  let ?s1 = "s\<lparr>members := put_status mid Mb_canceled (now_us s) (members s)\<rparr>"
  have upd: "repo_update_status mid Mb_canceled s = (Inr (with_status Mb_canceled (now_us s) m), ?s1)"
    using assms(1-4) by (intro update_status_calm put_status_index) simp_all
  have "writable 0 ?s1 (cancel_history m forfeit)" using assms(6) by (simp add: writable_def hist_at_def now_us_def)
  from add_history_calm [OF _ this] have "add_history (cancel_history m forfeit) ?s1 =
      (Inr (hist_at 0 s (cancel_history m forfeit)), ?s1\<lparr>mem_history := mem_history s @ [hist_at 0 s (cancel_history m forfeit)],
        w_uuid_next := Suc (w_uuid_next s)\<rparr>)" using assms(1) by (simp add: hist_at_def now_us_def)
  then show ?thesis using assms(1,5) get_membership_calm [OF assms(1,2) valid] upd id
    by (simp add: cancel_membership_def with_member_def guarded_def catch_apply bnd_apply tell_calm cancel_history_def)
qed

definition redeem_history :: "member_row \<Rightarrow> int \<Rightarrow> string \<Rightarrow> history_row" where
  "redeem_history m points reward = (hist (mb_id m) Act_redeemed (- points) By_user)
     \<lparr>hs_balance_after := Some (mb_balance m - points), hs_reward := Some reward\<rparr>"

definition spent_row :: "int \<Rightarrow> int \<Rightarrow> member_row \<Rightarrow> member_row" where
  "spent_row now points r = r\<lparr>mb_balance := mb_balance r - points, mb_last_activity := now, mb_updated_at := now\<rparr>"

lemma redeem_points_calm:
  assumes "w_script s = []" and "row_by mb_id (mb_id m) (members s) = Some m" and "member_ok m" and "active_index (members s)"
    and "first_row (order_desc mb_created_at (filter (of_user uid org False) (members s))) = Some m"
    and "mb_status m \<notin> {Mb_suspended, Mb_expired}" and "0 \<le> points" and "points \<le> mb_balance m"
    and "writable 0 s (redeem_history m points reward)"
  shows "redeem_points uid points reward org s = (Inr (Done (points, mb_balance m - points)),
    s\<lparr>members := update_where (\<lambda>r. mb_id r = mb_id m) (spent_row (now_us s) points) (members s),
      mem_history := mem_history s @ [hist_at 0 s (redeem_history m points reward)], w_uuid_next := Suc (w_uuid_next s),
      w_events := w_events s @ published (w_bus s) (Some (Member_redeemed (mb_id m) uid points reward (mb_balance m - points)))\<rparr>)"
proof -
  have valid: "valid_member m" using assms(3) tier_threshold_nonneg [of "mb_tier m"] by (simp add: member_ok_def valid_member_def)
  let ?f = "spent_row (now_us s) points"
  let ?s1 = "s\<lparr>members := update_where (\<lambda>r. mb_id r = mb_id m) ?f (members s)\<rparr>"
  have "member_fits (?f m)" "valid_member (?f m)"
    using assms(3,7,8) valid by (simp_all add: member_ok_def member_fits_def spent_row_def valid_member_def int8_def)
  then have "update_member (mb_id m) (\<lambda>r. points \<le> mb_balance r) ?f s = (Inr (?f m), ?s1)"
    using assms(1,2,4,8) by (intro update_member_calm) (simp_all add: active_index_update spent_row_def)
  then have deduct: "repo_deduct_points (mb_id m) points s = (Inr (?f m), ?s1)"
    using assms(8) get_membership_calm [OF assms(1,2) valid] by (simp add: repo_deduct_points_def bnd_apply spent_row_def [abs_def])
  have "writable 0 ?s1 (redeem_history m points reward)" using assms(9) by (simp add: writable_def hist_at_def now_us_def)
  from add_history_calm [OF _ this] have "add_history (redeem_history m points reward) ?s1 =
      (Inr (hist_at 0 s (redeem_history m points reward)), ?s1\<lparr>mem_history := mem_history s @ [hist_at 0 s (redeem_history m points reward)],
        w_uuid_next := Suc (w_uuid_next s)\<rparr>)" using assms(1) by (simp add: hist_at_def now_us_def)
  moreover have "inactive_message (Some m) = None" using assms(6) by (simp add: inactive_message_def)
  moreover have "mb_balance (?f m) = mb_balance m - points" by (simp add: spent_row_def)
  ultimately show ?thesis using assms(1,8) by_user_calm [OF assms(1,5) valid] deduct
    by (simp add: redeem_points_def guarded_def catch_apply bnd_apply tell_calm redeem_history_def)
qed

text \<open>
  C26. Forfeited points are not lost: cancelling a membership with forfeiture writes a history that takes the whole
  balance, but not the balance; the canceled membership then redeems all of its points, and the history
  shows them taken twice.
\<close>
theorem forfeited_points_are_redeemed:
  assumes "w_script s = []" and "mem_inv members_ok s"
    and "first_row (order_desc mb_created_at (filter (of_user uid org False) (members s))) = Some m"
    and "mb_status m \<in> {Mb_active, Mb_pending}"
    and "writable 0 s (cancel_history m True)" and "writable 1 s (redeem_history m (mb_balance m) reward)"
    and "take 16 (w_uuid s (w_uuid_next s)) \<noteq> take 16 (w_uuid s (Suc (w_uuid_next s)))"
    and s1: "s1 = after (cancel_membership (mb_id m) reason True) s"
    and s2: "s2 = after (redeem_points uid (mb_balance m) reward org) s1"
  shows "result (redeem_points uid (mb_balance m) reward org) s1 = Inr (Done (mb_balance m, 0))
    \<and> (\<exists>r. row_by mb_id (mb_id m) (members s2) = Some r \<and> mb_status r = Mb_canceled \<and> mb_balance r = 0)
    \<and> map hs_change (drop (length (mem_history s)) (mem_history s2)) = [- mb_balance m, - mb_balance m]"
proof -
  have m: "m \<in> set (members s)" using first_row_in [OF assms(3)] by simp
  have ok: "member_ok m" "unique_key mb_id (members s)" "active_index (members s)"
    using assms(2) m by (simp_all add: mem_inv_def members_ok_def list_all_iff)
  have row: "row_by mb_id (mb_id m) (members s) = Some m" using row_by_unique [OF ok(2) m] .
  let ?m = "with_status Mb_canceled (now_us s) m"
  have s1': "s1 = s\<lparr>members := put_status (mb_id m) Mb_canceled (now_us s) (members s), mem_history := mem_history s @ [hist_at 0 s (cancel_history m True)],
      w_uuid_next := Suc (w_uuid_next s),
      w_events := w_events s @ published (w_bus s) (Some (Member_canceled (mb_id m) (mb_user_id m) reason (mb_balance m)))\<rparr>"
    using cancel_membership_calm [OF assms(1) row ok(1,3) _ assms(5), of reason] assms(4) by (auto simp: s1 after_def)
  have newest: "first_row (order_desc mb_created_at (filter (of_user uid org False) (members s1))) = Some ?m"
    using newest_update [of uid org False "with_status Mb_canceled (now_us s)", OF _ _ assms(3)]
    by (simp add: s1' put_status_def of_user_def)
  have row1: "row_by mb_id (mb_id ?m) (members s1) = Some ?m" using row_by_put_status [OF row] by (simp add: s1')
  have same: "redeem_history ?m (mb_balance m) reward = redeem_history m (mb_balance m) reward" by (simp add: redeem_history_def)
  have w: "writable 0 s1 (redeem_history ?m (mb_balance m) reward)"
    using assms(6,7) unfolding same by (simp add: writable_def hist_at_def s1' now_us_def)
  have sc: "w_script s1 = []" and index: "active_index (members s1)" and mok: "member_ok ?m" and pos: "0 \<le> mb_balance m"
    using assms(1) ok put_status_index [OF ok(3)] by (simp_all add: s1') (simp add: member_ok_def)
  have redeem: "redeem_points uid (mb_balance m) reward org s1 = (Inr (Done (mb_balance m, 0)),
      s1\<lparr>members := update_where (\<lambda>r. mb_id r = mb_id m) (spent_row (now_us s1) (mb_balance m)) (members s1),
        mem_history := mem_history s1 @ [hist_at 0 s1 (redeem_history m (mb_balance m) reward)], w_uuid_next := Suc (w_uuid_next s1),
        w_events := w_events s1 @ published (w_bus s1) (Some (Member_redeemed (mb_id m) uid (mb_balance m) reward 0))\<rparr>)"
    using redeem_points_calm [OF sc row1 mok index newest _ _ _ w] pos same by simp
  have "row_by mb_id (mb_id m) (members s2) = Some (spent_row (now_us s1) (mb_balance m) ?m)"
    using row1 by (simp add: s2 after_def redeem) (subst row_by_update_where; simp add: spent_row_def)
  then have "\<exists>r. row_by mb_id (mb_id m) (members s2) = Some r \<and> mb_status r = Mb_canceled \<and> mb_balance r = 0"
    by (simp add: spent_row_def)
  moreover have "mem_history s2 = mem_history s @ [hist_at 0 s (cancel_history m True), hist_at 0 s1 (redeem_history m (mb_balance m) reward)]"
    by (simp add: s2 after_def redeem) (simp add: s1')
  ultimately show ?thesis
    by (simp add: redeem result_def) (simp add: hist_at_def cancel_history_def redeem_history_def hist_def)
qed

end
