(* ===== verification/MemberBenefits.thy ===== *)
theory MemberBenefits
  imports MemberTheorems
begin

section \<open>Memberships: benefits, suspension and erasure\<close>

subsection \<open>The limit of a benefit\<close>

text \<open>All tiers that grant the benefit limit it to \<open>l\<close> uses, and nobody has used it more often.\<close>

definition within_limit :: "string \<Rightarrow> int \<Rightarrow> mem_state \<Rightarrow> bool" where
  "within_limit code l s \<longleftrightarrow> w_script s = [] \<and> (\<forall>b \<in> set (tier_benefits s). bn_code b = code \<longrightarrow> limit_of b = Some l)
     \<and> (\<forall>mid. int (length (uses_of mid code (mem_history s))) \<le> l)"

lemma uses_of_append: "uses_of mid code (hs @ [h]) = uses_of mid code hs @ uses_of mid code [h]"
  by (simp add: uses_of_def)

lemma limit_world [simp]:
  "within_limit code l (s\<lparr>w_uuid_next := k\<rparr>) = within_limit code l s" "within_limit code l (s\<lparr>w_events := es\<rparr>) = within_limit code l s"
  "within_limit code l (s\<lparr>members := rows\<rparr>) = within_limit code l s" "within_limit code l (s\<lparr>w_now := d\<rparr>) = within_limit code l s"
  by (simp_all add: within_limit_def)

lemma limit_effects [preserve_rules]:
  "preserves (within_limit code l) (external e)" "preserves (within_limit code l) (fresh_hex n)" "preserves (within_limit code l) (tell ev)"
proof -
  have ext: "preserves (within_limit code l) (external e')" for e' by (rule preservesI) (simp add: within_limit_def)
  then show "preserves (within_limit code l) (external e)" .
  show "preserves (within_limit code l) (fresh_hex n)" by (rule preserves_fresh_hex) simp
  show "preserves (within_limit code l) (tell ev)"
    by (rule preservesI) (simp add: tell_calm within_limit_def)
qed

lemma limit_insert:
  assumes ok: "within_limit code l s"
    and free: "hs_action h = Act_benefit_used \<Longrightarrow> hs_benefit h = Some code \<Longrightarrow> int (length (uses_of (hs_member h) code (mem_history s))) < l"
  shows "within_limit code l (snd (add_history h s))"
proof (cases "writable 0 s h")
  case True
  have sc: "w_script s = []" using ok by (simp add: within_limit_def)
  have "int (length (uses_of mid code (mem_history s @ [hist_at 0 s h]))) \<le> l" for mid
  proof (cases "hs_action h = Act_benefit_used \<and> hs_benefit h = Some code \<and> hs_member h = mid")
    case True
    then have "length (uses_of mid code [hist_at 0 s h]) = 1" by (simp add: uses_of_def hist_at_def)
    then show ?thesis using True free by (simp add: uses_of_append)
  next
    case False
    then have "uses_of mid code [hist_at 0 s h] = []" by (auto simp: uses_of_def hist_at_def)
    then show ?thesis using ok by (simp add: uses_of_append within_limit_def)
  qed
  then show ?thesis using add_history_calm [OF sc True] ok by (simp add: within_limit_def)
next
  case False
  have "w_script s = []" using ok by (simp add: within_limit_def)
  then have "snd (add_history h s) = s\<lparr>w_uuid_next := Suc (w_uuid_next s)\<rparr>"
    using False by (simp add: add_history_def bnd_apply fresh_hex_def Let_def writable_def hist_at_def now_us_def)
  then show ?thesis using ok by simp
qed

lemma limit_history [preserve_rules]:
  "hs_action h \<noteq> Act_benefit_used \<Longrightarrow> preserves (within_limit code l) (add_history h)"
  by (rule preservesI, rule limit_insert) simp_all

lemma limit_reads [preserve_rules]:
  "preserves (within_limit code l) (repo_get_membership mid)" "preserves (within_limit code l) (repo_membership_by_user uid org act)"
  "preserves (within_limit code l) (repo_list_memberships q limit offset)" "preserves (within_limit code l) (repo_count_memberships q)"
  "preserves (within_limit code l) (repo_get_history mid action limit offset)" "preserves (within_limit code l) (repo_count_history mid action)"
  "preserves (within_limit code l) (get_tier_benefits tier)" "preserves (within_limit code l) (get_benefit_usage mid code')"
  "preserves (within_limit code l) repo_get_stats"
  unfolding member_read_defs by (intro preserve_rules)+

lemma limit_writes [preserve_rules]:
  "preserves (within_limit code l) (repo_create_membership uid tier points org src promo)" "preserves (within_limit code l) (update_member mid P f)"
proof -
  have ins: "preserves (within_limit code l) (\<lambda>s. if \<not> member_fits r \<or> mb_id r \<in> mb_id ` set (members s) \<or> \<not> active_index (members s @ [r])
      then (Inl DbError, s) else (Inr (), s\<lparr>members := members s @ [r]\<rparr>))" for r by (rule preservesI) simp
  show "preserves (within_limit code l) (repo_create_membership uid tier points org src promo)"
    unfolding repo_create_membership_def to_member_def Let_def by (intro preserve_rules ins)
  have upd: "preserves (within_limit code l) (\<lambda>s. case row_by mb_id mid (members s) of
            None \<Rightarrow> (Inl (Generic ''Membership not found''), s)
          | Some r \<Rightarrow>
              if \<not> P r then (Inl (Generic ''Membership not found''), s)
              else let rows = update_where (\<lambda>r. mb_id r = mid) f (members s) in
                if \<not> member_fits (f r) \<or> \<not> active_index rows then (Inl DbError, s)
                else (Inr (f r), s\<lparr>members := rows\<rparr>))"
    by (rule preservesI) (simp add: Let_def split: option.split)
  then show "preserves (within_limit code l) (update_member mid P f)"
    unfolding update_member_def to_member_def by (intro preserve_rules)
qed

lemma limit_service [preserve_rules]:
  "preserves (within_limit code l) (enroll_membership uid org src promo)" "preserves (within_limit code l) (earn_points uid points src' org ref)"
  "preserves (within_limit code l) (redeem_points uid points reward org)" "preserves (within_limit code l) (cancel_membership mid reason forfeit)"
  "preserves (within_limit code l) (suspend_membership mid why days)" "preserves (within_limit code l) (reactivate_membership mid)"
  "preserves (within_limit code l) (get_benefits mid)" "preserves (within_limit code l) (get_tier_status mid)"
  "preserves (within_limit code l) (mem_get_history mid action page n)" "preserves (within_limit code l) mem_get_stats"
  unfolding enroll_membership_def earn_points_def redeem_points_def cancel_membership_def suspend_membership_def reactivate_membership_def
    get_benefits_def get_tier_status_def get_membership_benefits_def calculate_tier_progress_def mem_get_history_def mem_get_stats_def
    upgrade_tier_def member_update_defs with_member_def guarded_def Let_def
  by (intro preserve_rules; simp add: hist_def)+

lemma limit_erase [preserve_rules]: "preserves (within_limit code l) (repo_delete_user_data uid)"
proof -
  have fewer: "int (length (uses_of mid code (filter P hs))) \<le> int (length (uses_of mid code hs))" for mid P hs
    by (induction hs) (auto simp: uses_of_def)
  have "within_limit code l (s\<lparr>mem_history := filter P (mem_history s)\<rparr>)" if "within_limit code l s" for s P
    using that order_trans [OF fewer] unfolding within_limit_def by simp
  then show ?thesis
    unfolding repo_delete_user_data_def erase_rows_def by (intro preserve_rules preserves_modify) simp_all
qed

lemma get_tier_benefits_calm:
  "w_script s = [] \<Longrightarrow> get_tier_benefits tier s = (Inr (filter (\<lambda>b. bn_tier b = tier \<and> bn_active b) (tier_benefits s)), s)"
  by (simp add: get_tier_benefits_def catch_apply bnd_apply)

lemma get_benefit_usage_calm: "w_script s = [] \<Longrightarrow> get_benefit_usage mid code s = (Inr (length (uses_of mid code (mem_history s))), s)"
  by (simp add: get_benefit_usage_def count_or_zero_def catch_apply bnd_apply)

lemma limit_use [preserve_rules]: "preserves (within_limit code l) (use_benefit mid code')"
proof (rule preservesI)
  fix s assume ok: "within_limit code l s"
  then have sc: "w_script s = []" by (simp add: within_limit_def)
  let ?h = "(hist mid Act_benefit_used 0 By_user)\<lparr>hs_benefit := Some code'\<rparr>"
  have rest: "within_limit code l (snd (bnd (record_benefit_usage mid code') k s))"
    if free: "code' = code \<Longrightarrow> int (length (uses_of mid code (mem_history s))) < l" and k: "\<And>x. preserves (within_limit code l) (k x)"
    for k :: "unit \<Rightarrow> int option answer mem_io"
  proof -
    have "within_limit code l (snd (add_history ?h s))" using free by (intro limit_insert [OF ok]) (simp add: hist_def)
    then have "within_limit code l (snd (record_benefit_usage mid code' s))"
      by (auto simp: record_benefit_usage_def bnd_apply split: prod.split sum.split)
    then show ?thesis using preservesD [OF k] by (auto simp: bnd_apply split: prod.split sum.split)
  qed
  let ?k = "\<lambda>m b. \<lambda>_. bnd (case limit_of b of None \<Rightarrow> ret None | Some l \<Rightarrow> bnd (get_benefit_usage mid code') (\<lambda>n. ret (Some (max 0 (l - int n)))))
      (\<lambda>remaining. bnd (tell (Member_benefit_used mid (mb_user_id m) code')) (\<lambda>_. ret (Done remaining)))"
  have k: "preserves (within_limit code l) (?k m b x)" for m b x by (intro preserve_rules)
  show "within_limit code l (snd (use_benefit mid code' s))"
  proof (cases "row_by mb_id mid (members s)")
    case None
    then show ?thesis using sc ok
      by (simp add: use_benefit_def with_member_def guarded_def catch_apply repo_get_membership_def one_member_def bnd_apply)
  next
    case (Some m)
    show ?thesis
    proof (cases "valid_member m")
      case False
      with Some sc ok show ?thesis
        by (simp add: use_benefit_def with_member_def guarded_def catch_apply repo_get_membership_def one_member_def to_member_def bnd_apply)
    next
      case True
      note get = get_membership_calm [OF sc Some True]
      let ?bs = "filter (\<lambda>b. bn_tier b = mb_tier m \<and> bn_active b) (tier_benefits s)"
      show ?thesis
      proof (cases "find (\<lambda>b. bn_code b = code') ?bs")
        case None
        with get sc ok show ?thesis
          by (simp add: use_benefit_def with_member_def guarded_def catch_apply bnd_apply get_tier_benefits_calm)
      next
        case (Some b)
        then have "b \<in> set (tier_benefits s)" "bn_code b = code'" by (auto simp: find_Some_iff dest: nth_mem)
        then have limit: "limit_of b = Some l" if "code' = code" using ok that by (simp add: within_limit_def)
        have "within_limit code l (snd (bnd (record_benefit_usage mid code') (?k m b) s))"
          if "\<forall>l. limit_of b = Some l \<longrightarrow> \<not> l \<le> int (length (uses_of mid code' (mem_history s)))"
          using that limit by (intro rest k) auto
        moreover let ?over = "case limit_of b of None \<Rightarrow> False | Some l \<Rightarrow> l \<le> int (length (uses_of mid code' (mem_history s)))"
        have over: "bnd (case limit_of b of None \<Rightarrow> ret False | Some l \<Rightarrow> bnd (get_benefit_usage mid code') (\<lambda>n. ret (l \<le> int n))) K s = K ?over s"
          for K :: "bool \<Rightarrow> int option answer mem_io"
          by (cases "limit_of b") (simp_all add: bnd_apply get_benefit_usage_calm sc)
        have "snd (use_benefit mid code' s) = (if mb_status m \<noteq> Mb_active \<or> ?over then s else snd (bnd (record_benefit_usage mid code') (?k m b) s))"
          by (simp add: use_benefit_def with_member_def guarded_def catch_apply bnd_Inr [of "repo_get_membership mid" s, OF get] bnd_Inr [of "get_tier_benefits (mb_tier m)" s, OF get_tier_benefits_calm [OF sc]] Some over
              split: prod.split sum.split)
        ultimately show ?thesis using ok by (cases "limit_of b") auto
      qed
    qed
  qed
qed

lemma limit_step: "within_limit code l s \<Longrightarrow> within_limit code l (mem_step op s)"
proof -
  assume s: "within_limit code l s"
  note run = preserves_after [of "within_limit code l", OF _ s]
  have handlers: "preserves (within_limit code l) (handle_order_completed m1)" "preserves (within_limit code l) (mem_handle_user_deleted m2)"
    "preserves (within_limit code l) (handle_subscription_renewed m3)" for m1 m2 m3
    unfolding handle_order_completed_def mem_handle_user_deleted_def handle_subscription_renewed_def read_message_def
    by (intro preserve_rules; simp split: bus_message.split amount_field.split; intro conjI allI impI preserve_rules)+
  show ?thesis using s
    by (cases op) (auto simp: mem_step_def intro!: run handlers preserve_rules)
qed

interpretation benefit_limit: invariant_system mem_step "within_limit code l" for code l
  by unfold_locales (rule limit_step)

text \<open>
  C27. While nothing fails, a benefit that every tier limits to \<open>l\<close> uses is used at most \<open>l\<close> times by each
  membership, in every history.
\<close>
theorem benefit_limit_respected:
  assumes "within_limit code l s"
  shows "int (length (uses_of mid code (mem_history (fold mem_step ops s)))) \<le> l"
  using benefit_limit.run_inv [OF assms] by (simp add: within_limit_def)

text \<open>
  The limit rests on a count that a failing database answers with 0: when the count cannot be read, the benefit
  is granted and recorded once more, however often it has been used already.
\<close>
theorem unreadable_count_grants_benefit:
  assumes "w_script s = [Fine, Fine, Raises]" and "row_by mb_id mid (members s) = Some m" and "valid_member m" and "mb_status m = Mb_active"
    and "find (\<lambda>b. bn_code b = code) (filter (\<lambda>b. bn_tier b = mb_tier m \<and> bn_active b) (tier_benefits s)) = Some b"
    and "limit_of b = Some l" and "0 < l" and "writable 0 s ((hist mid Act_benefit_used 0 By_user)\<lparr>hs_benefit := Some code\<rparr>)"
  shows "length (uses_of mid code (mem_history (after (use_benefit mid code) s))) = Suc (length (uses_of mid code (mem_history s)))"
proof -
  let ?h = "(hist mid Act_benefit_used 0 By_user)\<lparr>hs_benefit := Some code\<rparr>"
  let ?s = "s\<lparr>w_script := []\<rparr>"
  have get: "repo_get_membership mid s = (Inr (Some m), s\<lparr>w_script := [Fine, Raises]\<rparr>)"
    using assms(1-3) by (simp add: repo_get_membership_def one_member_def to_member_def bnd_apply external_def)
  have bs: "get_tier_benefits (mb_tier m) (s\<lparr>w_script := [Fine, Raises]\<rparr>) =
      (Inr (filter (\<lambda>b. bn_tier b = mb_tier m \<and> bn_active b) (tier_benefits s)), s\<lparr>w_script := [Raises]\<rparr>)"
    by (simp add: get_tier_benefits_def catch_apply bnd_apply external_def)
  have zero: "get_benefit_usage mid code (s\<lparr>w_script := [Raises]\<rparr>) = (Inr 0, ?s)"
    by (simp add: get_benefit_usage_def count_or_zero_def catch_apply bnd_apply external_def)
  have "writable 0 ?s ?h" using assms(8) by (simp add: writable_def hist_at_def now_us_def)
  then have add: "add_history ?h ?s = (Inr (hist_at 0 s ?h), ?s\<lparr>mem_history := mem_history s @ [hist_at 0 s ?h], w_uuid_next := Suc (w_uuid_next s)\<rparr>)"
    using add_history_calm [of ?s ?h] by (simp add: hist_at_def now_us_def)
  have "mem_history (after (use_benefit mid code) s) = mem_history s @ [hist_at 0 s ?h]"
    using assms(4-7) get bs zero add
    by (simp add: use_benefit_def with_member_def guarded_def after_def catch_apply bnd_apply record_benefit_usage_def get_benefit_usage_calm tell_calm)
  then show ?thesis by (simp add: uses_of_append) (simp add: uses_of_def hist_at_def hist_def)
qed

subsection \<open>Events\<close>

text \<open>
  No event reaches the memberships: the bus hands over an object where the handlers read a
  dictionary, so that no completed order earns points and no deleted user is erased.
\<close>
theorem bus_events_change_nothing:
  "after (handle_order_completed (Event_object d)) s = s \<and> after (mem_handle_user_deleted (Event_object uid)) s = s
    \<and> after (handle_subscription_renewed (Event_object p)) s = s"
  by (simp add: handle_order_completed_def mem_handle_user_deleted_def handle_subscription_renewed_def read_message_def after_def catch_apply)

subsection \<open>Suspension\<close>

definition fresh_ids :: "nat \<Rightarrow> mem_state \<Rightarrow> bool" where
  "fresh_ids n s \<longleftrightarrow> distinct (map (\<lambda>k. take 16 (w_uuid s (w_uuid_next s + k))) [0..<n])
     \<and> list_all (\<lambda>k. ''hist_'' @ take 16 (w_uuid s (w_uuid_next s + k)) \<notin> hs_id ` set (mem_history s)
          \<and> ''mem_'' @ take 16 (w_uuid s (w_uuid_next s + k)) \<notin> mb_id ` set (members s)) [0..<n]"

lemma fresh_idsD:
  assumes "fresh_ids n s" and "k < n"
  shows "''hist_'' @ take 16 (w_uuid s (w_uuid_next s + k)) \<notin> hs_id ` set (mem_history s)"
    and "''mem_'' @ take 16 (w_uuid s (w_uuid_next s + k)) \<notin> mb_id ` set (members s)"
    and "j < k \<Longrightarrow> take 16 (w_uuid s (w_uuid_next s + j)) \<noteq> take 16 (w_uuid s (w_uuid_next s + k))"
proof -
  show "''hist_'' @ take 16 (w_uuid s (w_uuid_next s + k)) \<notin> hs_id ` set (mem_history s)"
    "''mem_'' @ take 16 (w_uuid s (w_uuid_next s + k)) \<notin> mb_id ` set (members s)"
    using assms by (simp_all add: fresh_ids_def list_all_iff)
  assume "j < k"
  then have "map (\<lambda>k. take 16 (w_uuid s (w_uuid_next s + k))) [0..<n] ! j \<noteq> map (\<lambda>k. take 16 (w_uuid s (w_uuid_next s + k))) [0..<n] ! k"
    using assms by (subst nth_eq_iff_index_eq) (auto simp: fresh_ids_def)
  then show "take 16 (w_uuid s (w_uuid_next s + j)) \<noteq> take 16 (w_uuid s (w_uuid_next s + k))" using assms(2) \<open>j < k\<close> by simp
qed

text \<open>A change of status with its history row and its event.\<close>

lemma status_change_calm:
  assumes "w_script s = []" and "row_by mb_id mid (members s) = Some m" and "member_ok m"
    and "active_index (put_status mid st (now_us s) (members s))" and "writable 0 s h"
  shows "bnd (repo_update_status mid st) (\<lambda>u. bnd (add_history h) (\<lambda>_. bnd (tell ev) (\<lambda>_. ret (Done u)))) s =
    (Inr (Done (with_status st (now_us s) m)), s\<lparr>members := put_status mid st (now_us s) (members s),
       mem_history := mem_history s @ [hist_at 0 s h], w_uuid_next := Suc (w_uuid_next s), w_events := w_events s @ published (w_bus s) (Some ev)\<rparr>)"
proof -
  let ?s1 = "s\<lparr>members := put_status mid st (now_us s) (members s)\<rparr>"
  have "writable 0 ?s1 h" using assms(5) by (simp add: writable_def hist_at_def now_us_def)
  then have "add_history h ?s1 = (Inr (hist_at 0 s h), ?s1\<lparr>mem_history := mem_history s @ [hist_at 0 s h], w_uuid_next := Suc (w_uuid_next s)\<rparr>)"
    using add_history_calm [of ?s1 h] assms(1) by (simp add: hist_at_def now_us_def)
  then show ?thesis using update_status_calm [OF assms(1-4)] assms(1) by (simp add: bnd_apply tell_calm)
qed

lemma writable_hist:
  assumes "length mid \<le> 50" and "hs_member h = mid" and "hs_change h = 0" and "hs_balance_after h = None" and "hs_source h = None"
    and "hs_reference h = None" and "hs_reward h = None" and "hs_benefit h = None" and "hs_id (hist_at k s h) \<notin> hs_id ` set (mem_history s)"
  shows "writable k s h"
  using assms by (simp add: writable_def history_fits_def hist_at_def int8_def opt_all_def opt_fits_def)

lemma index_without_org:
  assumes "active_index rows" and "\<And>r. r \<in> set rows \<Longrightarrow> mb_id r = mid \<Longrightarrow> mb_org r = None"
  shows "active_index (put_status mid st now rows)"
proof -
  have "indexed (if mb_id r = mid then with_status st now r else r) = indexed r" if "r \<in> set rows" for r
    using assms(2) [OF that] by (simp add: indexed_def)
  then have "map (\<lambda>r. (mb_user_id r, mb_org r)) (filter indexed (put_status mid st now rows)) = map (\<lambda>r. (mb_user_id r, mb_org r)) (filter indexed rows)"
    unfolding put_status_def update_where_def by (induction rows) simp_all
  then show ?thesis using assms(1) by (simp add: active_index_def)
qed

text \<open>Suspending and reactivating a membership of no organization.\<close>

lemma suspend_membership_calm:
  assumes "w_script s = []" and "row_by mb_id mid (members s) = Some m" and "member_ok m" and "active_index (members s)"
    and "mb_status m = Mb_active" and "writable 0 s (hist mid Act_suspended 0 By_admin)"
  shows "suspend_membership mid why days s = (Inr (Done (with_status Mb_suspended (now_us s) m)),
    s\<lparr>members := put_status mid Mb_suspended (now_us s) (members s), mem_history := mem_history s @ [hist_at 0 s (hist mid Act_suspended 0 By_admin)],
      w_uuid_next := Suc (w_uuid_next s), w_events := w_events s @ published (w_bus s) (Some (Member_suspended mid (mb_user_id m) why days))\<rparr>)"
proof -
  have valid: "valid_member m" using assms(3) tier_threshold_nonneg [of "mb_tier m"] by (simp add: member_ok_def valid_member_def)
  show ?thesis
    using get_membership_calm [OF assms(1,2) valid] assms(5) status_change_calm [OF assms(1-3) put_status_index [OF assms(4)] assms(6)]
    by (simp add: suspend_membership_def with_member_def guarded_def catch_apply bnd_Inr [of "repo_get_membership mid" s])
qed

lemma reactivate_membership_calm:
  assumes "w_script s = []" and "row_by mb_id mid (members s) = Some m" and "member_ok m"
    and "active_index (put_status mid Mb_active (now_us s) (members s))"
    and "mb_status m = Mb_suspended" and "writable 0 s (hist mid Act_reactivated 0 By_admin)"
  shows "reactivate_membership mid s = (Inr (Done (with_status Mb_active (now_us s) m)),
    s\<lparr>members := put_status mid Mb_active (now_us s) (members s), mem_history := mem_history s @ [hist_at 0 s (hist mid Act_reactivated 0 By_admin)],
      w_uuid_next := Suc (w_uuid_next s), w_events := w_events s @ published (w_bus s) (Some (Member_reactivated mid (mb_user_id m)))\<rparr>)"
proof -
  have valid: "valid_member m" using assms(3) tier_threshold_nonneg [of "mb_tier m"] by (simp add: member_ok_def valid_member_def)
  show ?thesis
    using get_membership_calm [OF assms(1,2) valid] assms(5) status_change_calm [OF assms(1-4,6)]
    by (simp add: reactivate_membership_def with_member_def guarded_def catch_apply bnd_Inr [of "repo_get_membership mid" s])
qed

lemma reactivated_rows:
  assumes "w_script s = []" and "row_by mb_id mid (members s) = Some m" and "member_ok m"
    and "active_index (put_status mid Mb_active (now_us s) (members s))"
    and "mb_status m = Mb_suspended" and "writable 0 s (hist mid Act_reactivated 0 By_admin)"
  shows "members (after (reactivate_membership mid) s) = put_status mid Mb_active (now_us s) (members s)"
  using reactivate_membership_calm [OF assms] by (simp add: after_def)

definition enrolled_row :: "string \<Rightarrow> mem_state \<Rightarrow> member_row" where
  "enrolled_row uid s = new_member (''mem_'' @ take 16 (w_uuid s (w_uuid_next s))) (w_now s) uid Bronze 0 None ''api'' None"

lemma enroll_calm:
  assumes "w_script s = []" and "filter (of_user uid None True) (members s) = []" and "length uid \<le> 50" and "fresh_ids 2 s"
    and "active_index (members s)"
  shows "result (enroll_membership uid None None None) s = Inr (Done (enrolled_row uid s, 0))
    \<and> w_script (after (enroll_membership uid None None None) s) = [] \<and> w_now (after (enroll_membership uid None None None) s) = w_now s
    \<and> members (after (enroll_membership uid None None None) s) = members s @ [enrolled_row uid s]
    \<and> w_uuid (after (enroll_membership uid None None None) s) = w_uuid s
    \<and> w_uuid_next (after (enroll_membership uid None None None) s) = w_uuid_next s + 2
    \<and> hs_id ` set (mem_history (after (enroll_membership uid None None None) s))
        = insert (''hist_'' @ take 16 (w_uuid s (Suc (w_uuid_next s)))) (hs_id ` set (mem_history s))"
proof -
  let ?r = "enrolled_row uid s"
  let ?s1 = "s\<lparr>members := members s @ [?r], w_uuid_next := Suc (w_uuid_next s)\<rparr>"
  let ?h = "(hist (mb_id ?r) Act_enrolled 0 By_user)\<lparr>hs_balance_after := Some 0, hs_source := Some ''api''\<rparr>"
  have fits: "member_fits ?r" "valid_member ?r" "\<not> indexed ?r" "mb_tier ?r = Bronze"
    using assms(3) by (simp_all add: enrolled_row_def new_member_def member_fits_def valid_member_def indexed_def opt_fits_def int8_def)
  have index: "active_index (members s @ [?r])" using assms(5) fits(3) by (simp add: active_index_def)
  have new: "mb_id ?r \<notin> mb_id ` set (members s)"
    using fresh_idsD(2) [OF assms(4), of 0] by (simp add: enrolled_row_def new_member_def)
  have row: "new_member (''mem_'' @ take 16 (w_uuid s (w_uuid_next s))) (w_now s) uid Bronze 0 None ''api'' None = ?r"
    by (simp add: enrolled_row_def)
  have create: "repo_create_membership uid Bronze 0 None ''api'' None s = (Inr ?r, ?s1)"
    using assms(1) fits index new row
    by (simp add: repo_create_membership_def bnd_apply fresh_hex_def Let_def to_member_def)
  have w: "writable 0 ?s1 ?h"
    using fresh_idsD(1) [OF assms(4), of 1] fits(1)
    by (simp add: writable_def history_fits_def hist_at_def hist_def int8_def opt_all_def opt_fits_def member_fits_def)
  have none: "calculate_enrollment_bonus None = 0" by (simp add: calculate_enrollment_bonus_def truthy_str_def)
  show ?thesis
    using by_user_none_calm [OF assms(1,2)] create add_history_calm [OF _ w] assms(1) none fits(4)
    by (simp add: enroll_membership_def guarded_def catch_apply bnd_apply tell_calm after_def result_def truthy_str_def Let_def)
      (simp add: hist_at_def)
qed

text \<open>
  C28. One active membership per user and organization is only a check on enrolment and an index that skips
  memberships without an organization. Suspending such a membership, enrolling again and
  reactivating the first leaves the user with two active memberships.
\<close>
theorem suspension_allows_second_membership:
  assumes "w_script s = []" and "mem_inv members_ok s" and "filter (of_user uid None True) (members s) = [m]" and "mb_status m = Mb_active"
    and "uid \<noteq> []" and "fresh_ids 4 s"
  shows "length (filter (of_user uid None True) (members (fold mem_step
     [Suspend_membership (mb_id m) why days, Enroll uid None None None, Reactivate_membership (mb_id m)] s))) = 2"
proof -
  let ?of = "of_user uid None True"
  have "m \<in> set (filter ?of (members s))" using assms(3) by simp
  then have m: "m \<in> set (members s)" "mb_org m = None" "mb_user_id m = uid" by (simp_all add: of_user_def truthy_str_def)
  have ok: "member_ok m" "unique_key mb_id (members s)" "active_index (members s)"
    using assms(2) m(1) by (simp_all add: mem_inv_def members_ok_def list_all_iff)
  have len: "length uid \<le> 50" "length (mb_id m) \<le> 50" using ok(1) m(3) by (auto simp: member_ok_def member_fits_def)
  have row: "row_by mb_id (mb_id m) (members s) = Some m" using row_by_unique [OF ok(2) m(1)] .
  let ?s1 = "after (suspend_membership (mb_id m) why days) s"
  let ?rows = "put_status (mb_id m) Mb_suspended (now_us s) (members s)"
  have w: "writable 0 s (hist (mb_id m) Act_suspended 0 By_admin)"
    using fresh_idsD(1) [OF assms(6), of 0] len(2) by (intro writable_hist) (simp_all add: hist_def hist_at_def)
  have s1: "?s1 = s\<lparr>members := ?rows, mem_history := mem_history s @ [hist_at 0 s (hist (mb_id m) Act_suspended 0 By_admin)],
      w_uuid_next := Suc (w_uuid_next s), w_events := w_events s @ published (w_bus s) (Some (Member_suspended (mb_id m) (mb_user_id m) why days))\<rparr>"
    using suspend_membership_calm [OF assms(1) row ok(1,3) assms(4) w, of why days] by (simp add: after_def)
  have only: "mb_id r = mb_id m \<longleftrightarrow> r = m" if "r \<in> set (members s)" for r
    using row_by_unique [OF ok(2) that] row by (metis option.inject)
  have of: "filter ?of (put_status mid Mb_suspended now rs) = filter (\<lambda>r. mb_id r \<noteq> mid) (filter ?of rs)" for mid now rs
    by (induction rs) (simp_all add: put_status_def update_where_def of_user_def)
  have none: "filter ?of ?rows = []" unfolding of assms(3) by simp
  have "map mb_id ?rows = map mb_id (members s)" by (simp add: put_status_def map_key_update_where)
  from arg_cong [OF this, of set] have ids: "mb_id ` set ?rows = mb_id ` set (members s)" by simp
  have fresh: "fresh_ids 2 ?s1"
    using fresh_idsD(1,2) [OF assms(6), of 1] fresh_idsD(1,2) [OF assms(6), of 2] fresh_idsD(3) [OF assms(6), of 2 1]
      fresh_idsD(3) [OF assms(6), of 1 0] fresh_idsD(3) [OF assms(6), of 2 0]
    by (simp add: s1 fresh_ids_def upt_rec hist_at_def ids)
  let ?s2 = "after (enroll_membership uid None None None) ?s1"
  have index: "active_index ?rows" using ok(3) by (rule put_status_index) simp
  note enroll = enroll_calm [of ?s1 uid]
  have s2: "members ?s2 = ?rows @ [enrolled_row uid ?s1]" "w_script ?s2 = []" "w_now ?s2 = w_now s" "w_uuid ?s2 = w_uuid s"
    "w_uuid_next ?s2 = w_uuid_next s + 3"
    "hs_id ` set (mem_history ?s2) = insert (''hist_'' @ take 16 (w_uuid s (Suc (Suc (w_uuid_next s))))) (hs_id ` set (mem_history ?s1))"
    using enroll fresh none len(1) index assms(1) by (simp_all add: s1)
  let ?m1 = "with_status Mb_suspended (now_us s) m"
  have "mb_id (enrolled_row uid ?s1) \<notin> mb_id ` set (members s)"
    using fresh_idsD(2) [OF assms(6), of 1] by (simp add: s1 enrolled_row_def new_member_def)
  then have other: "mb_id (enrolled_row uid ?s1) \<noteq> mb_id m" using m(1) by auto
  have row2: "row_by mb_id (mb_id m) (members ?s2) = Some ?m1"
    using row_by_put_status [OF row] other by (simp add: s2(1) row_by_append_old)
  let ?u = "enrolled_row uid ?s1"
  have u: "?of ?u" by (simp add: of_user_def enrolled_row_def new_member_def truthy_str_def)
  have index2: "active_index (members ?s2)" using index by (simp add: s2(1) active_index_def indexed_def enrolled_row_def new_member_def)
  have rows2: "mb_org r = None" if "r \<in> set (members ?s2)" "mb_id r = mb_id m" for r
    using that m(2) only other by (auto simp: s2(1) put_status_def set_update_where)
  have used: "hs_id ` set (mem_history ?s1) = insert (''hist_'' @ take 16 (w_uuid s (w_uuid_next s))) (hs_id ` set (mem_history s))"
    by (simp add: s1 hist_at_def)
  have "hs_id (hist_at 0 ?s2 h) = ''hist_'' @ take 16 (w_uuid s (w_uuid_next s + 3))" for h by (simp add: hist_at_def s2)
  then have new: "hs_id (hist_at 0 ?s2 h) \<notin> hs_id ` set (mem_history ?s2)" for h
    unfolding s2(6) used using fresh_idsD(1) [OF assms(6), of 3] fresh_idsD(3) [OF assms(6), of 3 2] fresh_idsD(3) [OF assms(6), of 3 0] by auto
  have w2: "writable 0 ?s2 (hist (mb_id m) Act_reactivated 0 By_admin)"
    using len(2) new by (intro writable_hist) (simp_all add: hist_def)
  have "members (after (reactivate_membership (mb_id m)) ?s2) = put_status (mb_id m) Mb_active (now_us ?s2) (members ?s2)"
    using ok(1) by (intro reactivated_rows [OF s2(2) row2 _ index_without_org [OF index2 rows2] _ w2]) simp_all
  moreover have "filter ?of (put_status (mb_id m) Mb_active (now_us ?s2) (members ?s2)) = [with_status Mb_active (now_us ?s2) ?m1, ?u]"
  proof -
    let ?g = "\<lambda>r. if mb_id r = mb_id m then with_status Mb_active (now_us ?s2) (with_status Mb_suspended (now_us s) r) else r"
    have "put_status (mb_id m) Mb_active (now_us ?s2) (members ?s2) = map ?g (members s) @ [?u]"
      using other by (simp add: s2(1) put_status_def update_where_def)
    moreover have "filter ?of (map ?g (members s)) = map ?g (filter ?of (members s))"
    proof -
      have "?of (?g r) = ?of r" if "r \<in> set (members s)" for r
        using only [OF that] m(2,3) assms(4) by (auto simp: of_user_def truthy_str_def)
      then have "filter (?of \<circ> ?g) (members s) = filter ?of (members s)" by (intro filter_cong) auto
      then show ?thesis by (simp add: filter_map)
    qed
    ultimately show ?thesis using assms(3) u by simp
  qed
  ultimately show ?thesis using assms(5) by (simp add: mem_step_def opt_fits_def)
qed

end
