(* ===== verification/MemberExamples.thy ===== *)
theory MemberExamples
  imports MemberBenefits
begin

section \<open>Memberships: the properties at a concrete state\<close>

definition ann :: member_row where
  "ann = \<lparr>mb_id = ''mem_ann'', mb_user_id = ''ann'', mb_org = None, mb_tier = Bronze, mb_status = Mb_active, mb_balance = 4900,
     mb_tier_points = 4900, mb_lifetime = 4900, mb_pending_points = 0, mb_enrolled_at = 0, mb_expiration = 365 * us_per_day,
     mb_last_activity = 0, mb_auto_renew = True, mb_source = ''api'', mb_promo = None, mb_created_at = 0, mb_updated_at = 0\<rparr>"

definition lounge :: tier_benefit where
  "lounge = \<lparr>bn_tier = Bronze, bn_code = ''LOUNGE'', bn_limit = Some 1, bn_unlimited = False, bn_active = True\<rparr>"

definition lounge_visit :: history_row where
  "lounge_visit = (hist ''mem_ann'' Act_benefit_used 0 By_user)\<lparr>hs_id := ''hist_old'', hs_benefit := Some ''LOUNGE''\<rparr>"

text \<open>The \<open>k\<close>-th identifier is \<open>k\<close> digits \<open>a\<close>.\<close>

definition club :: mem_state where
  "club = \<lparr>w_now = \<lparr>dt_year = 2026, dt_month = 2, dt_day = 3, dt_us = 0\<rparr>, w_uuid = (\<lambda>k. replicate k CHR ''a''), w_uuid_next = 0,
     w_script = [], w_bus = True, w_events = [], members = [ann], mem_history = [lounge_visit], tier_benefits = [lounge],
     m_hundredfold = (\<lambda>q. \<lfloor>q * 100\<rfloor>), m_percent = id\<rparr>"

lemma club_simps [simp]: "w_script club = []" "w_bus club" "members club = [ann]" "mem_history club = [lounge_visit]" "tier_benefits club = [lounge]"
  "w_uuid club k = replicate k CHR ''a''" "w_uuid_next club = 0" "w_events club = []"
  by (simp_all add: club_def)

lemma ann_simps [simp]: "mb_id ann = ''mem_ann''" "mb_status ann = Mb_active" "mb_balance ann = 4900" "mb_tier ann = Bronze"
  "mb_tier_points ann = 4900" "mb_org ann = None" "mb_user_id ann = ''ann''"
  by (simp_all add: ann_def)

lemma ann_ok: "member_ok ann" "valid_member ann" "member_fits ann"
  by (simp_all add: member_ok_def valid_member_def member_fits_def tier_threshold_def opt_fits_def int8_def ann_def)

lemma club_ok: "mem_inv members_ok club"
proof -
  have "unique_key hs_id (mem_history club)" "members_ok (members club)"
    using ann_ok by (simp_all add: unique_key_def members_ok_def active_index_def indexed_def)
  moreover have "0 \<le> \<lfloor>q * 100\<rfloor>" if "0 < q" for q :: rat using that by simp
  ultimately show ?thesis by (simp add: mem_inv_def) (simp add: club_def)
qed

lemma club_newest: "first_row (order_desc mb_created_at (filter (of_user ''ann'' None False) [ann])) = Some ann"
  "filter (of_user ''ann'' None True) [ann] = [ann]"
  by (simp_all add: of_user_def truthy_str_def order_desc_def first_row_def)

theorem memberships_stay_well_formed_witness:
  "mem_inv members_ok (fold mem_step [Redeem ''ann'' 100 ''MUG'' None, Cancel_membership ''mem_ann'' None True, Enroll ''ann'' None None None] club)"
  by (rule memberships_stay_well_formed [OF club_ok])

theorem earn_points_effect_witness:
  "let s = after (earn_points ''ann'' 100 ''shop'' None None) club
   in map_option (\<lambda>r. (mb_tier r, mb_balance r)) (row_by mb_id ''mem_ann'' (members s)) = Some (Silver, 5000) \<and> map hs_change (mem_history s) = [0, 100, 0]"
proof -
  let ?new = "calculate_tier (mb_tier_points ann + 100)"
  have pts: "final_points 100 Bronze = 100" by (simp add: final_points_def tier_multiplier_def)
  have tier: "?new = Silver" "calculate_tier 5000 = Silver" by (simp_all add: calculate_tier_def tier_order_def tier_threshold_def)
  have room: "member_fits (earned_row now 100 ann)" for now
    using pts by (simp add: earned_row_def Let_def member_fits_def ann_def opt_fits_def int8_def)
  have entries: "writable 0 club (earned_history ann 100 ''shop'' None)" "writable 1 club (upgrade_history ''mem_ann'' Bronze Silver)"
    using pts by (simp_all add: writable_def earned_history_def upgrade_history_def hist_at_def hist_def history_fits_def Let_def int8_def
        opt_all_def opt_fits_def lounge_visit_def)
  let ?s = "after (earn_points ''ann'' 100 ''shop'' None None) club"
  have "row_by mb_id ''mem_ann'' (members ?s) = Some ((earned_row (now_us club) 100 ann)\<lparr>mb_tier := Silver\<rparr>)
      \<and> filter (\<lambda>r. mb_id r \<noteq> ''mem_ann'') (members ?s) = []
      \<and> mem_history ?s = [lounge_visit, hist_at 0 club (earned_history ann 100 ''shop'' None), hist_at 1 club (upgrade_history ''mem_ann'' Bronze Silver)]"
    using earn_points_effect [of club 100 "''ann''" None ann "''shop''" None ?s] club_ok club_newest room entries tier by simp
  then show ?thesis using pts
    by (simp add: Let_def) (simp add: earned_row_def earned_history_def upgrade_history_def hist_at_def hist_def lounge_visit_def Let_def)
qed

theorem forfeited_points_are_redeemed_witness:
  "result (redeem_points ''ann'' 4900 ''CAR'' None) (after (cancel_membership ''mem_ann'' None True) club) = Inr (Done (4900, 0))"
proof -
  have "writable 0 club (cancel_history ann True)" "writable 1 club (redeem_history ann 4900 ''CAR'')"
    by (simp_all add: writable_def cancel_history_def redeem_history_def hist_at_def hist_def history_fits_def int8_def
        opt_all_def opt_fits_def lounge_visit_def)
  then show ?thesis
    using forfeited_points_are_redeemed [of club "''ann''" None ann "''CAR''" _ None, OF _ _ _ _ _ _ _ refl refl] club_ok club_newest by simp
qed

theorem benefit_limit_respected_witness:
  "int (length (uses_of ''mem_ann'' ''LOUNGE'' (mem_history (fold mem_step [Use_benefit ''mem_ann'' ''LOUNGE''] club)))) \<le> 1"
proof -
  have "within_limit ''LOUNGE'' 1 club"
    by (simp add: within_limit_def lounge_def limit_of_def uses_of_def)
  then show ?thesis by (rule benefit_limit_respected)
qed

theorem unreadable_count_grants_benefit_witness:
  "length (uses_of ''mem_ann'' ''LOUNGE'' (mem_history (after (use_benefit ''mem_ann'' ''LOUNGE'') (club\<lparr>w_script := [Fine, Fine, Raises]\<rparr>)))) = 2"
proof -
  have "writable 0 (club\<lparr>w_script := [Fine, Fine, Raises]\<rparr>) ((hist ''mem_ann'' Act_benefit_used 0 By_user)\<lparr>hs_benefit := Some ''LOUNGE''\<rparr>)"
    by (simp add: writable_def hist_at_def hist_def history_fits_def int8_def opt_all_def opt_fits_def lounge_visit_def)
  then show ?thesis
    using unreadable_count_grants_benefit [of "club\<lparr>w_script := [Fine, Fine, Raises]\<rparr>" "''mem_ann''" ann "''LOUNGE''" lounge 1] ann_ok
    by (simp add: row_by_def lounge_def limit_of_def uses_of_def lounge_visit_def hist_def)
qed

theorem suspension_allows_second_membership_witness:
  "length (filter (of_user ''ann'' None True) (members (fold mem_step
     [Suspend_membership ''mem_ann'' ''late'' None, Enroll ''ann'' None None None, Reactivate_membership ''mem_ann''] club))) = 2"
proof -
  have "fresh_ids 4 club" by (simp add: fresh_ids_def upt_rec lounge_visit_def numeral_eq_Suc)
  then show ?thesis
    using suspension_allows_second_membership [of club "''ann''" ann "''late''" None] club_ok club_newest by simp
qed

end
