(* ===== verification/SubRepo.thy ===== *)
theory SubRepo
  imports Systems
begin

section \<open>Subscriptions: data and repository\<close>

text \<open>
  \<open>microservices/subscription_service\<close>: \<open>models.py\<close> and \<open>subscription_repository.py\<close>. A subscription is
  one row with the credits of its period; a reservation holds credits for a request until it is
  reconciled with what the request used, or released. Currencies, metadata and external identifiers are
  left out.

  Reservations are written in database transactions. \<open>atomic m\<close> runs \<open>m\<close> and commits; an exception
  inside, or of the commit, undoes the tables. A row that a query does not find is not an exception: a
  \<open>return None\<close> inside the transaction commits what was written before it.
\<close>

subsection \<open>Rows\<close>

datatype sub_status = Sub_active | Sub_trialing | Sub_past_due | Sub_canceled | Sub_paused | Sub_expired | Sub_incomplete

datatype billing_cycle = Monthly | Yearly | Quarterly

datatype sub_action = SA_created | SA_upgraded | SA_downgraded | SA_renewed | SA_canceled | SA_paused | SA_resumed | SA_expired
  | SA_credits_allocated | SA_credits_consumed | SA_credits_refunded | SA_credits_rolled_over | SA_trial_started | SA_trial_ended
  | SA_payment_failed | SA_payment_succeeded

datatype sub_initiator = SI_user | SI_system | SI_admin | SI_payment_provider

datatype hold_status = Hold_pending | Hold_reconciled | Hold_released

datatype payer_type = Payer_user | Payer_organization

record sub_row =
  sb_id :: string
  sb_user_id :: string
  sb_org :: "string option"
  sb_tier_id :: string
  sb_tier_code :: string
  sb_status :: sub_status
  sb_cycle :: billing_cycle
  sb_price :: rat
  sb_allocated :: int
  sb_used :: int
  sb_remaining :: int
  sb_rolled_over :: int
  sb_period_start :: int
  sb_period_end :: int
  sb_trial_start :: "int option"
  sb_trial_end :: "int option"
  sb_is_trial :: bool
  sb_seats_purchased :: int
  sb_seats_used :: int
  sb_cancel_at_end :: bool
  sb_canceled_at :: "int option"
  sb_cancel_reason :: "string option"
  sb_payment_method :: "string option"
  sb_auto_renew :: bool
  sb_next_billing :: "int option"
  sb_created_at :: int
  sb_updated_at :: int

record sub_history_row =
  sx_id :: string
  sx_sub :: string
  sx_user_id :: string
  sx_org :: "string option"
  sx_action :: sub_action
  sx_new_tier :: "string option"
  sx_previous_status :: "sub_status option"
  sx_new_status :: "sub_status option"
  sx_change :: int
  sx_balance_after :: "int option"
  sx_period_start :: "int option"
  sx_period_end :: "int option"
  sx_reason :: "string option"
  sx_by :: sub_initiator
  sx_created_at :: int

record hold_row =
  hd_id :: string
  hd_request :: "string option"
  hd_sub :: string
  hd_user_id :: string
  hd_actor :: "string option"
  hd_payer_type :: "payer_type option"
  hd_payer :: "string option"
  hd_org :: "string option"
  hd_model :: "string option"
  hd_estimated :: int
  hd_actual :: "int option"
  hd_refunded :: int
  hd_extra :: int
  hd_after_reserve :: "int option"
  hd_after_finalize :: "int option"
  hd_status :: hold_status
  hd_reconciled_at :: "int option"
  hd_released_at :: "int option"
  hd_created_at :: int
  hd_updated_at :: int

datatype sub_event =
    Sub_created string string "string option" string int bool
  | Sub_canceled_event string string bool int
  | Sub_consumed string string string payer_type "string option" int int string "string option"
  | Sub_reserved hold_row
  | Sub_reconciled hold_row
  | Sub_released hold_row

text \<open>\<open>s_dbl\<close> is what a decimal becomes in a column of double precision.\<close>

record sub_state = "sub_event world" +
  subs :: "sub_row list"
  sub_history :: "sub_history_row list"
  holds :: "hold_row list"
  s_dbl :: "rat \<Rightarrow> rat"

type_synonym 'a sub_io = "(sub_state, unit exn, 'a) io"

subsection \<open>Constraints\<close>

definition sub_fits :: "sub_row \<Rightarrow> bool" where
  "sub_fits r \<longleftrightarrow> length (sb_id r) \<le> 100 \<and> length (sb_user_id r) \<le> 100 \<and> opt_fits 100 (sb_org r) \<and> length (sb_tier_id r) \<le> 100
     \<and> length (sb_tier_code r) \<le> 50 \<and> int8 (sb_allocated r) \<and> int8 (sb_used r) \<and> int8 (sb_remaining r) \<and> int8 (sb_rolled_over r)
     \<and> int4 (sb_seats_purchased r) \<and> int4 (sb_seats_used r) \<and> opt_fits 255 (sb_payment_method r)
     \<and> 0 \<le> sb_remaining r \<and> sb_seats_used r \<le> sb_seats_purchased r"

definition hold_fits :: "hold_row \<Rightarrow> bool" where
  "hold_fits h \<longleftrightarrow> length (hd_id h) \<le> 100 \<and> opt_fits 100 (hd_request h) \<and> length (hd_sub h) \<le> 100 \<and> length (hd_user_id h) \<le> 100
     \<and> opt_fits 100 (hd_actor h) \<and> opt_fits 100 (hd_payer h) \<and> opt_fits 100 (hd_org h) \<and> opt_fits 255 (hd_model h)
     \<and> int8 (hd_estimated h) \<and> opt_all (hd_actual h) int8 \<and> int8 (hd_refunded h) \<and> int8 (hd_extra h)
     \<and> opt_all (hd_after_reserve h) int8 \<and> opt_all (hd_after_finalize h) int8"

definition sub_history_fits :: "sub_history_row \<Rightarrow> bool" where
  "sub_history_fits x \<longleftrightarrow> length (sx_id x) \<le> 100 \<and> length (sx_sub x) \<le> 100 \<and> length (sx_user_id x) \<le> 100 \<and> opt_fits 100 (sx_org x)
     \<and> opt_fits 50 (sx_new_tier x) \<and> int8 (sx_change x) \<and> opt_all (sx_balance_after x) int8"

text \<open>A unique column in which \<open>NULL\<close> may repeat.\<close>

definition unique_some :: "('r \<Rightarrow> 'k option) \<Rightarrow> 'r list \<Rightarrow> bool" where
  "unique_some key rows \<longleftrightarrow> distinct (filter (\<lambda>k. k \<noteq> None) (map key rows))"

definition valid_sub :: "sub_row \<Rightarrow> bool" where
  "valid_sub r \<longleftrightarrow> 0 \<le> sb_price r \<and> 0 \<le> sb_allocated r \<and> 0 \<le> sb_used r \<and> 0 \<le> sb_remaining r \<and> 0 \<le> sb_rolled_over r
     \<and> 1 \<le> sb_seats_purchased r \<and> 0 \<le> sb_seats_used r"

definition valid_hold :: "hold_row \<Rightarrow> bool" where
  "valid_hold h \<longleftrightarrow> 0 \<le> hd_estimated h \<and> opt_all (hd_actual h) (\<lambda>n. 0 \<le> n) \<and> 0 \<le> hd_refunded h \<and> 0 \<le> hd_extra h"

definition to_sub :: "sub_row \<Rightarrow> sub_row sub_io" where
  "to_sub r = (if valid_sub r then ret r else throw ValidationError)"

definition to_hold :: "hold_row \<Rightarrow> hold_row sub_io" where
  "to_hold h = (if valid_hold h
     then ret (h\<lparr>hd_actor := (if truthy_str (hd_actor h) then hd_actor h else Some (hd_user_id h))\<rparr>) else throw ValidationError)"

subsection \<open>The payer\<close>

record billing_scope =
  sc_user_id :: string
  sc_actor :: string
  sc_org :: "string option"
  sc_type :: payer_type
  sc_account :: "string option"

text \<open>\<open>a or b\<close> on strings that may be \<open>None\<close>, and on strings.\<close>

definition or_text :: "string \<Rightarrow> string \<Rightarrow> string" where
  "or_text a b = (if a = [] then b else a)"

definition text_of :: "string option \<Rightarrow> string" where
  "text_of x = (case x of None \<Rightarrow> [] | Some t \<Rightarrow> t)"

definition resolve_billing_scope ::
  "string \<Rightarrow> string option \<Rightarrow> string option \<Rightarrow> payer_type option \<Rightarrow> string option \<Rightarrow> billing_scope" where
  "resolve_billing_scope uid org actor typ account =
     (let who = or_text (or_text (text_of actor) uid) (text_of account);
          payer = (case typ of
              None \<Rightarrow> if truthy_str org then (Payer_organization, org) else (Payer_user, Some (or_text uid who))
            | Some t \<Rightarrow> (t, if account \<noteq> None then account
                else if t = Payer_organization then org else Some (or_text uid who)))
      in \<lparr>sc_user_id = or_text uid who, sc_actor = who,
          sc_org = (if fst payer = Payer_organization \<and> \<not> truthy_str org then snd payer else org),
          sc_type = fst payer, sc_account = snd payer\<rparr>)"

text \<open>The subscriptions a payer can have; nothing equals a \<open>NULL\<close> account.\<close>

definition paid_by :: "billing_scope \<Rightarrow> bool \<Rightarrow> sub_row \<Rightarrow> bool" where
  "paid_by sc active_only r \<longleftrightarrow> (case sc_account sc of None \<Rightarrow> False | Some a \<Rightarrow>
       if sc_type sc = Payer_organization then sb_org r = Some a else sb_user_id r = a \<and> sb_org r = None)
     \<and> (active_only \<longrightarrow> sb_status r = Sub_active)"

definition newest_sub :: "billing_scope \<Rightarrow> bool \<Rightarrow> sub_row list \<Rightarrow> sub_row option" where
  "newest_sub sc active_only rows = first_row (order_desc sb_created_at (filter (paid_by sc active_only) rows))"

subsection \<open>Reading\<close>

text \<open>Every method but the reservation of credits answers \<open>None\<close> to any exception.\<close>

definition or_none :: "'a option sub_io \<Rightarrow> 'a option sub_io" where
  "or_none m = catch m (\<lambda>_. ret None)"

definition one_sub :: "(sub_state \<Rightarrow> sub_row option) \<Rightarrow> sub_row option sub_io" where
  "one_sub f = or_none
     (bnd (external DbError) (\<lambda>ok. if \<not> ok then ret None else
      bnd (gets f) (\<lambda>r. case r of None \<Rightarrow> ret None | Some r \<Rightarrow> bnd (to_sub r) (\<lambda>x. ret (Some x)))))"

definition repo_get_subscription :: "string \<Rightarrow> sub_row option sub_io" where
  "repo_get_subscription sid = one_sub (\<lambda>s. row_by sb_id sid (subs s))"

definition repo_get_user_subscription ::
  "string \<Rightarrow> string option \<Rightarrow> payer_type option \<Rightarrow> string option \<Rightarrow> string option \<Rightarrow> bool \<Rightarrow> sub_row option sub_io" where
  "repo_get_user_subscription uid org typ account actor active_only =
     one_sub (\<lambda>s. newest_sub (resolve_billing_scope uid org actor typ account) active_only (subs s))"

record sub_filter =
  sf_user :: "string option"
  sf_org :: "string option"
  sf_status :: "sub_status option"
  sf_tier :: "string option"

definition sub_matches :: "sub_filter \<Rightarrow> sub_row \<Rightarrow> bool" where
  "sub_matches q r \<longleftrightarrow> (truthy_str (sf_user q) \<longrightarrow> sf_user q = Some (sb_user_id r))
     \<and> (truthy_str (sf_org q) \<longrightarrow> sf_org q = sb_org r) \<and> opt_all (sf_status q) (\<lambda>st. sb_status r = st)
     \<and> (truthy_str (sf_tier q) \<longrightarrow> sf_tier q = Some (sb_tier_code r))"

definition repo_get_subscriptions :: "sub_filter \<Rightarrow> int \<Rightarrow> int \<Rightarrow> sub_row list sub_io" where
  "repo_get_subscriptions q limit offset =
     catch (bnd (external (DbError :: unit exn)) (\<lambda>ok. if \<not> ok then ret []
            else if limit < 0 \<or> offset < 0 then throw DbError
            else bnd (gets (\<lambda>s. take (nat limit) (drop (nat offset) (order_desc sb_created_at (filter (sub_matches q) (subs s))))))
              (\<lambda>rows. for_each rows (\<lambda>r acc. bnd (to_sub r) (\<lambda>x. ret (acc @ [x]))) [])))
          (\<lambda>_. ret [])"

definition repo_get_hold :: "string \<Rightarrow> hold_row option sub_io" where
  "repo_get_hold hid = or_none
     (bnd (external DbError) (\<lambda>ok. if \<not> ok then ret None else
      bnd (gets (\<lambda>s. row_by hd_id hid (holds s))) (\<lambda>h. case h of None \<Rightarrow> ret None | Some h \<Rightarrow> bnd (to_hold h) (\<lambda>x. ret (Some x)))))"

definition repo_get_sub_history :: "string \<Rightarrow> int \<Rightarrow> int \<Rightarrow> sub_history_row list sub_io" where
  "repo_get_sub_history sid limit offset =
     catch (bnd (external (DbError :: unit exn)) (\<lambda>ok. if \<not> ok then ret []
            else if limit < 0 \<or> offset < 0 then throw DbError
            else gets (\<lambda>s. take (nat limit) (drop (nat offset) (order_desc sx_created_at (filter (\<lambda>x. sx_sub x = sid) (sub_history s)))))))
          (\<lambda>_. ret [])"

subsection \<open>Writing subscriptions and history\<close>

definition repo_create_subscription :: "sub_row \<Rightarrow> sub_row option sub_io" where
  "repo_create_subscription r = or_none
     (bnd (gets now_us) (\<lambda>now. bnd (gets s_dbl) (\<lambda>dbl.
      let r = r\<lparr>sb_price := dbl (sb_price r), sb_created_at := now, sb_updated_at := now\<rparr> in
      bnd (external DbError) (\<lambda>ok. if \<not> ok then ret None else
      bnd (\<lambda>s. if \<not> sub_fits r \<or> sb_id r \<in> sb_id ` set (subs s) then (Inl DbError, s) else (Inr (), s\<lparr>subs := subs s @ [r]\<rparr>))
        (\<lambda>_. bnd (to_sub r) (\<lambda>x. ret (Some x)))))))"

text \<open>\<open>UPDATE ... WHERE subscription_id = $ AND ... RETURNING *\<close>: \<open>None\<close> when no row satisfies it.\<close>

definition write_sub :: "string \<Rightarrow> (sub_row \<Rightarrow> bool) \<Rightarrow> (sub_row \<Rightarrow> sub_row) \<Rightarrow> sub_row option sub_io" where
  "write_sub sid P f = (\<lambda>s. case row_by sb_id sid (subs s) of
       None \<Rightarrow> (Inr None, s)
     | Some r \<Rightarrow> if \<not> P r then (Inr None, s)
         else if \<not> sub_fits (f r) then (Inl DbError, s)
         else (Inr (Some (f r)), s\<lparr>subs := update_where (\<lambda>r. sb_id r = sid) f (subs s)\<rparr>))"

definition update_sub :: "string \<Rightarrow> (sub_row \<Rightarrow> bool) \<Rightarrow> (sub_row \<Rightarrow> sub_row) \<Rightarrow> sub_row option sub_io" where
  "update_sub sid P f = or_none
     (bnd (external DbError) (\<lambda>ok. if \<not> ok then ret None else
      bnd (write_sub sid P f) (\<lambda>r. case r of None \<Rightarrow> ret None | Some r \<Rightarrow> bnd (to_sub r) (\<lambda>x. ret (Some x)))))"

text \<open>The columns that the service updates.\<close>

record sub_update =
  su_status :: "sub_status option"
  su_cancel_at_end :: "bool option"
  su_canceled_at :: int
  su_cancel_reason :: "string option"
  su_auto_renew :: bool

definition apply_sub_update :: "sub_update \<Rightarrow> int \<Rightarrow> sub_row \<Rightarrow> sub_row" where
  "apply_sub_update u now r = r\<lparr>
     sb_status := (case su_status u of None \<Rightarrow> sb_status r | Some st \<Rightarrow> st),
     sb_cancel_at_end := (case su_cancel_at_end u of None \<Rightarrow> sb_cancel_at_end r | Some b \<Rightarrow> b),
     sb_canceled_at := Some (su_canceled_at u), sb_cancel_reason := su_cancel_reason u, sb_auto_renew := su_auto_renew u,
     sb_updated_at := now\<rparr>"

definition repo_update_subscription :: "string \<Rightarrow> sub_update \<Rightarrow> sub_row option sub_io" where
  "repo_update_subscription sid u = bnd (gets now_us) (\<lambda>now. update_sub sid (\<lambda>_. True) (apply_sub_update u now))"

text \<open>Taking \<open>n\<close> credits and giving them back.\<close>

definition take_row :: "int \<Rightarrow> int \<Rightarrow> sub_row \<Rightarrow> sub_row" where
  "take_row n now r = r\<lparr>sb_used := sb_used r + n, sb_remaining := sb_remaining r - n, sb_updated_at := now\<rparr>"

definition refund_row :: "int \<Rightarrow> int \<Rightarrow> sub_row \<Rightarrow> sub_row" where
  "refund_row n now r = r\<lparr>sb_used := max (sb_used r - n) 0, sb_remaining := sb_remaining r + n, sb_updated_at := now\<rparr>"

definition repo_consume_sub_credits :: "string \<Rightarrow> int \<Rightarrow> sub_row option sub_io" where
  "repo_consume_sub_credits sid n = bnd (gets now_us) (\<lambda>now. update_sub sid (\<lambda>r. n \<le> sb_remaining r) (take_row n now))"

definition repo_allocate_sub_credits :: "string \<Rightarrow> int \<Rightarrow> int \<Rightarrow> sub_row option sub_io" where
  "repo_allocate_sub_credits sid n rollover =
     bnd (gets now_us) (\<lambda>now. update_sub sid (\<lambda>_. True)
       (\<lambda>r. r\<lparr>sb_allocated := n, sb_remaining := n + rollover, sb_used := 0, sb_rolled_over := rollover, sb_updated_at := now\<rparr>))"

definition repo_add_sub_history :: "sub_history_row \<Rightarrow> sub_history_row option sub_io" where
  "repo_add_sub_history x = or_none
     (bnd (gets now_us) (\<lambda>now.
      let x = x\<lparr>sx_created_at := now\<rparr> in
      bnd (external DbError) (\<lambda>ok. if \<not> ok then ret None else
      (\<lambda>s. if \<not> sub_history_fits x \<or> sx_id x \<in> sx_id ` set (sub_history s) then (Inl DbError, s)
           else (Inr (Some x), s\<lparr>sub_history := sub_history s @ [x]\<rparr>)))))"

subsection \<open>Reservations\<close>

definition atomic :: "'a sub_io \<Rightarrow> 'a sub_io" where
  "atomic m = (\<lambda>s. case bnd m (\<lambda>x. bnd (external DbError) (\<lambda>_. ret x)) s of
       (Inl e, s') \<Rightarrow> (Inl e, s'\<lparr>subs := subs s, holds := holds s\<rparr>)
     | (Inr x, s') \<Rightarrow> (Inr x, s'))"

text \<open>A statement on the connection of a transaction works or raises.\<close>

definition statement :: "'a sub_io \<Rightarrow> 'a sub_io" where
  "statement m = bnd (external DbError) (\<lambda>_. m)"

text \<open>A number that does not fit a \<open>BIGINT\<close> parameter raises when the statement is sent.\<close>

definition with_int :: "int \<Rightarrow> 'a sub_io \<Rightarrow> 'a sub_io" where
  "with_int n m = (if int8 n then m else throw DbError)"

definition insert_hold :: "hold_row \<Rightarrow> hold_row sub_io" where
  "insert_hold h = (\<lambda>s. if \<not> hold_fits h \<or> hd_id h \<in> hd_id ` set (holds s) \<or> \<not> unique_some hd_request (holds s @ [h]) then (Inl DbError, s)
     else (Inr h, s\<lparr>holds := holds s @ [h]\<rparr>))"

definition write_hold :: "string \<Rightarrow> (hold_row \<Rightarrow> hold_row) \<Rightarrow> hold_row option sub_io" where
  "write_hold hid f = (\<lambda>s. case row_by hd_id hid (holds s) of
       None \<Rightarrow> (Inr None, s)
     | Some h \<Rightarrow> if \<not> hold_fits (f h) then (Inl DbError, s)
         else (Inr (Some (f h)), s\<lparr>holds := update_where (\<lambda>h. hd_id h = hid) f (holds s)\<rparr>))"

definition new_hold :: "string \<Rightarrow> billing_scope \<Rightarrow> sub_row \<Rightarrow> int \<Rightarrow> string option \<Rightarrow> string option \<Rightarrow> int \<Rightarrow> hold_row" where
  "new_hold hid sc u n model request now = \<lparr>hd_id = hid, hd_request = request, hd_sub = sb_id u, hd_user_id = sc_user_id sc,
     hd_actor = Some (sc_actor sc), hd_payer_type = Some (sc_type sc), hd_payer = sc_account sc, hd_org = sc_org sc, hd_model = model,
     hd_estimated = n, hd_actual = None, hd_refunded = 0, hd_extra = 0, hd_after_reserve = Some (sb_remaining u),
     hd_after_finalize = None, hd_status = Hold_pending, hd_reconciled_at = None, hd_released_at = None, hd_created_at = now,
     hd_updated_at = now\<rparr>"

text \<open>Connecting and beginning the transaction is the first call that may raise.\<close>

definition hold_credits :: "billing_scope \<Rightarrow> int \<Rightarrow> string option \<Rightarrow> string option \<Rightarrow> hold_row option sub_io" where
  "hold_credits sc n model request =
     bnd (if truthy_str request
          then statement (gets (\<lambda>s. find (\<lambda>h. hd_request h = request) (holds s))) else ret None) (\<lambda>existing.
     case existing of Some h \<Rightarrow> bnd (to_hold h) (\<lambda>x. ret (Some x)) | None \<Rightarrow>
     bnd (statement (gets (\<lambda>s. newest_sub sc True (subs s)))) (\<lambda>sub.
     case sub of None \<Rightarrow> ret None | Some sub \<Rightarrow>
     bnd (gets now_us) (\<lambda>now.
     bnd (statement (with_int n (write_sub (sb_id sub) (\<lambda>r. n \<le> sb_remaining r) (take_row n now)))) (\<lambda>u.
     case u of None \<Rightarrow> ret None | Some u \<Rightarrow>
     bnd (fresh_hex 16) (\<lambda>hex.
     bnd (statement (insert_hold (new_hold (''res_'' @ hex) sc u n model request now))) (\<lambda>h.
     bnd (to_hold h) (\<lambda>x. ret (Some x))))))))"

definition repo_reserve_credits ::
  "string \<Rightarrow> int \<Rightarrow> string option \<Rightarrow> payer_type option \<Rightarrow> string option \<Rightarrow> string option \<Rightarrow> string option \<Rightarrow> string option
   \<Rightarrow> hold_row option sub_io" where
  "repo_reserve_credits uid n org typ account actor model request =
     statement (atomic (hold_credits (resolve_billing_scope uid org actor typ account) n model request))"

text \<open>What both ways to settle a reservation begin with: the reservation and its subscription.\<close>

definition with_hold :: "string \<Rightarrow> (hold_row \<Rightarrow> sub_row \<Rightarrow> 'a option sub_io) \<Rightarrow> 'a option sub_io" where
  "with_hold hid k = or_none (statement (atomic
     (bnd (statement (gets (\<lambda>s. row_by hd_id hid (holds s)))) (\<lambda>h.
      case h of None \<Rightarrow> ret None | Some h \<Rightarrow>
      bnd (to_hold h) (\<lambda>h.
      bnd (statement (gets (\<lambda>s. row_by sb_id (hd_sub h) (subs s)))) (\<lambda>r.
      case r of None \<Rightarrow> ret None | Some r \<Rightarrow> k h r))))))"

record settlement =
  st_hold :: hold_row
  st_remaining :: int
  st_message :: string

definition settle_hold :: "string \<Rightarrow> (hold_row \<Rightarrow> hold_row) \<Rightarrow> int \<Rightarrow> string \<Rightarrow> settlement option sub_io" where
  "settle_hold hid f remaining msg =
     bnd (statement (write_hold hid f)) (\<lambda>h. case h of None \<Rightarrow> ret None | Some h \<Rightarrow>
     bnd (to_hold h) (\<lambda>x. ret (Some \<lparr>st_hold = x, st_remaining = remaining, st_message = msg\<rparr>)))"

definition hold_status_text :: "hold_status \<Rightarrow> string" where
  "hold_status_text st = (case st of Hold_pending \<Rightarrow> ''pending'' | Hold_reconciled \<Rightarrow> ''reconciled'' | Hold_released \<Rightarrow> ''released'')"

definition reconciled_row :: "int \<Rightarrow> int \<Rightarrow> int \<Rightarrow> int \<Rightarrow> int \<Rightarrow> hold_row \<Rightarrow> hold_row" where
  "reconciled_row actual refunded extra remaining now h = h\<lparr>hd_status := Hold_reconciled, hd_actual := Some actual,
     hd_refunded := refunded, hd_extra := extra, hd_after_finalize := Some remaining, hd_reconciled_at := Some now, hd_updated_at := now\<rparr>"

definition released_hold_row :: "int \<Rightarrow> int \<Rightarrow> int \<Rightarrow> hold_row \<Rightarrow> hold_row" where
  "released_hold_row refunded remaining now h = h\<lparr>hd_status := Hold_released, hd_refunded := refunded, hd_after_finalize := Some remaining,
     hd_released_at := Some now, hd_updated_at := now\<rparr>"

definition reconcile_held :: "string \<Rightarrow> int \<Rightarrow> hold_row \<Rightarrow> sub_row \<Rightarrow> settlement option sub_io" where
  "reconcile_held hid actual h r =
    (if hd_status h \<noteq> Hold_pending
     then ret (Some \<lparr>st_hold = h, st_remaining = sb_remaining r, st_message = ''Reservation already '' @ hold_status_text (hd_status h)\<rparr>)
     else bnd (gets now_us) (\<lambda>now.
       let refunded = max (hd_estimated h - actual) 0; extra = max (actual - hd_estimated h) 0;
           finish = (\<lambda>remaining. settle_hold hid (reconciled_row actual refunded extra remaining now) remaining ''Reservation reconciled successfully'')
       in if 0 < refunded then
            bnd (statement (write_sub (hd_sub h) (\<lambda>_. True) (refund_row refunded now))) (\<lambda>u.
            case u of None \<Rightarrow> ret None | Some u \<Rightarrow> finish (sb_remaining u))
          else if 0 < extra then
            bnd (statement (with_int extra (write_sub (hd_sub h) (\<lambda>r. extra \<le> sb_remaining r) (take_row extra now)))) (\<lambda>u.
            case u of
              None \<Rightarrow> ret (Some \<lparr>st_hold = h, st_remaining = sb_remaining r, st_message = ''Insufficient credits to reconcile reservation overage''\<rparr>)
            | Some u \<Rightarrow> finish (sb_remaining u))
          else finish (sb_remaining r)))"

definition repo_reconcile :: "string \<Rightarrow> int \<Rightarrow> settlement option sub_io" where
  "repo_reconcile hid actual = with_hold hid (reconcile_held hid actual)"

definition release_held :: "string \<Rightarrow> hold_row \<Rightarrow> sub_row \<Rightarrow> settlement option sub_io" where
  "release_held hid h r =
    (if hd_status h = Hold_released
     then ret (Some \<lparr>st_hold = h, st_remaining = sb_remaining r, st_message = ''Reservation already released''\<rparr>)
     else if hd_status h = Hold_reconciled
     then ret (Some \<lparr>st_hold = h, st_remaining = sb_remaining r, st_message = ''Reservation already reconciled''\<rparr>)
     else bnd (gets now_us) (\<lambda>now.
       bnd (statement (write_sub (hd_sub h) (\<lambda>_. True) (refund_row (hd_estimated h) now))) (\<lambda>u.
       case u of None \<Rightarrow> ret None | Some u \<Rightarrow>
       settle_hold hid (released_hold_row (hd_estimated h) (sb_remaining u) now) (sb_remaining u) ''Reservation released successfully'')))"

definition repo_release :: "string \<Rightarrow> settlement option sub_io" where
  "repo_release hid = with_hold hid (release_held hid)"

end
