(* ===== verification/SubService.thy ===== *)
theory SubService
  imports SubRepo
begin

section \<open>Subscriptions: service and event handlers\<close>

text \<open>
  \<open>subscription_service.py\<close> and \<open>events/handlers.py\<close>. The table of tiers is the one \<open>_load_tier_cache\<close>
  fills. Responses to the operations on credits carry the remaining credits also when they fail
  (\<open>credit_answer\<close>); the payer they echo is the one of the scope. The events of a reservation carry its row.
\<close>

subsection \<open>Tiers\<close>

record sub_tier =
  ti_id :: string
  ti_code :: string
  ti_price :: rat
  ti_credits :: int
  ti_trial_days :: int

definition tier_cache :: "sub_tier list" where
  "tier_cache =
    [\<lparr>ti_id = ''tier_free_001'', ti_code = ''free'', ti_price = 0, ti_credits = 1000000, ti_trial_days = 0\<rparr>,
     \<lparr>ti_id = ''tier_pro_001'', ti_code = ''pro'', ti_price = 20, ti_credits = 30000000, ti_trial_days = 14\<rparr>,
     \<lparr>ti_id = ''tier_max_001'', ti_code = ''max'', ti_price = 50, ti_credits = 100000000, ti_trial_days = 14\<rparr>,
     \<lparr>ti_id = ''tier_team_001'', ti_code = ''team'', ti_price = 25, ti_credits = 50000000, ti_trial_days = 14\<rparr>,
     \<lparr>ti_id = ''tier_enterprise_001'', ti_code = ''enterprise'', ti_price = 0, ti_credits = 0, ti_trial_days = 30\<rparr>]"

text \<open>Codes are matched in lower case; no code holds a character outside ASCII.\<close>

definition get_tier_info :: "string \<Rightarrow> sub_tier option" where
  "get_tier_info code = find (\<lambda>t. ti_code t = map lower_char code) tier_cache"

definition cycle_days :: "billing_cycle \<Rightarrow> int" where
  "cycle_days c = (case c of Yearly \<Rightarrow> 365 | Quarterly \<Rightarrow> 90 | Monthly \<Rightarrow> 30)"

definition plan_price :: "sub_tier \<Rightarrow> billing_cycle \<Rightarrow> int \<Rightarrow> rat" where
  "plan_price t c seats =
     (case c of Yearly \<Rightarrow> ti_price t * 12 * (4 / 5) | Quarterly \<Rightarrow> ti_price t * 3 * (9 / 10) | Monthly \<Rightarrow> ti_price t)
     * (if ti_code t = ''team'' then of_int seats else 1)"

definition plan_credits :: "sub_tier \<Rightarrow> billing_cycle \<Rightarrow> int \<Rightarrow> int" where
  "plan_credits t c seats =
     (case c of Yearly \<Rightarrow> ti_credits t * 12 | Quarterly \<Rightarrow> ti_credits t * 3 | Monthly \<Rightarrow> ti_credits t)
     * (if ti_code t = ''team'' then seats else 1)"

subsection \<open>Creating a subscription\<close>

record create_sub =
  cs_user_id :: string
  cs_org :: "string option"
  cs_tier_code :: string
  cs_cycle :: billing_cycle
  cs_payment_method :: "string option"
  cs_seats :: int
  cs_use_trial :: bool

definition planned_sub :: "string \<Rightarrow> datetime \<Rightarrow> sub_tier \<Rightarrow> create_sub \<Rightarrow> sub_row" where
  "planned_sub sid d t q =
     (let now = stamp d; period_end = now + cycle_days (cs_cycle q) * us_per_day;
          trial = cs_use_trial q \<and> 0 < ti_trial_days t; trial_end = now + ti_trial_days t * us_per_day;
          credits = plan_credits t (cs_cycle q) (cs_seats q)
      in \<lparr>sb_id = sid, sb_user_id = cs_user_id q, sb_org = cs_org q, sb_tier_id = ti_id t, sb_tier_code = ti_code t,
          sb_status = (if trial then Sub_trialing else Sub_active), sb_cycle = cs_cycle q,
          sb_price = (if trial then 0 else plan_price t (cs_cycle q) (cs_seats q)), sb_allocated = credits, sb_used = 0,
          sb_remaining = credits, sb_rolled_over = 0, sb_period_start = now, sb_period_end = period_end,
          sb_trial_start = (if trial then Some now else None), sb_trial_end = (if trial then Some trial_end else None),
          sb_is_trial = trial, sb_seats_purchased = cs_seats q, sb_seats_used = 1, sb_cancel_at_end = False, sb_canceled_at = None,
          sb_cancel_reason = None, sb_payment_method = cs_payment_method q, sb_auto_renew = True,
          sb_next_billing = Some (if trial then trial_end else period_end), sb_created_at = now, sb_updated_at = now\<rparr>)"

definition sub_hist :: "string \<Rightarrow> string \<Rightarrow> string \<Rightarrow> string option \<Rightarrow> sub_action \<Rightarrow> sub_initiator \<Rightarrow> sub_history_row" where
  "sub_hist hid sid uid org action who = \<lparr>sx_id = hid, sx_sub = sid, sx_user_id = uid, sx_org = org, sx_action = action, sx_new_tier = None,
     sx_previous_status = None, sx_new_status = None, sx_change = 0, sx_balance_after = None, sx_period_start = None,
     sx_period_end = None, sx_reason = None, sx_by = who, sx_created_at = 0\<rparr>"

text \<open>A history row under a new identifier; the service does not look whether it was written.\<close>

definition record_sub :: "(string \<Rightarrow> sub_history_row) \<Rightarrow> unit sub_io" where
  "record_sub x = bnd (fresh_hex 16) (\<lambda>hex. bnd (repo_add_sub_history (x (''hist_'' @ hex))) (\<lambda>_. ret ()))"

definition refuse_errors :: "'a answer sub_io \<Rightarrow> 'a answer sub_io" where
  "refuse_errors m = catch m (\<lambda>_. ret (Refused ''Internal error''))"

definition create_subscription :: "create_sub \<Rightarrow> sub_row answer sub_io" where
  "create_subscription q = refuse_errors (case get_tier_info (cs_tier_code q) of
       None \<Rightarrow> ret (Refused ''Tier not found'')
     | Some t \<Rightarrow>
         bnd (repo_get_user_subscription (cs_user_id q) (cs_org q) None None None True) (\<lambda>existing.
         if existing \<noteq> None then ret (Refused ''User already has an active subscription'') else
         bnd (fresh_hex 16) (\<lambda>hex. bnd (gets w_now) (\<lambda>d.
         let r = planned_sub (''sub_'' @ hex) d t q in
         bnd (repo_create_subscription r) (\<lambda>created. case created of
           None \<Rightarrow> ret (Refused ''Failed to create subscription'')
         | Some c \<Rightarrow>
             bnd (record_sub (\<lambda>hid. (sub_hist hid (sb_id c) (cs_user_id q) (cs_org q) (if sb_is_trial r then SA_trial_started else SA_created) SI_user)
               \<lparr>sx_new_tier := Some (ti_code t), sx_new_status := Some (sb_status c), sx_change := sb_allocated r,
                sx_balance_after := Some (sb_allocated r), sx_period_start := Some (sb_period_start r), sx_period_end := Some (sb_period_end r)\<rparr>)) (\<lambda>_.
             bnd (tell (Sub_created (sb_id c) (cs_user_id q) (cs_org q) (ti_code t) (sb_allocated r) (sb_is_trial r))) (\<lambda>_.
             ret (Done c))))))))"

subsection \<open>Cancelling\<close>

record cancel_answer =
  cn_effective :: int
  cn_remaining :: int

definition cancel_subscription :: "string \<Rightarrow> bool \<Rightarrow> string option \<Rightarrow> string \<Rightarrow> cancel_answer answer sub_io" where
  "cancel_subscription sid immediate reason uid = refuse_errors
     (bnd (repo_get_subscription sid) (\<lambda>found. case found of
        None \<Rightarrow> ret (Refused ''Subscription not found'')
      | Some r \<Rightarrow>
          if sb_user_id r \<noteq> uid then ret (Refused ''Not authorized to cancel this subscription'') else
          bnd (gets now_us) (\<lambda>now.
          bnd (repo_update_subscription sid \<lparr>su_status = (if immediate then Some Sub_canceled else None),
            su_cancel_at_end = (if immediate then None else Some True), su_canceled_at = now, su_cancel_reason = reason, su_auto_renew = False\<rparr>) (\<lambda>u.
          let effective = (if immediate then now else sb_period_end r); left_over = (case u of None \<Rightarrow> sb_remaining r | Some u \<Rightarrow> sb_remaining u) in
          bnd (record_sub (\<lambda>hid. (sub_hist hid sid uid (sb_org r) SA_canceled SI_user)
            \<lparr>sx_previous_status := Some (sb_status r), sx_new_status := Some (if immediate then Sub_canceled else sb_status r),
             sx_balance_after := Some left_over, sx_reason := reason\<rparr>)) (\<lambda>_.
          bnd (tell (Sub_canceled_event sid uid immediate effective)) (\<lambda>_.
          ret (Done \<lparr>cn_effective = effective, cn_remaining = left_over\<rparr>)))))))"

subsection \<open>Credits\<close>

record credit_answer =
  cr_success :: bool
  cr_message :: string
  cr_credits :: int
  cr_left :: int
  cr_sub :: "string option"
  cr_hold :: "string option"

definition credit_failure :: "string \<Rightarrow> int \<Rightarrow> string option \<Rightarrow> credit_answer" where
  "credit_failure msg left sub = \<lparr>cr_success = False, cr_message = msg, cr_credits = 0, cr_left = left, cr_sub = sub, cr_hold = None\<rparr>"

record credit_request =
  rq_user :: string
  rq_actor :: "string option"
  rq_payer_type :: "payer_type option"
  rq_payer :: "string option"
  rq_org :: "string option"
  rq_credits :: int

definition request_scope :: "credit_request \<Rightarrow> billing_scope" where
  "request_scope q = resolve_billing_scope (rq_user q) (rq_org q) (rq_actor q) (rq_payer_type q) (rq_payer q)"

text \<open>The subscription of a scope: the repository resolves the resolved scope again.\<close>

definition sub_of_scope :: "billing_scope \<Rightarrow> sub_row option sub_io" where
  "sub_of_scope sc = repo_get_user_subscription (sc_user_id sc) (sc_org sc) (Some (sc_type sc)) (sc_account sc) (Some (sc_actor sc)) True"

definition consume_sub_credits :: "credit_request \<Rightarrow> string \<Rightarrow> string option \<Rightarrow> string option \<Rightarrow> credit_answer sub_io" where
  "consume_sub_credits q service usage description = catch
     (let sc = request_scope q; n = rq_credits q in
      bnd (sub_of_scope sc) (\<lambda>found. case found of
        None \<Rightarrow> ret (credit_failure ''No active subscription found'' 0 None)
      | Some r \<Rightarrow>
          if sb_remaining r < n then ret (credit_failure ''Insufficient credits'' (sb_remaining r) (Some (sb_id r)))
          else bnd (repo_consume_sub_credits (sb_id r) n) (\<lambda>u. case u of
            None \<Rightarrow> ret (credit_failure ''Failed to consume credits'' (sb_remaining r) (Some (sb_id r)))
          | Some u \<Rightarrow>
              bnd (record_sub (\<lambda>hid. (sub_hist hid (sb_id r) (sc_user_id sc) (sc_org sc) SA_credits_consumed SI_system)
                \<lparr>sx_change := - n, sx_balance_after := Some (sb_remaining u),
                 sx_reason := Some (service @ '': '' @ (if truthy_str description then the description else ''Usage''))\<rparr>)) (\<lambda>_.
              bnd (tell (Sub_consumed (sb_id r) (sc_user_id sc) (sc_actor sc) (sc_type sc) (sc_account sc) n (sb_remaining u) service usage)) (\<lambda>_.
              ret \<lparr>cr_success = True, cr_message = ''Credits consumed successfully'', cr_credits = n, cr_left = sb_remaining u,
                   cr_sub = Some (sb_id r), cr_hold = None\<rparr>)))))
     (\<lambda>_. ret (credit_failure ''Internal error'' 0 None))"

definition reserve_sub_credits :: "credit_request \<Rightarrow> string option \<Rightarrow> string option \<Rightarrow> credit_answer sub_io" where
  "reserve_sub_credits q model request = catch
     (let sc = request_scope q; n = rq_credits q in
      bnd (sub_of_scope sc) (\<lambda>found. case found of
        None \<Rightarrow> ret (credit_failure ''No active subscription found'' 0 None)
      | Some r \<Rightarrow>
          bnd (repo_reserve_credits (sc_user_id sc) n (sc_org sc) (Some (sc_type sc)) (sc_account sc) (Some (sc_actor sc)) model request) (\<lambda>h. case h of
            None \<Rightarrow> ret (credit_failure ''Insufficient credits'' (sb_remaining r) (Some (sb_id r)))
          | Some h \<Rightarrow>
              bnd (tell (Sub_reserved h)) (\<lambda>_.
              ret \<lparr>cr_success = True, cr_message = ''Credits reserved successfully'', cr_credits = hd_estimated h,
                   cr_left = (case hd_after_reserve h of None \<Rightarrow> 0 | Some k \<Rightarrow> k), cr_sub = Some (hd_sub h), cr_hold = Some (hd_id h)\<rparr>))))
     (\<lambda>_. ret (credit_failure ''Reservation failed'' 0 None))"

record settle_answer =
  sa_success :: bool
  sa_message :: string
  sa_hold :: string
  sa_consumed :: int
  sa_refunded :: int
  sa_left :: int
  sa_sub :: "string option"

definition settle_failure :: "string \<Rightarrow> string \<Rightarrow> settle_answer" where
  "settle_failure hid msg = \<lparr>sa_success = False, sa_message = msg, sa_hold = hid, sa_consumed = 0, sa_refunded = 0, sa_left = 0, sa_sub = None\<rparr>"

text \<open>\<open>reservation.actual_credits or reservation.estimated_credits\<close>\<close>

definition reported_use :: "hold_row \<Rightarrow> int" where
  "reported_use h = (case hd_actual h of None \<Rightarrow> hd_estimated h | Some n \<Rightarrow> if n = 0 then hd_estimated h else n)"

definition reconcile_sub_reservation :: "string \<Rightarrow> int \<Rightarrow> settle_answer sub_io" where
  "reconcile_sub_reservation hid actual = catch
     (bnd (repo_reconcile hid actual) (\<lambda>x. case x of
        None \<Rightarrow> ret (settle_failure hid ''Reservation not found'')
      | Some x \<Rightarrow> let h = st_hold x; ok = (hd_status h = Hold_reconciled) in
          bnd (if ok then tell (Sub_reconciled h) else ret ()) (\<lambda>_.
          ret \<lparr>sa_success = ok, sa_message = st_message x, sa_hold = hd_id h, sa_consumed = reported_use h, sa_refunded = hd_refunded h,
               sa_left = st_remaining x, sa_sub = Some (hd_sub h)\<rparr>)))
     (\<lambda>_. ret (settle_failure hid ''Internal error''))"

definition release_sub_reservation :: "string \<Rightarrow> settle_answer sub_io" where
  "release_sub_reservation hid = catch
     (bnd (repo_release hid) (\<lambda>x. case x of
        None \<Rightarrow> ret (settle_failure hid ''Reservation not found'')
      | Some x \<Rightarrow> let h = st_hold x; ok = (hd_status h = Hold_released) in
          bnd (if ok then tell (Sub_released h) else ret ()) (\<lambda>_.
          ret \<lparr>sa_success = ok, sa_message = st_message x, sa_hold = hd_id h, sa_consumed = 0, sa_refunded = hd_refunded h,
               sa_left = st_remaining x, sa_sub = Some (hd_sub h)\<rparr>)))
     (\<lambda>_. ret (settle_failure hid ''Internal error''))"

subsection \<open>Queries\<close>

definition sub_get_subscription :: "string \<Rightarrow> sub_row answer sub_io" where
  "sub_get_subscription sid = bnd (repo_get_subscription sid) (\<lambda>r. ret (case r of None \<Rightarrow> Refused ''Subscription not found'' | Some r \<Rightarrow> Done r))"

definition sub_get_user_subscription ::
  "string \<Rightarrow> string option \<Rightarrow> payer_type option \<Rightarrow> string option \<Rightarrow> string option \<Rightarrow> sub_row answer sub_io" where
  "sub_get_user_subscription uid org typ account actor =
     bnd (repo_get_user_subscription uid org typ account actor True) (\<lambda>r. ret (case r of
       None \<Rightarrow> Refused ''No active subscription found'' | Some r \<Rightarrow> Done r))"

definition sub_get_subscriptions :: "sub_filter \<Rightarrow> int \<Rightarrow> int \<Rightarrow> sub_row list sub_io" where
  "sub_get_subscriptions q page page_size = repo_get_subscriptions (q\<lparr>sf_tier := None\<rparr>) page_size ((page - 1) * page_size)"

record sub_balance =
  ba_remaining :: int
  ba_total :: int
  ba_available :: int
  ba_period_end :: "int option"
  ba_sub :: "string option"

definition get_credit_balance :: "credit_request \<Rightarrow> sub_balance answer sub_io" where
  "get_credit_balance q = refuse_errors (bnd (sub_of_scope (request_scope q)) (\<lambda>r. ret (Done (case r of
       None \<Rightarrow> \<lparr>ba_remaining = 0, ba_total = 0, ba_available = 0, ba_period_end = None, ba_sub = None\<rparr>
     | Some r \<Rightarrow> \<lparr>ba_remaining = sb_remaining r, ba_total = sb_allocated r, ba_available = sb_remaining r,
                 ba_period_end = Some (sb_period_end r), ba_sub = Some (sb_id r)\<rparr>))))"

definition get_subscription_history :: "string \<Rightarrow> int \<Rightarrow> int \<Rightarrow> sub_history_row list sub_io" where
  "get_subscription_history sid page page_size = repo_get_sub_history sid page_size ((page - 1) * page_size)"

subsection \<open>Event handlers\<close>

record consume_event =
  ce_user_id :: "string option"
  ce_org :: "string option"
  ce_credits :: amount_field
  ce_service :: "string option"
  ce_usage :: "string option"

text \<open>The request holds an integer; a number with decimals does not validate.\<close>

definition handle_credits_consume_request :: "consume_event bus_message \<Rightarrow> unit sub_io" where
  "handle_credits_consume_request msg = catch
     (bnd (read_message msg) (\<lambda>d. if \<not> truthy_str (ce_user_id d) then ret () else
      case ce_credits d of
        Amount_missing \<Rightarrow> ret ()
      | Amount_bad \<Rightarrow> throw TypeError
      | Amount n \<Rightarrow> if n \<le> 0 then ret ()
          else if of_int \<lfloor>n\<rfloor> \<noteq> n then throw ValidationError
          else bnd (consume_sub_credits \<lparr>rq_user = the (ce_user_id d), rq_actor = None, rq_payer_type = None, rq_payer = None,
                 rq_org = ce_org d, rq_credits = \<lfloor>n\<rfloor>\<rparr> (case ce_service d of None \<Rightarrow> ''unknown'' | Some t \<Rightarrow> t) (ce_usage d) None) (\<lambda>_. ret ())))
     (\<lambda>_. ret ())"

text \<open>The handlers of payments and of new accounts read one field and log.\<close>

definition handle_logged :: "string option bus_message \<Rightarrow> unit sub_io" where
  "handle_logged msg = catch (bnd (read_message msg) (\<lambda>_. ret ())) (\<lambda>_ :: unit exn. ret ())"

subsection \<open>The process\<close>

datatype sub_op =
    Create_subscription create_sub
  | Cancel_subscription string bool "string option" string
  | Consume_sub_credits credit_request string "string option" "string option"
  | Reserve_sub_credits credit_request "string option" "string option"
  | Reconcile_reservation string int
  | Release_reservation string
  | Sub_queries string credit_request sub_filter
  | On_credits_consume "consume_event bus_message"
  | On_logged_event "string option bus_message"
  | Sub_clock datetime

definition sub_step :: "sub_op \<Rightarrow> sub_state \<Rightarrow> sub_state" where
  "sub_step op = (case op of
       Create_subscription q \<Rightarrow> (\<lambda>s. if 1 \<le> cs_seats q then after (create_subscription q) s else s)
     | Cancel_subscription sid immediate reason uid \<Rightarrow> after (cancel_subscription sid immediate reason uid)
     | Consume_sub_credits q service usage description \<Rightarrow>
         (\<lambda>s. if 0 < rq_credits q then after (consume_sub_credits q service usage description) s else s)
     | Reserve_sub_credits q model request \<Rightarrow> (\<lambda>s. if 0 < rq_credits q then after (reserve_sub_credits q model request) s else s)
     | Reconcile_reservation hid actual \<Rightarrow> (\<lambda>s. if 0 \<le> actual then after (reconcile_sub_reservation hid actual) s else s)
     | Release_reservation hid \<Rightarrow> after (release_sub_reservation hid)
     | Sub_queries sid q f \<Rightarrow> after (bnd (sub_get_subscription sid) (\<lambda>_. bnd (get_credit_balance q) (\<lambda>_. bnd (sub_get_subscriptions f 1 50) (\<lambda>_.
         get_subscription_history sid 1 50))))
     | On_credits_consume msg \<Rightarrow> after (handle_credits_consume_request msg)
     | On_logged_event msg \<Rightarrow> after (handle_logged msg)
     | Sub_clock d \<Rightarrow> (\<lambda>s. s\<lparr>w_now := d\<rparr>))"

end
