(* ===== verification/SubInvariants.thy ===== *)
theory SubInvariants
  imports SubService
begin

section \<open>Subscriptions: invariants of the tables\<close>

text \<open>
  \<open>sub_inv T\<close> is an assertion \<open>T\<close> about the subscriptions and the reservations. \<open>txn T m Q\<close> is the triple
  for a piece of a transaction: from \<open>T\<close>, \<open>m\<close> ends in \<open>Q x\<close> with the result \<open>x\<close>, or raises; what it leaves
  when it raises does not matter, since \<open>atomic\<close> undoes it.
\<close>

definition sub_inv :: "(sub_row list \<Rightarrow> hold_row list \<Rightarrow> bool) \<Rightarrow> sub_state \<Rightarrow> bool" where
  "sub_inv T s \<longleftrightarrow> T (subs s) (holds s)"

lemma sub_inv_world [simp]:
  "sub_inv T (s\<lparr>w_script := sc\<rparr>) = sub_inv T s" "sub_inv T (s\<lparr>w_uuid_next := k\<rparr>) = sub_inv T s"
  "sub_inv T (s\<lparr>w_events := es\<rparr>) = sub_inv T s" "sub_inv T (s\<lparr>w_now := d\<rparr>) = sub_inv T s"
  "sub_inv T (s\<lparr>sub_history := xs\<rparr>) = sub_inv T s"
  by (simp_all add: sub_inv_def)

lemma sub_inv_effects [preserve_rules]:
  "preserves (sub_inv T) (external e)" "preserves (sub_inv T) (fresh_hex n)" "preserves (sub_inv T) (tell ev)"
  unfolding tell_def
  by (intro preserve_rules preserves_external preserves_fresh_hex preserves_publish; simp)+

lemma sub_inv_reads [preserve_rules]:
  "preserves (sub_inv T) (one_sub f)" "preserves (sub_inv T) (repo_get_subscriptions q limit offset)"
  "preserves (sub_inv T) (repo_get_hold hid)" "preserves (sub_inv T) (repo_get_sub_history sid limit offset)"
  "preserves (sub_inv T) (to_sub r)" "preserves (sub_inv T) (to_hold h)"
  unfolding one_sub_def or_none_def repo_get_subscriptions_def repo_get_hold_def repo_get_sub_history_def to_sub_def to_hold_def
  by (intro preserve_rules)+

lemma sub_inv_finds [preserve_rules]:
  "preserves (sub_inv T) (repo_get_subscription sid)" "preserves (sub_inv T) (repo_get_user_subscription uid org typ account actor act)"
  unfolding repo_get_subscription_def repo_get_user_subscription_def by (rule preserve_rules)+

lemma sub_inv_history [preserve_rules]: "preserves (sub_inv T) (record_sub x)"
proof -
  have "preserves (sub_inv T) (\<lambda>s. if \<not> sub_history_fits x \<or> sx_id x \<in> sx_id ` set (sub_history s) then (Inl DbError, s)
      else (Inr (Some x), s\<lparr>sub_history := sub_history s @ [x]\<rparr>))" for x by (rule preservesI) simp
  then show ?thesis unfolding record_sub_def repo_add_sub_history_def or_none_def Let_def by (intro preserve_rules)
qed

subsection \<open>Transactions\<close>

definition txn :: "(sub_row list \<Rightarrow> hold_row list \<Rightarrow> bool) \<Rightarrow> 'a sub_io \<Rightarrow> ('a \<Rightarrow> sub_row list \<Rightarrow> hold_row list \<Rightarrow> bool) \<Rightarrow> bool" where
  "txn T m Q \<longleftrightarrow> ends (sub_inv T) m (case_sum (\<lambda>_ _. True) (\<lambda>x. sub_inv (Q x)))"

named_theorems txn_rules "rules that push an assertion through a transaction"

lemma txnI: "(\<And>s x s'. sub_inv T s \<Longrightarrow> m s = (Inr x, s') \<Longrightarrow> sub_inv (Q x) s') \<Longrightarrow> txn T m Q"
  unfolding txn_def by (intro endsI) (auto split: sum.split)

lemma txnD: "txn T m Q \<Longrightarrow> sub_inv T s \<Longrightarrow> m s = (Inr x, s') \<Longrightarrow> sub_inv (Q x) s'"
  unfolding txn_def ends_def by fastforce

lemma txn_bnd [txn_rules]: "txn T m R \<Longrightarrow> (\<And>x. txn (R x) (k x) Q) \<Longrightarrow> txn T (bnd m k) Q"
  by (intro txnI) (auto simp: bnd_eq_Inr dest!: txnD)

lemma txn_ret [txn_rules]: "(\<And>rs hs. T rs hs \<Longrightarrow> Q x rs hs) \<Longrightarrow> txn T (ret x) Q"
  by (intro txnI) (simp add: sub_inv_def)

lemma txn_throw [txn_rules]: "txn T (throw e) Q"
  by (intro txnI) simp

lemma txn_keep: "preserves (sub_inv T) m \<Longrightarrow> txn T m (\<lambda>_. T)"
  by (intro txnI) (metis preservesD snd_conv)

lemma txn_pre: "txn T' m Q \<Longrightarrow> (\<And>rs hs. T rs hs \<Longrightarrow> T' rs hs) \<Longrightarrow> txn T m Q"
  by (intro txnI) (erule txnD, simp_all add: sub_inv_def)

lemma txn_to_hold: "txn T (to_hold h) (\<lambda>x rs hs. T rs hs \<and> (\<exists>a. x = h\<lparr>hd_actor := a\<rparr>))"
  by (intro txnI, cases "valid_hold h") (auto simp: to_hold_def sub_inv_def)

lemma txn_fresh_hex: "txn T (fresh_hex n) (\<lambda>_. T)"
  by (intro txn_keep preserve_rules)

lemma txn_statement: "txn T m Q \<Longrightarrow> txn T (statement m) Q"
  unfolding statement_def by (rule txn_bnd [where R = "\<lambda>_. T", OF txn_keep]) (intro preserve_rules)

lemma txn_with_int: "txn T m Q \<Longrightarrow> txn T (with_int n m) Q"
  by (simp add: with_int_def txn_throw)

lemma txn_gets: "(\<And>s. T (subs s) (holds s) \<Longrightarrow> Q (f s) (subs s) (holds s)) \<Longrightarrow> txn T (gets f) Q"
  by (intro txnI) (auto simp: sub_inv_def)

lemma txn_if [txn_rules]: "(b \<Longrightarrow> txn T m Q) \<Longrightarrow> (\<not> b \<Longrightarrow> txn T n Q) \<Longrightarrow> txn T (if b then m else n) Q"
  by simp

lemma txn_bnd_keep: "preserves (sub_inv T) m \<Longrightarrow> (\<And>x. txn T (k x) Q) \<Longrightarrow> txn T (bnd m k) Q"
  by (rule txn_bnd [OF txn_keep])

lemma txn_option [txn_rules]:
  "(x = None \<Longrightarrow> txn T m Q) \<Longrightarrow> (\<And>a. x = Some a \<Longrightarrow> txn T (k a) Q) \<Longrightarrow> txn T (case x of None \<Rightarrow> m | Some a \<Rightarrow> k a) Q"
  by (cases x) simp_all

lemma txn_write_sub:
  assumes "\<And>rs hs. T rs hs \<Longrightarrow> opt_all (row_by sb_id sid rs) (\<lambda>r. \<not> P r) \<Longrightarrow> Q None rs hs"
    and "\<And>rs hs r. T rs hs \<Longrightarrow> row_by sb_id sid rs = Some r \<Longrightarrow> P r \<Longrightarrow> sub_fits (f r) \<Longrightarrow> Q (Some (f r)) (update_where (\<lambda>r. sb_id r = sid) f rs) hs"
  shows "txn T (write_sub sid P f) Q"
  using assms by (intro txnI) (auto simp: write_sub_def sub_inv_def opt_all_def split: option.splits if_splits)

lemma txn_write_hold:
  assumes "\<And>rs hs. T rs hs \<Longrightarrow> row_by hd_id hid hs = None \<Longrightarrow> Q None rs hs"
    and "\<And>rs hs h. T rs hs \<Longrightarrow> row_by hd_id hid hs = Some h \<Longrightarrow> Q (Some (f h)) rs (update_where (\<lambda>h. hd_id h = hid) f hs)"
  shows "txn T (write_hold hid f) Q"
  using assms by (intro txnI) (auto simp: write_hold_def sub_inv_def split: option.splits if_splits)

lemma txn_insert_hold:
  assumes "\<And>rs hs. T rs hs \<Longrightarrow> hd_id h \<notin> hd_id ` set hs \<Longrightarrow> unique_some hd_request (hs @ [h]) \<Longrightarrow> Q h rs (hs @ [h])"
  shows "txn T (insert_hold h) Q"
  using assms by (intro txnI) (auto simp: insert_hold_def sub_inv_def split: if_splits)

lemma atomic_keeps:
  assumes "txn T m (\<lambda>_. T)"
  shows "preserves (sub_inv T) (atomic m)"
proof (rule preservesI)
  fix s assume s: "sub_inv T s"
  have t: "txn T (bnd m (\<lambda>x. bnd (external DbError) (\<lambda>_. ret x))) (\<lambda>_. T)"
    by (rule txn_bnd [OF assms]) (intro txn_keep preserve_rules)
  show "sub_inv T (snd (atomic m s))"
  proof (cases "bnd m (\<lambda>x. bnd (external DbError) (\<lambda>_. ret x)) s")
    case (Pair x s')
    then show ?thesis using txnD [OF t s] s by (cases x) (simp_all add: atomic_def sub_inv_def)
  qed
qed

lemma statement_keeps [preserve_rules]: "preserves (sub_inv T) m \<Longrightarrow> preserves (sub_inv T) (statement m)"
  unfolding statement_def by (intro preserve_rules)

text \<open>Settling a reservation: its row and its subscription are in the tables when the rest runs.\<close>

definition held :: "(sub_row list \<Rightarrow> hold_row list \<Rightarrow> bool) \<Rightarrow> hold_row \<Rightarrow> sub_row \<Rightarrow> sub_row list \<Rightarrow> hold_row list \<Rightarrow> bool" where
  "held T h r rs hs \<longleftrightarrow> T rs hs \<and> row_by hd_id (hd_id h) hs = Some h \<and> row_by sb_id (hd_sub h) rs = Some r"

lemma with_hold_keeps:
  assumes "\<And>h r a. hd_id h = hid \<Longrightarrow> txn (held T h r) (k (h\<lparr>hd_actor := a\<rparr>) r) (\<lambda>_. T)"
  shows "preserves (sub_inv T) (with_hold hid k)"
proof -
  have "txn T (bnd (statement (gets (\<lambda>s. row_by hd_id hid (holds s)))) (\<lambda>h. case h of None \<Rightarrow> ret None | Some h \<Rightarrow>
      bnd (to_hold h) (\<lambda>h. bnd (statement (gets (\<lambda>s. row_by sb_id (hd_sub h) (subs s)))) (\<lambda>r. case r of None \<Rightarrow> ret None | Some r \<Rightarrow> k h r)))) (\<lambda>_. T)"
  proof (rule txn_bnd [where R = "\<lambda>x rs hs. T rs hs \<and> row_by hd_id hid hs = x"])
    show "txn T (statement (gets (\<lambda>s. row_by hd_id hid (holds s)))) (\<lambda>x rs hs. T rs hs \<and> row_by hd_id hid hs = x)"
      by (intro txn_statement txn_gets) simp
  next
    fix x
    have "txn (\<lambda>rs hs. T rs hs \<and> row_by hd_id hid hs = Some h)
        (bnd (to_hold h) (\<lambda>h. bnd (statement (gets (\<lambda>s. row_by sb_id (hd_sub h) (subs s)))) (\<lambda>r. case r of None \<Rightarrow> ret None | Some r \<Rightarrow> k h r))) (\<lambda>_. T)" for h
    proof (rule txn_bnd [OF txn_to_hold])
      fix y
      let ?T = "\<lambda>rs hs. (T rs hs \<and> row_by hd_id hid hs = Some h) \<and> (\<exists>a. y = h\<lparr>hd_actor := a\<rparr>)"
      show "txn ?T (bnd (statement (gets (\<lambda>s. row_by sb_id (hd_sub y) (subs s)))) (\<lambda>r. case r of None \<Rightarrow> ret None | Some r \<Rightarrow> k y r)) (\<lambda>_. T)"
      proof (rule txn_bnd [where R = "\<lambda>r rs hs. ?T rs hs \<and> row_by sb_id (hd_sub y) rs = r"])
        show "txn ?T (statement (gets (\<lambda>s. row_by sb_id (hd_sub y) (subs s)))) (\<lambda>r rs hs. ?T rs hs \<and> row_by sb_id (hd_sub y) rs = r)"
          by (intro txn_statement txn_gets) simp
        fix r
        show "txn (\<lambda>rs hs. ?T rs hs \<and> row_by sb_id (hd_sub y) rs = r) (case r of None \<Rightarrow> ret None | Some r \<Rightarrow> k y r) (\<lambda>_. T)"
        proof (intro txn_option)
          show "txn (\<lambda>rs hs. ?T rs hs \<and> row_by sb_id (hd_sub y) rs = r) (ret None) (\<lambda>_. T)" by (intro txn_ret) simp
          fix r'
          assume "r = Some r'"
          then show "txn (\<lambda>rs hs. ?T rs hs \<and> row_by sb_id (hd_sub y) rs = r) (k y r') (\<lambda>_. T)"
          proof (cases "hd_id h = hid \<and> (\<exists>a. y = h\<lparr>hd_actor := a\<rparr>)")
            case True
            then obtain a where "y = h\<lparr>hd_actor := a\<rparr>" "hd_id h = hid" by blast
            then have "txn (held T h r') (k y r') (\<lambda>_. T)" using assms [of h r' a] by simp
            then show ?thesis by (rule txn_pre) (use \<open>y = h\<lparr>hd_actor := a\<rparr>\<close> \<open>hd_id h = hid\<close> \<open>r = Some r'\<close> in \<open>simp add: held_def\<close>)
          next
            case False
            then show ?thesis by (intro txnI) (auto simp: sub_inv_def dest: row_by_Some)
          qed
        qed
      qed
    qed
    then show "txn (\<lambda>rs hs. T rs hs \<and> row_by hd_id hid hs = x) (case x of None \<Rightarrow> ret None | Some h \<Rightarrow>
        bnd (to_hold h) (\<lambda>h. bnd (statement (gets (\<lambda>s. row_by sb_id (hd_sub h) (subs s)))) (\<lambda>r. case r of None \<Rightarrow> ret None | Some r \<Rightarrow> k h r))) (\<lambda>_. T)"
      by (intro txn_option) (auto intro: txn_ret)
  qed
  then show ?thesis unfolding with_hold_def or_none_def by (intro preserve_rules atomic_keeps)
qed

end
