(* ===== verification/SubLedger.thy ===== *)
theory SubLedger
  imports SubInvariants
begin

section \<open>Subscriptions: the ledger of credits\<close>

text \<open>
  What a service needs of a repository to keep an assertion about the tables (locale \<open>sub_tables\<close>), and two
  such assertions: the ledger of credits, and that reservations only move forward.
\<close>

subsection \<open>The contract of the repository\<close>

locale sub_tables =
  fixes J :: "sub_row list \<Rightarrow> hold_row list \<Rightarrow> bool"
  assumes create_keeps: "1 \<le> cs_seats q \<Longrightarrow> preserves (sub_inv J) (repo_create_subscription (planned_sub sid d t q))"
    and update_keeps: "preserves (sub_inv J) (repo_update_subscription sid u)"
    and consume_keeps: "0 < n \<Longrightarrow> preserves (sub_inv J) (repo_consume_sub_credits sid n)"
    and reserve_keeps: "0 < n \<Longrightarrow> preserves (sub_inv J) (repo_reserve_credits uid n org typ account actor model request)"
    and reconcile_keeps: "0 \<le> n \<Longrightarrow> preserves (sub_inv J) (repo_reconcile hid n)"
    and release_keeps: "preserves (sub_inv J) (repo_release hid)"
begin

lemma consume: "0 < rq_credits q \<Longrightarrow> preserves (sub_inv J) (consume_sub_credits q service usage description)"
  unfolding consume_sub_credits_def sub_of_scope_def Let_def by (intro preserve_rules consume_keeps)

lemma reserve: "0 < rq_credits q \<Longrightarrow> preserves (sub_inv J) (reserve_sub_credits q model request)"
  unfolding reserve_sub_credits_def sub_of_scope_def Let_def by (intro preserve_rules reserve_keeps)

lemma settle:
  "0 \<le> n \<Longrightarrow> preserves (sub_inv J) (reconcile_sub_reservation hid n)" "preserves (sub_inv J) (release_sub_reservation hid)"
  unfolding reconcile_sub_reservation_def release_sub_reservation_def Let_def
  by (intro preserve_rules reconcile_keeps release_keeps; assumption)+

lemma lifecycle:
  "1 \<le> cs_seats q \<Longrightarrow> preserves (sub_inv J) (create_subscription q)" "preserves (sub_inv J) (cancel_subscription sid immediate reason uid)"
  unfolding create_subscription_def cancel_subscription_def refuse_errors_def Let_def
  by (intro preserve_rules create_keeps update_keeps; assumption)+

lemma queries:
  "preserves (sub_inv J) (sub_get_subscription sid)" "preserves (sub_inv J) (get_credit_balance q)"
  "preserves (sub_inv J) (sub_get_subscriptions f page n)" "preserves (sub_inv J) (get_subscription_history sid page n)"
  unfolding sub_get_subscription_def get_credit_balance_def sub_get_subscriptions_def get_subscription_history_def sub_of_scope_def refuse_errors_def
  by (intro preserve_rules)+

lemma handlers:
  "preserves (sub_inv J) (handle_credits_consume_request msg)" "preserves (sub_inv J) (handle_logged m)"
proof -
  have pos: "1 \<le> n" if "\<not> n \<le> 0" "\<exists>k. n = of_int k" for n :: rat using that by auto
  show "preserves (sub_inv J) (handle_credits_consume_request msg)"
    unfolding handle_credits_consume_request_def by (intro preserve_rules consume; simp add: pos)
  show "preserves (sub_inv J) (handle_logged m)" unfolding handle_logged_def by (intro preserve_rules)
qed

lemma step: "sub_inv J s \<Longrightarrow> sub_inv J (sub_step op s)"
proof -
  assume s: "sub_inv J s"
  note run = preserves_after [of "sub_inv J", OF _ s]
  show ?thesis using s
    by (cases op) (auto simp: sub_step_def intro!: run consume reserve settle lifecycle queries handlers preserve_rules)
qed

end

sublocale sub_tables \<subseteq> tables: invariant_system sub_step "sub_inv J"
  by unfold_locales (rule step)

subsection \<open>The ledger\<close>

text \<open>What a reservation charges: its estimate while pending, what was used once reconciled, nothing once released.\<close>

definition charge :: "hold_row \<Rightarrow> int" where
  "charge h = hd_estimated h - hd_refunded h + hd_extra h"

definition charges :: "string \<Rightarrow> hold_row list \<Rightarrow> int" where
  "charges sid hs = (\<Sum>h\<leftarrow>filter (\<lambda>h. hd_sub h = sid) hs. charge h)"

definition hold_ok :: "hold_row \<Rightarrow> bool" where
  "hold_ok h \<longleftrightarrow> 0 \<le> hd_estimated h \<and> 0 \<le> hd_refunded h \<and> 0 \<le> hd_extra h \<and> (case hd_status h of
       Hold_pending \<Rightarrow> hd_refunded h = 0 \<and> hd_extra h = 0
     | Hold_reconciled \<Rightarrow> hd_actual h = Some (charge h) \<and> 0 \<le> charge h
     | Hold_released \<Rightarrow> charge h = 0)"

text \<open>
  \<open>ledger k sid\<close> is the ledger in the middle of a transaction: \<open>k\<close> credits of the subscription \<open>sid\<close> are
  taken that no reservation shows yet (or are still shown, when \<open>k\<close> is negative).
\<close>

definition balanced :: "int \<Rightarrow> string \<Rightarrow> hold_row list \<Rightarrow> sub_row \<Rightarrow> bool" where
  "balanced k sid hs r \<longleftrightarrow> sb_used r + sb_remaining r = sb_allocated r + sb_rolled_over r \<and> 0 \<le> sb_remaining r
     \<and> charges (sb_id r) hs + (if sb_id r = sid then k else 0) \<le> sb_used r"

definition ledger :: "int \<Rightarrow> string \<Rightarrow> sub_row list \<Rightarrow> hold_row list \<Rightarrow> bool" where
  "ledger k sid rs hs \<longleftrightarrow> unique_key sb_id rs \<and> unique_key hd_id hs \<and> unique_some hd_request hs \<and> list_all hold_ok hs
     \<and> hd_sub ` set hs \<subseteq> sb_id ` set rs \<and> list_all (balanced k sid hs) rs"

lemma ledger_at: "ledger 0 [] rs hs \<Longrightarrow> ledger 0 sid rs hs"
  by (simp add: ledger_def balanced_def [abs_def])

lemma charges_append: "charges sid (hs @ [h]) = charges sid hs + (if hd_sub h = sid then charge h else 0)"
  by (simp add: charges_def)

lemma hold_ok_charge: "hold_ok h \<Longrightarrow> 0 \<le> charge h"
  by (auto simp: hold_ok_def charge_def split: hold_status.splits)

lemma charges_nonneg: "list_all hold_ok hs \<Longrightarrow> 0 \<le> charges sid hs"
  by (induction hs) (auto simp: charges_def dest: hold_ok_charge)

lemma charge_le_charges: "list_all hold_ok hs \<Longrightarrow> h \<in> set hs \<Longrightarrow> charge h \<le> charges (hd_sub h) hs"
proof (induction hs)
  case (Cons a hs)
  have "0 \<le> charge a" "0 \<le> charges (hd_sub h) hs" using Cons.prems hold_ok_charge charges_nonneg by auto
  then show ?case using Cons by (auto simp: charges_def)
qed simp

lemma charges_update:
  assumes "unique_key hd_id hs" and "row_by hd_id hid hs = Some h" and "\<And>h. hd_sub (f h) = hd_sub h"
  shows "charges sid (update_where (\<lambda>h. hd_id h = hid) f hs) = charges sid hs + (if hd_sub h = sid then charge (f h) - charge h else 0)"
  using assms
proof (induction hs)
  case (Cons a hs)
  show ?case
  proof (cases "hd_id a = hid")
    case True
    have "hd_id r \<noteq> hid" if "r \<in> set hs" for r
      using imageI [OF that, of hd_id] True Cons.prems(1) by (auto simp: unique_key_def)
    then have "update_where (\<lambda>h. hd_id h = hid) f hs = hs" by (intro update_where_none)
    then show ?thesis using True Cons.prems by (auto simp: update_where_def row_by_def charges_def)
  next
    case False
    then show ?thesis using Cons by (auto simp: update_where_def row_by_def charges_def unique_key_def)
  qed
qed (simp add: row_by_def)

lemma ledger_row: "ledger k sid rs hs \<Longrightarrow> row_by sb_id i rs = Some r \<Longrightarrow> balanced k sid hs r \<and> sb_id r = i"
  using row_by_Some by (fastforce simp: ledger_def list_all_iff)

text \<open>Changing one subscription.\<close>

lemma ledger_update_sub:
  assumes "ledger k sid rs hs" and "row_by sb_id i rs = Some r" and "\<And>r. sb_id (f r) = sb_id r"
    and "balanced k' sid' hs (f r)" and "\<And>x. sb_id x \<noteq> i \<Longrightarrow> balanced k sid hs x \<Longrightarrow> balanced k' sid' hs x"
  shows "ledger k' sid' (update_where (\<lambda>r. sb_id r = i) f rs) hs"
proof -
  have only: "x = r" if "x \<in> set rs" "sb_id x = i" for x
    using row_by_unique [of sb_id rs x] assms(1,2) that by (simp add: ledger_def)
  have "balanced k' sid' hs (if sb_id x = i then f x else x)" if "x \<in> set rs" for x
    using only [OF that] assms(1,4,5) that by (auto simp: ledger_def list_all_iff)
  then have "list_all (balanced k' sid' hs) (update_where (\<lambda>r. sb_id r = i) f rs)"
    unfolding update_where_def list.pred_map by (simp add: list_all_iff)
  moreover have "map sb_id (update_where (\<lambda>r. sb_id r = i) f rs) = map sb_id rs" using assms(3) by (intro map_key_update_where)
  then have "sb_id ` set (update_where (\<lambda>r. sb_id r = i) f rs) = sb_id ` set rs" by (metis set_map)
  ultimately show ?thesis using assms(1,3) unique_key_update_where [of sb_id f] by (simp add: ledger_def)
qed

lemma ledger_take:
  assumes "ledger 0 sid rs hs" and "row_by sb_id sid rs = Some r" and "n \<le> sb_remaining r"
  shows "ledger n sid (update_where (\<lambda>r. sb_id r = sid) (take_row n now) rs) hs"
  using ledger_row [OF assms(1,2)] assms
  by (intro ledger_update_sub [where r = r]) (auto simp: take_row_def balanced_def)

lemma ledger_refund:
  assumes "ledger 0 sid rs hs" and "row_by sb_id sid rs = Some r" and "0 \<le> n" and "n \<le> charges sid hs"
  shows "ledger (- n) sid (update_where (\<lambda>r. sb_id r = sid) (refund_row n now) rs) hs"
  using ledger_row [OF assms(1,2)] assms
  by (intro ledger_update_sub [where r = r]) (auto simp: refund_row_def balanced_def)

text \<open>Finishing a reservation with what was taken or given back.\<close>

lemma unique_some_update: "(\<And>r. key (f r) = key r) \<Longrightarrow> unique_some key (update_where P f rows) = unique_some key rows"
  by (simp add: unique_some_def map_key_update_where)

lemma ledger_finish:
  assumes "ledger k (hd_sub h) rs hs" and "row_by hd_id hid hs = Some h" and "hold_ok (f h)" and "charge (f h) = charge h + k"
    and "\<And>h. hd_id (f h) = hd_id h" and "\<And>h. hd_sub (f h) = hd_sub h" and "\<And>h. hd_request (f h) = hd_request h"
  shows "ledger 0 [] rs (update_where (\<lambda>h. hd_id h = hid) f hs)"
proof -
  let ?hs = "update_where (\<lambda>h. hd_id h = hid) f hs"
  have uniq: "unique_key hd_id hs" using assms(1) by (simp add: ledger_def)
  have only: "x = h" if "x \<in> set hs" "hd_id x = hid" for x
    using row_by_unique [OF uniq that(1)] assms(2) that by simp
  have "hold_ok (if hd_id x = hid then f x else x)" if "x \<in> set hs" for x
    using only [OF that] assms(1,3) that by (auto simp: ledger_def list_all_iff)
  then have "list_all hold_ok ?hs" unfolding update_where_def list.pred_map by (simp add: list_all_iff)
  moreover have "charges sid ?hs = charges sid hs + (if hd_sub h = sid then k else 0)" for sid
    using charges_update [OF uniq assms(2,6)] assms(4) by simp
  then have "list_all (balanced 0 [] ?hs) rs" using assms(1) by (auto simp: ledger_def list_all_iff balanced_def)
  moreover have "hd_sub ` set ?hs = hd_sub ` set hs"
    using map_key_update_where [of hd_sub f, OF assms(6)] by (metis set_map)
  ultimately show ?thesis using assms(1) unique_key_update_where [of hd_id f, OF assms(5)] unique_some_update [of hd_request f, OF assms(7)]
    by (simp add: ledger_def)
qed

lemma ledger_new_sub:
  assumes "ledger n (hd_sub h) rs hs" and "hd_sub h \<in> sb_id ` set rs" and "hold_ok h" and "charge h = n" and "hd_id h \<notin> hd_id ` set hs"
    and "unique_some hd_request (hs @ [h])"
  shows "ledger 0 [] rs (hs @ [h])"
  using assms by (auto simp: ledger_def unique_key_append list_all_iff balanced_def charges_append)

end
