(* ===== verification/SubTheorems.thy ===== *)
theory SubTheorems
  imports SubLedger
begin

section \<open>Subscriptions: what every history keeps\<close>

lemma update_sub_keeps:
  assumes "\<And>rs hs r. J rs hs \<Longrightarrow> row_by sb_id sid rs = Some r \<Longrightarrow> P r \<Longrightarrow> sub_fits (f r) \<Longrightarrow> J (update_where (\<lambda>r. sb_id r = sid) f rs) hs"
  shows "preserves (sub_inv J) (update_sub sid P f)"
proof -
  have "preserves (sub_inv J) (write_sub sid P f)"
    using assms by (intro preservesI) (auto simp: write_sub_def sub_inv_def split: option.split)
  then show ?thesis unfolding update_sub_def or_none_def by (intro preserve_rules)
qed

lemma create_sub_keeps:
  assumes "\<And>rs hs r. J rs hs \<Longrightarrow> sb_id r \<notin> sb_id ` set rs \<Longrightarrow> sub_fits r \<Longrightarrow> \<exists>p a b. r = planned\<lparr>sb_price := p, sb_created_at := a, sb_updated_at := b\<rparr>
      \<Longrightarrow> J (rs @ [r]) hs"
  shows "preserves (sub_inv J) (repo_create_subscription planned)"
proof -
  have "preserves (sub_inv J) (\<lambda>s. if \<not> sub_fits r \<or> sb_id r \<in> sb_id ` set (subs s) then (Inl DbError, s) else (Inr (), s\<lparr>subs := subs s @ [r]\<rparr>))"
    if "\<exists>p a b. r = planned\<lparr>sb_price := p, sb_created_at := a, sb_updated_at := b\<rparr>" for r
    using assms that by (intro preservesI) (auto simp: sub_inv_def)
  then show ?thesis unfolding repo_create_subscription_def or_none_def Let_def by (intro preserve_rules) blast+
qed

subsection \<open>The ledger\<close>

lemma ledger_reserve: "0 < n \<Longrightarrow> txn (ledger 0 []) (hold_credits sc n model request) (\<lambda>_. ledger 0 [])"
proof -
  assume n: "0 < n"
  let ?J = "ledger 0 []"
  have insert: "txn (\<lambda>rs hs. ledger n (sb_id u) rs hs \<and> sb_id u \<in> sb_id ` set rs)
      (bnd (fresh_hex 16) (\<lambda>hex. bnd (statement (insert_hold (new_hold (''res_'' @ hex) sc u n model request now))) (\<lambda>h. bnd (to_hold h) (\<lambda>x. ret (Some x)))))
      (\<lambda>_. ?J)" for u now
  proof (rule txn_bnd [OF txn_fresh_hex], rule txn_bnd [where R = "\<lambda>_. ?J"])
    show "txn (\<lambda>rs hs. ledger n (sb_id u) rs hs \<and> sb_id u \<in> sb_id ` set rs)
        (statement (insert_hold (new_hold (''res_'' @ hex) sc u n model request now))) (\<lambda>_. ?J)" for hex
      using n by (intro txn_statement txn_insert_hold ledger_new_sub) (auto simp: new_hold_def hold_ok_def charge_def)
    show "txn ?J (bnd (to_hold h) (\<lambda>x. ret (Some x))) (\<lambda>_. ?J)" for h by (intro txn_keep preserve_rules)
  qed
  have take: "txn (\<lambda>rs hs. ?J rs hs \<and> sub \<in> set rs) (statement (with_int n (write_sub (sb_id sub) (\<lambda>r. n \<le> sb_remaining r) (take_row n now))))
      (\<lambda>x rs hs. case x of None \<Rightarrow> ?J rs hs | Some u \<Rightarrow> ledger n (sb_id u) rs hs \<and> sb_id u \<in> sb_id ` set rs)" for sub now
  proof (intro txn_statement txn_with_int txn_write_sub)
    fix rs hs r
    assume a: "?J rs hs \<and> sub \<in> set rs" and r: "row_by sb_id (sb_id sub) rs = Some r" "n \<le> sb_remaining r"
    have "ledger n (sb_id sub) (update_where (\<lambda>r. sb_id r = sb_id sub) (take_row n now) rs) hs"
      using a r by (intro ledger_take [OF ledger_at, where r = r]) auto
    moreover have "sb_id (take_row n now r) = sb_id sub" using row_by_Some [OF r(1)] by (simp add: take_row_def)
    moreover have "map sb_id (update_where (\<lambda>r. sb_id r = sb_id sub) (take_row n now) rs) = map sb_id rs"
      by (intro map_key_update_where) (simp add: take_row_def)
    from arg_cong [OF this, of set] have "sb_id ` set (update_where (\<lambda>r. sb_id r = sb_id sub) (take_row n now) rs) = sb_id ` set rs" by simp
    ultimately show "case Some (take_row n now r) of None \<Rightarrow> ?J (update_where (\<lambda>r. sb_id r = sb_id sub) (take_row n now) rs) hs
        | Some u \<Rightarrow> ledger n (sb_id u) (update_where (\<lambda>r. sb_id r = sb_id sub) (take_row n now) rs) hs
            \<and> sb_id u \<in> sb_id ` set (update_where (\<lambda>r. sb_id r = sb_id sub) (take_row n now) rs)"
      using a by simp
  qed simp
  have found: "sub \<in> set rs" if "newest_sub sc True rs = Some sub" for rs sub
    using that first_row_in unfolding newest_sub_def by fastforce
  show ?thesis
    unfolding hold_credits_def
    apply (rule txn_bnd [where R = "\<lambda>_. ?J"])
     apply (intro txn_keep preserve_rules)
    apply (rule txn_option)
     apply (rule txn_bnd [where R = "\<lambda>x rs hs. ?J rs hs \<and> (\<forall>sub. x = Some sub \<longrightarrow> sub \<in> set rs)"])
      apply (intro txn_statement txn_gets, simp add: found)
     apply (rule txn_option)
      apply (rule txn_ret, simp)
     apply (rule txn_bnd [OF txn_keep], intro preserve_rules)
     apply (rule txn_bnd [OF txn_pre [OF take]], simp)
     apply (rule txn_option, rule txn_ret, simp)
     apply (rule txn_pre [OF insert], simp)
    by (intro txn_keep preserve_rules)
qed

lemma ledger_settle_hold:
  assumes "hold_ok (f h)" and "charge (f h) = charge h + k"
    and "\<And>h. hd_id (f h) = hd_id h" and "\<And>h. hd_sub (f h) = hd_sub h" and "\<And>h. hd_request (f h) = hd_request h"
  shows "txn (\<lambda>rs hs. ledger k (hd_sub h) rs hs \<and> row_by hd_id (hd_id h) hs = Some h) (settle_hold (hd_id h) f left msg) (\<lambda>_. ledger 0 [])"
  unfolding settle_hold_def
proof (rule txn_bnd [where R = "\<lambda>_. ledger 0 []"])
  show "txn (\<lambda>rs hs. ledger k (hd_sub h) rs hs \<and> row_by hd_id (hd_id h) hs = Some h) (statement (write_hold (hd_id h) f)) (\<lambda>_. ledger 0 [])"
    using assms by (intro txn_statement txn_write_hold) (auto intro: ledger_finish)
  show "txn (ledger 0 []) (case x of None \<Rightarrow> ret None | Some h \<Rightarrow> bnd (to_hold h) (\<lambda>x. ret (Some \<lparr>st_hold = x, st_remaining = left, st_message = msg\<rparr>))) (\<lambda>_. ledger 0 [])" for x
    by (intro txn_keep preserve_rules)
qed

text \<open>A reservation that is found while the ledger holds is sound.\<close>

lemma held_sound: "ledger k sid rs hs \<Longrightarrow> row_by hd_id hid hs = Some h \<Longrightarrow> hold_ok h \<and> charge h \<le> charges (hd_sub h) hs"
proof -
  assume l: "ledger k sid rs hs" and "row_by hd_id hid hs = Some h"
  then have h: "h \<in> set hs" by (auto dest: row_by_Some)
  have all: "list_all hold_ok hs" using l by (simp add: ledger_def)
  then have "hold_ok h" using h by (simp add: list_all_iff)
  with charge_le_charges [OF all h] show "hold_ok h \<and> charge h \<le> charges (hd_sub h) hs" by simp
qed

lemma txn_held_ok:
  assumes "hold_ok h \<Longrightarrow> txn (held (ledger k sid) h r) m Q"
  shows "txn (held (ledger k sid) h r) m Q"
proof (cases "hold_ok h")
  case False
  then show ?thesis using held_sound by (intro txnI) (fastforce simp: sub_inv_def held_def)
qed (rule assms)

lemma ledger_reconcile: "0 \<le> actual \<Longrightarrow> preserves (sub_inv (ledger 0 [])) (repo_reconcile hid actual)"
  unfolding repo_reconcile_def
proof (rule with_hold_keeps, rule txn_held_ok)
  fix h r a
  assume actual: "0 \<le> actual" and id: "hd_id h = hid" and ok: "hold_ok h"
  let ?J = "ledger 0 []"
  let ?refunded = "max (hd_estimated h - actual) 0" and ?extra = "max (actual - hd_estimated h) 0"
  let ?mid = "\<lambda>k rs hs. ledger k (hd_sub h) rs hs \<and> row_by hd_id hid hs = Some h"
  have finish: "txn (?mid (?extra - ?refunded)) (settle_hold hid (reconciled_row actual ?refunded ?extra left now) left msg) (\<lambda>_. ?J)"
    if "hd_status h = Hold_pending" for now left msg
    using that actual ok unfolding id [symmetric]
    by (intro ledger_settle_hold) (auto simp: reconciled_row_def hold_ok_def charge_def)
  have enough: "?refunded \<le> charges (hd_sub h) hs" if "hd_status h = Hold_pending" "ledger 0 [] rs hs" "row_by hd_id (hd_id h) hs = Some h" for rs hs
    using held_sound [OF that(2,3)] that(1) ok actual by (auto simp: hold_ok_def charge_def)
  have refund: "txn (held ?J h r) (statement (write_sub (hd_sub h) (\<lambda>_. True) (refund_row ?refunded now)))
      (\<lambda>u rs hs. case u of None \<Rightarrow> ?J rs hs | Some _ \<Rightarrow> ?mid (- ?refunded) rs hs)" if "hd_status h = Hold_pending" for now
    using enough [OF that] id
    by (intro txn_statement txn_write_sub) (auto simp only: held_def option.case opt_all_def intro!: ledger_refund [OF ledger_at])
  have extra: "txn (held ?J h r) (statement (with_int ?extra (write_sub (hd_sub h) (\<lambda>r. ?extra \<le> sb_remaining r) (take_row ?extra now))))
      (\<lambda>u rs hs. case u of None \<Rightarrow> ?J rs hs | Some _ \<Rightarrow> ?mid ?extra rs hs)" for now
    using id by (intro txn_statement txn_with_int txn_write_sub) (auto simp: held_def intro!: ledger_take [OF ledger_at])
  have all: "txn (held ?J h r) (ret x) (\<lambda>_. ?J)" "txn ?J (ret x) (\<lambda>_. ?J)" for x :: "settlement option"
    by (intro txn_ret; simp add: held_def)+
  have sel: "hd_status (h\<lparr>hd_actor := a\<rparr>) = hd_status h" "hd_estimated (h\<lparr>hd_actor := a\<rparr>) = hd_estimated h" "hd_sub (h\<lparr>hd_actor := a\<rparr>) = hd_sub h"
    by simp_all
  show "txn (held ?J h r) (reconcile_held hid actual (h\<lparr>hd_actor := a\<rparr>) r) (\<lambda>_. ?J)"
    unfolding reconcile_held_def Let_def sel
  proof (intro txn_if txn_bnd_keep [of "held ?J h r" "gets now_us"] preserve_rules all, goal_cases)
    case (1 now)
    then show ?case by (intro txn_bnd [OF refund] txn_option; (use finish in \<open>auto intro: all\<close>)?)
  next
    case (2 now)
    then show ?case by (intro txn_bnd [OF extra] txn_option; (use finish in \<open>auto intro: all\<close>)?)
  next
    case (3 now)
    then show ?case by (intro txn_pre [OF finish]) (auto simp: held_def id intro: ledger_at)
  qed
qed

lemma ledger_release: "preserves (sub_inv (ledger 0 [])) (repo_release hid)"
  unfolding repo_release_def
proof (rule with_hold_keeps, rule txn_held_ok)
  fix h r a
  assume id: "hd_id h = hid" and ok: "hold_ok h"
  let ?J = "ledger 0 []"
  let ?mid = "\<lambda>rs hs. ledger (- hd_estimated h) (hd_sub h) rs hs \<and> row_by hd_id hid hs = Some h"
  have finish: "txn ?mid (settle_hold hid (released_hold_row (hd_estimated h) left now) left msg) (\<lambda>_. ?J)" if "hd_status h = Hold_pending" for now left msg
    using that ok unfolding id [symmetric] by (intro ledger_settle_hold) (auto simp: released_hold_row_def hold_ok_def charge_def)
  have enough: "hd_estimated h \<le> charges (hd_sub h) hs \<and> 0 \<le> hd_estimated h"
    if "hd_status h = Hold_pending" "ledger 0 [] rs hs" "row_by hd_id (hd_id h) hs = Some h" for rs hs
    using held_sound [OF that(2,3)] that(1) by (auto simp: hold_ok_def charge_def)
  have refund: "txn (held ?J h r) (statement (write_sub (hd_sub h) (\<lambda>_. True) (refund_row (hd_estimated h) now)))
      (\<lambda>u rs hs. case u of None \<Rightarrow> ?J rs hs | Some _ \<Rightarrow> ?mid rs hs)" if "hd_status h = Hold_pending" for now
    using enough [OF that] id
    by (intro txn_statement txn_write_sub) (auto simp only: held_def option.case opt_all_def intro!: ledger_refund [OF ledger_at])
  have all: "txn (held ?J h r) (ret x) (\<lambda>_. ?J)" "txn ?J (ret x) (\<lambda>_. ?J)" for x :: "settlement option"
    by (intro txn_ret; simp add: held_def)+
  have sel: "hd_status (h\<lparr>hd_actor := a\<rparr>) = hd_status h" "hd_estimated (h\<lparr>hd_actor := a\<rparr>) = hd_estimated h" "hd_sub (h\<lparr>hd_actor := a\<rparr>) = hd_sub h"
    by simp_all
  show "txn (held ?J h r) (release_held hid (h\<lparr>hd_actor := a\<rparr>) r) (\<lambda>_. ?J)"
    unfolding release_held_def sel
  proof (intro txn_if txn_bnd_keep [of "held ?J h r" "gets now_us"] preserve_rules all, goal_cases)
    case (1 now)
    then have "hd_status h = Hold_pending" by (cases "hd_status h") simp_all
    then show ?case by (intro txn_bnd [OF refund] txn_option; (use finish in \<open>auto intro: all\<close>)?)
  qed
qed

interpretation credits: sub_tables "ledger 0 []"
proof
  fix q :: create_sub and sid d t
  assume "1 \<le> cs_seats q"
  show "preserves (sub_inv (ledger 0 [])) (repo_create_subscription (planned_sub sid d t q))"
  proof (rule create_sub_keeps)
    fix rs hs r
    assume l: "ledger 0 [] rs hs" and new: "sb_id r \<notin> sb_id ` set rs" and fits: "sub_fits r"
      and "\<exists>p a b. r = planned_sub sid d t q\<lparr>sb_price := p, sb_created_at := a, sb_updated_at := b\<rparr>"
    then have r: "sb_used r = 0" "sb_remaining r = sb_allocated r" "sb_rolled_over r = 0" by (auto simp: planned_sub_def Let_def)
    have "hd_sub h \<noteq> sb_id r" if "h \<in> set hs" for h using imageI [OF that, of hd_sub] l new by (auto simp: ledger_def)
    then have "filter (\<lambda>h. hd_sub h = sb_id r) hs = []" by (simp add: filter_empty_conv)
    then have "balanced 0 [] hs r" using r fits by (simp add: balanced_def charges_def sub_fits_def)
    then show "ledger 0 [] (rs @ [r]) hs" using l new by (auto simp: ledger_def unique_key_append)
  qed
next
  fix sid u
  show "preserves (sub_inv (ledger 0 [])) (repo_update_subscription sid u)"
    unfolding repo_update_subscription_def
    by (intro preserve_rules update_sub_keeps, rule ledger_update_sub)
      (auto simp: apply_sub_update_def balanced_def dest: ledger_row)
next
  fix sid and n :: int
  assume n: "0 < n"
  show "preserves (sub_inv (ledger 0 [])) (repo_consume_sub_credits sid n)"
    unfolding repo_consume_sub_credits_def
    by (intro preserve_rules update_sub_keeps, rule ledger_update_sub)
      (use n in \<open>auto simp: take_row_def balanced_def dest: ledger_row\<close>)
next
  fix uid and n :: int and org pt account actor model request
  assume n: "0 < n"
  show "preserves (sub_inv (ledger 0 [])) (repo_reserve_credits uid n org pt account actor model request)"
    unfolding repo_reserve_credits_def by (intro preserve_rules atomic_keeps ledger_reserve n)
qed (simp_all add: ledger_reconcile ledger_release)

text \<open>
  C17. The credits of a subscription are accounted for in every history, whatever fails: what is used and what
  remains make up what was allocated, nothing is overdrawn, and what is used covers the reservations,
  each with its estimate while it is pending, what was used once reconciled and nothing once released.
\<close>
theorem credits_are_accounted_for:
  assumes "sub_inv (ledger 0 []) s" and "r \<in> set (subs (fold sub_step ops s))"
  shows "sb_used r + sb_remaining r = sb_allocated r + sb_rolled_over r \<and> 0 \<le> sb_remaining r
    \<and> charges (sb_id r) (holds (fold sub_step ops s)) \<le> sb_used r"
  using credits.tables.run_inv [OF assms(1), of ops] assms(2) by (simp add: sub_inv_def ledger_def balanced_def list_all_iff)

end
