(* ===== verification/SubHolds.thy ===== *)
theory SubHolds
  imports SubTheorems
begin

section \<open>Subscriptions: reservations are settled once\<close>

text \<open>What no operation changes of a reservation.\<close>

definition frozen :: "hold_row \<Rightarrow> hold_row" where
  "frozen h = h\<lparr>hd_actual := None, hd_refunded := 0, hd_extra := 0, hd_after_finalize := None, hd_status := Hold_pending,
     hd_reconciled_at := None, hd_released_at := None, hd_updated_at := 0\<rparr>"

definition hold_le :: "hold_row \<Rightarrow> hold_row \<Rightarrow> bool" where
  "hold_le h h' \<longleftrightarrow> frozen h' = frozen h \<and> (hd_status h \<noteq> Hold_pending \<longrightarrow> h' = h)"

definition holds_le :: "hold_row list \<Rightarrow> sub_row list \<Rightarrow> hold_row list \<Rightarrow> bool" where
  "holds_le hs0 rs hs \<longleftrightarrow> unique_key hd_id hs \<and> list_all2 hold_le hs0 (take (length hs0) hs)"

lemma frozen_settled: "frozen (reconciled_row actual refunded extra left now h) = frozen h" "frozen (released_hold_row refunded left now h) = frozen h"
  by (simp_all add: frozen_def reconciled_row_def released_hold_row_def)

lemma frozen_id: "frozen h' = frozen h \<Longrightarrow> hd_id h' = hd_id h"
proof -
  have "hd_id (frozen h) = hd_id h" for h by (simp add: frozen_def)
  then show "frozen h' = frozen h \<Longrightarrow> hd_id h' = hd_id h" by metis
qed

lemma holds_le_append: "holds_le hs0 rs hs \<Longrightarrow> hd_id h \<notin> hd_id ` set hs \<Longrightarrow> holds_le hs0 rs' (hs @ [h])"
proof -
  assume le: "holds_le hs0 rs hs" and new: "hd_id h \<notin> hd_id ` set hs"
  then have "length hs0 - length hs = 0" by (auto simp: holds_le_def dest!: list_all2_lengthD)
  with le new show "holds_le hs0 rs' (hs @ [h])" by (simp add: holds_le_def unique_key_append)
qed

lemma holds_le_settle:
  assumes "holds_le hs0 rs hs" and "row_by hd_id hid hs = Some h" and "hd_status h = Hold_pending" and "\<And>h. frozen (f h) = frozen h"
  shows "holds_le hs0 rs' (update_where (\<lambda>h. hd_id h = hid) f hs)"
proof -
  let ?g = "\<lambda>h. if hd_id h = hid then f h else h"
  have id: "hd_id (f h) = hd_id h" for h using assms(4) by (rule frozen_id)
  have uniq: "unique_key hd_id hs" using assms(1) by (simp add: holds_le_def)
  have step: "hold_le a (?g b)" if "hold_le a b" "b \<in> set hs" for a b
  proof (cases "hd_id b = hid")
    case True
    then have "b = h" using row_by_unique [OF uniq that(2)] assms(2) by simp
    then show ?thesis using True that(1) assms(3,4) by (auto simp: hold_le_def)
  qed (simp add: that(1))
  have "list_all2 hold_le hs0 (take (length hs0) hs)" using assms(1) by (simp add: holds_le_def)
  then have "list_all2 (\<lambda>a b. hold_le a (?g b)) hs0 (take (length hs0) hs)"
    by (rule list.rel_mono_strong) (intro step, auto dest: in_set_takeD)
  then have "list_all2 hold_le hs0 (map ?g (take (length hs0) hs))" by (simp add: list_all2_map2)
  then show ?thesis using uniq unique_key_update_where [of hd_id f, OF id] by (simp add: holds_le_def update_where_def take_map)
qed

text \<open>The pieces of the transactions.\<close>

lemma holds_insert: "txn (holds_le hs0) (insert_hold h) (\<lambda>_. holds_le hs0)"
  by (intro txn_insert_hold holds_le_append)

lemma holds_write_sub: "txn (holds_le hs0) (write_sub sid P f) (\<lambda>_. holds_le hs0)"
  by (intro txn_write_sub) (simp_all add: holds_le_def)

lemma holds_reserve: "txn (holds_le hs0) (hold_credits sc n model request) (\<lambda>_. holds_le hs0)"
proof -
  have put: "txn (holds_le hs0) (statement (with_int n (write_sub sid P f))) (\<lambda>_. holds_le hs0)" for sid P f
    by (intro txn_statement txn_with_int holds_write_sub)
  have insert: "txn (holds_le hs0) (statement (insert_hold h)) (\<lambda>_. holds_le hs0)" for h
    by (intro txn_statement holds_insert)
  show ?thesis
    unfolding hold_credits_def
    by (intro txn_bnd [OF put] txn_bnd [OF insert] txn_bnd_keep txn_option txn_ret txn_keep preserve_rules)
qed

lemma pending_write:
  assumes "hd_status h = Hold_pending" and "hd_id h = hid" and "\<And>h. frozen (f h) = frozen h"
  shows "txn (\<lambda>rs hs. holds_le hs0 rs hs \<and> row_by hd_id hid hs = Some h) (settle_hold hid f left msg) (\<lambda>_. holds_le hs0)"
  unfolding settle_hold_def
proof (rule txn_bnd [where R = "\<lambda>_. holds_le hs0"])
  show "txn (\<lambda>rs hs. holds_le hs0 rs hs \<and> row_by hd_id hid hs = Some h) (statement (write_hold hid f)) (\<lambda>_. holds_le hs0)"
    using assms by (intro txn_statement txn_write_hold) (auto intro: holds_le_settle)
  show "txn (holds_le hs0) (case x of None \<Rightarrow> ret None | Some h \<Rightarrow> bnd (to_hold h) (\<lambda>x. ret (Some \<lparr>st_hold = x, st_remaining = left, st_message = msg\<rparr>)))
      (\<lambda>_. holds_le hs0)" for x
    by (intro txn_keep preserve_rules)
qed

lemma holds_settle:
  "preserves (sub_inv (holds_le hs0)) (repo_reconcile hid actual)" "preserves (sub_inv (holds_le hs0)) (repo_release hid)"
proof -
  let ?J = "holds_le hs0"
  let ?mid = "\<lambda>h rs hs. ?J rs hs \<and> row_by hd_id hid hs = Some h"
  have mid: "txn (held ?J h r) m (\<lambda>_. ?mid h)" if "hd_id h = hid" "txn (?mid h) m (\<lambda>_. ?mid h)" for h r and m :: "sub_row option sub_io"
    using that by (intro txn_pre [OF that(2)]) (simp add: held_def)
  have put: "txn (held ?J h r) (statement (write_sub sid P f)) (\<lambda>_. ?mid h)"
    "txn (held ?J h r) (statement (with_int n (write_sub sid P f))) (\<lambda>_. ?mid h)" if "hd_id h = hid" for h r sid P f n
    using that by (intro mid txn_statement txn_with_int txn_write_sub; simp add: holds_le_def)+
  have stop: "txn (held ?J h r) (ret x) (\<lambda>_. ?J)" "txn (?mid h) (ret x) (\<lambda>_. ?J)" for h r and x :: "settlement option"
    by (intro txn_ret; simp add: held_def)+
  have finish: "txn (?mid h) (settle_hold hid f left msg) (\<lambda>_. ?J)" "txn (held ?J h r) (settle_hold hid f left msg) (\<lambda>_. ?J)"
    if "hd_id h = hid" "hd_status h = Hold_pending" "\<And>h. frozen (f h) = frozen h" for h r f left msg
    using that pending_write [OF that(2,1,3)] txn_pre [OF pending_write [OF that(2,1,3)], of "held ?J h r"] by (auto simp: held_def)
  have sel: "hd_status (h\<lparr>hd_actor := a\<rparr>) = hd_status h" "hd_estimated (h\<lparr>hd_actor := a\<rparr>) = hd_estimated h" "hd_sub (h\<lparr>hd_actor := a\<rparr>) = hd_sub h" for h a
    by simp_all
  have pending: "hd_status h = Hold_pending" if "hd_status h \<noteq> Hold_released" "hd_status h \<noteq> Hold_reconciled" for h
    using that by (cases "hd_status h") simp_all
  show "preserves (sub_inv ?J) (repo_reconcile hid actual)"
    unfolding repo_reconcile_def
  proof (rule with_hold_keeps)
    fix h :: hold_row and r a
    assume id: "hd_id h = hid"
    show "txn (held ?J h r) (reconcile_held hid actual (h\<lparr>hd_actor := a\<rparr>) r) (\<lambda>_. ?J)"
      unfolding reconcile_held_def Let_def sel
      by (intro txn_if txn_bnd_keep [of "held ?J h r" "gets now_us"] txn_bnd [OF put(1) [OF id]] txn_bnd [OF put(2) [OF id]] txn_option preserve_rules stop)
        (simp_all add: finish id frozen_settled)
  qed
  show "preserves (sub_inv ?J) (repo_release hid)"
    unfolding repo_release_def
  proof (rule with_hold_keeps)
    fix h :: hold_row and r a
    assume id: "hd_id h = hid"
    show "txn (held ?J h r) (release_held hid (h\<lparr>hd_actor := a\<rparr>) r) (\<lambda>_. ?J)"
      unfolding release_held_def sel
      by (intro txn_if txn_bnd_keep [of "held ?J h r" "gets now_us"] txn_bnd [OF put(1) [OF id]] txn_option preserve_rules stop)
        (auto intro!: finish [OF id] pending simp: frozen_settled)
  qed
qed

interpretation settled: sub_tables "holds_le hs0" for hs0
proof
  show "preserves (sub_inv (holds_le hs0)) (repo_create_subscription (planned_sub sid d t q))" for sid d t and q :: create_sub
    by (rule create_sub_keeps) (simp add: holds_le_def)
  show "preserves (sub_inv (holds_le hs0)) (repo_update_subscription sid u)" for sid u
    unfolding repo_update_subscription_def by (intro preserve_rules update_sub_keeps) (simp add: holds_le_def)
  show "preserves (sub_inv (holds_le hs0)) (repo_consume_sub_credits sid n)" for sid n
    unfolding repo_consume_sub_credits_def by (intro preserve_rules update_sub_keeps) (simp add: holds_le_def)
  show "preserves (sub_inv (holds_le hs0)) (repo_reserve_credits uid n org pt account actor model request)"
    for uid n org pt account actor model request
    unfolding repo_reserve_credits_def by (intro preserve_rules atomic_keeps holds_reserve)
qed (rule holds_settle)+

text \<open>
  C18. A reservation is never lost, and it is settled once: in every history and under every failure it keeps
  its request, subscription, payer and estimate, and once it is reconciled or released its row does not
  change again.
\<close>
theorem reservations_settle_once:
  assumes "unique_key hd_id (holds s)" and "h \<in> set (holds s)"
  shows "\<exists>h'. row_by hd_id (hd_id h) (holds (fold sub_step ops s)) = Some h' \<and> hold_le h h'"
proof -
  have "sub_inv (holds_le (holds s)) s" using assms(1) by (simp add: sub_inv_def holds_le_def hold_le_def list_all2_refl)
  then have le: "holds_le (holds s) [] (holds (fold sub_step ops s))"
    using settled.tables.run_inv [of "holds s" s ops] by (simp add: sub_inv_def holds_le_def)
  then have all: "list_all2 hold_le (holds s) (take (length (holds s)) (holds (fold sub_step ops s)))" by (simp add: holds_le_def)
  obtain i where i: "i < length (holds s)" "holds s ! i = h" using assms(2) by (auto simp: in_set_conv_nth)
  let ?h = "take (length (holds s)) (holds (fold sub_step ops s)) ! i"
  have "hold_le h ?h" using list_all2_nthD [OF all i(1)] i(2) by simp
  moreover have "?h \<in> set (holds (fold sub_step ops s))"
    using i(1) list_all2_lengthD [OF all] by (metis in_set_takeD nth_mem)
  ultimately obtain h' where h': "h' \<in> set (holds (fold sub_step ops s))" "hold_le h h'" by blast
  have "hd_id h' = hd_id h" using h'(2) unfolding hold_le_def by (blast intro: frozen_id)
  moreover have "row_by hd_id (hd_id h') (holds (fold sub_step ops s)) = Some h'"
    using le h'(1) by (intro row_by_unique) (simp_all add: holds_le_def)
  ultimately show ?thesis using h'(2) by metis
qed

end
