(* ===== verification/SubFlows.thy ===== *)
theory SubFlows
  imports SubHolds
begin

section \<open>Subscriptions: what the operations achieve\<close>

subsection \<open>The payer\<close>

definition resolved_again :: "billing_scope \<Rightarrow> billing_scope" where
  "resolved_again sc = resolve_billing_scope (sc_user_id sc) (sc_org sc) (Some (sc_actor sc)) (Some (sc_type sc)) (sc_account sc)"

lemma resolved_payer_stable:
  fixes uid org actor pt account defines "sc \<equiv> resolve_billing_scope uid org actor pt account"
  shows "sc_type (resolved_again sc) = sc_type sc" and "sc_account (resolved_again sc) = sc_account sc"
    and "newest_sub (resolved_again sc) active rows = newest_sub sc active rows"
proof -
  show eq: "sc_type (resolved_again sc) = sc_type sc" "sc_account (resolved_again sc) = sc_account sc"
    by (cases pt; cases account; cases org;
        auto simp: sc_def resolved_again_def resolve_billing_scope_def Let_def or_text_def text_of_def truthy_str_def)+
  then have "paid_by (resolved_again sc) active r = paid_by sc active r" for r by (simp add: paid_by_def split: option.split)
  then have "paid_by (resolved_again sc) active = paid_by sc active" by (simp add: fun_eq_iff)
  then show "newest_sub (resolved_again sc) active rows = newest_sub sc active rows" by (simp add: newest_sub_def)
qed

text \<open>
  Resolving a resolved scope again, as service and repository do one after the other, keeps the payer, so that the
  credits are taken from the subscription that the service looked at.
\<close>
theorem resolved_payer_is_stable:
  "newest_sub (resolved_again (resolve_billing_scope uid org actor pt account)) active rows
    = newest_sub (resolve_billing_scope uid org actor pt account) active rows"
  by (rule resolved_payer_stable)

subsection \<open>Transactions when nothing fails, and when something does\<close>

lemma statement_calm [simp]: "w_script s = [] \<Longrightarrow> statement m s = m s"
  by (simp add: statement_def bnd_apply)

lemma atomic_calm: "m s = (Inr x, s') \<Longrightarrow> w_script s' = [] \<Longrightarrow> atomic m s = (Inr x, s')"
  by (simp add: atomic_def bnd_apply)

text \<open>What a piece of a transaction leaves alone while its result is of a kind.\<close>

definition unchanged_unless :: "('a \<Rightarrow> bool) \<Rightarrow> 'a sub_io \<Rightarrow> bool" where
  "unchanged_unless P m \<longleftrightarrow> (\<forall>s. case m s of (Inl e, s') \<Rightarrow> True | (Inr x, s') \<Rightarrow> P x \<or> (subs s' = subs s \<and> holds s' = holds s))"

lemma unchanged_bnd:
  assumes "unchanged_unless (\<lambda>_. False) m" and "\<And>x. unchanged_unless P (k x)"
  shows "unchanged_unless P (bnd m k)"
  using assms unfolding unchanged_unless_def by (fastforce simp: bnd_apply split: prod.splits sum.splits)

lemma unchanged_ret: "unchanged_unless P (ret x)"
  by (simp add: unchanged_unless_def)

lemma unchanged_external: "unchanged_unless P (external e)"
  by (auto simp: unchanged_unless_def external_def split: list.split outcome.split)

lemma unchanged_gets: "unchanged_unless P (gets f)"
  by (simp add: unchanged_unless_def)

lemma unchanged_fresh_hex: "unchanged_unless P (fresh_hex n)"
  by (simp add: unchanged_unless_def fresh_hex_def)

lemma unchanged_to_hold: "unchanged_unless P (to_hold h)"
  by (simp add: unchanged_unless_def to_hold_def)

lemmas unchanged_reads = unchanged_gets unchanged_fresh_hex unchanged_to_hold

lemma unchanged_statement: "unchanged_unless P m \<Longrightarrow> unchanged_unless P (statement m)"
  unfolding statement_def by (intro unchanged_bnd unchanged_external)

lemma unchanged_atomic:
  assumes "unchanged_unless P m"
  shows "case atomic m s of (Inl e, s') \<Rightarrow> subs s' = subs s \<and> holds s' = holds s | (Inr x, s') \<Rightarrow> P x \<or> (subs s' = subs s \<and> holds s' = holds s)"
proof -
  have "unchanged_unless P (bnd m (\<lambda>x. bnd (external DbError) (\<lambda>_. ret x)))"
    using assms unfolding unchanged_unless_def
    by (fastforce simp: bnd_apply external_def split: prod.splits sum.splits list.splits outcome.splits)
  then show ?thesis unfolding unchanged_unless_def by (auto simp: atomic_def split: prod.splits sum.splits)
qed

lemma unchanged_hold: "unchanged_unless (\<lambda>h. h \<noteq> None) (hold_credits sc n model request)"
proof -
  have option: "unchanged_unless P (case x of None \<Rightarrow> m | Some a \<Rightarrow> k a)"
    if "unchanged_unless P m" "\<And>a. unchanged_unless P (k a)" for P m x and k :: "'b \<Rightarrow> 'c sub_io"
    using that by (cases x) simp_all
  have some: "unchanged_unless (\<lambda>h. h \<noteq> None) (bnd m (\<lambda>x. ret (Some x)))" for m :: "hold_row sub_io"
    by (auto simp: unchanged_unless_def bnd_apply split: prod.split sum.split)
  have take: "unchanged_unless (\<lambda>h. h \<noteq> None) (bnd (statement (with_int n (write_sub sid P f))) (\<lambda>u. case u of None \<Rightarrow> ret None | Some u \<Rightarrow>
      bnd (fresh_hex 16) (\<lambda>hex. bnd (statement (insert_hold (new hex u))) (\<lambda>h. bnd (to_hold h) (\<lambda>x. ret (Some x))))))" for sid P f new
    unfolding unchanged_unless_def
    by (auto simp: bnd_apply statement_def with_int_def write_sub_def external_def split: prod.splits sum.splits option.splits if_splits list.splits outcome.splits)
  show ?thesis
    unfolding hold_credits_def
    by (intro unchanged_bnd option take unchanged_statement unchanged_reads unchanged_ret some)
      (auto intro: unchanged_statement unchanged_reads unchanged_ret)
qed


subsection \<open>Settling a reservation\<close>

definition shown_hold :: "hold_row \<Rightarrow> hold_row" where
  "shown_hold h = h\<lparr>hd_actor := (if truthy_str (hd_actor h) then hd_actor h else Some (hd_user_id h))\<rparr>"

lemma to_hold_valid: "valid_hold h \<Longrightarrow> to_hold h = ret (shown_hold h)"
  by (simp add: to_hold_def shown_hold_def)

lemma shown_hold_simps [simp]:
  "hd_id (shown_hold h) = hd_id h" "hd_status (shown_hold h) = hd_status h" "hd_estimated (shown_hold h) = hd_estimated h"
  "hd_sub (shown_hold h) = hd_sub h" "hd_actual (shown_hold h) = hd_actual h" "hd_refunded (shown_hold h) = hd_refunded h"
  "hd_extra (shown_hold h) = hd_extra h" "hd_after_reserve (shown_hold h) = hd_after_reserve h" "hd_request (shown_hold h) = hd_request h"
  by (simp_all add: shown_hold_def)

lemma write_sub_calm:
  "row_by sb_id sid (subs s) = Some r \<Longrightarrow> P r \<Longrightarrow> sub_fits (f r) \<Longrightarrow>
   write_sub sid P f s = (Inr (Some (f r)), s\<lparr>subs := update_where (\<lambda>r. sb_id r = sid) f (subs s)\<rparr>)"
  by (simp add: write_sub_def)

lemma settle_hold_calm:
  "w_script s = [] \<Longrightarrow> row_by hd_id hid (holds s) = Some h \<Longrightarrow> hold_fits (f h) \<Longrightarrow> valid_hold (f h) \<Longrightarrow>
   settle_hold hid f left msg s = (Inr (Some \<lparr>st_hold = shown_hold (f h), st_remaining = left, st_message = msg\<rparr>),
     s\<lparr>holds := update_where (\<lambda>h. hd_id h = hid) f (holds s)\<rparr>)"
  by (simp add: settle_hold_def bnd_apply write_hold_def to_hold_valid)

lemma with_hold_calm:
  assumes "w_script s = []" and "row_by hd_id hid (holds s) = Some h" and "valid_hold h" and "row_by sb_id (hd_sub h) (subs s) = Some r"
    and "k (shown_hold h) r s = (Inr x, s')" and "w_script s' = []"
  shows "with_hold hid k s = (Inr x, s')"
proof -
  let ?m = "bnd (statement (gets (\<lambda>s. row_by hd_id hid (holds s)))) (\<lambda>h. case h of None \<Rightarrow> ret None | Some h \<Rightarrow>
      bnd (to_hold h) (\<lambda>h. bnd (statement (gets (\<lambda>s. row_by sb_id (hd_sub h) (subs s)))) (\<lambda>r. case r of None \<Rightarrow> ret None | Some r \<Rightarrow> k h r)))"
  have "?m s = (Inr x, s')" using assms by (simp add: bnd_apply to_hold_valid)
  from atomic_calm [of ?m s, OF this assms(6)] show ?thesis using assms(1) by (simp add: with_hold_def or_none_def catch_apply)
qed

text \<open>What becomes of the subscription when \<open>actual\<close> credits are used of a reservation of \<open>e\<close>.\<close>

definition settled_sub :: "int \<Rightarrow> int \<Rightarrow> int \<Rightarrow> sub_row \<Rightarrow> sub_row" where
  "settled_sub e actual now r = (if actual < e then refund_row (e - actual) now r else if e < actual then take_row (actual - e) now r else r)"

definition settled_hold :: "int \<Rightarrow> int \<Rightarrow> sub_row \<Rightarrow> int \<Rightarrow> hold_row \<Rightarrow> hold_row" where
  "settled_hold e actual u now = reconciled_row actual (max (e - actual) 0) (max (actual - e) 0) (sb_remaining u) now"

lemma reconcile_calm:
  assumes "w_script s = []" and h: "row_by hd_id hid (holds s) = Some h" and "valid_hold h" and r: "row_by sb_id (hd_sub h) (subs s) = Some r"
    and "hd_status h = Hold_pending" and "actual - hd_estimated h \<le> sb_remaining r" and "int8 actual" and "0 \<le> actual"
    and u: "u = settled_sub (hd_estimated h) actual (now_us s) r" and "sub_fits u" and "hold_fits (settled_hold (hd_estimated h) actual u (now_us s) h)"
  shows "repo_reconcile hid actual s = (Inr (Some \<lparr>st_hold = shown_hold (settled_hold (hd_estimated h) actual u (now_us s) h), st_remaining = sb_remaining u,
       st_message = ''Reservation reconciled successfully''\<rparr>),
     s\<lparr>subs := update_where (\<lambda>r. sb_id r = hd_sub h) (settled_sub (hd_estimated h) actual (now_us s)) (subs s),
       holds := update_where (\<lambda>h. hd_id h = hid) (settled_hold (hd_estimated h) actual u (now_us s)) (holds s)\<rparr>)"
proof -
  have valid: "valid_hold (settled_hold (hd_estimated h) actual u (now_us s) h)" using assms(3,8) by (simp add: valid_hold_def settled_hold_def reconciled_row_def opt_all_def)
  let ?e = "hd_estimated h" and ?now = "now_us s"
  let ?rows = "update_where (\<lambda>r. sb_id r = hd_sub h) (settled_sub ?e actual ?now) (subs s)"
  let ?s1 = "s\<lparr>subs := ?rows\<rparr>"
  have finish: "settle_hold hid (settled_hold ?e actual u ?now) (sb_remaining u) msg ?s1 =
      (Inr (Some \<lparr>st_hold = shown_hold (settled_hold ?e actual u ?now h), st_remaining = sb_remaining u, st_message = msg\<rparr>),
       ?s1\<lparr>holds := update_where (\<lambda>h. hd_id h = hid) (settled_hold ?e actual u ?now) (holds s)\<rparr>)" for msg
    using assms(1,11) h valid settle_hold_calm [of ?s1 hid h "settled_hold ?e actual u ?now"] by simp
  have "reconcile_held hid actual (shown_hold h) r s = (Inr (Some \<lparr>st_hold = shown_hold (settled_hold ?e actual u ?now h),
      st_remaining = sb_remaining u, st_message = ''Reservation reconciled successfully''\<rparr>),
      ?s1\<lparr>holds := update_where (\<lambda>h. hd_id h = hid) (settled_hold ?e actual u ?now) (holds s)\<rparr>)"
  proof (rule linorder_cases [of actual ?e])
    assume lt: "actual < ?e"
    then have "write_sub (hd_sub h) (\<lambda>_. True) (refund_row (?e - actual) ?now) s = (Inr (Some u), ?s1)"
      using write_sub_calm [OF r, of "\<lambda>_. True" "refund_row (?e - actual) ?now"] u assms(10) by (simp add: settled_sub_def [abs_def])
    then show ?thesis using lt assms(1,5) finish by (simp add: reconcile_held_def bnd_apply settled_hold_def Let_def)
  next
    assume gt: "?e < actual"
    then have "write_sub (hd_sub h) (\<lambda>r. actual - ?e \<le> sb_remaining r) (take_row (actual - ?e) ?now) s = (Inr (Some u), ?s1)"
      using write_sub_calm [OF r, of "\<lambda>r. actual - ?e \<le> sb_remaining r" "take_row (actual - ?e) ?now"] u assms(6,10) by (simp add: settled_sub_def [abs_def])
    moreover have "int8 (actual - ?e)" using gt assms(3,7) by (simp add: int8_def valid_hold_def)
    ultimately show ?thesis using gt assms(1,5) finish by (simp add: reconcile_held_def bnd_apply settled_hold_def with_int_def Let_def)
  next
    assume eq: "actual = ?e"
    then have "?rows = subs s" and "u = r" using u by (simp_all add: settled_sub_def [abs_def] update_where_id)
    then show ?thesis using eq assms(1,5) finish by (simp add: reconcile_held_def bnd_apply settled_hold_def Let_def)
  qed
  from with_hold_calm [of s hid h r "reconcile_held hid actual", OF assms(1) h assms(3) r this] show ?thesis using assms(1) by (simp add: repo_reconcile_def)
qed

lemma row_by_update_sub:
  "row_by sb_id sid rows = Some r \<Longrightarrow> (\<And>r. sb_id (f r) = sb_id r) \<Longrightarrow> row_by sb_id sid (update_where (\<lambda>r. sb_id r = sid) f rows) = Some (f r)"
  by (subst row_by_update_where) (auto dest: row_by_Some)

lemma row_by_update_hold:
  "row_by hd_id hid rows = Some h \<Longrightarrow> (\<And>h. hd_id (f h) = hd_id h) \<Longrightarrow> row_by hd_id hid (update_where (\<lambda>h. hd_id h = hid) f rows) = Some (f h)"
  by (subst row_by_update_where) (auto dest: row_by_Some)

text \<open>
  C19. Reconciling a pending reservation charges the subscription exactly what was used: less than the
  estimate gives the rest back, more takes the difference. The answer reports what was used, except
  that a request which used nothing is reported at its whole estimate.
\<close>
theorem reconcile_charges_actual_use:
  assumes "w_script s = []" and l: "sub_inv (ledger 0 []) s" and h: "row_by hd_id hid (holds s) = Some h" and "valid_hold h"
    and r: "row_by sb_id (hd_sub h) (subs s) = Some r" and pending: "hd_status h = Hold_pending"
    and "actual - hd_estimated h \<le> sb_remaining r" and "int8 actual" and "0 \<le> actual"
    and u: "u = settled_sub (hd_estimated h) actual (now_us s) r" and "sub_fits u"
    and "hold_fits (settled_hold (hd_estimated h) actual u (now_us s) h)" and s': "s' = after (reconcile_sub_reservation hid actual) s"
  shows "(\<exists>r'. row_by sb_id (hd_sub h) (subs s') = Some r' \<and> sb_used r' = sb_used r + (actual - hd_estimated h)
        \<and> sb_remaining r' = sb_remaining r - (actual - hd_estimated h))
    \<and> (\<exists>h'. row_by hd_id hid (holds s') = Some h' \<and> hd_status h' = Hold_reconciled \<and> charge h' = actual)
    \<and> (\<exists>a. result (reconcile_sub_reservation hid actual) s = Inr a \<and> sa_success a \<and> sa_consumed a = (if actual = 0 then hd_estimated h else actual))"
proof -
  let ?e = "hd_estimated h" and ?now = "now_us s"
  note run = reconcile_calm [OF assms(1) h assms(4) r pending assms(7-9) u assms(11,12)]
  have sound: "hold_ok h" "charge h \<le> charges (hd_sub h) (holds s)"
    using held_sound [OF l [unfolded sub_inv_def] h] by simp_all
  then have e: "charge h = ?e" "hd_refunded h = 0" "hd_extra h = 0" using pending by (simp_all add: hold_ok_def charge_def)
  have "balanced 0 [] (holds s) r" "sb_id r = hd_sub h" using ledger_row [OF l [unfolded sub_inv_def] r] by simp_all
  then have "?e \<le> sb_used r" using sound(2) e(1) by (simp add: balanced_def split: if_splits)
  then have "sb_used u = sb_used r + (actual - ?e)" "sb_remaining u = sb_remaining r - (actual - ?e)"
    using assms(9) by (simp_all add: u settled_sub_def refund_row_def take_row_def)
  moreover have "s' = s\<lparr>subs := update_where (\<lambda>r. sb_id r = hd_sub h) (settled_sub ?e actual ?now) (subs s),
       holds := update_where (\<lambda>h. hd_id h = hid) (settled_hold ?e actual u ?now) (holds s),
       w_events := w_events s @ published (w_bus s) (Some (Sub_reconciled (shown_hold (settled_hold ?e actual u ?now h))))\<rparr>"
    using run assms(1) by (simp add: s' after_def reconcile_sub_reservation_def catch_apply bnd_apply Let_def tell_calm settled_hold_def reconciled_row_def)
  moreover have "row_by sb_id (hd_sub h) (update_where (\<lambda>r. sb_id r = hd_sub h) (settled_sub ?e actual ?now) (subs s)) = Some u"
    unfolding u by (rule row_by_update_sub [OF r]) (simp add: settled_sub_def refund_row_def take_row_def)
  moreover have "row_by hd_id hid (update_where (\<lambda>h. hd_id h = hid) (settled_hold ?e actual u ?now) (holds s)) = Some (settled_hold ?e actual u ?now h)"
    by (rule row_by_update_hold [OF h]) (simp add: settled_hold_def reconciled_row_def)
  moreover have "hd_status (settled_hold ?e actual u ?now h) = Hold_reconciled" "charge (settled_hold ?e actual u ?now h) = actual"
    by (simp_all add: settled_hold_def reconciled_row_def charge_def)
  moreover have "\<exists>a. result (reconcile_sub_reservation hid actual) s = Inr a \<and> sa_success a \<and> sa_consumed a = (if actual = 0 then ?e else actual)"
    using run assms(1) by (simp add: result_def reconcile_sub_reservation_def catch_apply bnd_apply Let_def tell_calm settled_hold_def reconciled_row_def reported_use_def)
  ultimately show ?thesis by simp
qed

end
