(* ===== verification/SubRetries.thy ===== *)
theory SubRetries
  imports SubFlows
begin

section \<open>Subscriptions: reserving, releasing and retrying\<close>

subsection \<open>Calm operations\<close>

lemma one_sub_calm: "w_script s = [] \<Longrightarrow> f s = Some r \<Longrightarrow> valid_sub r \<Longrightarrow> one_sub f s = (Inr (Some r), s)"
  by (simp add: one_sub_def or_none_def catch_apply bnd_apply to_sub_def)

lemma one_sub_none: "w_script s = [] \<Longrightarrow> f s = None \<Longrightarrow> one_sub f s = (Inr None, s)"
  by (simp add: one_sub_def or_none_def catch_apply bnd_apply)

text \<open>The subscription of a request, looked up through the scope that is resolved twice.\<close>

lemma again_newest: "newest_sub (resolved_again (request_scope q)) active rows = newest_sub (request_scope q) active rows"
  using resolved_payer_stable by (simp add: request_scope_def)

lemma sub_of_scope_calm:
  assumes "w_script s = []" and "newest_sub (request_scope q) True (subs s) = Some r" and "valid_sub r"
  shows "sub_of_scope (request_scope q) s = (Inr (Some r), s)"
proof -
  have "one_sub (\<lambda>s. newest_sub (resolved_again (request_scope q)) True (subs s)) s = (Inr (Some r), s)"
    using assms again_newest by (intro one_sub_calm) simp_all
  then show ?thesis by (simp add: sub_of_scope_def repo_get_user_subscription_def resolved_again_def)
qed

definition fresh_hold :: "credit_request \<Rightarrow> sub_row \<Rightarrow> string option \<Rightarrow> string option \<Rightarrow> sub_state \<Rightarrow> hold_row" where
  "fresh_hold q r model request s = new_hold (''res_'' @ take 16 (w_uuid s (w_uuid_next s))) (resolved_again (request_scope q))
     (take_row (rq_credits q) (now_us s) r) (rq_credits q) model request (now_us s)"

lemma reserve_calm:
  fixes q s r model request defines "n \<equiv> rq_credits q" and "h \<equiv> fresh_hold q r model request s"
  assumes "w_script s = []" and r: "newest_sub (request_scope q) True (subs s) = Some r" and "row_by sb_id (sb_id r) (subs s) = Some r"
    and "valid_sub r" and "truthy_str request \<Longrightarrow> find (\<lambda>h. hd_request h = request) (holds s) = None"
    and "0 \<le> n" and "n \<le> sb_remaining r" and "int8 n" and "sub_fits (take_row n (now_us s) r)"
    and "hold_fits h" and "hd_id h \<notin> hd_id ` set (holds s)" and "unique_some hd_request (holds s @ [h])"
  shows "reserve_sub_credits q model request s =
    (Inr \<lparr>cr_success = True, cr_message = ''Credits reserved successfully'', cr_credits = n, cr_left = sb_remaining r - n,
        cr_sub = Some (sb_id r), cr_hold = Some (hd_id h)\<rparr>,
     s\<lparr>subs := update_where (\<lambda>x. sb_id x = sb_id r) (take_row n (now_us s)) (subs s), holds := holds s @ [h],
       w_uuid_next := Suc (w_uuid_next s), w_events := w_events s @ published (w_bus s) (Some (Sub_reserved (shown_hold h)))\<rparr>)"
proof -
  let ?s1 = "s\<lparr>subs := update_where (\<lambda>x. sb_id x = sb_id r) (take_row n (now_us s)) (subs s)\<rparr>"
  let ?s2 = "?s1\<lparr>holds := holds s @ [h], w_uuid_next := Suc (w_uuid_next s)\<rparr>"
  let ?sc = "resolved_again (request_scope q)"
  have valid: "valid_hold h" using assms(8) by (simp add: h_def fresh_hold_def new_hold_def valid_hold_def opt_all_def n_def)
  have hold: "h = new_hold (''res_'' @ take 16 (w_uuid s (w_uuid_next s))) ?sc (take_row n (now_us s) r) n model request (now_us s)"
    by (simp add: h_def fresh_hold_def n_def)
  have take: "write_sub (sb_id r) (\<lambda>x. n \<le> sb_remaining x) (take_row n (now_us s)) s = (Inr (Some (take_row n (now_us s) r)), ?s1)"
    using assms by (intro write_sub_calm) simp_all
  have insert: "insert_hold h (?s1\<lparr>w_uuid_next := Suc (w_uuid_next s)\<rparr>) = (Inr h, ?s2)"
    using assms(12-14) by (simp add: insert_hold_def)
  have "hold_credits ?sc n model request s = (Inr (Some (shown_hold h)), ?s2)"
  proof -
    have newest: "newest_sub ?sc True (subs s) = Some r" using r by (simp add: again_newest)
    have "(if truthy_str request then statement (gets (\<lambda>s. find (\<lambda>h. hd_request h = request) (holds s))) else ret None) s = (Inr None, s)"
      using assms(3,7) by simp
    then show ?thesis using assms(3,10) newest take insert hold to_hold_valid [OF valid]
      by (simp add: hold_credits_def bnd_apply fresh_hex_def with_int_def)
  qed
  from atomic_calm [of "hold_credits ?sc n model request" s, OF this] have "repo_reserve_credits (sc_user_id (request_scope q)) n (sc_org (request_scope q)) (Some (sc_type (request_scope q)))
      (sc_account (request_scope q)) (Some (sc_actor (request_scope q))) model request s = (Inr (Some (shown_hold h)), ?s2)"
    using assms(3) by (simp add: repo_reserve_credits_def resolved_again_def)
  then show ?thesis
    using assms(3) sub_of_scope_calm [OF assms(3) r assms(6)]
    by (simp add: reserve_sub_credits_def catch_apply bnd_apply Let_def tell_calm n_def)
      (simp add: h_def fresh_hold_def new_hold_def take_row_def)
qed

lemma repo_release_calm:
  assumes "w_script s = []" and h: "row_by hd_id hid (holds s) = Some h" and "valid_hold h" and r: "row_by sb_id (hd_sub h) (subs s) = Some r"
    and "hd_status h = Hold_pending" and u: "u = refund_row (hd_estimated h) (now_us s) r" and "sub_fits u"
    and "hold_fits (released_hold_row (hd_estimated h) (sb_remaining u) (now_us s) h)"
  shows "repo_release hid s = (Inr (Some \<lparr>st_hold = shown_hold (released_hold_row (hd_estimated h) (sb_remaining u) (now_us s) h), st_remaining = sb_remaining u,
       st_message = ''Reservation released successfully''\<rparr>),
     s\<lparr>subs := update_where (\<lambda>r. sb_id r = hd_sub h) (refund_row (hd_estimated h) (now_us s)) (subs s),
       holds := update_where (\<lambda>h. hd_id h = hid) (released_hold_row (hd_estimated h) (sb_remaining u) (now_us s)) (holds s)\<rparr>)"
proof -
  let ?e = "hd_estimated h" and ?now = "now_us s"
  let ?s1 = "s\<lparr>subs := update_where (\<lambda>r. sb_id r = hd_sub h) (refund_row ?e ?now) (subs s)\<rparr>"
  have "valid_hold (released_hold_row ?e (sb_remaining u) ?now h)" using assms(3) by (simp add: valid_hold_def released_hold_row_def)
  then have finish: "settle_hold hid (released_hold_row ?e (sb_remaining u) ?now) (sb_remaining u) msg ?s1 =
      (Inr (Some \<lparr>st_hold = shown_hold (released_hold_row ?e (sb_remaining u) ?now h), st_remaining = sb_remaining u, st_message = msg\<rparr>),
       ?s1\<lparr>holds := update_where (\<lambda>h. hd_id h = hid) (released_hold_row ?e (sb_remaining u) ?now) (holds s)\<rparr>)" for msg
    using assms(1,8) h settle_hold_calm [of ?s1 hid h "released_hold_row ?e (sb_remaining u) ?now"] by simp
  have "write_sub (hd_sub h) (\<lambda>_. True) (refund_row ?e ?now) s = (Inr (Some u), ?s1)"
    using write_sub_calm [OF r, of "\<lambda>_. True" "refund_row ?e ?now"] u assms(7) by simp
  then have "release_held hid (shown_hold h) r s = (Inr (Some \<lparr>st_hold = shown_hold (released_hold_row ?e (sb_remaining u) ?now h),
      st_remaining = sb_remaining u, st_message = ''Reservation released successfully''\<rparr>),
      ?s1\<lparr>holds := update_where (\<lambda>h. hd_id h = hid) (released_hold_row ?e (sb_remaining u) ?now) (holds s)\<rparr>)"
    using assms(1,5) finish by (simp add: release_held_def bnd_apply)
  from with_hold_calm [of s hid h r "release_held hid", OF assms(1) h assms(3) r this] show ?thesis using assms(1) by (simp add: repo_release_def)
qed

text \<open>The history after a row was recorded, or was not.\<close>

definition history_after :: "(string \<Rightarrow> sub_history_row) \<Rightarrow> sub_state \<Rightarrow> sub_history_row list" where
  "history_after x s = (let y = (x (''hist_'' @ take 16 (w_uuid s (w_uuid_next s))))\<lparr>sx_created_at := now_us s\<rparr> in
     if sub_history_fits y \<and> sx_id y \<notin> sx_id ` set (sub_history s) then sub_history s @ [y] else sub_history s)"

lemma record_sub_calm:
  "w_script s = [] \<Longrightarrow> record_sub x s = (Inr (), s\<lparr>w_uuid_next := Suc (w_uuid_next s), sub_history := history_after x s\<rparr>)"
  by (simp add: record_sub_def repo_add_sub_history_def or_none_def catch_apply bnd_apply fresh_hex_def Let_def history_after_def now_us_def)

subsection \<open>Properties\<close>

text \<open>
  C21. Releasing a reservation gives back exactly what it held: after reserving and releasing, the subscription
  has used and has left what it had before, and the reservation charges nothing.
\<close>
theorem released_reservation_restores_credits:
  fixes q s r model request defines "n \<equiv> rq_credits q" and "h \<equiv> fresh_hold q r model request s"
  assumes "w_script s = []" and "newest_sub (request_scope q) True (subs s) = Some r" and row: "row_by sb_id (sb_id r) (subs s) = Some r"
    and "valid_sub r" and "truthy_str request \<Longrightarrow> find (\<lambda>h. hd_request h = request) (holds s) = None"
    and "0 \<le> n" and "n \<le> sb_remaining r" and "int8 n" and "sub_fits r" and "sub_fits (take_row n (now_us s) r)"
    and "hold_fits h" and new: "hd_id h \<notin> hd_id ` set (holds s)" and "unique_some hd_request (holds s @ [h])"
    and s1: "s1 = after (reserve_sub_credits q model request) s" and s2: "s2 = after (release_sub_reservation (hd_id h)) s1"
  shows "row_by sb_id (sb_id r) (subs s1) = Some (take_row n (now_us s) r)
    \<and> (\<exists>r'. row_by sb_id (sb_id r) (subs s2) = Some r' \<and> sb_used r' = sb_used r \<and> sb_remaining r' = sb_remaining r)
    \<and> (\<exists>h'. row_by hd_id (hd_id h) (holds s2) = Some h' \<and> hd_status h' = Hold_released \<and> charge h' = 0)"
proof -
  let ?t = "take_row n (now_us s)"
  have run: "s1 = s\<lparr>subs := update_where (\<lambda>x. sb_id x = sb_id r) ?t (subs s), holds := holds s @ [h],
       w_uuid_next := Suc (w_uuid_next s), w_events := w_events s @ published (w_bus s) (Some (Sub_reserved (shown_hold h)))\<rparr>"
    using reserve_calm [of s q r request model] assms(3-10,12-15) unfolding n_def h_def by (simp add: s1 after_def)
  have row1: "row_by sb_id (sb_id r) (subs s1) = Some (?t r)" unfolding run
    using row_by_update_sub [OF row, of ?t] by (simp add: take_row_def)
  have hold1: "row_by hd_id (hd_id h) (holds s1) = Some h" unfolding run using row_by_append_new [OF new] by simp
  have h: "hd_sub h = sb_id r" "hd_estimated h = n" "hd_status h = Hold_pending" "hd_refunded h = 0" "hd_extra h = 0" "hd_actual h = None"
    by (simp_all add: h_def fresh_hold_def new_hold_def take_row_def n_def)
  have calm1: "w_script s1 = []" "now_us s1 = now_us s" using assms(3) by (simp_all add: run now_us_def)
  let ?u = "refund_row n (now_us s) (?t r)"
  have u: "sb_used ?u = sb_used r" "sb_remaining ?u = sb_remaining r" "sub_fits ?u"
    using assms(6,11) by (simp_all add: refund_row_def take_row_def valid_sub_def sub_fits_def)
  have valid: "valid_hold h" using h assms(8) by (simp add: valid_hold_def opt_all_def)
  have fits: "hold_fits (released_hold_row n (sb_remaining ?u) (now_us s) h)"
    using assms(11,13) h assms(10) u(2) by (simp add: hold_fits_def released_hold_row_def opt_all_def sub_fits_def)
  note release = repo_release_calm [OF calm1(1) hold1 valid, unfolded h calm1(2), OF row1 refl refl u(3) fits]
  have "s2 = s1\<lparr>subs := update_where (\<lambda>x. sb_id x = sb_id r) (refund_row n (now_us s)) (subs s1),
       holds := update_where (\<lambda>x. hd_id x = hd_id h) (released_hold_row n (sb_remaining ?u) (now_us s)) (holds s1),
       w_events := w_events s1 @ published (w_bus s1) (Some (Sub_released (shown_hold (released_hold_row n (sb_remaining ?u) (now_us s) h))))\<rparr>"
    using release calm1(1) by (simp add: s2 after_def release_sub_reservation_def catch_apply bnd_apply Let_def tell_calm) (simp add: released_hold_row_def)
  moreover have "row_by sb_id (sb_id r) (update_where (\<lambda>x. sb_id x = sb_id r) (refund_row n (now_us s)) (subs s1)) = Some ?u"
    by (rule row_by_update_sub [OF row1]) (simp add: refund_row_def)
  moreover have "row_by hd_id (hd_id h) (update_where (\<lambda>x. hd_id x = hd_id h) (released_hold_row n (sb_remaining ?u) (now_us s)) (holds s1))
      = Some (released_hold_row n (sb_remaining ?u) (now_us s) h)"
    by (rule row_by_update_hold [OF hold1]) (simp add: released_hold_row_def)
  ultimately show ?thesis using row1 u h by (simp add: released_hold_row_def charge_def)
qed

text \<open>
  C22. A retry is answered with the reservation that was first made for its request identifier, whatever became of
  that reservation and whoever made it: it reports success and the credits of then, and takes none. A
  request that is retried after it was released runs without credits.
\<close>
theorem retry_is_answered_without_credits:
  assumes "w_script s = []" and "newest_sub (request_scope q) True (subs s) = Some r" and "valid_sub r"
    and "truthy_str request" and "find (\<lambda>h. hd_request h = request) (holds s) = Some h" and "valid_hold h"
    and s': "s' = after (reserve_sub_credits q model request) s"
  shows "(\<exists>a. result (reserve_sub_credits q model request) s = Inr a \<and> cr_success a \<and> cr_credits a = hd_estimated h \<and> cr_hold a = Some (hd_id h))
    \<and> subs s' = subs s \<and> holds s' = holds s"
proof -
  let ?sc = "resolved_again (request_scope q)"
  have "hold_credits ?sc (rq_credits q) model request s = (Inr (Some (shown_hold h)), s)"
    using assms(1,4-6) by (simp add: hold_credits_def bnd_apply to_hold_valid)
  from atomic_calm [of "hold_credits ?sc (rq_credits q) model request" s, OF this assms(1)]
  have "repo_reserve_credits (sc_user_id (request_scope q)) (rq_credits q) (sc_org (request_scope q)) (Some (sc_type (request_scope q)))
      (sc_account (request_scope q)) (Some (sc_actor (request_scope q))) model request s = (Inr (Some (shown_hold h)), s)"
    using assms(1) by (simp add: repo_reserve_credits_def resolved_again_def)
  then show ?thesis
    using assms(1) sub_of_scope_calm [OF assms(1-3)]
    by (simp add: s' after_def result_def reserve_sub_credits_def catch_apply bnd_apply Let_def tell_calm)
qed

text \<open>
  C23. A trial is not an active subscription: creating one changes for no payer the subscription from which credits
  are taken and which stops a further one from being created, whatever fails. Its credits cannot be used, and
  trials can be created again and again.
\<close>
theorem trial_gives_no_credits:
  assumes "get_tier_info (cs_tier_code q) = Some t" and "0 < ti_trial_days t" and "cs_use_trial q"
  shows "newest_sub sc True (subs (after (create_subscription q) s)) = newest_sub sc True (subs s)"
proof -
  let ?J = "\<lambda>rs hs :: hold_row list. newest_sub sc True rs = newest_sub sc True (subs s)"
  have "newest_sub sc True (rs @ [r]) = newest_sub sc True rs" if "sb_status r = Sub_trialing" for rs r
    using that by (simp add: newest_sub_def paid_by_def)
  then have "preserves (sub_inv ?J) (repo_create_subscription (planned_sub sid d t q))" for sid d
    using assms(2,3) by (intro create_sub_keeps) (auto simp: planned_sub_def Let_def)
  then have "preserves (sub_inv ?J) (create_subscription q)"
    unfolding create_subscription_def refuse_errors_def assms(1) option.case Let_def by (intro preserve_rules)
  from preserves_after [of "sub_inv ?J", OF this, of s] show ?thesis by (simp add: sub_inv_def)
qed

text \<open>
  A cancellation whose update fails is reported as done: the answer is a success and history and bus record the
  cancellation, but the subscription is as before.
\<close>
theorem failed_cancellation_is_reported_done:
  assumes "w_script s = [Fine, Raises]" and "row_by sb_id sid (subs s) = Some r" and "valid_sub r" and "sb_user_id r = uid"
  shows "(\<exists>a. result (cancel_subscription sid True reason uid) s = Inr (Done a)) \<and> subs (after (cancel_subscription sid True reason uid) s) = subs s"
proof -
  let ?s1 = "s\<lparr>w_script := [Raises]\<rparr>" and ?s2 = "s\<lparr>w_script := []\<rparr>"
  have get: "repo_get_subscription sid s = (Inr (Some r), ?s1)"
    using assms(1-3) by (simp add: repo_get_subscription_def one_sub_def or_none_def catch_apply bnd_apply to_sub_def external_def)
  have update: "repo_update_subscription sid u ?s1 = (Inr None, ?s2)" for u
    by (simp add: repo_update_subscription_def update_sub_def or_none_def catch_apply bnd_apply external_def)
  show ?thesis
    using assms(4) get update record_sub_calm [of ?s2]
    by (simp add: cancel_subscription_def refuse_errors_def result_def after_def catch_apply bnd_apply Let_def tell_calm)
qed

text \<open>
  No event reaches the subscriptions: the bus hands over an object where the handlers read a dictionary, so that no
  use of credits that billing announces is charged.
\<close>
theorem subscription_events_change_nothing:
  "after (handle_credits_consume_request (Event_object d)) s = s \<and> after (handle_logged (Event_object x)) s = s"
  by (simp add: handle_credits_consume_request_def handle_logged_def read_message_def after_def catch_apply)

end
