(* ===== verification/SubExamples.thy ===== *)
theory SubExamples
  imports SubRetries
begin

section \<open>Subscriptions: the properties at a concrete state\<close>

definition plan :: sub_row where
  "plan = \<lparr>sb_id = ''sub_1'', sb_user_id = ''ann'', sb_org = None, sb_tier_id = ''tier_free_001'', sb_tier_code = ''free'',
     sb_status = Sub_active, sb_cycle = Monthly, sb_price = 0, sb_allocated = 1000, sb_used = 300, sb_remaining = 700, sb_rolled_over = 0,
     sb_period_start = 0, sb_period_end = 30 * us_per_day, sb_trial_start = None, sb_trial_end = None, sb_is_trial = False,
     sb_seats_purchased = 1, sb_seats_used = 1, sb_cancel_at_end = False, sb_canceled_at = None, sb_cancel_reason = None,
     sb_payment_method = None, sb_auto_renew = True, sb_next_billing = None, sb_created_at = 0, sb_updated_at = 0\<rparr>"

definition answering :: hold_row where
  "answering = \<lparr>hd_id = ''res_old'', hd_request = Some ''req_1'', hd_sub = ''sub_1'', hd_user_id = ''ann'', hd_actor = Some ''ann'',
     hd_payer_type = Some Payer_user, hd_payer = Some ''ann'', hd_org = None, hd_model = None, hd_estimated = 200, hd_actual = None,
     hd_refunded = 0, hd_extra = 0, hd_after_reserve = Some 700, hd_after_finalize = None, hd_status = Hold_pending,
     hd_reconciled_at = None, hd_released_at = None, hd_created_at = 0, hd_updated_at = 0\<rparr>"

text \<open>The \<open>k\<close>-th identifier is \<open>k\<close> digits \<open>a\<close>.\<close>

definition desk :: sub_state where
  "desk = \<lparr>w_now = \<lparr>dt_year = 2026, dt_month = 4, dt_day = 9, dt_us = 0\<rparr>, w_uuid = (\<lambda>k. replicate k CHR ''a''), w_uuid_next = 0,
     w_script = [], w_bus = True, w_events = [], subs = [plan], sub_history = [], holds = [answering], s_dbl = id\<rparr>"

definition ask :: credit_request where
  "ask = \<lparr>rq_user = ''ann'', rq_actor = None, rq_payer_type = None, rq_payer = None, rq_org = None, rq_credits = 500\<rparr>"

lemma desk_simps [simp]: "w_script desk = []" "w_bus desk" "subs desk = [plan]" "holds desk = [answering]" "sub_history desk = []"
  "w_uuid desk k = replicate k CHR ''a''" "w_uuid_next desk = 0"
  by (simp_all add: desk_def)

lemma plan_simps [simp]: "sb_id plan = ''sub_1''" "sb_user_id plan = ''ann''" "sb_org plan = None" "sb_status plan = Sub_active"
  "sb_used plan = 300" "sb_remaining plan = 700" "sb_allocated plan = 1000" "sb_rolled_over plan = 0" "valid_sub plan" "sub_fits plan"
  by (simp_all add: plan_def valid_sub_def sub_fits_def opt_fits_def int8_def int4_def)

lemma answering_simps [simp]: "hd_id answering = ''res_old''" "hd_sub answering = ''sub_1''" "hd_request answering = Some ''req_1''"
  "hd_status answering = Hold_pending" "hd_estimated answering = 200" "hd_refunded answering = 0" "hd_extra answering = 0" "valid_hold answering"
  "hold_fits answering"
  by (simp_all add: answering_def valid_hold_def hold_fits_def opt_all_def opt_fits_def int8_def)

lemma desk_ledger: "sub_inv (ledger 0 []) desk"
  by (simp add: sub_inv_def ledger_def unique_key_def unique_some_def hold_ok_def balanced_def charges_def charge_def)

lemma desk_newest: "newest_sub (request_scope ask) True [plan] = Some plan"
  by (simp add: newest_sub_def paid_by_def request_scope_def ask_def resolve_billing_scope_def Let_def or_text_def text_of_def truthy_str_def
      order_desc_def first_row_def)

theorem credits_are_accounted_for_witness:
  "list_all (\<lambda>r. sb_used r + sb_remaining r = sb_allocated r + sb_rolled_over r)
     (subs (fold sub_step [Reserve_sub_credits ask None None, Release_reservation ''res_old'', Reconcile_reservation ''res_'' 20] desk))"
  unfolding list_all_iff by (intro ballI) (drule credits_are_accounted_for [OF desk_ledger], blast)

theorem reservations_settle_once_witness:
  "\<exists>h'. row_by hd_id ''res_old'' (holds (fold sub_step [Release_reservation ''res_old'', Reconcile_reservation ''res_old'' 20] desk)) = Some h'
     \<and> hold_le answering h'"
  using reservations_settle_once [of desk answering "[Release_reservation ''res_old'', Reconcile_reservation ''res_old'' 20]"]
  by (simp add: unique_key_def)

theorem reconcile_charges_actual_use_witness:
  "let s = after (reconcile_sub_reservation ''res_old'' 0) desk
   in \<exists>r. row_by sb_id ''sub_1'' (subs s) = Some r \<and> sb_used r = 100 \<and> sb_remaining r = 900"
proof -
  let ?u = "settled_sub 200 0 (now_us desk) plan"
  have "sub_fits ?u" by (simp add: settled_sub_def refund_row_def sub_fits_def plan_def opt_fits_def int8_def int4_def)
  moreover have "hold_fits (settled_hold 200 0 ?u (now_us desk) answering)"
    using answering_simps(9) by (simp add: settled_hold_def reconciled_row_def hold_fits_def opt_all_def settled_sub_def refund_row_def int8_def)
  ultimately show ?thesis
    using reconcile_charges_actual_use [of desk "''res_old''" answering plan 0 ?u, OF _ desk_ledger _ _ _ _ _ _ _ _ _ _ refl]
    by (simp add: row_by_def int8_def Let_def)
qed

theorem released_reservation_restores_credits_witness:
  "let s1 = after (reserve_sub_credits ask None (Some ''req_2'')) desk; s2 = after (release_sub_reservation ''res_'') s1
   in map_option sb_remaining (row_by sb_id ''sub_1'' (subs s1)) = Some 200 \<and> map_option sb_remaining (row_by sb_id ''sub_1'' (subs s2)) = Some 700"
proof -
  let ?h = "fresh_hold ask plan None (Some ''req_2'') desk"
  have n: "rq_credits ask = 500" by (simp add: ask_def)
  have h: "hd_id ?h = ''res_''" "hd_request ?h = Some ''req_2''" by (simp_all add: fresh_hold_def new_hold_def)
  have "hold_fits ?h"
    by (simp add: fresh_hold_def new_hold_def hold_fits_def take_row_def n opt_fits_def opt_all_def int8_def)
      (simp add: resolved_again_def request_scope_def ask_def resolve_billing_scope_def or_text_def text_of_def Let_def truthy_str_def)
  moreover have "sub_fits (take_row 500 (now_us desk) plan)"
    by (simp add: take_row_def sub_fits_def plan_def opt_fits_def int8_def int4_def)
  ultimately show ?thesis
    using released_reservation_restores_credits [of desk ask plan "Some ''req_2''" None, OF _ _ _ _ _ _ _ _ _ _ _ _ _ refl refl] desk_newest n h
    by (simp add: row_by_def int8_def unique_some_def Let_def) (auto simp: take_row_def)
qed

definition settled_desk :: sub_state where
  "settled_desk = desk\<lparr>holds := [answering\<lparr>hd_status := Hold_released, hd_refunded := 200\<rparr>]\<rparr>"

theorem retry_is_answered_without_credits_witness:
  "let s = after (reserve_sub_credits ask None (Some ''req_1'')) settled_desk
   in subs s = [plan] \<and> map hd_status (holds s) = [Hold_released]
     \<and> (\<exists>a. result (reserve_sub_credits ask None (Some ''req_1'')) settled_desk = Inr a \<and> cr_success a \<and> cr_credits a = 200)"
proof -
  have "valid_hold (answering\<lparr>hd_status := Hold_released, hd_refunded := 200\<rparr>)" using answering_simps(8) by (simp add: valid_hold_def)
  then show ?thesis
    using retry_is_answered_without_credits [of settled_desk ask plan "Some ''req_1''" _ _ None, OF _ _ _ _ _ _ refl] desk_newest
    by (auto simp: settled_desk_def truthy_str_def Let_def)
qed

definition try_pro :: create_sub where
  "try_pro = \<lparr>cs_user_id = ''bob'', cs_org = None, cs_tier_code = ''Pro'', cs_cycle = Monthly, cs_payment_method = None, cs_seats = 1, cs_use_trial = True\<rparr>"

lemma pro_tier: "get_tier_info ''Pro'' = Some \<lparr>ti_id = ''tier_pro_001'', ti_code = ''pro'', ti_price = 20, ti_credits = 30000000, ti_trial_days = 14\<rparr>"
  by code_simp

theorem trial_gives_no_credits_witness:
  "newest_sub (request_scope (ask\<lparr>rq_user := ''bob''\<rparr>)) True (subs (after (create_subscription try_pro) desk)) = None"
  using trial_gives_no_credits [of try_pro _ "request_scope (ask\<lparr>rq_user := ''bob''\<rparr>)" desk] pro_tier
  by (simp add: try_pro_def newest_sub_def paid_by_def request_scope_def ask_def resolve_billing_scope_def Let_def or_text_def text_of_def truthy_str_def
      order_desc_def first_row_def)

theorem failed_cancellation_is_reported_done_witness:
  "map sb_status (subs (after (cancel_subscription ''sub_1'' True None ''ann'') (desk\<lparr>w_script := [Fine, Raises]\<rparr>))) = [Sub_active]"
  using failed_cancellation_is_reported_done [of "desk\<lparr>w_script := [Fine, Raises]\<rparr>" "''sub_1''" plan "''ann''" None]
  by (simp add: row_by_def)

end
