(* ===== verification/Spec2Isabelle.thy ===== *)
theory Spec2Isabelle
  imports CircuitBreaker RateLimitBackend OrderSaga CreditExpiry WalletExamples OrderExamples MemberExamples SubExamples
begin

text \<open>
  This development models services of the isA_user platform (Python, \<open>src/\<close>) and proves what their
  code does. The platform is a set of services, each a FastAPI process with a PostgreSQL schema of its
  own, which react to each other's events on a NATS bus and share infrastructure under \<open>core/\<close>.

  \<^bold>\<open>Parts and theories\<close>

  \<^item> \<open>Prelude\<close>: the effects all services share. A call is a function from a state to a result and a
    state (\<open>io\<close>, with \<open>ret\<close>, \<open>throw\<close>, \<open>bnd\<close>, \<open>catch\<close>, \<open>for_each\<close> for Python's control flow), errors
    are values of \<open>exn\<close>. The state extends \<open>world\<close>: the clock, the identifiers \<open>uuid4\<close> will give, a
    script that says for each coming call to the outside whether it works, raises, or comes back
    without a row, the bus and what was published. It also holds tables as lists of rows with their
    keys, and calendar dates.
  \<^item> \<open>CircuitBreaker\<close>: \<open>core/circuit_breaker.py\<close>.
  \<^item> \<open>RateLimiter\<close>, \<open>RateLimitBackend\<close>: \<open>core/rate_limiter.py\<close>, \<open>core/rate_limit_backend.py\<close>, the sliding
    window over its memory and Redis backends, the middleware, the latching fallback, the choice of
    the Redis address.
  \<^item> \<open>Systems\<close>: the locales of systems with an invariant, of systems that only move forward and of
    idempotent handlers, and the payloads of the order events.
  \<^item> \<open>InventoryRepo\<close>, \<open>InventoryService\<close>, \<open>InventoryTheorems\<close>: \<open>microservices/inventory_service\<close>, the
    reservations of an order.
  \<^item> \<open>FulfillmentRepo\<close>, \<open>FulfillmentService\<close>, \<open>FulfillmentTheorems\<close>: \<open>microservices/fulfillment_service\<close>,
    the shipment of an order and its label. The provider of labels is a parameter (\<open>shipping_provider\<close>);
    the mock provider of the source is an instance.
  \<^item> \<open>CreditData\<close>, \<open>CreditRepo\<close>, \<open>CreditPlan\<close>, \<open>CreditService\<close>: \<open>microservices/credit_service\<close>, accounts,
    transactions, allocations and campaigns, with every method of the service and its handlers.
    \<open>CreditInvariants\<close>, \<open>CreditAllocations\<close> and \<open>CreditConsumption\<close> hold its invariants, \<open>CreditTheorems\<close>,
    \<open>CreditFlows\<close> and \<open>CreditExpiry\<close> what its operations achieve.
  \<^item> \<open>TaxService\<close>, \<open>TaxTheorems\<close>: \<open>microservices/tax_service\<close>, the calculations of the tax of an order; the
    provider is a parameter. \<open>OrderSaga\<close> composes inventory, tax and fulfillment along the events of an
    order, with what the publishers put into them.
  \<^item> \<open>RedisClient\<close>, \<open>DistributedLock\<close>, \<open>LockTheorems\<close>: \<open>core/redis_cache.py\<close> and \<open>core/distributed_lock.py\<close>.
    The Redis server is a parameter (\<open>redis_api\<close>) with the documented behaviour of its commands
    (locale \<open>redis_server\<close>), which a table with deadlines meets. A \<open>cluster\<close> is the server with the
    processes that share it.
  \<^item> \<open>WalletRepo\<close>, \<open>WalletService\<close>: \<open>microservices/wallet_service\<close>, wallets, transactions and claims on
    events, every method and the six handlers. \<open>WalletWrites\<close> refines the service to seven SQL
    statements, \<open>WalletInvariants\<close> holds its invariants and claims, \<open>WalletCalm\<close>, \<open>WalletTheorems\<close>,
    \<open>WalletMoney\<close> and \<open>WalletEvents\<close> what operations and handlers achieve, \<open>WalletExamples\<close> the
    properties at a concrete state.
  \<^item> \<open>OrderRepo\<close>, \<open>OrderService\<close>: \<open>microservices/order_service\<close>, the orders, every method that changes
    them and the eight handlers. The answers of the services it calls are parameters of the state
    (\<open>order_clients\<close>), the calls themselves a trace (\<open>o_calls\<close>). \<open>OrderTheorems\<close> holds what
    every history keeps (locale \<open>order_tables\<close>) and what the other services never hear, \<open>OrderFlows\<close> what
    the operations achieve, \<open>OrderStock\<close> what inventory makes of the calls and events of an order,
    \<open>OrderExamples\<close> the properties at a concrete state.
  \<^item> \<open>MemberRepo\<close>, \<open>MemberService\<close>: \<open>microservices/membership_service\<close>, memberships with points and tiers,
    their history and benefits, every method and the three handlers. \<open>MemberInvariants\<close> holds the
    invariant of the table, \<open>MemberTheorems\<close> what earning, cancelling and redeeming achieve,
    \<open>MemberBenefits\<close> benefits, events and suspension, \<open>MemberExamples\<close> the properties at a concrete state.
  \<^item> \<open>SubRepo\<close>, \<open>SubService\<close>: \<open>microservices/subscription_service\<close>, subscriptions with the credits of their
    period and the reservations that hold credits for a request, with the transactions that write them.
    \<open>SubInvariants\<close> holds the triples for transactions, \<open>SubLedger\<close> and \<open>SubTheorems\<close> the contract of the
    repository (locale \<open>sub_tables\<close>) and the ledger of credits, \<open>SubHolds\<close> that reservations are settled once,
    \<open>SubFlows\<close> and \<open>SubRetries\<close> what the operations achieve, \<open>SubExamples\<close> the properties at a concrete state.
  \<^item> This theory: the platform as inventory and fulfillment behind one bus, and what holds across them.

  Definitions carry the names of the Python functions; a repository method that shares its name with
  a method of the service has the prefix \<open>repo_\<close>, a handler the prefix of its service (\<open>inv_\<close>, \<open>ful_\<close>,
  \<open>credit_\<close>, \<open>wal_\<close>, \<open>ord_\<close>, \<open>mem_\<close>, \<open>sub_\<close>). A step function per service (\<open>inv_step\<close>, \<open>ful_step\<close>, \<open>credit_step\<close>, \<open>tax_step\<close>, \<open>wal_step\<close>,
  \<open>ord_step\<close>, \<open>mem_step\<close>, \<open>sub_step\<close>) runs one operation of
  its public interface, a list of operations is a history, and time passes between operations by the
  clock operation.

  \<^bold>\<open>What is shown\<close>

  \<^item> Safety under every history and every failure of database, bus, provider and account service:
    reservations keep their identity and settle once; shipments stay well formed; balances never go
    negative and are the difference of credits and debits; no tier of a membership is above its points; the credits of a subscription are
    accounted for by its reservations; no allocation is spent beyond its amount;
    campaigns keep their budget; breakers keep their object invariant. These rest on \<open>preserves\<close> and its
    rules: an invariant is shown for the repository operations and pushed through the services, for
    credit inside a locale whose assumptions are the contract of the repository. For the wallet every
    operation is shown to be a sequence of atomic statements, so that an invariant of its tables
    (locale \<open>table_invariant\<close>) is checked per statement.
  \<^item> Mutual exclusion: the distributed lock excludes other processes until it expires and frees itself
    afterwards, waiting for it ends, the claims on events have one owner and are recovered from a lost
    one, and a payment is credited once however it is redelivered.
  \<^item> What operations achieve when nothing fails (\<open>w_script s = []\<close>): the \<open>_calm\<close> lemmas evaluate each
    operation to its final state, the properties put them together.
  \<^item> Refinements: the pruning rate limiter decides as the specification over the whole history of
    requests, and the fallback decides as a memory limiter after its first failure.
  \<^item> Errors: handlers that never raise, and the places where the code fails in ways it does not mean
    to, each stated as what happens.
  \<^item> Across services: cancellation settles an order however its deliveries interleave, and a payment
    that arrives after it divides the platform; a created order reserves its stock twice and a
    cancelled one keeps it, since its cancellation is never published.

  \<^bold>\<open>How far the model goes\<close>

  \<^item> Only the reservations of subscription credits use database transactions (\<open>atomic\<close>): an exception inside, or of
    the commit, undoes the tables. Everywhere else a write stays when a later call fails.
  \<^item> An operation runs as a whole: two requests of one service that interleave between their database
    calls are not modelled, nor is a process that dies inside an operation. Events of different
    services interleave freely.
  \<^item> Every loop of the source runs over a list that is built before it, so all definitions are total;
    no fuel is needed. The clock does not move within one operation.
  \<^item> Integers of Python are \<open>int\<close>; columns of type \<open>INTEGER\<close> and \<open>VARCHAR\<close> keep their bounds (\<open>int4\<close>,
    lengths), an \<open>INSERT\<close> or \<open>UPDATE\<close> outside of them raises. Time stamps are microseconds since the
    first day of the calendar; ISO strings of the same zone order as their time stamps. Weights, times
    of the breaker and rates are rational numbers where Python has floats.
  \<^item> Rows with equal sort keys come in the order of insertion, where PostgreSQL leaves it open.
  \<^item> Identifiers are what the world gives; properties that need them fresh say so.
  \<^item> Amounts of the wallet are rational numbers; \<open>dbl\<close> is what a decimal becomes in a column of double
    precision, arbitrary except where a property assumes it exact up to fifteen digits (\<open>exact_dbl\<close>).
    Waiting for a lock is a recursion on the time left; it ends because every round sleeps for a
    positive time.
  \<^item> Floats of the membership service are arbitrary functions of the state (\<open>m_hundredfold\<close>, \<open>m_percent\<close>); the invariant
    assumes that a positive amount becomes no negative number of points.
  \<^item> Not modelled: logging and metrics; columns that no decision reads (descriptions, metadata,
    currencies); HTTP routes; set-up of connections; Redis, PostgreSQL and NATS themselves. The other
    services of the platform (authorization, billing and the rest)
    are not part of the development.
\<close>

section \<open>Properties that span components\<close>

text \<open>
  The bus delivers the events of an order to inventory and fulfillment independently; the platform
  is the pair of their states.
\<close>

record platform =
  pl_inventory :: inv_state
  pl_fulfillment :: ful_state

datatype order_event = Order_canceled order_canceled_data | Payment_completed payment_completed_data

datatype subscriber = Inventory_service | Fulfillment_service

definition deliver :: "order_event \<Rightarrow> subscriber \<Rightarrow> platform \<Rightarrow> platform" where
  "deliver ev sub p =
     (case sub of
        Inventory_service \<Rightarrow> p\<lparr>pl_inventory := inv_step (case ev of
            Order_canceled d \<Rightarrow> On_order_canceled d | Payment_completed d \<Rightarrow> On_payment_completed d) (pl_inventory p)\<rparr>
      | Fulfillment_service \<Rightarrow> p\<lparr>pl_fulfillment := ful_step mock_provider (case ev of
            Order_canceled d \<Rightarrow> Ful_on_order_canceled d | Payment_completed d \<Rightarrow> Ful_on_payment_completed d)
            (pl_fulfillment p)\<rparr>)"

definition deliveries :: "(order_event \<times> subscriber) list \<Rightarrow> platform \<Rightarrow> platform" where
  "deliveries evs p = fold (\<lambda>(ev, sub). deliver ev sub) evs p"

lemma deliveries_simps [simp]:
  "deliveries [] p = p"
  "deliveries ((ev, sub) # evs) p = deliveries evs (deliver ev sub p)"
  by (simp_all add: deliveries_def)

lemma deliver_inventory [simp]:
  "pl_inventory (deliver ev Fulfillment_service p) = pl_inventory p"
  "pl_fulfillment (deliver ev Inventory_service p) = pl_fulfillment p"
  by (simp_all add: deliver_def)

text \<open>
  An order is settled as canceled when no reservation of it is active and its newest shipment, if it
  has one, is failed.
\<close>

definition stock_free :: "string \<Rightarrow> inv_state \<Rightarrow> bool" where
  "stock_free oid s \<longleftrightarrow> w_script s = [] \<and> active_for oid (reservations s) = []"

definition shipment_failed :: "string \<Rightarrow> ful_state \<Rightarrow> bool" where
  "shipment_failed oid s \<longleftrightarrow> w_script s = []
     \<and> (\<forall>r. newest_shipment oid (shipments s) = Some r \<longrightarrow> sh_status r = FAILED)"

lemma ful_cancel_settles:
  assumes "w_script s = []" and "ox_order_id d = Some oid" and "oid \<noteq> []"
  shows "shipment_failed oid (after (ful_handle_order_canceled d) s)"
proof (cases "newest_shipment oid (shipments s)")
  case None
  then have "after (ful_handle_order_canceled d) s = s"
    using assms by (simp add: ful_handle_order_canceled_def after_def catch_apply bnd_apply get_by_order_calm)
  with None assms(1) show ?thesis by (simp add: shipment_failed_def)
next
  case (Some r)
  show ?thesis
  proof (cases "sh_status r = FAILED")
    case True
    then have "after (ful_handle_order_canceled d) s = s"
      using assms Some by (simp add: ful_handle_order_canceled_def after_def catch_apply bnd_apply get_by_order_calm)
    with True Some assms(1) show ?thesis by (simp add: shipment_failed_def)
  next
    case False
    from ful_cancel_calm [OF assms Some False] show ?thesis
      by (simp add: shipment_failed_def assms(1) set_canceled_def update_where_def newest_shipment_update Some)
  qed
qed

lemma ful_cancel_calm_script:
  assumes "w_script s = []"
  shows "w_script (after (ful_handle_order_canceled d) s) = []"
  using assms
  by (simp add: ful_handle_order_canceled_def after_def catch_apply bnd_apply get_by_order_calm
      repo_cancel_calm publish_calm Let_def split: option.split)

lemma inv_cancel_settles:
  assumes "w_script s = []" and "length (active_for oid (reservations s)) \<le> 1"
    and "ox_order_id d = Some oid" and "oid \<noteq> []"
  shows "stock_free oid (after (inv_handle_order_canceled d) s)"
  using inv_handle_order_canceled_calm [OF assms(1), of d] settle_none_active [of "Some oid" "reservations s" set_released]
    assms by (simp add: stock_free_def)


definition reserved_and_prepared :: platform where
  "reserved_and_prepared =
     \<lparr>pl_inventory = after (inv_handle_order_created order_1) inv_empty,
      pl_fulfillment = after (ful_handle_tax_calculated (tax_1\<lparr>tc_order_id := Some ''order_1''\<rparr>)) ful_empty\<rparr>"


text \<open>
  A payment that arrives after the cancellation divides the platform: the stock of the order
  stays released, since inventory only commits active reservations, while fulfillment buys a
  shipping label for the canceled shipment.
\<close>
theorem late_payment_ships_released_stock:
  assumes "ox_order_id c = Some oid" and "oid \<noteq> []"
    and "payment_target d = Some oid" and "payment_order_id d = (Inr (Some oid) :: unit exn + string option)"
    and "w_script (pl_inventory p) = []" and "w_script (pl_fulfillment p) = []"
    and "length (active_for oid (reservations (pl_inventory p))) \<le> 1"
    and "newest_shipment oid (shipments (pl_fulfillment p)) = Some r" and "sh_status r \<noteq> FAILED"
    and "p1 = deliveries [(Order_canceled c, Inventory_service), (Order_canceled c, Fulfillment_service)] p"
    and "p2 = deliveries [(Payment_completed d, Inventory_service), (Payment_completed d, Fulfillment_service)] p1"
  shows "reservations (pl_inventory p2) = reservations (pl_inventory p1)
    \<and> active_for oid (reservations (pl_inventory p2)) = []
    \<and> (\<exists>r2. newest_shipment oid (shipments (pl_fulfillment p2)) = Some r2 \<and> sh_id r2 = sh_id r
        \<and> sh_status r2 = LABEL_PURCHASED \<and> sh_canceled_at r2 = Some (now_us (pl_fulfillment p)))"
proof -
  let ?i1 = "after (inv_handle_order_canceled c) (pl_inventory p)"
  have i: "pl_inventory p1 = ?i1" "pl_inventory p2 = after (inv_handle_payment_completed d) ?i1"
    and f: "pl_fulfillment p2 = after (ful_handle_payment_completed mock_provider d)
      (after (ful_handle_order_canceled c) (pl_fulfillment p))"
    by (simp_all add: assms(10,11) deliver_def inv_step_def ful_step_def)
  have free: "w_script ?i1 = []" "active_for oid (reservations ?i1) = []"
    using inv_cancel_settles [OF assms(5,7,1,2)] by (simp_all add: stock_free_def)
  then have "reservations (after (inv_handle_payment_completed d) ?i1) = reservations ?i1"
    using inv_handle_payment_completed_calm [of ?i1 d] settle_again [of "Some oid"] assms(3) by simp
  moreover note ful_paid_after_cancel [OF assms(6,1,2,4,8,9) refl refl]
  ultimately show ?thesis using free by (simp add: i f) blast
qed

theorem late_payment_ships_released_stock_witness:
  "map rv_status (reservations (pl_inventory (deliveries
      [(Payment_completed payment_1, Inventory_service), (Payment_completed payment_1, Fulfillment_service)]
      (deliveries [(Order_canceled cancel_1, Inventory_service), (Order_canceled cancel_1, Fulfillment_service)]
        reserved_and_prepared)))) = [RELEASED]"
proof -
  let ?p1 = "deliveries [(Order_canceled cancel_1, Inventory_service), (Order_canceled cancel_1, Fulfillment_service)]
    reserved_and_prepared"
  have "newest_shipment ''order_1'' (shipments (pl_fulfillment reserved_and_prepared))
      = Some (prepared_row (tax_1\<lparr>tc_order_id := Some ''order_1''\<rparr>) ''order_1'' [] ful_empty)"
    by code_simp
  moreover have "w_script (pl_inventory reserved_and_prepared) = []" "w_script (pl_fulfillment reserved_and_prepared) = []"
    "length (active_for ''order_1'' (reservations (pl_inventory reserved_and_prepared))) \<le> 1"
    "map rv_status (reservations (pl_inventory ?p1)) = [RELEASED]"
    by code_simp+
  ultimately show ?thesis
    using late_payment_ships_released_stock [of cancel_1 "''order_1''" payment_1 reserved_and_prepared _ ?p1,
        OF _ _ _ _ _ _ _ _ _ refl refl]
    by (simp add: cancel_1_def payment_1_def payment_target_def payment_order_id_def prepared_row_def
        del: deliveries_simps)
qed

end
